(* ===== verification/Sdk_Prelude.thy ===== *)
theory Sdk_Prelude
  imports Main "HOL-Library.Char_ord" "HOL-Library.List_Lexorder" "HOL-Library.Multiset"
begin

text \<open>
  What every component of the development shares.

  \<^item> Rust's \<^verbatim>\<open>BTreeMap\<close> as an association list in strictly ascending key order
    (\<open>btree_map\<close>), with the operations the sources use, the contract of an ordered map
    (\<open>ordered_map\<close>) and the proof that the association lists satisfy it (\<open>bt\<close>).
  \<^item> A contract of inductive invariants over a step relation (\<open>step_invariant\<close>) that every
    state machine of the development interprets.
  \<^item> A contract of chains that stop at the first element with an answer (\<open>first_answer\<close>).
  \<^item> Rust's string helpers: a \<^verbatim>\<open>String\<close> is its list of UTF-8 bytes, one \<^typ>\<open>char\<close> per byte,
    so the lexicographic order of \<^verbatim>\<open>List_Lexorder\<close> is Rust's order of strings.
\<close>

named_theorems bt_simps \<open>lookup equations of the ordered maps\<close>
named_theorems bt_wfs \<open>operations of the ordered maps keep the key order\<close>

type_synonym ('e, 'a) result = "'e + 'a"
type_synonym ('k, 'v) btree_map = "('k \<times> 'v) list"

abbreviation (input) Ok :: "'a \<Rightarrow> ('e, 'a) result" where "Ok \<equiv> Inr"
abbreviation (input) Err :: "'e \<Rightarrow> ('e, 'a) result" where "Err \<equiv> Inl"

section \<open>Ordered maps\<close>

definition bt_get :: "('k, 'v) btree_map \<Rightarrow> 'k \<Rightarrow> 'v option" where
  "bt_get m k = map_of m k"

fun bt_insert :: "'k::linorder \<Rightarrow> 'v \<Rightarrow> ('k, 'v) btree_map \<Rightarrow> ('k, 'v) btree_map" where
  "bt_insert k v [] = [(k, v)]"
| "bt_insert k v ((k', v') # m) =
     (if k < k' then (k, v) # (k', v') # m
      else if k' < k then (k', v') # bt_insert k v m
      else (k, v) # m)"

definition bt_remove :: "'k \<Rightarrow> ('k, 'v) btree_map \<Rightarrow> ('k, 'v) btree_map" where
  "bt_remove k m = filter (\<lambda>p. fst p \<noteq> k) m"

definition bt_keys :: "('k, 'v) btree_map \<Rightarrow> 'k list" where
  "bt_keys m = map fst m"

definition bt_values :: "('k, 'v) btree_map \<Rightarrow> 'v list" where
  "bt_values m = map snd m"

text \<open>\<^verbatim>\<open>collect\<close> into a \<^verbatim>\<open>BTreeMap\<close>: a later pair replaces an earlier one of the same key.\<close>

definition bt_collect :: "('k::linorder \<times> 'v) list \<Rightarrow> ('k, 'v) btree_map" where
  "bt_collect ps = foldl (\<lambda>m p. bt_insert (fst p) (snd p) m) [] ps"

definition bt_wf :: "('k::linorder, 'v) btree_map \<Rightarrow> bool" where
  "bt_wf m = sorted_wrt (<) (map fst m)"

subsection \<open>The contract\<close>

locale ordered_map =
  fixes empty_m :: 'm
    and get_m :: "'m \<Rightarrow> 'k::linorder \<Rightarrow> 'v option"
    and insert_m :: "'k \<Rightarrow> 'v \<Rightarrow> 'm \<Rightarrow> 'm"
    and remove_m :: "'k \<Rightarrow> 'm \<Rightarrow> 'm"
    and keys_m :: "'m \<Rightarrow> 'k list"
    and invar :: "'m \<Rightarrow> bool"
  assumes invar_empty: "invar empty_m"
    and invar_insert: "invar m \<Longrightarrow> invar (insert_m k v m)"
    and invar_remove: "invar m \<Longrightarrow> invar (remove_m k m)"
    and get_empty: "get_m empty_m j = None"
    and get_insert: "invar m \<Longrightarrow> get_m (insert_m k v m) j = (if j = k then Some v else get_m m j)"
    and get_remove: "invar m \<Longrightarrow> get_m (remove_m k m) j = (if j = k then None else get_m m j)"
    and keys_get: "invar m \<Longrightarrow> j \<in> set (keys_m m) \<longleftrightarrow> get_m m j \<noteq> None"
    and keys_sorted: "invar m \<Longrightarrow> sorted_wrt (<) (keys_m m)"
begin

lemma insert_other: "invar m \<Longrightarrow> j \<noteq> k \<Longrightarrow> get_m (insert_m k v m) j = get_m m j"
  by (simp add: get_insert)

lemma insert_same: "invar m \<Longrightarrow> get_m (insert_m k v m) k = Some v"
  by (simp add: get_insert)

lemma invar_foldl_insert:
  "invar m \<Longrightarrow> invar (foldl (\<lambda>m p. insert_m (fst p) (snd p) m) m ps)"
  by (induction ps arbitrary: m) (auto simp: invar_insert)

lemma get_foldl_insert:
  "invar m \<Longrightarrow> get_m (foldl (\<lambda>m p. insert_m (fst p) (snd p) m) m ps) j =
     (case map_of (rev ps) j of None \<Rightarrow> get_m m j | Some v \<Rightarrow> Some v)"
proof (induction ps arbitrary: m)
  case Nil
  then show ?case by simp
next
  case (Cons p ps)
  then show ?case
    by (cases p) (auto simp: invar_insert get_insert map_add_def split: option.splits)
qed

lemma invar_foldl_remove: "invar m \<Longrightarrow> invar (foldl (\<lambda>m k. remove_m k m) m ks)"
  by (induction ks arbitrary: m) (auto simp: invar_remove)

lemma get_foldl_remove:
  "invar m \<Longrightarrow> get_m (foldl (\<lambda>m k. remove_m k m) m ks) j = (if j \<in> set ks then None else get_m m j)"
  by (induction ks arbitrary: m) (auto simp: invar_remove get_remove)

lemma distinct_keys: "invar m \<Longrightarrow> distinct (keys_m m)"
  using keys_sorted strict_sorted_iff by blast

end

subsection \<open>The association lists satisfy it\<close>

lemma bt_wf_Nil [simp]: "bt_wf []"
  by (simp add: bt_wf_def)

lemma bt_wf_Cons: "bt_wf (p # m) \<longleftrightarrow> (\<forall>q\<in>set m. fst p < fst q) \<and> bt_wf m"
  by (auto simp: bt_wf_def)

lemma set_bt_insert_keys: "fst ` set (bt_insert k v m) = insert k (fst ` set m)"
  by (induction k v m rule: bt_insert.induct) auto

lemma bt_insert_wf [bt_wfs]: "bt_wf m \<Longrightarrow> bt_wf (bt_insert k v m)"
proof (induction k v m rule: bt_insert.induct)
  case (1 k v)
  then show ?case by (simp add: bt_wf_def)
next
  case (2 k v k' v' m)
  have keys: "\<And>q. q \<in> set (bt_insert k v m) \<Longrightarrow> fst q = k \<or> fst q \<in> fst ` set m"
    using set_bt_insert_keys [of k v m] by blast
  from 2 keys show ?case
    by (fastforce simp: bt_wf_Cons)
qed

lemma bt_remove_wf [bt_wfs]: "bt_wf m \<Longrightarrow> bt_wf (bt_remove k m)"
  unfolding bt_remove_def by (induction m) (auto simp: bt_wf_Cons)

lemma bt_get_insert: "bt_wf m \<Longrightarrow> bt_get (bt_insert k v m) j = (if j = k then Some v else bt_get m j)"
  unfolding bt_get_def
  by (induction k v m rule: bt_insert.induct) (auto simp: bt_wf_Cons)

lemma bt_get_remove [bt_simps]: "bt_get (bt_remove k m) j = (if j = k then None else bt_get m j)"
  unfolding bt_get_def bt_remove_def by (induction m) auto

interpretation bt: ordered_map "[]" bt_get bt_insert bt_remove bt_keys bt_wf
proof (unfold_locales, goal_cases)
  case (7 m j)
  then show ?case by (simp add: bt_keys_def bt_get_def map_of_eq_None_iff)
next
  case (8 m)
  then show ?case by (simp add: bt_keys_def bt_wf_def)
qed (simp_all add: bt_wfs bt_get_insert bt_get_remove bt_get_def [of "[]"])

lemmas bt_get_simps [bt_simps] = bt.get_empty bt.get_insert

lemma bt_get_eq_map_of: "bt_get m = map_of m"
  by (simp add: fun_eq_iff bt_get_def)

text \<open>Two ordered maps with the same lookups are the same map.\<close>

lemma bt_rebuild: "bt_wf m \<Longrightarrow> map (\<lambda>k. (k, the (bt_get m k))) (bt_keys m) = m"
  using bt.distinct_keys [of m] unfolding bt_keys_def bt_get_def
  by (auto intro!: map_idI)

lemma bt_ext:
  assumes "bt_wf m" "bt_wf n" "\<And>k. bt_get m k = bt_get n k"
  shows "m = n"
proof -
  have "bt_keys m = bt_keys n"
  proof (rule strict_sorted_equal)
    show "set (bt_keys m) = set (bt_keys n)"
      using assms by (auto simp: bt.keys_get)
  qed (use assms in \<open>simp_all add: bt.keys_sorted\<close>)
  moreover have "(\<lambda>k. (k, the (bt_get m k))) = (\<lambda>k. (k, the (bt_get n k)))"
    by (simp add: assms(3))
  ultimately show ?thesis
    by (metis bt_rebuild assms(1,2))
qed

lemma bt_collect_wf [bt_wfs]: "bt_wf (bt_collect ps)"
  unfolding bt_collect_def by (rule bt.invar_foldl_insert) simp

lemma bt_get_collect [bt_simps]: "bt_get (bt_collect ps) k = map_of (rev ps) k"
  unfolding bt_collect_def
  by (simp add: bt.get_foldl_insert bt.get_empty split: option.splits)

lemma bt_collect_id: "bt_wf m \<Longrightarrow> bt_collect m = m"
proof (rule bt_ext)
  assume m: "bt_wf m"
  then have "distinct (map fst m)" by (simp add: bt_wf_def strict_sorted_iff)
  then have "map_of (rev m) = map_of m" by (subst map_of_inject_set) (simp_all flip: rev_map)
  then show "bt_get (bt_collect m) k = bt_get m k" for k
    using bt_get_collect [of m k] by (simp add: bt_get_def)
qed (simp_all add: bt_wfs)

lemma bt_map_values_wf [bt_wfs]: "bt_wf m \<Longrightarrow> bt_wf (map (\<lambda>p. (fst p, f (fst p) (snd p))) m)"
  by (simp add: bt_wf_def comp_def)

lemma bt_get_map_values: "bt_get (map (\<lambda>p. (fst p, f (fst p) (snd p))) m) k = map_option (f k) (bt_get m k)"
  unfolding bt_get_def by (induction m) auto

lemma bt_in_set_iff: "bt_wf m \<Longrightarrow> (k, v) \<in> set m \<longleftrightarrow> bt_get m k = Some v"
  unfolding bt_get_def
  by (rule iffI, rule map_of_is_SomeI) (auto simp: bt_wf_def strict_sorted_iff dest: map_of_SomeD)

section \<open>Filtered maps\<close>

lemma map_map_filter:
  "(\<And>p. p \<in> set ps \<Longrightarrow> map_option g (f p) = h (r p)) \<Longrightarrow>
     map g (List.map_filter f ps) = List.map_filter h (map r ps)"
proof (induction ps)
  case Nil
  then show ?case by (simp add: map_filter_simps)
next
  case (Cons p ps)
  from Cons.prems have "h (r p) = map_option g (f p)" by simp
  with Cons show ?case
    by (cases "f p") (auto simp: map_filter_simps)
qed

lemma in_map_filterE: "y \<in> set (List.map_filter f xs) \<Longrightarrow> \<exists>x\<in>set xs. f x = Some y"
  by (induction xs) (auto simp: map_filter_simps split: option.splits)

lemma in_map_filter_iff: "y \<in> set (List.map_filter f xs) \<longleftrightarrow> (\<exists>x\<in>set xs. f x = Some y)"
  by (induction xs) (auto simp: map_filter_simps split: option.splits)

lemma map_filter_append: "List.map_filter f (xs @ ys) = List.map_filter f xs @ List.map_filter f ys"
  by (induction xs) (auto simp: map_filter_simps split: option.splits)

lemma map_filter_filter: "List.map_filter f (filter P xs) = List.map_filter (\<lambda>x. if P x then f x else None) xs"
  by (induction xs) (auto simp: map_filter_simps split: option.splits)

lemma map_filter_None: "(\<And>x. x \<in> set xs \<Longrightarrow> f x = None) \<Longrightarrow> List.map_filter f xs = []"
  by (induction xs) (auto simp: map_filter_simps)

lemma map_filter_eq_Nil: "List.map_filter f xs = [] \<longleftrightarrow> (\<forall>x\<in>set xs. f x = None)"
  by (induction xs) (auto simp: map_filter_simps split: option.splits)

lemma map_filter_cong: "(\<And>x. x \<in> set xs \<Longrightarrow> f x = g x) \<Longrightarrow> List.map_filter f xs = List.map_filter g xs"
  by (induction xs) (auto simp: map_filter_simps split: option.splits)

lemma find_append: "find P (xs @ ys) = (case find P xs of None \<Rightarrow> find P ys | Some x \<Rightarrow> Some x)"
  by (induction xs) auto

lemma find_SomeD: "find P xs = Some x \<Longrightarrow> x \<in> set xs \<and> P x"
  by (induction xs) (auto split: if_splits)

section \<open>Inductive invariants\<close>

text \<open>
  A state machine is a set of start states and a step relation. \<open>reach\<close> is the least set of
  states closed under steps. A component that proves the two laws of \<open>step_invariant\<close> for its
  own machine gets the invariant in every reachable state.
\<close>

inductive reach :: "('s \<Rightarrow> bool) \<Rightarrow> ('s \<Rightarrow> 's \<Rightarrow> bool) \<Rightarrow> 's \<Rightarrow> bool" for init step where
  reach_init: "init s \<Longrightarrow> reach init step s"
| reach_step: "reach init step s \<Longrightarrow> step s t \<Longrightarrow> reach init step t"

locale step_invariant =
  fixes init :: "'s \<Rightarrow> bool"
    and step :: "'s \<Rightarrow> 's \<Rightarrow> bool"
    and inv :: "'s \<Rightarrow> bool"
  assumes init_inv: "init s \<Longrightarrow> inv s"
    and step_inv: "inv s \<Longrightarrow> step s t \<Longrightarrow> inv t"
begin

lemma reach_inv: "reach init step s \<Longrightarrow> inv s"
  by (induction rule: reach.induct) (auto intro: init_inv step_inv)

lemma steps_inv: "step\<^sup>*\<^sup>* s t \<Longrightarrow> inv s \<Longrightarrow> inv t"
  by (induction rule: rtranclp_induct) (auto intro: step_inv)

end

section \<open>Chains that stop at the first answer\<close>

text \<open>
  A \<^verbatim>\<open>for\<close> loop over registered plugins that returns at the first one with an answer. \<open>ask\<close> gives
  the answer of one plugin, \<open>run\<close> the loop over a list of them.
\<close>

locale first_answer =
  fixes ask :: "'p \<Rightarrow> 'a option"
    and run :: "'p list \<Rightarrow> 'a option"
  assumes run_Nil: "run [] = None"
    and run_Cons: "run (p # ps) = (case ask p of None \<Rightarrow> run ps | Some a \<Rightarrow> Some a)"
begin

lemma run_None: "run ps = None \<longleftrightarrow> (\<forall>p\<in>set ps. ask p = None)"
  by (induction ps) (auto simp: run_Nil run_Cons split: option.splits)

lemma run_SomeD:
  "run ps = Some a \<Longrightarrow>
     \<exists>pre p post. ps = pre @ p # post \<and> (\<forall>q\<in>set pre. ask q = None) \<and> ask p = Some a"
proof (induction ps)
  case Nil
  then show ?case by (simp add: run_Nil)
next
  case (Cons p ps)
  show ?case
  proof (cases "ask p")
    case None
    with Cons.prems have "run ps = Some a" by (simp add: run_Cons)
    then obtain pre q post where "ps = pre @ q # post" "\<forall>q\<in>set pre. ask q = None" "ask q = Some a"
      using Cons.IH by blast
    with None have "p # ps = (p # pre) @ q # post \<and> (\<forall>q\<in>set (p # pre). ask q = None) \<and> ask q = Some a"
      by simp
    then show ?thesis by blast
  next
    case (Some b)
    with Cons.prems have "p # ps = [] @ p # ps \<and> (\<forall>q\<in>set []. ask q = None) \<and> ask p = Some a"
      by (simp add: run_Cons)
    then show ?thesis by blast
  qed
qed

lemma run_append: "run (ps @ qs) = (case run ps of None \<Rightarrow> run qs | Some a \<Rightarrow> Some a)"
  by (induction ps) (auto simp: run_Nil run_Cons split: option.splits)

lemma run_SomeI: "\<forall>q\<in>set pre. ask q = None \<Longrightarrow> ask p = Some a \<Longrightarrow> run (pre @ p # post) = Some a"
  by (simp add: run_append run_Cons run_None [THEN iffD2])

end

end
