(* ===== verification/Rust_Text.thy ===== *)
theory Rust_Text
  imports Sdk_Prelude
begin

text \<open>
  The string functions of Rust's standard library that several components use, on lists of
  bytes: \<^verbatim>\<open>to_ascii_uppercase\<close>, \<^verbatim>\<open>split\<close> by a character predicate, \<^verbatim>\<open>trim\<close> and its one-sided
  variants, decimal rendering and the big-endian bytes of a \<^verbatim>\<open>u64\<close>.
\<close>

section \<open>Characters\<close>

definition is_ascii_digit :: "char \<Rightarrow> bool" where
  "is_ascii_digit c = (CHR ''0'' \<le> c \<and> c \<le> CHR ''9'')"

definition is_ascii_lowercase :: "char \<Rightarrow> bool" where
  "is_ascii_lowercase c = (CHR ''a'' \<le> c \<and> c \<le> CHR ''z'')"

definition is_ascii_uppercase :: "char \<Rightarrow> bool" where
  "is_ascii_uppercase c = (CHR ''A'' \<le> c \<and> c \<le> CHR ''Z'')"

definition is_ascii_alphanumeric :: "char \<Rightarrow> bool" where
  "is_ascii_alphanumeric c = (is_ascii_digit c \<or> is_ascii_lowercase c \<or> is_ascii_uppercase c)"

definition upper_char :: "char \<Rightarrow> char" where
  "upper_char c = (if is_ascii_lowercase c then char_of (of_char c - (32::nat)) else c)"

definition to_ascii_uppercase :: "string \<Rightarrow> string" where
  "to_ascii_uppercase s = map upper_char s"

section \<open>Splitting and trimming\<close>

fun split_on :: "('a \<Rightarrow> bool) \<Rightarrow> 'a list \<Rightarrow> 'a list list" where
  "split_on p [] = [[]]"
| "split_on p (c # cs) =
     (if p c then [] # split_on p cs
      else (case split_on p cs of [] \<Rightarrow> [[c]] | t # ts \<Rightarrow> (c # t) # ts))"

definition trim_start :: "('a \<Rightarrow> bool) \<Rightarrow> 'a list \<Rightarrow> 'a list" where
  "trim_start ws s = dropWhile ws s"

definition trim_end :: "('a \<Rightarrow> bool) \<Rightarrow> 'a list \<Rightarrow> 'a list" where
  "trim_end ws s = rev (dropWhile ws (rev s))"

definition trim_both :: "('a \<Rightarrow> bool) \<Rightarrow> 'a list \<Rightarrow> 'a list" where
  "trim_both ws s = trim_end ws (trim_start ws s)"

section \<open>Numbers as text and as bytes\<close>

fun dec_nat :: "nat \<Rightarrow> string" where
  "dec_nat n = (if n < 10 then [char_of (48 + n)] else dec_nat (n div 10) @ [char_of (48 + n mod 10)])"

declare dec_nat.simps [simp del]

definition dec_int :: "int \<Rightarrow> string" where
  "dec_int i = (if i < 0 then CHR ''-'' # dec_nat (nat (- i)) else dec_nat (nat i))"

text \<open>\<^verbatim>\<open>u64::to_be_bytes\<close>: eight bytes, the most significant first.\<close>

fun be_bytes :: "nat \<Rightarrow> nat \<Rightarrow> string" where
  "be_bytes 0 n = []"
| "be_bytes (Suc k) n = be_bytes k (n div 256) @ [char_of n]"

definition be_bytes64 :: "nat \<Rightarrow> string" where
  "be_bytes64 n = be_bytes 8 n"

section \<open>Facts\<close>

lemma split_on_not_Nil [simp]: "split_on p s \<noteq> []"
  by (induction s) (auto split: list.splits)

lemma split_on_tokens: "t \<in> set (split_on p s) \<Longrightarrow> c \<in> set t \<Longrightarrow> \<not> p c"
  by (induction s arbitrary: t) (fastforce split: list.splits if_splits)+

lemma split_on_map:
  "(\<And>c. p (f c) = p c) \<Longrightarrow> split_on p (map f s) = map (map f) (split_on p s)"
  by (induction s) (auto split: list.splits)

lemma split_on_clean_prefix:
  "\<forall>c\<in>set w. \<not> p c \<Longrightarrow> split_on p (w @ s) = (w @ hd (split_on p s)) # tl (split_on p s)"
proof (induction w)
  case Nil
  then show ?case by simp
next
  case (Cons c w)
  then show ?case by simp
qed

lemma split_on_append_sep:
  "p c \<Longrightarrow> split_on p (pre @ c # post) = split_on p pre @ split_on p post"
  by (induction pre) (auto split: list.splits)

text \<open>
  \<open>w\<close> is a token of the split exactly when it occurs in the text as a run of non-separators that
  is bounded on both sides by a separator or the end.
\<close>

definition whole_word :: "('a \<Rightarrow> bool) \<Rightarrow> 'a list \<Rightarrow> 'a list \<Rightarrow> bool" where
  "whole_word p w s \<longleftrightarrow> (\<exists>pre post. s = pre @ w @ post \<and> (\<forall>c\<in>set w. \<not> p c) \<and>
      (pre = [] \<or> p (last pre)) \<and> (post = [] \<or> p (hd post)))"

lemma whole_word_split:
  assumes "whole_word p w s"
  shows "w \<in> set (split_on p s)"
proof -
  obtain pre post where s: "s = pre @ w @ post" and w: "\<forall>c\<in>set w. \<not> p c"
    and pre: "pre = [] \<or> p (last pre)" and post: "post = [] \<or> p (hd post)"
    using assms unfolding whole_word_def by blast
  have "w \<in> set (split_on p (w @ post))"
    using w post by (cases post) (auto simp: split_on_append_sep split_on_clean_prefix [of w p "[]", simplified])
  moreover have "split_on p (pre @ w @ post) = split_on p (w @ post) \<or>
      split_on p (pre @ w @ post) = split_on p (butlast pre) @ split_on p (w @ post)"
  proof (cases "pre = []")
    case False
    with pre have "p (last pre)" by simp
    then have "split_on p (butlast pre @ last pre # w @ post) = split_on p (butlast pre) @ split_on p (w @ post)"
      by (rule split_on_append_sep)
    with False show ?thesis
      by (metis append.assoc append_Cons append_Nil append_butlast_last_id)
  qed simp
  ultimately show ?thesis using s by auto
qed

lemma split_on_clean: "\<forall>c\<in>set w. \<not> p c \<Longrightarrow> split_on p w = [w]"
  by (induction w) auto

lemma split_on_first_sep:
  "\<forall>c\<in>set w. \<not> p c \<Longrightarrow> p c \<Longrightarrow> split_on p (w @ c # s) = w # split_on p s"
  by (simp add: split_on_append_sep split_on_clean)

lemma hd_split_on_word:
  "\<forall>c\<in>set w. \<not> p c \<Longrightarrow> post = [] \<or> p (hd post) \<Longrightarrow> hd (split_on p (w @ post)) = w"
  by (cases post) (auto simp: split_on_first_sep split_on_clean)

lemma whole_word_after:
  assumes "whole_word p w s" "p c"
  shows "whole_word p w (pre @ c # s)"
proof -
  obtain u v where "s = u @ w @ v" "\<forall>c\<in>set w. \<not> p c" "u = [] \<or> p (last u)" "v = [] \<or> p (hd v)"
    using assms(1) unfolding whole_word_def by blast
  with assms(2) have "pre @ c # s = (pre @ c # u) @ w @ v \<and> (\<forall>c\<in>set w. \<not> p c) \<and>
      (pre @ c # u = [] \<or> p (last (pre @ c # u))) \<and> (v = [] \<or> p (hd v))"
    by auto
  then show ?thesis unfolding whole_word_def by blast
qed

lemma split_whole_word: "w \<in> set (split_on p s) \<Longrightarrow> whole_word p w s"
proof (induction s rule: length_induct)
  case (1 s)
  show ?case
  proof (cases "\<exists>c\<in>set s. p c")
    case True
    then obtain pre c post where s: "s = pre @ c # post" and c: "p c" and pre: "\<forall>d\<in>set pre. \<not> p d"
      by (metis split_list_first_prop)
    with "1.prems" consider "w = pre" | "w \<in> set (split_on p post)"
      by (auto simp: split_on_first_sep)
    then show ?thesis
    proof cases
      case 1
      with s c pre have "s = [] @ w @ (c # post) \<and> (\<forall>c\<in>set w. \<not> p c) \<and>
          ([] = [] \<or> p (last [])) \<and> (c # post = [] \<or> p (hd (c # post)))"
        by simp
      then show ?thesis unfolding whole_word_def by blast
    next
      case 2
      then have "whole_word p w post" using "1.IH" s by simp
      then show ?thesis unfolding s using c by (rule whole_word_after)
    qed
  next
    case False
    with "1.prems" have "s = [] @ w @ [] \<and> (\<forall>c\<in>set w. \<not> p c)"
      by (simp add: split_on_clean)
    then show ?thesis unfolding whole_word_def by blast
  qed
qed

lemma split_on_iff: "w \<in> set (split_on p s) \<longleftrightarrow> whole_word p w s"
  using whole_word_split split_whole_word by blast

subsection \<open>Case mapping\<close>

lemma upper_char_upper: "is_ascii_lowercase c \<Longrightarrow> is_ascii_uppercase (upper_char c)"
proof -
  assume lower: "is_ascii_lowercase c"
  then have "97 \<le> (of_char c :: nat)" "(of_char c :: nat) \<le> 122"
    by (simp_all add: is_ascii_lowercase_def less_eq_char_def)
  then have "65 \<le> (of_char c :: nat) - 32 \<and> (of_char c :: nat) - 32 \<le> 90 \<and> (of_char c :: nat) - 32 < 256"
    by arith
  then show ?thesis
    using lower by (simp add: upper_char_def is_ascii_uppercase_def less_eq_char_def)
qed

lemma upper_char_cases: "upper_char c = c \<or> (is_ascii_lowercase c \<and> is_ascii_uppercase (upper_char c))"
  using upper_char_upper [of c] by (auto simp: upper_char_def)

lemma not_lower_and_upper: "is_ascii_uppercase c \<Longrightarrow> \<not> is_ascii_lowercase c"
  by (auto simp: is_ascii_lowercase_def is_ascii_uppercase_def less_eq_char_def)

lemma upper_char_idem [simp]: "upper_char (upper_char c) = upper_char c"
  using upper_char_cases [of c] not_lower_and_upper [of "upper_char c"]
  by (metis upper_char_def)

lemma upper_char_eq_iff:
  assumes "\<not> is_ascii_lowercase d" "\<not> is_ascii_uppercase d"
  shows "upper_char c = d \<longleftrightarrow> c = d"
  using assms upper_char_cases [of c] by (auto simp: upper_char_def)

lemma alphanumeric_upper [simp]: "is_ascii_alphanumeric (upper_char c) = is_ascii_alphanumeric c"
  using upper_char_cases [of c] by (auto simp: is_ascii_alphanumeric_def)

lemma to_ascii_uppercase_idem [simp]: "to_ascii_uppercase (to_ascii_uppercase s) = to_ascii_uppercase s"
  by (simp add: to_ascii_uppercase_def comp_def)

lemma to_ascii_uppercase_append: "to_ascii_uppercase (s @ t) = to_ascii_uppercase s @ to_ascii_uppercase t"
  by (simp add: to_ascii_uppercase_def)

subsection \<open>Trimming\<close>

lemma trim_both_map: "(\<And>c. ws (f c) = ws c) \<Longrightarrow> trim_both ws (map f s) = map f (trim_both ws s)"
  by (simp add: trim_both_def trim_start_def trim_end_def dropWhile_map rev_map comp_def)

lemma trim_both_Nil_iff: "trim_both ws s = [] \<longleftrightarrow> (\<forall>c\<in>set s. ws c)"
proof
  assume "trim_both ws s = []"
  then have "\<forall>c\<in>set (dropWhile ws s). ws c"
    by (simp add: trim_both_def trim_start_def trim_end_def dropWhile_eq_Nil_conv)
  moreover have "set s = set (takeWhile ws s) \<union> set (dropWhile ws s)"
    by (metis set_append takeWhile_dropWhile_id)
  ultimately show "\<forall>c\<in>set s. ws c" by (auto dest: set_takeWhileD)
next
  assume "\<forall>c\<in>set s. ws c"
  then have "dropWhile ws s = []" by (metis dropWhile_eq_Nil_conv)
  then show "trim_both ws s = []"
    by (simp only: trim_both_def trim_start_def trim_end_def rev.simps dropWhile.simps)
qed

text \<open>Trimming removes a prefix and a suffix of white space and nothing else.\<close>

lemma trim_both_decomp:
  obtains u v where "s = u @ trim_both ws s @ v" "\<forall>c\<in>set u. ws c" "\<forall>c\<in>set v. ws c"
proof -
  let ?m = "dropWhile ws s"
  have "s = takeWhile ws s @ rev (dropWhile ws (rev ?m)) @ rev (takeWhile ws (rev ?m))"
    by (metis append.assoc rev_append rev_rev_ident takeWhile_dropWhile_id)
  then have "s = takeWhile ws s @ trim_both ws s @ rev (takeWhile ws (rev ?m))"
    by (simp add: trim_both_def trim_start_def trim_end_def)
  then show ?thesis
    by (rule that) (auto dest: set_takeWhileD)
qed

lemma trim_both_unique:
  assumes "\<forall>c\<in>set u. ws c" "\<forall>c\<in>set v. ws c" "body = [] \<or> \<not> ws (hd body) \<and> \<not> ws (last body)"
  shows "trim_both ws (u @ body @ v) = body"
proof (cases "body = []")
  case True
  with assms(1,2) show ?thesis by (auto simp: trim_both_Nil_iff)
next
  case False
  with assms(3) have "dropWhile ws (body @ v) = body @ v"
    by (cases body) simp_all
  moreover from False assms(3) have "dropWhile ws (rev body) = rev body"
    by (cases body rule: rev_exhaust) simp_all
  moreover have "dropWhile ws (rev v @ rev body) = dropWhile ws (rev body)"
    using assms(2) by (intro dropWhile_append2) auto
  ultimately show ?thesis using assms(1)
    by (simp add: trim_both_def trim_start_def trim_end_def dropWhile_append2)
qed

subsection \<open>Rendering of numbers is injective\<close>

lemma dec_nat_not_Nil [simp]: "dec_nat n \<noteq> []"
  by (subst dec_nat.simps) simp

lemma last_dec_nat: "last (dec_nat n) = char_of (48 + n mod 10)"
  by (subst dec_nat.simps) simp

lemma char_of_digit_inject:
  fixes m n :: nat
  assumes "m < 10" "n < 10"
  shows "(char_of (48 + m) :: char) = char_of (48 + n) \<longleftrightarrow> m = n"
proof -
  have "(of_char (char_of (48 + m) :: char) :: nat) = 48 + m" "(of_char (char_of (48 + n) :: char) :: nat) = 48 + n"
    using assms by simp_all
  then show ?thesis by (metis add_left_cancel)
qed

lemma butlast_dec_nat: "butlast (dec_nat n) = (if n < 10 then [] else dec_nat (n div 10))"
  by (subst dec_nat.simps) simp

lemma dec_nat_inject: "dec_nat m = dec_nat n \<longleftrightarrow> m = n"
proof
  show "dec_nat m = dec_nat n \<Longrightarrow> m = n"
  proof (induction m arbitrary: n rule: less_induct)
    case (less m)
    have md: "m mod 10 = n mod 10"
      using less.prems last_dec_nat [of m] last_dec_nat [of n] char_of_digit_inject [of "m mod 10" "n mod 10"]
      by simp
    show ?case
    proof (cases "m < 10")
      case True
      then have "n < 10"
        using less.prems butlast_dec_nat [of m] butlast_dec_nat [of n] by (auto split: if_splits)
      with True md show ?thesis by simp
    next
      case False
      then have "\<not> n < 10"
        using less.prems butlast_dec_nat [of m] butlast_dec_nat [of n]
        by (metis dec_nat_not_Nil)
      then have "dec_nat (m div 10) = dec_nat (n div 10)"
        using False less.prems butlast_dec_nat [of m] butlast_dec_nat [of n] by simp
      then have "m div 10 = n div 10" using False by (intro less.IH) simp_all
      with md show ?thesis by (metis div_mult_mod_eq)
    qed
  qed
qed simp

lemma dec_nat_digits: "\<forall>c\<in>set (dec_nat n). is_ascii_digit c"
proof (induction n rule: dec_nat.induct)
  case (1 n)
  have d: "is_ascii_digit (char_of (48 + m))" if "m < 10" for m :: nat
    using that by (simp add: is_ascii_digit_def less_eq_char_def)
  show ?case
    using 1 d [of n] d [of "n mod 10"] dec_nat.simps [of n] by (auto split: if_splits)
qed

lemma minus_not_dec_nat: "CHR ''-'' # xs \<noteq> dec_nat n"
proof
  assume "CHR ''-'' # xs = dec_nat n"
  then have "is_ascii_digit (CHR ''-'')"
    using dec_nat_digits [of n] by (metis list.set_intros(1))
  then show False by (simp add: is_ascii_digit_def less_eq_char_def)
qed

lemma dec_int_inject: "dec_int i = dec_int j \<longleftrightarrow> i = j"
  using minus_not_dec_nat [of "dec_nat (nat (- i))" "nat j"] minus_not_dec_nat [of "dec_nat (nat (- j))" "nat i"]
  by (auto simp: dec_int_def dec_nat_inject split: if_splits)

lemma length_be_bytes [simp]: "length (be_bytes k n) = k"
  by (induction k arbitrary: n) auto

lemma length_be_bytes64 [simp]: "length (be_bytes64 n) = 8"
  by (simp add: be_bytes64_def)

text \<open>The bytes determine the number below \<open>2 ^ 64\<close>.\<close>

definition be_value :: "string \<Rightarrow> nat" where
  "be_value bs = foldl (\<lambda>a c. a * 256 + of_char c) 0 bs"

lemma be_value_bytes: "be_value (be_bytes k n) = n mod 256 ^ k"
proof (induction k arbitrary: n)
  case (Suc k)
  have "be_value (be_bytes (Suc k) n) = (n div 256) mod 256 ^ k * 256 + n mod 256"
    using Suc.IH by (simp add: be_value_def)
  then show ?case
    by (simp add: mod_mult2_eq)
qed (simp add: be_value_def)

lemma be_value_bytes64: "n < 2 ^ 64 \<Longrightarrow> be_value (be_bytes64 n) = n"
  by (simp add: be_bytes64_def be_value_bytes)

lemma be_bytes64_inject: "m < 2 ^ 64 \<Longrightarrow> n < 2 ^ 64 \<Longrightarrow> be_bytes64 m = be_bytes64 n \<longleftrightarrow> m = n"
  by (metis be_value_bytes64)

end
