(* ===== verification/Json_Value.thy ===== *)
theory Json_Value
  imports Rust_Text "HOL-Library.Word"
begin

text \<open>
  The data that crosses the SDK's boundaries: \<^verbatim>\<open>serde_json::Value\<close> as a datatype with the accessors
  the sources call, the fields of the protocol's \<^verbatim>\<open>WatchEvent\<close> that the SDK reads or writes, its
  \<^verbatim>\<open>WatchError\<close>, and the units of \<^verbatim>\<open>Duration\<close> and \<^verbatim>\<open>Instant\<close> (nanoseconds).
\<close>

section \<open>JSON values\<close>

datatype jnumber = PosInt nat | NegInt int | Float "64 word"

datatype json =
    JNull
  | JBool bool
  | JNum jnumber
  | JStr string
  | JArr "json list"
  | JObj "(string \<times> json) list"

fun json_get :: "json \<Rightarrow> string \<Rightarrow> json option" where
  "json_get (JObj fs) k = bt_get fs k"
| "json_get _ k = None"

fun as_u64 :: "json \<Rightarrow> nat option" where
  "as_u64 (JNum (PosInt n)) = Some n"
| "as_u64 _ = None"

fun as_str :: "json \<Rightarrow> string option" where
  "as_str (JStr s) = Some s"
| "as_str _ = None"

fun as_array :: "json \<Rightarrow> json list option" where
  "as_array (JArr xs) = Some xs"
| "as_array _ = None"

definition jobj :: "(string \<times> json) list \<Rightarrow> json" where
  "jobj fs = JObj (bt_collect fs)"

definition finite_f64 :: "64 word \<Rightarrow> bool" where
  "finite_f64 w = (take_bit 11 (drop_bit 52 w) \<noteq> 2047)"

text \<open>serde writes a number that is not finite as null.\<close>

definition json_f64 :: "64 word \<Rightarrow> json" where
  "json_f64 w = (if finite_f64 w then JNum (Float w) else JNull)"

text \<open>\<^verbatim>\<open>data[k] = v\<close> on an object, and \<^verbatim>\<open>data.entry(k).or_insert(v)\<close>.\<close>

fun json_set :: "string \<Rightarrow> json \<Rightarrow> json \<Rightarrow> json" where
  "json_set k v (JObj fs) = JObj (bt_insert k v fs)"
| "json_set k v JNull = JObj [(k, v)]"
| "json_set k v j = j"

definition or_insert :: "(string \<times> json) list \<Rightarrow> string \<times> json \<Rightarrow> (string \<times> json) list" where
  "or_insert fs p = (case bt_get fs (fst p) of Some _ \<Rightarrow> fs | None \<Rightarrow> bt_insert (fst p) (snd p) fs)"

section \<open>Time\<close>

type_synonym duration = nat
type_synonym instant = nat

definition millis :: "nat \<Rightarrow> duration" where
  "millis n = n * 1000000"

definition secs :: "nat \<Rightarrow> duration" where
  "secs n = n * 1000000000"

definition elapsed :: "instant \<Rightarrow> instant \<Rightarrow> duration" where
  "elapsed now at = now - at"

section \<open>Watch events and errors\<close>

record watch_event =
  we_event_id :: "string option"
  we_event_type :: "string option"
  we_occurred_at :: "string option"
  we_data :: "json option"
  we_upstream_cursor :: "json option"
  we_gap :: bool

definition default_event :: watch_event where
  "default_event = \<lparr>we_event_id = None, we_event_type = None, we_occurred_at = None, we_data = None,
     we_upstream_cursor = None, we_gap = False\<rparr>"

datatype watch_error = InvalidSpec string | Subscribe string

section \<open>Facts\<close>

lemma json_get_jobj: "json_get (jobj fs) k = map_of (rev fs) k"
  by (simp add: jobj_def bt_get_collect)

lemma or_insert_get:
  "bt_wf fs \<Longrightarrow> bt_get (or_insert fs p) k =
     (case bt_get fs k of Some v \<Rightarrow> Some v | None \<Rightarrow> if k = fst p then Some (snd p) else None)"
  by (auto simp: or_insert_def bt_simps split: option.splits)

lemma or_insert_wf [bt_wfs]: "bt_wf fs \<Longrightarrow> bt_wf (or_insert fs p)"
  by (auto simp: or_insert_def bt_wfs split: option.splits)

text \<open>Extra fields never replace a field that is there.\<close>

lemma foldl_or_insert_keeps:
  "bt_wf fs \<Longrightarrow> bt_get fs k = Some v \<Longrightarrow> bt_get (foldl or_insert fs extra) k = Some v"
  by (induction extra arbitrary: fs) (auto simp: or_insert_get or_insert_wf)

text \<open>Objects stay objects in key order when fields are set.\<close>

definition json_object :: "json \<Rightarrow> bool" where
  "json_object j = (case j of JObj fs \<Rightarrow> bt_wf fs | _ \<Rightarrow> False)"

lemma json_object_jobj [simp]: "json_object (jobj fs)"
  by (simp add: json_object_def jobj_def bt_wfs)

lemma json_object_set: "json_object j \<Longrightarrow> json_object (json_set k v j)"
  by (cases j) (auto simp: json_object_def bt_wfs)

lemma json_get_set: "json_object j \<Longrightarrow> json_get (json_set k v j) k' = (if k' = k then Some v else json_get j k')"
  by (cases j) (auto simp: json_object_def bt_simps)

end
