(* ===== verification/Inventory_Engine.thy ===== *)
theory Inventory_Engine
  imports Json_Value
begin

text \<open>
  The diff engine of an inventory watch, \<^verbatim>\<open>Inventory\<close> of \<^verbatim>\<open>src/src/inventory.rs\<close>: the listing the
  host has confirmed, the changes in flight, and the operations \<^verbatim>\<open>new\<close>, \<^verbatim>\<open>poll\<close> and
  \<^verbatim>\<open>acknowledged\<close>.

  The record \<open>externs\<close> stands for the functions of other packages the engine calls:
  the hexadecimal blake3 hash of a byte string, \<^verbatim>\<open>occurred_at_from_millis\<close> of the protocol, the
  length of the JSON text of a snapshot (\<^verbatim>\<open>None\<close> when it cannot be serialised) and the text of a
  serde error. \<open>poll\<close> reads the clock once for the ages of the changes in flight (\<open>now\<close>) and
  once per change it emits (\<open>stamp i\<close> for the change of index \<open>i\<close>). Sequence numbers are natural
  numbers: a \<^verbatim>\<open>u64\<close> that starts at 0 and grows by one per event does not wrap.
\<close>

section \<open>Data\<close>

type_synonym snap_map = "(string, string) btree_map"
type_synonym fields = "(string \<times> json) list"

record externs =
  x_blake3 :: "string \<Rightarrow> string"
  x_occurred_at :: "int \<Rightarrow> string option"
  x_json_len :: "snap_map \<Rightarrow> nat option"
  x_serde_error :: "json \<Rightarrow> string"

definition OBJECT_CHANGED_EVENT_TYPE :: string where
  "OBJECT_CHANGED_EVENT_TYPE = ''object.changed''"

definition MIN_INTERVAL :: duration where
  "MIN_INTERVAL = millis 250"

definition MAX_SNAPSHOT_BYTES :: nat where
  "MAX_SNAPSHOT_BYTES = 192 * 1024"

definition CURSOR_VERSION :: nat where
  "CURSOR_VERSION = 1"

record object_entry =
  oe_key :: string
  oe_size :: "nat option"
  oe_modified_at_ms :: "int option"
  oe_etag :: "string option"
  oe_version :: "string option"

definition default_entry :: "string \<Rightarrow> object_entry" where
  "default_entry k = \<lparr>oe_key = k, oe_size = None, oe_modified_at_ms = None, oe_etag = None, oe_version = None\<rparr>"

text \<open>A part of a hash: the length of the part as eight bytes, then the part.\<close>

definition framed :: "string \<Rightarrow> string" where
  "framed part = be_bytes64 (length part) @ part"

definition unwrap_or_default :: "string option \<Rightarrow> string" where
  "unwrap_or_default p = (case p of None \<Rightarrow> [] | Some s \<Rightarrow> s)"

definition digest_parts :: "object_entry \<Rightarrow> string list" where
  "digest_parts e = map unwrap_or_default
     [map_option dec_nat (oe_size e), map_option dec_int (oe_modified_at_ms e), oe_etag e, oe_version e]"

definition digest :: "externs \<Rightarrow> object_entry \<Rightarrow> string" where
  "digest x e = take 12 (x_blake3 x (concat (map framed (digest_parts e))))"

datatype object_op = Created | Modified | Deleted

datatype inventory_start = Now | Existing

record inventory_options =
  o_store :: string
  o_location :: string
  o_interval :: duration
  o_start :: inventory_start
  o_snapshot_bytes :: nat
  o_max_in_flight :: nat
  o_ack_timeout :: duration

definition validate_options :: "inventory_options \<Rightarrow> (string, unit) result" where
  "validate_options opts =
     (if o_interval opts < MIN_INTERVAL then Err ''interval_ms must be at least 250''
      else if o_snapshot_bytes opts > MAX_SNAPSHOT_BYTES then Err ''snapshot_bytes must be at most 196608''
      else if \<not> (1 \<le> o_max_in_flight opts \<and> o_max_in_flight opts \<le> 1000)
        then Err ''max_in_flight must be 1 to 1000''
      else if o_ack_timeout opts = 0 then Err ''ack_timeout_ms must be greater than 0''
      else Ok ())"

subsection \<open>Positions\<close>

record cursor =
  cur_v :: nat
  cur_seq :: nat
  cur_snap :: "snap_map option"

text \<open>
  The derived serde instances of \<^verbatim>\<open>Cursor\<close>. It serialises as an object, without \<^verbatim>\<open>snap\<close> when that
  is \<^verbatim>\<open>None\<close>. It deserialises from an object whose unknown fields are ignored and from an array
  of its fields in order; a missing or null \<^verbatim>\<open>snap\<close> is \<^verbatim>\<open>None\<close>.
\<close>

definition cursor_to_value :: "cursor \<Rightarrow> json" where
  "cursor_to_value c = jobj ([(''v'', JNum (PosInt (cur_v c))), (''seq'', JNum (PosInt (cur_seq c)))] @
     (case cur_snap c of None \<Rightarrow> [] | Some m \<Rightarrow> [(''snap'', JObj (map (\<lambda>p. (fst p, JStr (snd p))) m))]))"

fun strings_of :: "fields \<Rightarrow> (string \<times> string) list option" where
  "strings_of [] = Some []"
| "strings_of ((k, JStr s) # fs) = map_option (\<lambda>m. (k, s) # m) (strings_of fs)"
| "strings_of _ = None"

fun snap_of_value :: "json \<Rightarrow> snap_map option option" where
  "snap_of_value JNull = Some None"
| "snap_of_value (JObj fs) = map_option (\<lambda>m. Some (bt_collect m)) (strings_of fs)"
| "snap_of_value _ = None"

definition cursor_fields :: "json option \<Rightarrow> json option \<Rightarrow> json option \<Rightarrow> cursor option" where
  "cursor_fields v q s =
     (case (Option.bind v as_u64, Option.bind q as_u64,
            case s of None \<Rightarrow> Some None | Some j \<Rightarrow> snap_of_value j) of
        (Some v', Some q', Some s') \<Rightarrow> Some \<lparr>cur_v = v', cur_seq = q', cur_snap = s'\<rparr>
      | _ \<Rightarrow> None)"

fun cursor_of_value :: "json \<Rightarrow> cursor option" where
  "cursor_of_value (JObj fs) = cursor_fields (bt_get fs ''v'') (bt_get fs ''seq'') (bt_get fs ''snap'')"
| "cursor_of_value (JArr [v, q]) = cursor_fields (Some v) (Some q) None"
| "cursor_of_value (JArr [v, q, s]) = cursor_fields (Some v) (Some q) (Some s)"
| "cursor_of_value _ = None"

subsection \<open>The engine's state\<close>

record pending =
  p_seq :: nat
  p_key :: string
  p_digest :: "string option"
  p_at :: instant

datatype baseline = Silent | Report | Known

type_synonym describe = "object_entry list \<Rightarrow> fields option list"

record inventory =
  inv_options :: inventory_options
  inv_confirmed :: snap_map
  inv_seen :: "(string, object_entry) btree_map"
  inv_pending :: "pending list"
  inv_next_seq :: nat
  inv_baseline :: baseline
  inv_gap :: bool
  inv_warned :: bool
  inv_describe :: "describe option"
  inv_quiet_removals :: bool

type_synonym change = "object_op \<times> object_entry \<times> string option"

section \<open>Operations\<close>

definition new_inventory :: "externs \<Rightarrow> inventory_options \<Rightarrow> json option \<Rightarrow> (watch_error, inventory) result" where
  "new_inventory x opts resume =
     (let make = (\<lambda>conf base gap.
        \<lparr>inv_options = opts, inv_confirmed = conf, inv_seen = [], inv_pending = [], inv_next_seq = 0,
         inv_baseline = base, inv_gap = gap, inv_warned = False, inv_describe = None,
         inv_quiet_removals = False\<rparr>)
      in case resume of
        None \<Rightarrow> Ok (make [] (case o_start opts of Now \<Rightarrow> Silent | Existing \<Rightarrow> Report) False)
      | Some v \<Rightarrow>
          (case cursor_of_value v of
             None \<Rightarrow> Err (InvalidSpec (o_store opts @
               '': the stored position is not one an inventory wrote: '' @ x_serde_error x v))
           | Some c \<Rightarrow>
               (case cur_snap c of
                  Some snap \<Rightarrow> Ok (make snap Known False)
                | None \<Rightarrow> Ok (make [] Silent True))))"

definition with_describe :: "describe \<Rightarrow> inventory \<Rightarrow> inventory" where
  "with_describe d iv = iv\<lparr>inv_describe := Some d\<rparr>"

definition with_quiet_removals :: "inventory \<Rightarrow> inventory" where
  "with_quiet_removals iv = iv\<lparr>inv_quiet_removals := True\<rparr>"

definition in_flight :: "inventory \<Rightarrow> nat" where
  "in_flight iv = length (inv_pending iv)"

definition has_room :: "inventory \<Rightarrow> bool" where
  "has_room iv = (length (inv_pending iv) < o_max_in_flight (inv_options iv))"

definition pending_digest :: "inventory \<Rightarrow> string \<Rightarrow> string option option" where
  "pending_digest iv key =
     map_option p_digest (find (\<lambda>p. p_key p = key) (rev (inv_pending iv)))"

definition snapshot :: "externs \<Rightarrow> string \<Rightarrow> string option \<Rightarrow> inventory \<Rightarrow> snap_map option \<times> inventory" where
  "snapshot x key d iv =
     (let snap = (case d of Some d' \<Rightarrow> bt_insert key d' (inv_confirmed iv)
                          | None \<Rightarrow> bt_remove key (inv_confirmed iv));
          fits = (case x_json_len x snap of None \<Rightarrow> False | Some n \<Rightarrow> n \<le> o_snapshot_bytes (inv_options iv))
      in if fits then (Some snap, iv) else (None, iv\<lparr>inv_warned := True\<rparr>))"

fun op_value :: "object_op \<Rightarrow> string" where
  "op_value Created = ''created''"
| "op_value Modified = ''modified''"
| "op_value Deleted = ''deleted''"

text \<open>The JSON text of the operation, quotes included, is what goes into the event's id.\<close>

definition op_name :: "object_op \<Rightarrow> string" where
  "op_name op = ''\"'' @ op_value op @ ''\"''"

definition event_id_parts :: "inventory_options \<Rightarrow> object_op \<Rightarrow> string \<Rightarrow> string option \<Rightarrow> string list" where
  "event_id_parts opts op key d = [o_store opts, o_location opts, key, op_name op, unwrap_or_default d]"

definition event_id_of :: "externs \<Rightarrow> inventory_options \<Rightarrow> object_op \<Rightarrow> string \<Rightarrow> string option \<Rightarrow> string" where
  "event_id_of x opts op key d =
     ''obj-'' @ take 32 (x_blake3 x (concat (map framed (event_id_parts opts op key d))))"

definition set_some :: "string \<Rightarrow> ('a \<Rightarrow> json) \<Rightarrow> 'a option \<Rightarrow> json \<Rightarrow> json" where
  "set_some k f v data = (case v of None \<Rightarrow> data | Some a \<Rightarrow> json_set k (f a) data)"

definition event :: "externs \<Rightarrow> inventory \<Rightarrow> object_op \<Rightarrow> object_entry \<Rightarrow> string option \<Rightarrow> nat \<Rightarrow>
    snap_map option \<Rightarrow> watch_event" where
  "event x iv op e d seq snap =
     (let opts = inv_options iv;
          modified_at = Option.bind (oe_modified_at_ms e) (x_occurred_at x);
          data0 = jobj [(''op'', JStr (op_value op)), (''store'', JStr (o_store opts)),
                        (''location'', JStr (o_location opts)), (''key'', JStr (oe_key e))];
          data1 = set_some ''size'' (\<lambda>n. JNum (PosInt n)) (oe_size e) data0;
          data2 = set_some ''modifiedAt'' JStr modified_at data1;
          data3 = set_some ''etag'' JStr (oe_etag e) data2;
          data4 = set_some ''version'' JStr (oe_version e) data3
      in default_event\<lparr>
           we_event_id := Some (event_id_of x opts op (oe_key e) d),
           we_event_type := Some OBJECT_CHANGED_EVENT_TYPE,
           we_occurred_at := (if op = Deleted then None else modified_at),
           we_data := Some data4,
           we_upstream_cursor := Some (cursor_to_value
             \<lparr>cur_v = CURSOR_VERSION, cur_seq = seq, cur_snap = snap\<rparr>)\<rparr>)"

definition details :: "inventory \<Rightarrow> change list \<Rightarrow> (string \<rightharpoonup> fields)" where
  "details iv changes =
     (case inv_describe iv of
        None \<Rightarrow> Map.empty
      | Some describe \<Rightarrow>
          (let alive = map (\<lambda>c. fst (snd c)) (filter (\<lambda>c. fst c \<noteq> Deleted) changes)
           in if alive = [] then Map.empty
              else map_of (rev (List.map_filter
                     (\<lambda>p. map_option (\<lambda>extra. (oe_key (fst p), extra)) (snd p))
                     (zip alive (describe alive))))))"

subsection \<open>The steps of a poll\<close>

definition drop_expired :: "instant \<Rightarrow> inventory \<Rightarrow> inventory" where
  "drop_expired now iv = iv\<lparr>inv_pending :=
     filter (\<lambda>p. elapsed now (p_at p) < o_ack_timeout (inv_options iv)) (inv_pending iv)\<rparr>"

definition gap_event :: watch_event where
  "gap_event = default_event\<lparr>we_gap := True\<rparr>"

definition current_of :: "object_entry list \<Rightarrow> (string, object_entry) btree_map" where
  "current_of listing = bt_collect (map (\<lambda>e. (oe_key e, e)) listing)"

definition digests_of :: "externs \<Rightarrow> (string, object_entry) btree_map \<Rightarrow> snap_map" where
  "digests_of x current = map (\<lambda>p. (fst p, digest x (snd p))) current"

definition classify :: "externs \<Rightarrow> inventory \<Rightarrow> string \<times> object_entry \<Rightarrow> change option" where
  "classify x iv p =
     (let d = digest x (snd p)
      in if pending_digest iv (fst p) = Some (Some d) then None
         else (case bt_get (inv_confirmed iv) (fst p) of
                 Some known \<Rightarrow> if known = d then None else Some (Modified, snd p, Some d)
               | None \<Rightarrow> Some (Created, snd p, Some d)))"

definition gone_keys :: "inventory \<Rightarrow> (string, object_entry) btree_map \<Rightarrow> string list" where
  "gone_keys iv current =
     filter (\<lambda>k. bt_get current k = None \<and> pending_digest iv k \<noteq> Some None) (bt_keys (inv_confirmed iv))"

fun take_gone :: "inventory \<Rightarrow> string list \<Rightarrow> change list \<times> inventory" where
  "take_gone iv [] = ([], iv)"
| "take_gone iv (k # ks) =
     (if inv_quiet_removals iv
      then take_gone (iv\<lparr>inv_confirmed := bt_remove k (inv_confirmed iv),
                          inv_seen := bt_remove k (inv_seen iv)\<rparr>) ks
      else (let e = (case bt_get (inv_seen iv) k of None \<Rightarrow> default_entry k | Some seen \<Rightarrow> seen);
                (cs, iv') = take_gone iv ks
            in ((Deleted, e, None) # cs, iv')))"

definition see :: "(string, object_entry) btree_map \<Rightarrow> inventory \<Rightarrow> inventory" where
  "see current iv = iv\<lparr>inv_seen :=
     foldl (\<lambda>m p. bt_insert (fst p) (snd p) m) (inv_seen iv)
       (map (\<lambda>e. (oe_key e, e)) (bt_values current))\<rparr>"

definition add_details :: "fields option \<Rightarrow> watch_event \<Rightarrow> watch_event" where
  "add_details extra ev =
     (case (extra, we_data ev) of
        (Some fs, Some (JObj data)) \<Rightarrow> ev\<lparr>we_data := Some (JObj (foldl or_insert data fs))\<rparr>
      | _ \<Rightarrow> ev)"

definition push_pending :: "instant \<Rightarrow> string \<Rightarrow> string option \<Rightarrow> inventory \<Rightarrow> inventory" where
  "push_pending at key d iv = iv\<lparr>inv_next_seq := inv_next_seq iv + 1,
     inv_pending := inv_pending iv @ [\<lparr>p_seq = inv_next_seq iv, p_key = key, p_digest = d, p_at = at\<rparr>]\<rparr>"

definition snapshot_if :: "bool \<Rightarrow> externs \<Rightarrow> string \<Rightarrow> string option \<Rightarrow> inventory \<Rightarrow> snap_map option \<times> inventory" where
  "snapshot_if is_last x key d iv = (if is_last then snapshot x key d iv else (None, iv))"

fun emit_changes :: "externs \<Rightarrow> (nat \<Rightarrow> instant) \<Rightarrow> nat \<Rightarrow> nat \<Rightarrow> (string \<rightharpoonup> fields) \<Rightarrow> inventory \<Rightarrow>
    change list \<Rightarrow> watch_event list \<times> inventory" where
  "emit_changes x stamp take_n index det iv [] = ([], iv)"
| "emit_changes x stamp take_n index det iv ((op, e, d) # cs) =
     (let seq = inv_next_seq iv;
          iv1 = push_pending (stamp index) (oe_key e) d iv;
          (snap, iv2) = snapshot_if (index + 1 = take_n) x (oe_key e) d iv1;
          ev = add_details (det (oe_key e)) (event x iv2 op e d seq snap);
          (evs, iv3) = emit_changes x stamp take_n (index + 1) (det(oe_key e := None)) iv2 cs
      in (ev # evs, iv3))"

text \<open>All the changes a listing shows, before the window cuts them, and the state that found them.\<close>

definition find_changes :: "externs \<Rightarrow> inventory \<Rightarrow> (string, object_entry) btree_map \<Rightarrow> change list \<times> inventory" where
  "find_changes x iv current =
     (let alive = List.map_filter (classify x iv) current;
          (gone, iv1) = take_gone iv (gone_keys iv current)
      in (alive @ gone, see current iv1))"

definition poll :: "externs \<Rightarrow> instant \<Rightarrow> (nat \<Rightarrow> instant) \<Rightarrow> object_entry list \<Rightarrow> inventory \<Rightarrow>
    watch_event list \<times> inventory" where
  "poll x now stamp listing iv =
     (let iv1 = drop_expired now iv;
          events = (if inv_gap iv1 then [gap_event] else []);
          iv2 = iv1\<lparr>inv_gap := False\<rparr>;
          current = current_of listing
      in if inv_baseline iv2 = Silent
         then (events, iv2\<lparr>inv_confirmed := digests_of x current, inv_seen := current,
                            inv_baseline := Known\<rparr>)
         else
           (let iv3 = iv2\<lparr>inv_baseline := Known\<rparr>;
                (changes, iv4) = find_changes x iv3 current;
                room = o_max_in_flight (inv_options iv4) - length (inv_pending iv4);
                take_n = min (length changes) room;
                cs = take take_n changes;
                (evs, iv5) = emit_changes x stamp take_n 0 (details iv4 cs) iv4 cs
            in (events @ evs, iv5)))"

definition acknowledged :: "json \<Rightarrow> inventory \<Rightarrow> inventory" where
  "acknowledged position iv =
     (case Option.bind (json_get position ''seq'') as_u64 of
        None \<Rightarrow> iv
      | Some seq \<Rightarrow>
          (case find (\<lambda>p. p_seq p = seq) (inv_pending iv) of
             None \<Rightarrow> iv
           | Some p \<Rightarrow>
               (let iv1 = iv\<lparr>inv_pending := filter (\<lambda>q. p_seq q > seq) (remove1 p (inv_pending iv))\<rparr>
                in case p_digest p of
                     Some d \<Rightarrow> iv1\<lparr>inv_confirmed := bt_insert (p_key p) d (inv_confirmed iv1)\<rparr>
                   | None \<Rightarrow> iv1\<lparr>inv_confirmed := bt_remove (p_key p) (inv_confirmed iv1),
                                  inv_seen := bt_remove (p_key p) (inv_seen iv1)\<rparr>)))"

section \<open>The contract of a poll\<close>

text \<open>
  What the events of a poll say, read back from their JSON, and the changes a poll owes the host:
  an object is reported when its digest is neither the confirmed one nor the one of the latest
  change in flight, and a confirmed object missing from the listing when its deletion is not in
  flight.
\<close>

definition event_field :: "string \<Rightarrow> watch_event \<Rightarrow> string option" where
  "event_field f ev = Option.bind (Option.bind (we_data ev) (\<lambda>j. json_get j f)) as_str"

definition event_seq :: "watch_event \<Rightarrow> nat option" where
  "event_seq ev = Option.bind (Option.bind (we_upstream_cursor ev) (\<lambda>j. json_get j ''seq'')) as_u64"

definition target :: "externs \<Rightarrow> (string, object_entry) btree_map \<Rightarrow> string \<Rightarrow> string option" where
  "target x current k = map_option (digest x) (bt_get current k)"

definition expected :: "externs \<Rightarrow> inventory \<Rightarrow> (string, object_entry) btree_map \<Rightarrow> string \<Rightarrow> object_op option" where
  "expected x iv current k =
     (let t = target x current k; c = bt_get (inv_confirmed iv) k
      in if pending_digest iv k = Some t \<or> c = t then None
         else if t = None then (if inv_quiet_removals iv then None else Some Deleted)
         else if c = None then Some Created else Some Modified)"

definition expected_keys :: "inventory \<Rightarrow> (string, object_entry) btree_map \<Rightarrow> string list" where
  "expected_keys iv current =
     bt_keys current @ filter (\<lambda>k. bt_get current k = None) (bt_keys (inv_confirmed iv))"

definition expected_changes :: "externs \<Rightarrow> inventory \<Rightarrow> (string, object_entry) btree_map \<Rightarrow> (object_op \<times> string) list" where
  "expected_changes x iv current =
     List.map_filter (\<lambda>k. map_option (\<lambda>op. (op, k)) (expected x iv current k)) (expected_keys iv current)"

definition inventory_wf :: "inventory \<Rightarrow> bool" where
  "inventory_wf iv =
     (bt_wf (inv_confirmed iv) \<and> bt_wf (inv_seen iv) \<and>
      (\<forall>p\<in>set (inv_seen iv). oe_key (snd p) = fst p) \<and>
      sorted_wrt (<) (map p_seq (inv_pending iv)) \<and>
      (\<forall>p\<in>set (inv_pending iv). p_seq p < inv_next_seq iv) \<and>
      in_flight iv \<le> o_max_in_flight (inv_options iv) \<and>
      (inv_baseline iv = Silent \<longrightarrow> inv_pending iv = []) \<and>
      (inv_gap iv \<longrightarrow> inv_baseline iv = Silent))"

section \<open>Facts about the steps of a poll\<close>

lemma current_of_wf [bt_wfs]: "bt_wf (current_of listing)"
  by (simp add: current_of_def bt_wfs)

lemma current_of_keys: "bt_get (current_of listing) k = Some e \<Longrightarrow> oe_key e = k"
  by (auto simp: current_of_def bt_get_collect dest: map_of_SomeD)

lemma current_of_set: "p \<in> set (current_of listing) \<Longrightarrow> oe_key (snd p) = fst p"
  using current_of_keys [of listing "fst p" "snd p"] bt_in_set_iff [OF current_of_wf, of "fst p" "snd p"]
  by simp

lemma digests_of_wf [bt_wfs]: "bt_wf current \<Longrightarrow> bt_wf (digests_of x current)"
  unfolding digests_of_def by (rule bt_map_values_wf)

lemma digests_of_get: "bt_get (digests_of x current) k = target x current k"
  unfolding digests_of_def target_def by (rule bt_get_map_values)

lemma take_gone_quiet:
  "inv_quiet_removals iv \<Longrightarrow> take_gone iv ks =
     ([], iv\<lparr>inv_confirmed := foldl (\<lambda>m k. bt_remove k m) (inv_confirmed iv) ks,
             inv_seen := foldl (\<lambda>m k. bt_remove k m) (inv_seen iv) ks\<rparr>)"
  by (induction ks arbitrary: iv) auto

lemma take_gone_loud:
  "\<not> inv_quiet_removals iv \<Longrightarrow> take_gone iv ks =
     (map (\<lambda>k. (Deleted, (case bt_get (inv_seen iv) k of None \<Rightarrow> default_entry k | Some e \<Rightarrow> e), None)) ks, iv)"
  by (induction ks) auto

lemma foldl_bt_remove_sub: "p \<in> set (foldl (\<lambda>m k. bt_remove k m) m ks) \<Longrightarrow> p \<in> set m"
  by (induction ks arbitrary: m) (fastforce simp: bt_remove_def)+

text \<open>What \<open>find_changes\<close> leaves of the state.\<close>

lemma find_changes_frame [simp]:
  "inv_options (snd (find_changes x iv current)) = inv_options iv"
  "inv_pending (snd (find_changes x iv current)) = inv_pending iv"
  "inv_next_seq (snd (find_changes x iv current)) = inv_next_seq iv"
  "inv_baseline (snd (find_changes x iv current)) = inv_baseline iv"
  "inv_gap (snd (find_changes x iv current)) = inv_gap iv"
  "inv_warned (snd (find_changes x iv current)) = inv_warned iv"
  "inv_describe (snd (find_changes x iv current)) = inv_describe iv"
  "inv_quiet_removals (snd (find_changes x iv current)) = inv_quiet_removals iv"
  by (cases "inv_quiet_removals iv";
      simp add: find_changes_def see_def take_gone_quiet take_gone_loud split_beta)+

lemma find_changes_confirmed:
  assumes "bt_wf (inv_confirmed iv)"
  shows "bt_get (inv_confirmed (snd (find_changes x iv current))) k =
     (if inv_quiet_removals iv \<and> k \<in> set (gone_keys iv current) then None else bt_get (inv_confirmed iv) k)"
  using assms by (cases "inv_quiet_removals iv")
    (simp_all add: find_changes_def see_def take_gone_quiet take_gone_loud split_beta bt.get_foldl_remove)

lemma find_changes_wf:
  assumes "inventory_wf iv" "current = current_of listing"
  shows "bt_wf (inv_confirmed (snd (find_changes x iv current)))"
    and "bt_wf (inv_seen (snd (find_changes x iv current)))"
    and "\<forall>p\<in>set (inv_seen (snd (find_changes x iv current))). oe_key (snd p) = fst p"
proof -
  obtain iv1 where iv1: "snd (take_gone iv (gone_keys iv current)) = iv1" by blast
  have wf1: "bt_wf (inv_confirmed iv1)" "bt_wf (inv_seen iv1)"
    "\<forall>p\<in>set (inv_seen iv1). oe_key (snd p) = fst p"
    using assms(1) iv1 foldl_bt_remove_sub [of _ "inv_seen iv" "gone_keys iv current"]
    by (cases "inv_quiet_removals iv";
        force simp: take_gone_quiet take_gone_loud inventory_wf_def bt.invar_foldl_remove)+
  have out: "snd (find_changes x iv current) = see current iv1"
    using iv1 by (auto simp: find_changes_def split_beta)
  show "bt_wf (inv_confirmed (snd (find_changes x iv current)))"
    using wf1 by (simp add: out see_def)
  show seen: "bt_wf (inv_seen (snd (find_changes x iv current)))"
    using wf1 by (simp add: out see_def bt.invar_foldl_insert)
  show "\<forall>p\<in>set (inv_seen (snd (find_changes x iv current))). oe_key (snd p) = fst p"
  proof
    fix p assume "p \<in> set (inv_seen (snd (find_changes x iv current)))"
    then have "bt_get (inv_seen (see current iv1)) (fst p) = Some (snd p)"
      using seen bt_in_set_iff [of "inv_seen (see current iv1)" "fst p" "snd p"] by (simp add: out)
    then show "oe_key (snd p) = fst p"
      using wf1 bt_in_set_iff [of "inv_seen iv1" "fst p" "snd p"]
      by (auto simp: see_def bt.get_foldl_insert split: option.splits dest!: map_of_SomeD)
  qed
qed

text \<open>The changes found are the ones expected, each leading to the digest of the listing.\<close>

lemma pending_digest_cong [simp]:
  "pending_digest (iv\<lparr>inv_confirmed := c\<rparr>) k = pending_digest iv k"
  "pending_digest (iv\<lparr>inv_gap := g\<rparr>) k = pending_digest iv k"
  "pending_digest (iv\<lparr>inv_baseline := b\<rparr>) k = pending_digest iv k"
  by (simp_all add: pending_digest_def)

lemma classify_expected:
  assumes "bt_get current (fst p) = Some (snd p)" "oe_key (snd p) = fst p"
  shows "map_option (\<lambda>c. (fst c, oe_key (fst (snd c)))) (classify x iv p) =
    map_option (\<lambda>op. (op, fst p)) (expected x iv current (fst p))"
  using assms by (auto simp: classify_def expected_def target_def Let_def split: option.splits)

lemma gone_expected:
  assumes "bt_wf (inv_confirmed iv)" "k \<in> set (bt_keys (inv_confirmed iv))" "bt_get current k = None"
  shows "expected x iv current k =
    (if inv_quiet_removals iv \<or> pending_digest iv k = Some None then None else Some Deleted)"
  using assms by (auto simp: expected_def target_def Let_def bt.keys_get)

lemma seen_entry_key:
  assumes "inventory_wf iv"
  shows "oe_key (case bt_get (inv_seen iv) k of None \<Rightarrow> default_entry k | Some e \<Rightarrow> e) = k"
proof (cases "bt_get (inv_seen iv) k")
  case None
  then show ?thesis by (simp add: default_entry_def)
next
  case (Some e)
  then have "(k, e) \<in> set (inv_seen iv)"
    using assms by (simp add: bt_in_set_iff inventory_wf_def)
  with assms Some show ?thesis by (auto simp: inventory_wf_def)
qed

lemma find_changes_expected:
  assumes "inventory_wf iv" "current = current_of listing"
  shows "map (\<lambda>c. (fst c, oe_key (fst (snd c)))) (fst (find_changes x iv current)) = expected_changes x iv current"
proof -
  let ?g = "\<lambda>c::change. (fst c, oe_key (fst (snd c)))"
  let ?h = "\<lambda>k. map_option (\<lambda>op. (op, k)) (expected x iv current k)"
  have wf: "bt_wf current" "bt_wf (inv_confirmed iv)"
    using assms by (simp_all add: current_of_wf inventory_wf_def)
  have alive: "map ?g (List.map_filter (classify x iv) current) = List.map_filter ?h (bt_keys current)"
    unfolding bt_keys_def
  proof (rule map_map_filter)
    fix p assume "p \<in> set current"
    then show "map_option ?g (classify x iv p) = ?h (fst p)"
      using classify_expected [of current p x iv] bt_in_set_iff [OF wf(1), of "fst p" "snd p"]
        current_of_set [of p listing] assms(2) by simp
  qed
  note entry = seen_entry_key [OF assms(1)]
  have gone: "map ?g (fst (take_gone iv (gone_keys iv current))) =
    List.map_filter ?h (filter (\<lambda>k. bt_get current k = None) (bt_keys (inv_confirmed iv)))"
  proof (cases "inv_quiet_removals iv")
    case True
    then show ?thesis
      by (auto simp: take_gone_quiet gone_expected [OF wf(2)] intro!: map_filter_None [symmetric])
  next
    case False
    then have "map ?g (fst (take_gone iv (gone_keys iv current))) =
        List.map_filter (\<lambda>k. Some (Deleted, k)) (gone_keys iv current)"
      by (simp add: take_gone_loud entry comp_def map_filter_def)
    also have "\<dots> = List.map_filter ?h (filter (\<lambda>k. bt_get current k = None) (bt_keys (inv_confirmed iv)))"
      unfolding gone_keys_def map_filter_filter
      by (rule map_filter_cong) (use False in \<open>auto simp: gone_expected [OF wf(2)]\<close>)
    finally show ?thesis .
  qed
  show ?thesis
    using alive gone
    by (simp add: find_changes_def expected_changes_def expected_keys_def map_filter_append split_beta)
qed

lemma find_changes_target:
  assumes "inventory_wf iv" "current = current_of listing" "(op, e, d) \<in> set (fst (find_changes x iv current))"
  shows "d = target x current (oe_key e)"
proof -
  from assms(3) consider "(op, e, d) \<in> set (List.map_filter (classify x iv) current)"
    | "(op, e, d) \<in> set (fst (take_gone iv (gone_keys iv current)))"
    by (auto simp: find_changes_def split_beta)
  then show ?thesis
  proof cases
    case 1
    then obtain p where p: "p \<in> set current" "classify x iv p = Some (op, e, d)"
      using in_map_filterE by metis
    with assms(2) have "bt_get current (oe_key e) = Some e" "d = Some (digest x e)"
      using bt_in_set_iff [OF current_of_wf, of "fst p" "snd p" listing] current_of_set [of p listing]
      by (auto simp: classify_def Let_def split: if_splits option.splits)
    then show ?thesis by (simp add: target_def)
  next
    case 2
    then have loud: "\<not> inv_quiet_removals iv" by (auto simp: take_gone_quiet)
    with 2 obtain k where k: "k \<in> set (gone_keys iv current)" "d = None"
      "e = (case bt_get (inv_seen iv) k of None \<Rightarrow> default_entry k | Some e \<Rightarrow> e)"
      by (auto simp: take_gone_loud)
    then have "oe_key e = k"
      by (simp add: seen_entry_key [OF assms(1)])
    with k show ?thesis by (auto simp: target_def gone_keys_def)
  qed
qed

section \<open>Facts about the events\<close>

lemma set_some_object: "json_object j \<Longrightarrow> json_object (set_some k f v j)"
  by (auto simp: set_some_def json_object_set split: option.splits)

lemma set_some_get: "json_object j \<Longrightarrow> k' \<noteq> k \<Longrightarrow> json_get (set_some k f v j) k' = json_get j k'"
  by (auto simp: set_some_def json_get_set split: option.splits)

lemma set_some_get_same: "json_object j \<Longrightarrow> json_get j k = None \<Longrightarrow> json_get (set_some k f v j) k = map_option f v"
  by (auto simp: set_some_def json_get_set split: option.splits)

lemmas event_data_simps = event_def Let_def default_event_def event_field_def json_get_jobj
  set_some_get set_some_get_same set_some_object

lemma event_data_object: "\<exists>j. we_data (event x iv op e d seq snap) = Some j \<and> json_object j"
  by (simp add: event_data_simps)

lemma event_fields:
  "event_field ''op'' (event x iv op e d seq snap) = Some (op_value op)"
  "event_field ''key'' (event x iv op e d seq snap) = Some (oe_key e)"
  "event_field ''store'' (event x iv op e d seq snap) = Some (o_store (inv_options iv))"
  "event_field ''location'' (event x iv op e d seq snap) = Some (o_location (inv_options iv))"
  "event_field ''etag'' (event x iv op e d seq snap) = oe_etag e"
  "event_field ''version'' (event x iv op e d seq snap) = oe_version e"
  by (simp_all add: event_data_simps split: option.splits) (cases "oe_etag e"; cases "oe_version e"; simp)+

lemma event_cursor [simp]:
  "we_upstream_cursor (event x iv op e d seq snap) =
     Some (cursor_to_value \<lparr>cur_v = CURSOR_VERSION, cur_seq = seq, cur_snap = snap\<rparr>)"
  "we_event_id (event x iv op e d seq snap) = Some (event_id_of x (inv_options iv) op (oe_key e) d)"
  "we_event_type (event x iv op e d seq snap) = Some OBJECT_CHANGED_EVENT_TYPE"
  "we_gap (event x iv op e d seq snap) = False"
  by (simp_all add: event_def Let_def default_event_def)

lemma add_details_frame [simp]:
  "we_upstream_cursor (add_details extra ev) = we_upstream_cursor ev"
  "we_event_id (add_details extra ev) = we_event_id ev"
  "we_event_type (add_details extra ev) = we_event_type ev"
  "we_occurred_at (add_details extra ev) = we_occurred_at ev"
  "we_gap (add_details extra ev) = we_gap ev"
  by (simp_all add: add_details_def split: option.splits json.splits)

lemma add_details_keeps:
  assumes "we_data ev = Some j" "json_object j" "event_field f ev = Some v"
  shows "event_field f (add_details extra ev) = Some v"
proof -
  obtain fs where j: "j = JObj fs" "bt_wf fs"
    using assms(2) by (cases j) (auto simp: json_object_def)
  then show ?thesis
    using assms(1,3) by (cases extra)
      (auto simp: add_details_def event_field_def bind_eq_Some_conv foldl_or_insert_keeps)
qed

lemma cursor_seq [simp]: "json_get (cursor_to_value c) ''seq'' = Some (JNum (PosInt (cur_seq c)))"
  by (auto simp: cursor_to_value_def json_get_jobj split: option.splits)

lemma event_cong: "inv_options iv' = inv_options iv \<Longrightarrow> event x iv' = event x iv"
  by (simp add: fun_eq_iff event_def)

lemma snapshot_cong:
  "inv_options iv' = inv_options iv \<Longrightarrow> inv_confirmed iv' = inv_confirmed iv \<Longrightarrow>
     fst (snapshot x k d iv') = fst (snapshot x k d iv)"
  by (cases d) (auto simp: snapshot_def Let_def split: option.splits)

lemma snapshot_state: "\<exists>w. snd (snapshot_if l x k d iv) = iv\<lparr>inv_warned := w\<rparr>"
  by (auto simp: snapshot_if_def snapshot_def Let_def intro: exI [of _ "inv_warned iv"])

fun pending_of :: "(nat \<Rightarrow> instant) \<Rightarrow> nat \<Rightarrow> nat \<Rightarrow> change list \<Rightarrow> pending list" where
  "pending_of stamp i n [] = []"
| "pending_of stamp i n ((op, e, d) # cs) =
     \<lparr>p_seq = n, p_key = oe_key e, p_digest = d, p_at = stamp i\<rparr> # pending_of stamp (Suc i) (Suc n) cs"

text \<open>One change: its event, and the rest of the batch from the state with it in flight.\<close>

lemma emit_changes_Cons:
  obtains w where "emit_changes x stamp take_n index det iv ((op, e, d) # cs) =
    (let rest = emit_changes x stamp take_n (Suc index) (det(oe_key e := None))
           (push_pending (stamp index) (oe_key e) d iv\<lparr>inv_warned := w\<rparr>) cs
     in (add_details (det (oe_key e)) (event x iv op e d (inv_next_seq iv)
           (if Suc index = take_n then fst (snapshot x (oe_key e) d iv) else None)) # fst rest, snd rest))"
proof -
  define iv1 where "iv1 = push_pending (stamp index) (oe_key e) d iv"
  obtain w where w: "snd (snapshot_if (Suc index = take_n) x (oe_key e) d iv1) = iv1\<lparr>inv_warned := w\<rparr>"
    using snapshot_state by blast
  have ev: "event x (iv1\<lparr>inv_warned := w\<rparr>) = event x iv"
    by (rule event_cong) (simp add: iv1_def push_pending_def)
  have sn: "fst (snapshot_if (Suc index = take_n) x (oe_key e) d iv1) =
      (if Suc index = take_n then fst (snapshot x (oe_key e) d iv) else None)"
    by (simp add: snapshot_if_def) (auto intro!: snapshot_cong simp: iv1_def push_pending_def)
  show ?thesis
    by (rule that [of w]) (simp add: Let_def split_beta w ev sn iv1_def [symmetric])
qed

text \<open>The state a batch of changes leaves, and the event of each change.\<close>

lemma emit_changes_state:
  "\<exists>w. snd (emit_changes x stamp take_n index det iv cs) =
     iv\<lparr>inv_next_seq := inv_next_seq iv + length cs,
        inv_pending := inv_pending iv @ pending_of stamp index (inv_next_seq iv) cs, inv_warned := w\<rparr>"
proof (induction cs arbitrary: index det iv)
  case Nil
  then show ?case by (auto intro: exI [of _ "inv_warned iv"])
next
  case (Cons c cs)
  obtain op e d where c: "c = (op, e, d)" by (cases c) auto
  obtain w where out: "snd (emit_changes x stamp take_n index det iv (c # cs)) =
      snd (emit_changes x stamp take_n (Suc index) (det(oe_key e := None))
           (push_pending (stamp index) (oe_key e) d iv\<lparr>inv_warned := w\<rparr>) cs)"
    using emit_changes_Cons [of x stamp take_n index det iv op e d cs] unfolding c Let_def by (metis snd_conv)
  show ?case
    unfolding out
    using Cons.IH [of "Suc index" "det(oe_key e := None)" "push_pending (stamp index) (oe_key e) d iv\<lparr>inv_warned := w\<rparr>"]
    by (simp add: c push_pending_def fun_upd_def)
qed

lemma emit_changes_length: "length (fst (emit_changes x stamp take_n index det iv cs)) = length cs"
  by (induction cs arbitrary: index det iv) (auto simp: Let_def split_beta)

lemma emit_changes_nth:
  "i < length cs \<Longrightarrow> cs ! i = (op, e, d) \<Longrightarrow>
     \<exists>extra. fst (emit_changes x stamp take_n index det iv cs) ! i = add_details extra
       (event x iv op e d (inv_next_seq iv + i)
         (if index + i + 1 = take_n then fst (snapshot x (oe_key e) d iv) else None))"
proof (induction cs arbitrary: index det iv i)
  case Nil
  then show ?case by simp
next
  case (Cons c cs)
  obtain op' e' d' where c: "c = (op', e', d')" by (cases c) auto
  obtain w where out: "emit_changes x stamp take_n index det iv (c # cs) =
      (let rest = emit_changes x stamp take_n (Suc index) (det(oe_key e' := None))
           (push_pending (stamp index) (oe_key e') d' iv\<lparr>inv_warned := w\<rparr>) cs
       in (add_details (det (oe_key e')) (event x iv op' e' d' (inv_next_seq iv)
           (if Suc index = take_n then fst (snapshot x (oe_key e') d' iv) else None)) # fst rest, snd rest))"
    using emit_changes_Cons [of x stamp take_n index det iv op' e' d' cs] unfolding c by metis
  define iv2 where "iv2 = push_pending (stamp index) (oe_key e') d' iv\<lparr>inv_warned := w\<rparr>"
  have same: "event x iv2 = event x iv" "fst (snapshot x k d iv2) = fst (snapshot x k d iv)" for k d
    by (auto intro!: event_cong snapshot_cong simp: iv2_def push_pending_def)
  show ?case
  proof (cases i)
    case 0
    with Cons.prems c show ?thesis
      unfolding out Let_def by auto
  next
    case (Suc j)
    define det' where "det' = det(oe_key e' := None)"
    have "j < length cs" "cs ! j = (op, e, d)"
      using Suc Cons.prems by simp_all
    then obtain extra where
      "fst (emit_changes x stamp take_n (Suc index) det' iv2 cs) ! j = add_details extra
         (event x iv op e d (inv_next_seq iv2 + j)
           (if Suc index + j + 1 = take_n then fst (snapshot x (oe_key e) d iv) else None))"
      using Cons.IH [of j "Suc index" det' iv2] unfolding same by blast
    moreover have "inv_next_seq iv2 = Suc (inv_next_seq iv)"
      by (simp add: iv2_def push_pending_def)
    ultimately show ?thesis
      unfolding out Let_def Suc iv2_def [symmetric] det'_def [symmetric] by auto
  qed
qed

section \<open>A poll as a whole\<close>

definition change_key :: "change \<Rightarrow> string" where
  "change_key c = oe_key (fst (snd c))"

lemma pending_of_seqs: "map p_seq (pending_of stamp i n cs) = [n..<n + length cs]"
  by (induction stamp i n cs rule: pending_of.induct) (simp_all add: upt_conv_Cons del: upt_Suc)

lemma pending_of_keys: "map (\<lambda>p. (p_key p, p_digest p)) (pending_of stamp i n cs) = map (\<lambda>c. (change_key c, snd (snd c))) cs"
  by (induction stamp i n cs rule: pending_of.induct) (simp_all add: change_key_def)

lemma pending_of_length [simp]: "length (pending_of stamp i n cs) = length cs"
  by (induction stamp i n cs rule: pending_of.induct) simp_all

lemma pending_of_at: "p \<in> set (pending_of stamp i n cs) \<Longrightarrow> \<exists>j. i \<le> j \<and> j < i + length cs \<and> p_at p = stamp j"
proof (induction stamp i n cs rule: pending_of.induct)
  case (2 stamp i n op e d cs)
  then consider "p_at p = stamp i" | "p \<in> set (pending_of stamp (Suc i) (Suc n) cs)" by auto
  then show ?case
  proof cases
    case 1
    then show ?thesis by (intro exI [of _ i]) simp
  next
    case 2
    then obtain j where "Suc i \<le> j" "j < Suc i + length cs" "p_at p = stamp j"
      using "2.IH" by blast
    then show ?thesis by (intro exI [of _ j]) simp
  qed
qed simp

text \<open>The state a poll compares with the listing, and the changes it sends.\<close>

definition poll_base :: "instant \<Rightarrow> inventory \<Rightarrow> inventory" where
  "poll_base now iv = drop_expired now iv\<lparr>inv_gap := False, inv_baseline := Known\<rparr>"

definition room :: "inventory \<Rightarrow> nat" where
  "room iv = o_max_in_flight (inv_options iv) - in_flight iv"

definition sent :: "externs \<Rightarrow> instant \<Rightarrow> object_entry list \<Rightarrow> inventory \<Rightarrow> change list" where
  "sent x now listing iv = (let b = poll_base now iv in
     take (room b) (fst (find_changes x b (current_of listing))))"

lemma poll_base_frame [simp]:
  "inv_options (poll_base now iv) = inv_options iv"
  "inv_confirmed (poll_base now iv) = inv_confirmed iv"
  "inv_seen (poll_base now iv) = inv_seen iv"
  "inv_next_seq (poll_base now iv) = inv_next_seq iv"
  "inv_quiet_removals (poll_base now iv) = inv_quiet_removals iv"
  "inv_describe (poll_base now iv) = inv_describe iv"
  "inv_baseline (poll_base now iv) = Known"
  "inv_gap (poll_base now iv) = False"
  "inv_pending (poll_base now iv) = inv_pending (drop_expired now iv)"
  "pending_digest (poll_base now iv) k = pending_digest (drop_expired now iv) k"
  by (simp_all add: poll_base_def drop_expired_def pending_digest_def)

lemma sorted_wrt_filter_map: "sorted_wrt (<) (map f xs) \<Longrightarrow> sorted_wrt (<) (map f (filter P xs))"
  by (induction xs) auto

lemma poll_base_wf: "inventory_wf iv \<Longrightarrow> inventory_wf (poll_base now iv)"
  by (auto simp: inventory_wf_def drop_expired_def in_flight_def sorted_wrt_filter_map
      intro: le_trans [OF length_filter_le])

lemma expected_poll_base:
  "expected x (poll_base now iv) = expected x (drop_expired now iv)"
  "expected_changes x (poll_base now iv) = expected_changes x (drop_expired now iv)"
  by (simp_all add: fun_eq_iff expected_changes_def expected_keys_def expected_def drop_expired_def pending_digest_def)

lemma room_poll_base: "room (poll_base now iv) = room (drop_expired now iv)"
  by (simp add: room_def in_flight_def drop_expired_def)

lemma drop_expired_frame [simp]:
  "inv_options (drop_expired now iv) = inv_options iv"
  "inv_confirmed (drop_expired now iv) = inv_confirmed iv"
  "inv_quiet_removals (drop_expired now iv) = inv_quiet_removals iv"
  "inv_baseline (drop_expired now iv) = inv_baseline iv"
  "inv_gap (drop_expired now iv) = inv_gap iv"
  by (simp_all add: drop_expired_def)

lemma poll_loud:
  assumes "inventory_wf iv" "inv_baseline iv \<noteq> Silent"
  shows "\<exists>det. poll x now stamp listing iv =
    emit_changes x stamp (length (sent x now listing iv)) 0 det
      (snd (find_changes x (poll_base now iv) (current_of listing))) (sent x now listing iv)"
proof -
  have gap: "\<not> inv_gap iv" using assms by (auto simp: inventory_wf_def)
  have base: "drop_expired now iv\<lparr>inv_gap := False\<rparr>\<lparr>inv_baseline := Known\<rparr> = poll_base now iv"
    by (simp add: poll_base_def)
  have "take (min (length cs) n) cs = take n cs" for cs :: "change list" and n
    by (simp add: min_def)
  then show ?thesis
    unfolding poll_def Let_def base
    using gap assms(2) by (simp add: split_beta sent_def Let_def room_def in_flight_def) blast
qed

lemma poll_state:
  assumes "inventory_wf iv" "inv_baseline iv \<noteq> Silent"
  obtains w where "snd (poll x now stamp listing iv) =
    (snd (find_changes x (poll_base now iv) (current_of listing)))\<lparr>
       inv_next_seq := inv_next_seq iv + length (sent x now listing iv),
       inv_pending := inv_pending (drop_expired now iv) @
         pending_of stamp 0 (inv_next_seq iv) (sent x now listing iv),
       inv_warned := w\<rparr>"
proof -
  obtain det where out: "poll x now stamp listing iv =
      emit_changes x stamp (length (sent x now listing iv)) 0 det
        (snd (find_changes x (poll_base now iv) (current_of listing))) (sent x now listing iv)"
    using poll_loud [OF assms] by blast
  show ?thesis
    using that emit_changes_state [of x stamp "length (sent x now listing iv)" 0 det
      "snd (find_changes x (poll_base now iv) (current_of listing))" "sent x now listing iv"]
    unfolding out by auto
qed

text \<open>Event \<open>i\<close> of a poll is the event of change \<open>i\<close>; only the last carries a snapshot.\<close>

lemma poll_nth:
  assumes "inventory_wf iv" "inv_baseline iv \<noteq> Silent"
  shows "length (fst (poll x now stamp listing iv)) = length (sent x now listing iv)"
    and "i < length (sent x now listing iv) \<Longrightarrow> sent x now listing iv ! i = (op, e, d) \<Longrightarrow>
      \<exists>extra. fst (poll x now stamp listing iv) ! i = add_details extra
        (event x iv op e d (inv_next_seq iv + i)
          (if i + 1 = length (sent x now listing iv)
           then fst (snapshot x (oe_key e) d (snd (find_changes x (poll_base now iv) (current_of listing))))
           else None))"
proof -
  let ?iv4 = "snd (find_changes x (poll_base now iv) (current_of listing))"
  obtain det where out: "poll x now stamp listing iv =
      emit_changes x stamp (length (sent x now listing iv)) 0 det ?iv4 (sent x now listing iv)"
    using poll_loud [OF assms] by blast
  show "length (fst (poll x now stamp listing iv)) = length (sent x now listing iv)"
    by (simp add: out emit_changes_length)
  have ev: "event x ?iv4 = event x iv" by (rule event_cong) simp
  assume "i < length (sent x now listing iv)" "sent x now listing iv ! i = (op, e, d)"
  from emit_changes_nth [OF this, of x stamp "length (sent x now listing iv)" 0 det ?iv4]
  show "\<exists>extra. fst (poll x now stamp listing iv) ! i = add_details extra
        (event x iv op e d (inv_next_seq iv + i)
          (if i + 1 = length (sent x now listing iv) then fst (snapshot x (oe_key e) d ?iv4) else None))"
    by (simp add: out ev)
qed

definition reported :: "watch_event \<Rightarrow> string option \<times> string option" where
  "reported ev = (event_field ''op'' ev, event_field ''key'' ev)"

lemma poll_maps:
  fixes x :: externs and now :: instant and stamp :: "nat \<Rightarrow> instant" and listing :: "object_entry list"
  assumes "inventory_wf iv" "inv_baseline iv \<noteq> Silent"
  defines "evs \<equiv> fst (poll x now stamp listing iv)" and "cs \<equiv> sent x now listing iv"
  shows poll_reported: "map reported evs = map (\<lambda>c. (Some (op_value (fst c)), Some (change_key c))) cs"
    and poll_ids: "map we_event_id evs =
      map (\<lambda>c. Some (event_id_of x (inv_options iv) (fst c) (change_key c) (snd (snd c)))) cs"
    and poll_seqs: "map event_seq evs = map Some [inv_next_seq iv..<inv_next_seq iv + length cs]"
    and poll_types: "\<forall>ev\<in>set evs. we_event_type ev = Some OBJECT_CHANGED_EVENT_TYPE \<and> \<not> we_gap ev"
proof -
  have len: "length evs = length cs" by (simp add: evs_def cs_def poll_nth [OF assms(1,2)])
  have nth: "reported (evs ! i) = (Some (op_value (fst (cs ! i))), Some (change_key (cs ! i)))"
    "we_event_id (evs ! i) =
       Some (event_id_of x (inv_options iv) (fst (cs ! i)) (change_key (cs ! i)) (snd (snd (cs ! i))))"
    "event_seq (evs ! i) = Some (inv_next_seq iv + i)"
    "we_event_type (evs ! i) = Some OBJECT_CHANGED_EVENT_TYPE" "\<not> we_gap (evs ! i)"
    if i: "i < length cs" for i
  proof -
    obtain op e d where c: "cs ! i = (op, e, d)" by (cases "cs ! i") auto
    obtain extra snap where ev: "evs ! i = add_details extra (event x iv op e d (inv_next_seq iv + i) snap)"
      using poll_nth(2) [OF assms(1,2) i [unfolded cs_def] c [unfolded cs_def], of stamp]
      unfolding evs_def by blast
    obtain j where j: "we_data (event x iv op e d (inv_next_seq iv + i) snap) = Some j" "json_object j"
      using event_data_object by blast
    show "reported (evs ! i) = (Some (op_value (fst (cs ! i))), Some (change_key (cs ! i)))"
      by (simp add: reported_def ev c change_key_def add_details_keeps [OF j] event_fields)
    show "we_event_id (evs ! i) =
       Some (event_id_of x (inv_options iv) (fst (cs ! i)) (change_key (cs ! i)) (snd (snd (cs ! i))))"
      "event_seq (evs ! i) = Some (inv_next_seq iv + i)"
      "we_event_type (evs ! i) = Some OBJECT_CHANGED_EVENT_TYPE" "\<not> we_gap (evs ! i)"
      by (simp_all add: ev c change_key_def event_seq_def)
  qed
  show "map reported evs = map (\<lambda>c. (Some (op_value (fst c)), Some (change_key c))) cs"
    "map we_event_id evs =
      map (\<lambda>c. Some (event_id_of x (inv_options iv) (fst c) (change_key c) (snd (snd c)))) cs"
    "map event_seq evs = map Some [inv_next_seq iv..<inv_next_seq iv + length cs]"
    using len nth by (auto intro!: nth_equalityI)
  show "\<forall>ev\<in>set evs. we_event_type ev = Some OBJECT_CHANGED_EVENT_TYPE \<and> \<not> we_gap ev"
    using len nth by (auto simp: in_set_conv_nth)
qed

section \<open>The invariant\<close>

lemma digests_of_current_wf: "bt_wf (digests_of x (current_of listing))"
  by (simp add: bt_wfs)

lemma poll_wf:
  assumes "inventory_wf iv"
  shows "inventory_wf (snd (poll x now stamp listing iv))"
proof (cases "inv_baseline iv = Silent")
  case True
  with assms show ?thesis
    by (auto simp: poll_def Let_def inventory_wf_def drop_expired_def in_flight_def bt_wfs
        digests_of_current_wf dest: current_of_set)
next
  case False
  let ?b = "poll_base now iv"
  have b: "inventory_wf ?b" using assms by (rule poll_base_wf)
  note fc = find_changes_wf [OF b refl, of x listing]
  have len: "length (sent x now listing iv) \<le> room ?b" by (simp add: sent_def Let_def)
  have seqs: "sorted_wrt (<) (map p_seq (inv_pending ?b) @ [inv_next_seq iv..<inv_next_seq iv + n])" for n
    using b by (auto simp: sorted_wrt_append inventory_wf_def)
  obtain w where "snd (poll x now stamp listing iv) = (snd (find_changes x ?b (current_of listing)))\<lparr>
      inv_next_seq := inv_next_seq iv + length (sent x now listing iv),
      inv_pending := inv_pending (drop_expired now iv) @ pending_of stamp 0 (inv_next_seq iv) (sent x now listing iv),
      inv_warned := w\<rparr>"
    using poll_state [OF assms False] by blast
  moreover have "p_seq p < inv_next_seq iv + length (sent x now listing iv)"
    if "p \<in> set (pending_of stamp 0 (inv_next_seq iv) (sent x now listing iv))" for p
    using that pending_of_seqs [of stamp 0 "inv_next_seq iv" "sent x now listing iv"]
    by (metis atLeastLessThan_iff image_eqI image_set set_upt)
  ultimately show ?thesis
    using b fc len seqs [of "length (sent x now listing iv)"]
    by (auto simp: inventory_wf_def pending_of_seqs in_flight_def room_def)
qed

lemma filter_remove1_neg: "\<not> P p \<Longrightarrow> filter P (remove1 p ps) = filter P ps"
  by (induction ps) auto

text \<open>An acknowledgement of \<open>seq\<close> confirms that change and forgets the changes up to it.\<close>

definition confirm :: "pending \<Rightarrow> inventory \<Rightarrow> inventory" where
  "confirm p iv = (case p_digest p of
     Some d \<Rightarrow> iv\<lparr>inv_confirmed := bt_insert (p_key p) d (inv_confirmed iv)\<rparr>
   | None \<Rightarrow> iv\<lparr>inv_confirmed := bt_remove (p_key p) (inv_confirmed iv), inv_seen := bt_remove (p_key p) (inv_seen iv)\<rparr>)"

lemma acknowledged_eq:
  "acknowledged position iv =
     (case Option.bind (json_get position ''seq'') as_u64 of
        None \<Rightarrow> iv
      | Some seq \<Rightarrow>
          (case find (\<lambda>p. p_seq p = seq) (inv_pending iv) of
             None \<Rightarrow> iv
           | Some p \<Rightarrow> confirm p (iv\<lparr>inv_pending := filter (\<lambda>q. p_seq q > seq) (inv_pending iv)\<rparr>)))"
proof -
  have rm: "filter (\<lambda>q. seq < p_seq q) (remove1 p ps) = filter (\<lambda>q. seq < p_seq q) ps"
    if "find (\<lambda>p. p_seq p = seq) ps = Some p" for p ps seq
    using that by (auto intro: filter_remove1_neg simp: find_Some_iff)
  show ?thesis
    by (auto simp: acknowledged_def confirm_def Let_def rm split: option.splits)
qed

lemma confirm_wf: "inventory_wf iv \<Longrightarrow> inventory_wf (confirm p iv)"
  by (auto simp: confirm_def inventory_wf_def in_flight_def bt_wfs bt_remove_def [of _ "inv_seen iv"] 
      bt_remove_wf [unfolded bt_remove_def] split: option.splits)

lemma acknowledged_wf:
  assumes "inventory_wf iv"
  shows "inventory_wf (acknowledged position iv)"
proof -
  have "inventory_wf (iv\<lparr>inv_pending := filter P (inv_pending iv)\<rparr>)" for P
    using assms by (auto simp: inventory_wf_def in_flight_def sorted_wrt_filter_map intro: le_trans [OF length_filter_le])
  then show ?thesis
    using assms by (auto simp: acknowledged_eq confirm_wf split: option.splits)
qed

text \<open>
  The engine as a state machine: it starts from an empty or a resumed inventory, and steps by a
  poll of any listing at any time or by an acknowledgement of any JSON value. The plugin's
  \<open>describe\<close> hook may behave differently at every poll.
\<close>

definition fresh_inventory :: "externs \<Rightarrow> inventory \<Rightarrow> bool" where
  "fresh_inventory x iv = (\<exists>opts resume iv0. new_inventory x opts resume = Ok iv0 \<and>
     (iv = iv0 \<or> iv = with_quiet_removals iv0))"

inductive inventory_step :: "externs \<Rightarrow> inventory \<Rightarrow> inventory \<Rightarrow> bool" for x where
  poll_step: "inventory_step x iv (snd (poll x now stamp listing iv))"
| ack_step: "inventory_step x iv (acknowledged position iv)"
| describe_step: "inventory_step x iv (with_describe d iv)"

inductive_simps inventory_step_iff: "inventory_step x iv iv'"

lemma snap_of_value_wf: "snap_of_value j = Some (Some m) \<Longrightarrow> bt_wf m"
  by (cases j rule: snap_of_value.cases) (auto simp: bt_wfs)

lemma cursor_of_value_wf:
  assumes "cursor_of_value v = Some c" "cur_snap c = Some m"
  shows "bt_wf m"
  using assms by (cases v rule: cursor_of_value.cases)
    (auto simp: cursor_fields_def snap_of_value_wf split: option.splits)

lemma new_inventory_wf:
  assumes "new_inventory x opts resume = Ok iv"
  shows "inventory_wf iv"
proof (cases resume)
  case None
  with assms show ?thesis
    by (auto simp: new_inventory_def inventory_wf_def in_flight_def)
next
  case (Some v)
  with assms obtain c where c: "cursor_of_value v = Some c"
    by (auto simp: new_inventory_def Let_def split: option.splits)
  with assms Some cursor_of_value_wf [OF c] show ?thesis
    by (cases "cur_snap c") (auto simp: new_inventory_def inventory_wf_def in_flight_def)
qed

lemma fresh_inventory_wf: "fresh_inventory x iv \<Longrightarrow> inventory_wf iv"
  using new_inventory_wf
  by (fastforce simp: fresh_inventory_def with_quiet_removals_def inventory_wf_def in_flight_def)

lemma with_describe_wf: "inventory_wf iv \<Longrightarrow> inventory_wf (with_describe d iv)"
  by (simp add: with_describe_def inventory_wf_def in_flight_def)

interpretation engine: step_invariant "fresh_inventory x" "inventory_step x" inventory_wf for x
  by unfold_locales (auto simp: fresh_inventory_wf inventory_step_iff poll_wf acknowledged_wf with_describe_wf)

section \<open>What a poll leaves in flight\<close>

text \<open>A key with a change in a batch has that change as its latest; the others keep theirs.\<close>

lemma find_pending_of:
  assumes "\<forall>c\<in>set cs. snd (snd c) = t (change_key c)"
  shows "map_option p_digest (find (\<lambda>p. p_key p = k) (rev (pending_of stamp i n cs))) =
    (if k \<in> change_key ` set cs then Some (t k) else None)"
proof (cases "find (\<lambda>p. p_key p = k) (rev (pending_of stamp i n cs))")
  case None
  then have "k \<notin> set (map fst (map (\<lambda>p. (p_key p, p_digest p)) (pending_of stamp i n cs)))"
    by (auto simp: find_None_iff)
  with None show ?thesis by (auto simp: pending_of_keys)
next
  case (Some p)
  then have p: "p \<in> set (pending_of stamp i n cs)" "p_key p = k"
    by (auto dest: find_SomeD)
  then have "(k, p_digest p) \<in> set (map (\<lambda>p. (p_key p, p_digest p)) (pending_of stamp i n cs))"
    by auto
  with Some assms show ?thesis by (auto simp: pending_of_keys)
qed

lemma sent_target:
  assumes "inventory_wf iv"
  shows "\<forall>c\<in>set (sent x now listing iv). snd (snd c) = target x (current_of listing) (change_key c)"
  using find_changes_target [OF poll_base_wf [OF assms] refl] in_set_takeD
  by (fastforce simp: sent_def Let_def change_key_def)

lemma poll_pending_digest:
  assumes "inventory_wf iv" "inv_baseline iv \<noteq> Silent"
  shows "pending_digest (snd (poll x now stamp listing iv)) k =
    (if k \<in> change_key ` set (sent x now listing iv) then Some (target x (current_of listing) k)
     else pending_digest (drop_expired now iv) k)"
proof -
  obtain w where "snd (poll x now stamp listing iv) =
    (snd (find_changes x (poll_base now iv) (current_of listing)))\<lparr>
       inv_next_seq := inv_next_seq iv + length (sent x now listing iv),
       inv_pending := inv_pending (drop_expired now iv) @
         pending_of stamp 0 (inv_next_seq iv) (sent x now listing iv),
       inv_warned := w\<rparr>"
    using poll_state [OF assms] by blast
  then show ?thesis
    using find_pending_of [OF sent_target [OF assms(1), of x now listing], of k stamp 0 "inv_next_seq iv"]
    by (auto simp: pending_digest_def find_append split: option.splits if_splits)
qed

lemma poll_confirmed:
  assumes "inventory_wf iv" "inv_baseline iv \<noteq> Silent"
  shows "bt_get (inv_confirmed (snd (poll x now stamp listing iv))) k =
    (if inv_quiet_removals iv \<and> bt_get (current_of listing) k = None \<and> pending_digest (drop_expired now iv) k \<noteq> Some None
     then None else bt_get (inv_confirmed iv) k)"
proof -
  obtain w where out: "snd (poll x now stamp listing iv) =
    (snd (find_changes x (poll_base now iv) (current_of listing)))\<lparr>
       inv_next_seq := inv_next_seq iv + length (sent x now listing iv),
       inv_pending := inv_pending (drop_expired now iv) @
         pending_of stamp 0 (inv_next_seq iv) (sent x now listing iv),
       inv_warned := w\<rparr>"
    using poll_state [OF assms] by blast
  have "bt_wf (inv_confirmed iv)" using assms by (simp add: inventory_wf_def)
  then show ?thesis
    by (auto simp: out find_changes_confirmed gone_keys_def bt.keys_get)
qed

lemma sent_expected:
  assumes "inventory_wf iv"
  shows "map (\<lambda>c. (fst c, change_key c)) (sent x now listing iv) =
    take (room (drop_expired now iv)) (expected_changes x (drop_expired now iv) (current_of listing))"
  using find_changes_expected [OF poll_base_wf [OF assms] refl, of x now listing]
  by (simp add: sent_def Let_def change_key_def take_map [symmetric] expected_poll_base room_poll_base)

lemma expected_changes_iff:
  assumes "bt_wf (inv_confirmed iv)" "bt_wf current"
  shows "(op, k) \<in> set (expected_changes x iv current) \<longleftrightarrow> expected x iv current k = Some op"
proof -
  have "expected x iv current k = Some op \<Longrightarrow> k \<in> set (expected_keys iv current)"
    using assms by (auto simp: expected_keys_def expected_def Let_def target_def bt.keys_get split: if_splits)
  then show ?thesis
    by (auto simp: expected_changes_def in_map_filter_iff)
qed

lemma expected_None_iff:
  "expected x iv current k = None \<longleftrightarrow>
     pending_digest iv k = Some (target x current k) \<or> bt_get (inv_confirmed iv) k = target x current k \<or>
     (target x current k = None \<and> inv_quiet_removals iv)"
  by (auto simp: expected_def Let_def)

lemma poll_reported_changes:
  assumes "inventory_wf iv" "inv_baseline iv \<noteq> Silent"
  shows "map reported (fst (poll x now stamp listing iv)) =
    take (room (drop_expired now iv))
      (map (\<lambda>(op, k). (Some (op_value op), Some k))
        (expected_changes x (drop_expired now iv) (current_of listing)))"
proof -
  have "map reported (fst (poll x now stamp listing iv)) =
      map (\<lambda>(op, k). (Some (op_value op), Some k)) (map (\<lambda>c. (fst c, change_key c)) (sent x now listing iv))"
    by (simp add: poll_reported [OF assms])
  then show ?thesis
    by (simp add: sent_expected [OF assms(1)] take_map)
qed

text \<open>A key is settled when the host has, or is about to have, what the listing shows of it.\<close>

definition settled :: "externs \<Rightarrow> (string, object_entry) btree_map \<Rightarrow> inventory \<Rightarrow> string \<Rightarrow> bool" where
  "settled x current iv k =
     (bt_get (inv_confirmed iv) k = target x current k \<or> pending_digest iv k = Some (target x current k))"

definition fits :: "externs \<Rightarrow> instant \<Rightarrow> object_entry list \<Rightarrow> inventory \<Rightarrow> bool" where
  "fits x now listing iv =
     (length (expected_changes x (drop_expired now iv) (current_of listing)) \<le> room (drop_expired now iv))"

lemma poll_settles:
  assumes "inventory_wf iv" "inv_baseline iv \<noteq> Silent" "fits x now listing iv"
  shows "settled x (current_of listing) (snd (poll x now stamp listing iv)) k"
proof (cases "expected x (drop_expired now iv) (current_of listing) k")
  case None
  then show ?thesis
    by (auto simp: settled_def expected_None_iff poll_pending_digest [OF assms(1,2)] poll_confirmed [OF assms(1,2)]
        target_def split: if_splits)
next
  case (Some op)
  then have "(op, k) \<in> set (expected_changes x (drop_expired now iv) (current_of listing))"
    using assms(1) by (simp add: expected_changes_iff current_of_wf inventory_wf_def)
  then have "(op, k) \<in> set (map (\<lambda>c. (fst c, change_key c)) (sent x now listing iv))"
    using assms(3) by (simp add: sent_expected [OF assms(1)] fits_def)
  then show ?thesis
    by (auto simp: settled_def poll_pending_digest [OF assms(1,2)])
qed

lemma poll_baseline [simp]: "inv_baseline (snd (poll x now stamp listing iv)) = Known"
proof (cases "inv_baseline iv = Silent")
  case True
  then show ?thesis by (simp add: poll_def Let_def)
next
  case False
  let ?iv3 = "drop_expired now iv\<lparr>inv_gap := False, inv_baseline := Known\<rparr>"
  have "inv_baseline (snd (emit_changes x stamp n i det (snd (find_changes x ?iv3 c)) cs)) = Known" for n i det c cs
    using emit_changes_state [of x stamp n i det "snd (find_changes x ?iv3 c)" cs] by auto
  with False show ?thesis by (simp add: poll_def Let_def split_beta)
qed

lemma settled_silent:
  assumes "inventory_wf iv" "inv_baseline iv \<noteq> Silent"
    and "\<And>k. settled x (current_of listing) (drop_expired now iv) k"
  shows "fst (poll x now stamp listing iv) = []"
proof -
  have "expected x (drop_expired now iv) (current_of listing) k = None" for k
    using assms(3) [of k] by (auto simp: expected_None_iff settled_def)
  then have "expected_changes x (drop_expired now iv) (current_of listing) = []"
    by (simp add: expected_changes_def map_filter_None)
  then have "map reported (fst (poll x now stamp listing iv)) = []"
    using poll_reported_changes [OF assms(1,2), of x now stamp listing] by simp
  then show ?thesis by simp
qed

end
