(* ===== verification/Inventory_Properties.thy ===== *)
theory Inventory_Properties
  imports Inventory_Engine
begin

text \<open>
  What an inventory watch promises over several polls, acknowledgements and restarts, proved from
  the facts of the diff engine: no change is lost or repeated while it is in flight, a host that
  acknowledges ends with the store's listing, a dropped change comes back under the same event id,
  and a restart from a stored position is exact when it carries a snapshot and a gap otherwise.
\<close>

section \<open>Positions survive their JSON form\<close>

lemma strings_of_map: "strings_of (map (\<lambda>p. (fst p, JStr (snd p))) m) = Some m"
  by (induction m) auto

lemma cursor_roundtrip:
  assumes "\<And>m. cur_snap c = Some m \<Longrightarrow> bt_wf m"
  shows "cursor_of_value (cursor_to_value c) = Some c"
proof -
  have get: "bt_get (bt_collect fs) f = map_of (rev fs) f" for fs :: "(string \<times> json) list" and f
    by (rule bt_get_collect)
  show ?thesis
    using assms by (cases "cur_snap c")
      (auto simp: cursor_to_value_def jobj_def get cursor_fields_def strings_of_map bt_collect_id)
qed

section \<open>Acknowledging every event of a poll\<close>

text \<open>The thread of a resource watch does it itself; the host of an event source sends them back.\<close>

definition acknowledge_events :: "watch_event list \<Rightarrow> inventory \<Rightarrow> inventory" where
  "acknowledge_events evs iv =
     foldl (\<lambda>iv ev. case we_upstream_cursor ev of None \<Rightarrow> iv | Some position \<Rightarrow> acknowledged position iv) iv evs"

lemma acknowledge_events_Cons:
  assumes "event_seq ev = Some n"
  shows "acknowledge_events (ev # evs) iv = acknowledge_events evs
    (case find (\<lambda>p. p_seq p = n) (inv_pending iv) of None \<Rightarrow> iv
     | Some p \<Rightarrow> confirm p (iv\<lparr>inv_pending := filter (\<lambda>q. p_seq q > n) (inv_pending iv)\<rparr>))"
  using assms by (auto simp: acknowledge_events_def event_seq_def acknowledged_eq bind_eq_Some_conv)

lemma confirm_frame [simp]:
  "inv_options (confirm p iv) = inv_options iv"
  "inv_pending (confirm p iv) = inv_pending iv"
  "inv_next_seq (confirm p iv) = inv_next_seq iv"
  "inv_baseline (confirm p iv) = inv_baseline iv"
  "inv_gap (confirm p iv) = inv_gap iv"
  "inv_quiet_removals (confirm p iv) = inv_quiet_removals iv"
  by (simp_all add: confirm_def split: option.splits)

lemma confirm_get:
  "bt_wf (inv_confirmed iv) \<Longrightarrow>
     bt_get (inv_confirmed (confirm p iv)) k = (if k = p_key p then p_digest p else bt_get (inv_confirmed iv) k)"
  by (auto simp: confirm_def bt_simps split: option.splits)

lemma confirm_keeps_wf: "bt_wf (inv_confirmed iv) \<Longrightarrow> bt_wf (inv_confirmed (confirm p iv))"
  by (auto simp: confirm_def bt_wfs split: option.splits)

lemma acknowledge_all:
  assumes "bt_wf (inv_confirmed iv)" "sorted_wrt (<) (map p_seq (inv_pending iv))"
    and "map event_seq evs = map Some (map p_seq (inv_pending iv))"
  defines "iv' \<equiv> acknowledge_events evs iv"
  shows "inv_pending iv' = [] \<and> inv_options iv' = inv_options iv \<and> inv_baseline iv' = inv_baseline iv \<and>
    inv_quiet_removals iv' = inv_quiet_removals iv \<and> inv_gap iv' = inv_gap iv \<and> bt_wf (inv_confirmed iv') \<and>
    (\<forall>k. bt_get (inv_confirmed iv') k =
       (case pending_digest iv k of None \<Rightarrow> bt_get (inv_confirmed iv) k | Some d \<Rightarrow> d))"
  using assms(1-3) unfolding iv'_def
proof (induction evs arbitrary: iv)
  case Nil
  then show ?case by (auto simp: acknowledge_events_def pending_digest_def)
next
  case (Cons ev evs)
  then obtain p ps where ps: "inv_pending iv = p # ps" "event_seq ev = Some (p_seq p)"
    "map event_seq evs = map Some (map p_seq ps)"
    by (cases "inv_pending iv") auto
  then have later: "filter (\<lambda>q. p_seq q > p_seq p) (p # ps) = ps"
    using Cons.prems(2) by (auto intro: filter_True)
  define iv1 where "iv1 = confirm p (iv\<lparr>inv_pending := ps\<rparr>)"
  have step: "acknowledge_events (ev # evs) iv = acknowledge_events evs iv1"
    using later by (simp add: acknowledge_events_Cons [OF ps(2)] ps(1) iv1_def)
  have wf: "bt_wf (inv_confirmed iv1)"
    using Cons.prems(1) by (simp add: iv1_def confirm_keeps_wf)
  have "pending_digest iv k = (case pending_digest iv1 k of None \<Rightarrow> (if k = p_key p then Some (p_digest p) else None)
      | Some d \<Rightarrow> Some d)" for k
    by (auto simp: pending_digest_def ps(1) find_append iv1_def split: option.splits)
  moreover have "bt_get (inv_confirmed iv1) k = (if k = p_key p then p_digest p else bt_get (inv_confirmed iv) k)" for k
    using Cons.prems(1) by (simp add: iv1_def confirm_get)
  ultimately show ?case
    using Cons.IH [of iv1] Cons.prems(2) wf ps
    by (auto simp: step iv1_def split: option.splits)
qed

section \<open>How the expected changes move\<close>

lemma map_filter_split:
  "List.map_filter (\<lambda>k. map_option (\<lambda>op. (op, k)) (f k)) ks = map (\<lambda>k. (the (f k), k)) (filter (\<lambda>k. f k \<noteq> None) ks)"
  by (induction ks) (auto simp: map_filter_simps)

lemma sorted_filter_eq:
  assumes "sorted_wrt (<) (xs :: 'a::linorder list)" "sorted_wrt (<) ys" "\<And>k. P k \<Longrightarrow> k \<in> set xs \<and> k \<in> set ys"
  shows "filter P xs = filter P ys"
  using assms by (intro strict_sorted_equal) (auto simp: sorted_wrt_filter)

text \<open>When some keys get settled and the rest stays, their changes leave the list and the rest keeps its order.\<close>

lemma expected_changes_minus:
  assumes "bt_wf (inv_confirmed iv)" "bt_wf (inv_confirmed iv')" "bt_wf current"
    and "\<And>k. expected x iv' current k = (if k \<in> K then None else expected x iv current k)"
  shows "expected_changes x iv' current = filter (\<lambda>p. snd p \<notin> K) (expected_changes x iv current)"
proof -
  let ?P = "\<lambda>k. expected x iv' current k \<noteq> None \<and> bt_get current k = None"
  have "k \<in> set (bt_keys (inv_confirmed iv)) \<and> k \<in> set (bt_keys (inv_confirmed iv'))" if "?P k" for k
    using that assms(4) [of k] assms(1,2)
    by (auto simp: bt.keys_get expected_def Let_def target_def split: if_splits)
  then have gone: "filter ?P (bt_keys (inv_confirmed iv')) = filter ?P (bt_keys (inv_confirmed iv))"
    using assms(1,2) by (intro sorted_filter_eq) (auto simp: bt.keys_sorted)
  have keys: "filter (\<lambda>k. expected x iv' current k \<noteq> None) (expected_keys iv' current) =
      filter (\<lambda>k. expected x iv' current k \<noteq> None) (expected_keys iv current)"
    using gone by (simp add: expected_keys_def conj_commute)
  have "expected_changes x iv' current =
      map (\<lambda>k. (the (expected x iv current k), k))
        (filter (\<lambda>k. k \<notin> K) (filter (\<lambda>k. expected x iv current k \<noteq> None) (expected_keys iv current)))"
    unfolding expected_changes_def map_filter_split keys
    by (auto simp: assms(4) intro!: map_cong filter_cong split: if_splits)
  then show ?thesis
    by (simp add: expected_changes_def map_filter_split filter_map comp_def)
qed

lemma expected_changes_same:
  assumes "bt_wf (inv_confirmed iv)" "bt_wf (inv_confirmed iv')" "bt_wf current"
    and "\<And>k. expected x iv' current k = expected x iv current k"
  shows "expected_changes x iv' current = expected_changes x iv current"
  using expected_changes_minus [OF assms(1-3), of x "{}"] assms(4) by simp

lemma expected_changes_distinct:
  assumes "bt_wf (inv_confirmed iv)" "bt_wf current"
  shows "distinct (map snd (expected_changes x iv current))"
proof -
  have "distinct (expected_keys iv current)"
    using assms by (auto simp: expected_keys_def bt.distinct_keys bt.keys_get)
  then show ?thesis
    by (simp add: expected_changes_def map_filter_split comp_def)
qed

lemma filter_not_taken:
  assumes "distinct (map snd ps)"
  shows "filter (\<lambda>p. snd p \<notin> snd ` set (take n ps)) ps = drop n ps"
proof -
  have "distinct (map snd (take n ps @ drop n ps))" using assms by simp
  then have disj: "snd ` set (take n ps) \<inter> snd ` set (drop n ps) = {}"
    unfolding map_append distinct_append set_map by blast
  have "filter (\<lambda>p. snd p \<notin> snd ` set (take n ps)) (take n ps @ drop n ps) = drop n ps"
    unfolding filter_append using disj by (auto simp: filter_empty_conv intro!: filter_True)
  then show ?thesis by simp
qed

lemma sent_keys:
  assumes "inventory_wf iv"
  shows "change_key ` set (sent x now listing iv) =
    snd ` set (take (room (drop_expired now iv)) (expected_changes x (drop_expired now iv) (current_of listing)))"
  by (simp add: sent_expected [OF assms, symmetric] image_image)

text \<open>The ids of a poll's events depend only on the store, the location, the key, the operation and the
  digest the change leads to.\<close>

lemma poll_ids_expected:
  assumes "inventory_wf iv" "inv_baseline iv \<noteq> Silent"
  shows "map we_event_id (fst (poll x now stamp listing iv)) =
    map (\<lambda>(op, k). Some (event_id_of x (inv_options iv) op k (target x (current_of listing) k)))
      (take (room (drop_expired now iv)) (expected_changes x (drop_expired now iv) (current_of listing)))"
proof -
  have "map we_event_id (fst (poll x now stamp listing iv)) =
      map (\<lambda>(op, k). Some (event_id_of x (inv_options iv) op k (target x (current_of listing) k)))
        (map (\<lambda>c. (fst c, change_key c)) (sent x now listing iv))"
    using sent_target [OF assms(1), of x now listing] by (simp add: poll_ids [OF assms])
  then show ?thesis by (simp add: sent_expected [OF assms(1)])
qed

section \<open>Rounds of a poll and its acknowledgements\<close>

definition ack_round :: "externs \<Rightarrow> object_entry list \<Rightarrow> instant \<times> (nat \<Rightarrow> instant) \<Rightarrow> inventory \<Rightarrow> inventory" where
  "ack_round x listing t iv =
     (let (evs, iv') = poll x (fst t) (snd t) listing iv in acknowledge_events evs iv')"

text \<open>Between two rounds nothing is in flight.\<close>

definition at_rest :: "inventory \<Rightarrow> bool" where
  "at_rest iv = (inventory_wf iv \<and> inv_baseline iv \<noteq> Silent \<and> inv_pending iv = [])"

lemma at_rest_drop: "at_rest iv \<Longrightarrow> drop_expired now iv = iv"
  by (simp add: at_rest_def drop_expired_def)

lemma at_rest_no_pending: "at_rest iv \<Longrightarrow> pending_digest iv k = None"
  by (simp add: at_rest_def pending_digest_def)

lemma acknowledge_events_wf: "inventory_wf iv \<Longrightarrow> inventory_wf (acknowledge_events evs iv)"
  unfolding acknowledge_events_def
  by (induction evs arbitrary: iv) (auto simp: acknowledged_wf split: option.splits)

lemma poll_pending:
  assumes "inventory_wf iv" "inv_baseline iv \<noteq> Silent"
  shows "inv_pending (snd (poll x now stamp listing iv)) =
      inv_pending (drop_expired now iv) @ pending_of stamp 0 (inv_next_seq iv) (sent x now listing iv)"
    and "inv_options (snd (poll x now stamp listing iv)) = inv_options iv"
    and "inv_quiet_removals (snd (poll x now stamp listing iv)) = inv_quiet_removals iv"
    and "inv_gap (snd (poll x now stamp listing iv)) = False"
  by (rule poll_state [OF assms, of x now stamp listing], simp)+

lemma ack_round_rest:
  fixes x :: externs and listing :: "object_entry list" and t :: "instant \<times> (nat \<Rightarrow> instant)"
  assumes rest: "at_rest iv"
  defines "iv' \<equiv> ack_round x listing t iv" and "K \<equiv> change_key ` set (sent x (fst t) listing iv)"
    and "current \<equiv> current_of listing"
  shows "at_rest iv'" and "inv_options iv' = inv_options iv" and "inv_quiet_removals iv' = inv_quiet_removals iv"
    and "bt_get (inv_confirmed iv') k =
      (if k \<in> K \<or> inv_quiet_removals iv \<and> target x current k = None then target x current k
       else bt_get (inv_confirmed iv) k)"
proof -
  obtain now stamp where t: "t = (now, stamp)" by (cases t)
  have wf: "inventory_wf iv" "inv_baseline iv \<noteq> Silent" using rest by (simp_all add: at_rest_def)
  let ?p = "snd (poll x now stamp listing iv)"
  have p: "inventory_wf ?p" using wf(1) by (rule poll_wf)
  have pend: "inv_pending ?p = pending_of stamp 0 (inv_next_seq iv) (sent x now listing iv)"
    using rest by (simp add: poll_pending [OF wf] at_rest_drop) (simp add: at_rest_def)
  have "map event_seq (fst (poll x now stamp listing iv)) = map Some (map p_seq (inv_pending ?p))"
    by (simp add: pend pending_of_seqs poll_seqs [OF wf])
  moreover have iv': "iv' = acknowledge_events (fst (poll x now stamp listing iv)) ?p"
    by (simp add: iv'_def ack_round_def t split_beta)
  ultimately have all: "inv_pending iv' = []" "inv_options iv' = inv_options ?p" "inv_baseline iv' = Known"
    "inv_quiet_removals iv' = inv_quiet_removals ?p"
    "\<And>k. bt_get (inv_confirmed iv') k =
       (case pending_digest ?p k of None \<Rightarrow> bt_get (inv_confirmed ?p) k | Some d \<Rightarrow> d)"
    using acknowledge_all [of ?p "fst (poll x now stamp listing iv)"] p
    by (auto simp: inventory_wf_def)
  show "inv_options iv' = inv_options iv" "inv_quiet_removals iv' = inv_quiet_removals iv"
    using all by (simp_all add: poll_pending [OF wf])
  show "at_rest iv'"
    using all p by (simp add: at_rest_def iv' acknowledge_events_wf)
  show "bt_get (inv_confirmed iv') k =
      (if k \<in> K \<or> inv_quiet_removals iv \<and> target x current k = None then target x current k
       else bt_get (inv_confirmed iv) k)"
    using all(5) [of k] at_rest_no_pending [OF rest] poll_confirmed [OF wf, of x now stamp listing k]
    by (auto simp: poll_pending_digest [OF wf] at_rest_drop [OF rest] K_def current_def t target_def)
qed

lemma ack_round_expected:
  assumes "at_rest iv"
  shows "expected_changes x (ack_round x listing t iv) (current_of listing) =
    drop (o_max_in_flight (inv_options iv)) (expected_changes x iv (current_of listing))"
proof -
  let ?iv' = "ack_round x listing t iv" and ?c = "current_of listing"
  let ?K = "change_key ` set (sent x (fst t) listing iv)"
  note round = ack_round_rest [OF assms, of x listing t]
  have wf: "inventory_wf iv" "bt_wf (inv_confirmed iv)" "bt_wf (inv_confirmed ?iv')"
    using assms round(1) by (simp_all add: at_rest_def inventory_wf_def)
  have room: "room iv = o_max_in_flight (inv_options iv)"
    using assms by (simp add: room_def in_flight_def at_rest_def)
  have "expected x ?iv' ?c k = (if k \<in> ?K then None else expected x iv ?c k)" for k
    by (auto simp: expected_def Let_def round(3,4) at_rest_no_pending [OF assms] at_rest_no_pending [OF round(1)])
  then have "expected_changes x ?iv' ?c = filter (\<lambda>p. snd p \<notin> ?K) (expected_changes x iv ?c)"
    by (rule expected_changes_minus [OF wf(2,3) current_of_wf])
  also have "\<dots> = drop (room iv) (expected_changes x iv ?c)"
    unfolding sent_keys [OF wf(1)] at_rest_drop [OF assms]
    by (rule filter_not_taken [OF expected_changes_distinct [OF wf(2) current_of_wf]])
  finally show ?thesis by (simp add: room)
qed

definition ack_rounds :: "externs \<Rightarrow> object_entry list \<Rightarrow> (instant \<times> (nat \<Rightarrow> instant)) list \<Rightarrow> inventory \<Rightarrow> inventory" where
  "ack_rounds x listing ts iv = foldl (\<lambda>iv t. ack_round x listing t iv) iv ts"

lemma ack_rounds_expected:
  assumes "at_rest iv"
  shows "at_rest (ack_rounds x listing ts iv) \<and> inv_options (ack_rounds x listing ts iv) = inv_options iv \<and>
    expected_changes x (ack_rounds x listing ts iv) (current_of listing) =
      drop (length ts * o_max_in_flight (inv_options iv)) (expected_changes x iv (current_of listing))"
  using assms
proof (induction ts arbitrary: iv)
  case Nil
  then show ?case by (simp add: ack_rounds_def)
next
  case (Cons t ts)
  have "ack_rounds x listing (t # ts) iv = ack_rounds x listing ts (ack_round x listing t iv)"
    by (simp add: ack_rounds_def)
  then show ?case
    using Cons.IH [OF ack_round_rest(1) [OF Cons.prems, of x listing t]]
    by (simp add: ack_round_rest(2) [OF Cons.prems] ack_round_expected [OF Cons.prems] add.commute)
qed

section \<open>A small store, for the witnesses\<close>

definition demo_externs :: externs where
  "demo_externs = \<lparr>x_blake3 = (\<lambda>s. rev s), x_occurred_at = (\<lambda>_. None), x_json_len = (\<lambda>m. Some 0),
     x_serde_error = (\<lambda>_. ''bad'')\<rparr>"

definition demo_options :: inventory_options where
  "demo_options = \<lparr>o_store = ''s3'', o_location = ''b'', o_interval = 1, o_start = Existing,
     o_snapshot_bytes = 100, o_max_in_flight = 2, o_ack_timeout = 50\<rparr>"

definition demo_entry :: "string \<Rightarrow> string \<Rightarrow> object_entry" where
  "demo_entry k tag = \<lparr>oe_key = k, oe_size = Some 7, oe_modified_at_ms = None, oe_etag = Some tag, oe_version = None\<rparr>"

definition demo_listing :: "object_entry list" where
  "demo_listing = [demo_entry ''b'' ''1'', demo_entry ''a'' ''2'']"

definition demo_inventory :: inventory where
  "demo_inventory = \<lparr>inv_options = demo_options, inv_confirmed = [(''a'', ''old''), (''z'', ''gone'')],
     inv_seen = [(''z'', demo_entry ''z'' ''9'')], inv_pending = [], inv_next_seq = 4, inv_baseline = Known,
     inv_gap = False, inv_warned = False, inv_describe = None, inv_quiet_removals = False\<rparr>"

lemma demo_at_rest: "at_rest demo_inventory"
  by code_simp

lemma demo_wf: "inventory_wf demo_inventory" "inv_baseline demo_inventory \<noteq> Silent"
  using demo_at_rest by (simp_all add: at_rest_def)

lemma demo_frame: "inv_pending demo_inventory = []" "o_ack_timeout (inv_options demo_inventory) = 50"
  by (simp_all add: demo_inventory_def demo_options_def)

lemma demo_age: "elapsed 9 at < o_ack_timeout (inv_options demo_inventory)"
  by (simp add: elapsed_def demo_inventory_def demo_options_def less_imp_diff_less)

section \<open>Properties\<close>

text \<open>C18. In every state an inventory watch can reach, from a fresh start or from any stored position,
  by any sequence of polls of arbitrary listings and acknowledgements of arbitrary JSON values,
  the engine is well formed: its maps are in key order, the remembered details belong to their
  keys, the changes in flight have distinct ascending sequence numbers that were handed out, and
  there are never more of them than \<^verbatim>\<open>max_in_flight\<close>.\<close>

theorem inventory_invariant:
  "reach (fresh_inventory x) (inventory_step x) iv \<Longrightarrow> inventory_wf iv"
  by (rule engine.reach_inv)

theorem inventory_invariant_witness:
  "\<exists>iv0. new_inventory demo_externs demo_options None = Ok iv0 \<and>
     inventory_wf (snd (poll demo_externs 5 (\<lambda>i. i) demo_listing iv0))"
proof -
  obtain iv0 where iv0: "new_inventory demo_externs demo_options None = Ok iv0"
    by (simp add: new_inventory_def Let_def)
  then have "reach (fresh_inventory demo_externs) (inventory_step demo_externs) iv0"
    by (intro reach_init) (auto simp: fresh_inventory_def)
  then have "reach (fresh_inventory demo_externs) (inventory_step demo_externs)
      (snd (poll demo_externs 5 (\<lambda>i. i) demo_listing iv0))"
    by (rule reach_step) (rule poll_step)
  with iv0 inventory_invariant show ?thesis by blast
qed

text \<open>C11. Once it has a baseline, the engine reports exactly the difference between a listing and what
  the host has confirmed or has in flight: the operation and the key of its events, in order, are
  those of the expected changes, cut to the room left in the window.\<close>

theorem poll_reports:
  assumes "inventory_wf iv" "inv_baseline iv \<noteq> Silent"
  shows "map reported (fst (poll x now stamp listing iv)) =
    take (room (drop_expired now iv))
      (map (\<lambda>(op, k). (Some (op_value op), Some k))
        (expected_changes x (drop_expired now iv) (current_of listing)))"
  using assms by (rule poll_reported_changes)

theorem poll_reports_witness:
  "map reported (fst (poll demo_externs 5 (\<lambda>i. i) demo_listing demo_inventory)) =
     [(Some ''modified'', Some ''a''), (Some ''created'', Some ''b'')]"
proof -
  have "take (room (drop_expired 5 demo_inventory)) (map (\<lambda>(op, k). (Some (op_value op), Some k))
        (expected_changes demo_externs (drop_expired 5 demo_inventory) (current_of demo_listing))) =
     [(Some ''modified'', Some ''a''), (Some ''created'', Some ''b'')]"
    by code_simp
  then show ?thesis by (simp add: poll_reports [OF demo_wf])
qed

text \<open>C4. No change is lost: after a poll whose changes fit the window, every key is settled, that is
  the host has confirmed what the listing shows of it (nothing, for a missing object) or that is its
  latest change in flight.\<close>

theorem poll_loses_nothing:
  assumes "inventory_wf iv" "inv_baseline iv \<noteq> Silent" "fits x now listing iv"
  shows "settled x (current_of listing) (snd (poll x now stamp listing iv)) k"
  using assms by (rule poll_settles)

theorem poll_loses_nothing_witness:
  "settled demo_externs (current_of [demo_entry ''a'' ''2''])
     (snd (poll demo_externs 5 (\<lambda>i. i) [demo_entry ''a'' ''2''] demo_inventory)) ''z''"
proof (rule poll_loses_nothing [OF demo_wf])
  show "fits demo_externs 5 [demo_entry ''a'' ''2''] demo_inventory" by code_simp
qed

text \<open>A change in flight is not reported twice: when a listing is polled again before any
  acknowledgement and before any of its changes times out, nothing is emitted.\<close>

theorem poll_again_silent:
  assumes "inventory_wf iv" "inv_baseline iv \<noteq> Silent" "fits x now listing iv"
    and "\<forall>p\<in>set (inv_pending (snd (poll x now stamp listing iv))). elapsed now' (p_at p) < o_ack_timeout (inv_options iv)"
  shows "fst (poll x now' stamp' listing (snd (poll x now stamp listing iv))) = []"
proof (rule settled_silent)
  have "drop_expired now' (snd (poll x now stamp listing iv)) = snd (poll x now stamp listing iv)"
    using assms(4) by (simp add: drop_expired_def poll_pending(2) [OF assms(1,2)])
  then show "settled x (current_of listing) (drop_expired now' (snd (poll x now stamp listing iv))) k" for k
    by (simp add: poll_settles [OF assms(1-3)])
qed (simp_all add: assms(1) poll_wf)

theorem poll_again_silent_witness:
  "fst (poll demo_externs 9 (\<lambda>i. i) [demo_entry ''a'' ''2'']
     (snd (poll demo_externs 5 (\<lambda>i. i) [demo_entry ''a'' ''2''] demo_inventory))) = []"
proof (rule poll_again_silent [OF demo_wf])
  show "fits demo_externs 5 [demo_entry ''a'' ''2''] demo_inventory" by code_simp
  show "\<forall>p\<in>set (inv_pending (snd (poll demo_externs 5 (\<lambda>i. i) [demo_entry ''a'' ''2''] demo_inventory))).
      elapsed 9 (p_at p) < o_ack_timeout (inv_options demo_inventory)"
    by (auto simp: demo_age)
qed

text \<open>C13. The watch converges: from a state with nothing in flight, a store that stays as it is and a
  host that acknowledges every event are in agreement after as many rounds as it takes to send the
  changes through the window. The next poll is then silent, and the confirmed listing is exactly the
  digests of the store's listing.\<close>

theorem ack_rounds_converge:
  assumes "at_rest iv"
    and "length (expected_changes x iv (current_of listing)) \<le> length ts * o_max_in_flight (inv_options iv)"
  defines "iv' \<equiv> ack_rounds x listing ts iv"
  shows "fst (poll x now stamp listing iv') = [] \<and>
    inv_confirmed (snd (poll x now stamp listing iv')) = digests_of x (current_of listing)"
proof -
  have rest: "at_rest iv'" and none: "expected_changes x iv' (current_of listing) = []"
    using ack_rounds_expected [OF assms(1), of x listing ts] assms(2) by (simp_all add: iv'_def)
  then have wf: "inventory_wf iv'" "inv_baseline iv' \<noteq> Silent" by (simp_all add: at_rest_def)
  have "map reported (fst (poll x now stamp listing iv')) = []"
    using poll_reported_changes [OF wf, of x now stamp listing] by (simp add: at_rest_drop [OF rest] none)
  moreover have "inv_confirmed (snd (poll x now stamp listing iv')) = digests_of x (current_of listing)"
  proof (rule bt_ext)
    show "bt_wf (inv_confirmed (snd (poll x now stamp listing iv')))"
      using poll_wf [OF wf(1)] by (simp add: inventory_wf_def)
    have settled: "expected x iv' (current_of listing) k = None" for k
      using none wf(1) expected_changes_iff [of iv' "current_of listing" _ k x]
      by (cases "expected x iv' (current_of listing) k") (auto simp: inventory_wf_def current_of_wf)
    show "bt_get (inv_confirmed (snd (poll x now stamp listing iv'))) k =
        bt_get (digests_of x (current_of listing)) k" for k
      using settled [of k] by (auto simp: poll_confirmed [OF wf] digests_of_get at_rest_drop [OF rest] at_rest_no_pending [OF rest]
          expected_None_iff target_def)
  qed (simp add: bt_wfs)
  ultimately show ?thesis by simp
qed

theorem ack_rounds_converge_witness:
  "inv_confirmed (snd (poll demo_externs 8 (\<lambda>i. i) demo_listing
     (ack_rounds demo_externs demo_listing [(6, \<lambda>i. 6), (7, \<lambda>i. 7)] demo_inventory))) =
   digests_of demo_externs (current_of demo_listing)"
proof -
  have "length (expected_changes demo_externs demo_inventory (current_of demo_listing)) = 3"
    by code_simp
  then show ?thesis
    using ack_rounds_converge [OF demo_at_rest, of demo_externs demo_listing "[(6, \<lambda>i. 6), (7, \<lambda>i. 7)]" 8 "\<lambda>i. i"]
    by (simp add: demo_inventory_def demo_options_def)
qed

text \<open>A change the host dropped comes back: when every change of a poll has timed out without an
  acknowledgement, polling the same listing emits events with the same ids in the same order.\<close>

theorem dropped_changes_return:
  assumes "at_rest iv"
    and "\<forall>p\<in>set (inv_pending (snd (poll x now stamp listing iv))). o_ack_timeout (inv_options iv) \<le> elapsed now' (p_at p)"
  shows "map we_event_id (fst (poll x now' stamp' listing (snd (poll x now stamp listing iv)))) =
    map we_event_id (fst (poll x now stamp listing iv))"
proof -
  let ?p = "snd (poll x now stamp listing iv)" and ?c = "current_of listing"
  have wf: "inventory_wf iv" "inv_baseline iv \<noteq> Silent" using assms(1) by (simp_all add: at_rest_def)
  have wfp: "inventory_wf ?p" "inv_baseline ?p \<noteq> Silent" by (simp_all add: wf(1) poll_wf)
  have none: "inv_pending (drop_expired now' ?p) = []"
    using assms(2) by (auto simp: drop_expired_def filter_empty_conv poll_pending(2) [OF wf] not_less)
  have "expected x (drop_expired now' ?p) ?c k = expected x iv ?c k" for k
    using none at_rest_no_pending [OF assms(1)]
    by (auto simp: expected_def Let_def poll_confirmed [OF wf] poll_pending [OF wf] at_rest_drop [OF assms(1)]
        target_def pending_digest_def [of "drop_expired now' ?p"])
  then have "expected_changes x (drop_expired now' ?p) ?c = expected_changes x iv ?c"
    using wf(1) wfp(1) by (intro expected_changes_same) (simp_all add: inventory_wf_def current_of_wf)
  moreover have "room (drop_expired now' ?p) = room iv"
    using none assms(1) by (simp add: room_def in_flight_def poll_pending [OF wf] at_rest_def)
  ultimately show ?thesis
    by (simp add: poll_ids_expected [OF wf] poll_ids_expected [OF wfp] at_rest_drop [OF assms(1)] poll_pending [OF wf])
qed

theorem dropped_changes_return_witness:
  "map we_event_id (fst (poll demo_externs 100 (\<lambda>i. 100) demo_listing
       (snd (poll demo_externs 5 (\<lambda>i. 5) demo_listing demo_inventory)))) =
   map we_event_id (fst (poll demo_externs 5 (\<lambda>i. 5) demo_listing demo_inventory))"
proof (rule dropped_changes_return [OF demo_at_rest])
  show "\<forall>p\<in>set (inv_pending (snd (poll demo_externs 5 (\<lambda>i. 5) demo_listing demo_inventory))).
      o_ack_timeout (inv_options demo_inventory) \<le> elapsed 100 (p_at p)"
    by (auto simp: poll_pending [OF demo_wf] at_rest_drop [OF demo_at_rest] elapsed_def demo_frame
        dest!: pending_of_at)
qed

section \<open>Restarts\<close>

lemma snapshot_confirmed:
  assumes "fst (snapshot x k d iv) = Some m"
  shows "m = (case d of Some d' \<Rightarrow> bt_insert k d' (inv_confirmed iv) | None \<Rightarrow> bt_remove k (inv_confirmed iv))"
  using assms by (auto simp: snapshot_def Let_def split: if_splits)

lemma new_inventory_cursor:
  assumes "\<And>m. cur_snap c = Some m \<Longrightarrow> bt_wf m"
  shows "new_inventory x opts (Some (cursor_to_value c)) =
    (case cur_snap c of
       Some m \<Rightarrow> Ok \<lparr>inv_options = opts, inv_confirmed = m, inv_seen = [], inv_pending = [], inv_next_seq = 0,
         inv_baseline = Known, inv_gap = False, inv_warned = False, inv_describe = None, inv_quiet_removals = False\<rparr>
     | None \<Rightarrow> Ok \<lparr>inv_options = opts, inv_confirmed = [], inv_seen = [], inv_pending = [], inv_next_seq = 0,
         inv_baseline = Silent, inv_gap = True, inv_warned = False, inv_describe = None, inv_quiet_removals = False\<rparr>)"
  by (simp add: new_inventory_def cursor_roundtrip [OF assms] Let_def split: option.split)

text \<open>The position of the last event of a poll: the confirmed listing with that change, when it fits.\<close>

lemma poll_last_cursor:
  assumes "at_rest iv" "\<not> inv_quiet_removals iv" "sent x now listing iv \<noteq> []"
  obtains c where "we_upstream_cursor (last (fst (poll x now stamp listing iv))) = Some (cursor_to_value c)"
    and "cur_seq c = inv_next_seq iv + length (sent x now listing iv) - 1"
    and "\<And>m k. cur_snap c = Some m \<Longrightarrow> bt_wf m \<and> bt_get m k =
      (if k = change_key (last (sent x now listing iv)) then target x (current_of listing) k
       else bt_get (inv_confirmed iv) k)"
    and "(\<And>m. \<exists>n. x_json_len x m = Some n \<and> n \<le> o_snapshot_bytes (inv_options iv)) \<Longrightarrow> cur_snap c \<noteq> None"
proof -
  have wf: "inventory_wf iv" "inv_baseline iv \<noteq> Silent" using assms(1) by (simp_all add: at_rest_def)
  let ?s = "sent x now listing iv" and ?iv4 = "snd (find_changes x (poll_base now iv) (current_of listing))"
  define i where "i = length ?s - 1"
  have i: "i < length ?s" "i + 1 = length ?s" using assms(3) by (cases "?s"; simp add: i_def)+
  obtain op e d where c: "?s ! i = (op, e, d)" by (cases "?s ! i") auto
  have last: "last ?s = (op, e, d)" using c i assms(3) by (simp add: last_conv_nth i_def)
  have evs: "last (fst (poll x now stamp listing iv)) = fst (poll x now stamp listing iv) ! i"
    using i poll_nth(1) [OF wf, of x now stamp listing] by (subst last_conv_nth) (auto simp: i_def)
  have d: "d = target x (current_of listing) (oe_key e)"
    using sent_target [OF wf(1), of x now listing] last_in_set [OF assms(3)] last by (auto simp: change_key_def)
  have conf: "bt_get (inv_confirmed ?iv4) k = bt_get (inv_confirmed iv) k" "bt_wf (inv_confirmed ?iv4)" for k
    using wf(1) assms(2) find_changes_wf(1) [OF poll_base_wf [OF wf(1)] refl, of x now listing]
    by (simp_all add: find_changes_confirmed inventory_wf_def)
  show ?thesis
  proof (rule that [of "\<lparr>cur_v = CURSOR_VERSION, cur_seq = inv_next_seq iv + i, cur_snap = fst (snapshot x (oe_key e) d ?iv4)\<rparr>"])
    show "we_upstream_cursor (last (fst (poll x now stamp listing iv))) = Some (cursor_to_value
        \<lparr>cur_v = CURSOR_VERSION, cur_seq = inv_next_seq iv + i, cur_snap = fst (snapshot x (oe_key e) d ?iv4)\<rparr>)"
      using poll_nth(2) [OF wf i(1) c, of stamp] i(2) by (auto simp: evs)
  next
    fix m k
    assume "cur_snap \<lparr>cur_v = CURSOR_VERSION, cur_seq = inv_next_seq iv + i, cur_snap = fst (snapshot x (oe_key e) d ?iv4)\<rparr> = Some m"
    then have "m = (case d of Some d' \<Rightarrow> bt_insert (oe_key e) d' (inv_confirmed ?iv4) | None \<Rightarrow> bt_remove (oe_key e) (inv_confirmed ?iv4))"
      by (simp add: snapshot_confirmed)
    then show "bt_wf m \<and> bt_get m k = (if k = change_key (last ?s) then target x (current_of listing) k
        else bt_get (inv_confirmed iv) k)"
      using conf by (auto simp: last change_key_def d bt_simps bt_wfs split: option.splits)
  next
    assume "\<And>m. \<exists>n. x_json_len x m = Some n \<and> n \<le> o_snapshot_bytes (inv_options iv)"
    then show "cur_snap \<lparr>cur_v = CURSOR_VERSION, cur_seq = inv_next_seq iv + i, cur_snap = fst (snapshot x (oe_key e) d ?iv4)\<rparr> \<noteq> None"
      by (auto simp: snapshot_def Let_def split: option.splits) (metis option.inject option.distinct(1))+
  qed (use i in simp)
qed

lemma filter_not_last:
  assumes "distinct (map snd ps)" "ps \<noteq> []"
  shows "filter (\<lambda>p. snd p \<notin> {snd (last ps)}) ps = butlast ps"
proof -
  obtain qs q where ps: "ps = qs @ [q]" using assms(2) by (cases ps rule: rev_exhaust) auto
  then have "snd q \<notin> snd ` set qs" using assms(1) by simp
  then have "\<forall>p\<in>set qs. snd p \<noteq> snd q" by (metis image_eqI)
  then show ?thesis by (simp add: ps filter_id_conv)
qed

text \<open>The engine a restart makes of that position.\<close>

lemma restart_from_last:
  assumes "at_rest iv" "\<not> inv_quiet_removals iv" "sent x now listing iv \<noteq> []"
    and "we_upstream_cursor (last (fst (poll x now stamp listing iv))) = Some position"
    and "cursor_of_value position = Some c" "cur_snap c \<noteq> None"
  obtains iv' where "new_inventory x (inv_options iv) (Some position) = Ok iv'" "at_rest iv'"
    "inv_options iv' = inv_options iv" "\<not> inv_gap iv'" "\<not> inv_quiet_removals iv'"
    "\<And>k. bt_get (inv_confirmed iv') k =
      (if k = change_key (last (sent x now listing iv)) then target x (current_of listing) k
       else bt_get (inv_confirmed iv) k)"
proof -
  obtain c' where cur: "we_upstream_cursor (last (fst (poll x now stamp listing iv))) = Some (cursor_to_value c')"
    and snap: "\<And>m k. cur_snap c' = Some m \<Longrightarrow> bt_wf m \<and> bt_get m k =
      (if k = change_key (last (sent x now listing iv)) then target x (current_of listing) k
       else bt_get (inv_confirmed iv) k)"
    by (rule poll_last_cursor [OF assms(1-3)]) (rule that)
  have pos: "position = cursor_to_value c'" using cur assms(4) by simp
  then have "c = c'" using assms(5) snap cursor_roundtrip [of c'] by auto
  then obtain m where m: "cur_snap c' = Some m" using assms(6) by auto
  define iv' where "iv' = \<lparr>inv_options = inv_options iv, inv_confirmed = m, inv_seen = [], inv_pending = [], inv_next_seq = 0,
    inv_baseline = Known, inv_gap = False, inv_warned = False, inv_describe = None, inv_quiet_removals = False\<rparr>"
  have new: "new_inventory x (inv_options iv) (Some position) = Ok iv'"
    using snap new_inventory_cursor [of c' x "inv_options iv"] by (simp add: pos m iv'_def)
  show ?thesis
    by (rule that [OF new])
      (use new_inventory_wf [OF new] snap [OF m] in \<open>simp_all add: at_rest_def iv'_def\<close>)
qed



text \<open>A restart from a position without a snapshot cannot be exact, and says so once: its first poll emits
  the single gap event and takes the listing as its baseline, and polling that listing again is silent.\<close>

theorem restart_without_snapshot:
  assumes "cursor_of_value position = Some c" "cur_snap c = None"
  shows "\<exists>iv. new_inventory x opts (Some position) = Ok iv \<and>
    fst (poll x now stamp listing iv) = [gap_event] \<and>
    inv_confirmed (snd (poll x now stamp listing iv)) = digests_of x (current_of listing) \<and>
    fst (poll x now' stamp' listing (snd (poll x now stamp listing iv))) = []"
proof -
  obtain iv where new: "new_inventory x opts (Some position) = Ok iv"
    and iv: "inv_baseline iv = Silent" "inv_gap iv" "inv_pending iv = []"
    using assms by (simp add: new_inventory_def Let_def)
  let ?p = "snd (poll x now stamp listing iv)"
  have p: "inv_confirmed ?p = digests_of x (current_of listing)" "inv_pending ?p = []" "fst (poll x now stamp listing iv) = [gap_event]"
    using iv by (simp_all add: poll_def Let_def drop_expired_def)
  have "settled x (current_of listing) (drop_expired now' ?p) k" for k
    by (simp add: settled_def p(1) digests_of_get)
  then have "fst (poll x now' stamp' listing ?p) = []"
    by (intro settled_silent) (simp_all add: poll_wf new_inventory_wf [OF new])
  with new p show ?thesis by blast
qed

theorem restart_without_snapshot_witness:
  "\<exists>iv. new_inventory demo_externs demo_options (Some (JArr [JNum (PosInt 1), JNum (PosInt 3)])) = Ok iv \<and>
    fst (poll demo_externs 5 (\<lambda>i. 5) demo_listing iv) = [gap_event]"
proof -
  have "cursor_of_value (JArr [JNum (PosInt 1), JNum (PosInt 3)]) = Some \<lparr>cur_v = 1, cur_seq = 3, cur_snap = None\<rparr>"
    by (simp add: cursor_fields_def)
  from restart_without_snapshot [OF this, of demo_externs demo_options 5 "\<lambda>i. 5" demo_listing 5 "\<lambda>i. 5"]
  show ?thesis by auto
qed

section \<open>What the digests see\<close>

lemma framed_inject:
  assumes "length p < 2 ^ 64" "length q < 2 ^ 64" "framed p @ xs = framed q @ ys"
  shows "p = q \<and> xs = ys"
proof -
  have "be_bytes64 (length p) = be_bytes64 (length q)" and rest: "p @ xs = q @ ys"
    using assms(3) append_eq_append_conv [of "be_bytes64 (length p)" "be_bytes64 (length q)" "p @ xs" "q @ ys"]
    by (simp_all add: framed_def)
  then have "length p = length q" using assms(1,2) by (simp add: be_bytes64_inject)
  with rest show ?thesis by simp
qed

lemma framed_parts_inject:
  assumes "\<forall>p\<in>set ps. length p < 2 ^ 64" "\<forall>p\<in>set qs. length p < 2 ^ 64" "length ps = length qs"
    and "concat (map framed ps) = concat (map framed qs)"
  shows "ps = qs"
  using assms
proof (induction ps arbitrary: qs)
  case (Cons p ps)
  then obtain q qs' where "qs = q # qs'" by (cases qs) auto
  with Cons have "p = q \<and> concat (map framed ps) = concat (map framed qs')"
    by (intro framed_inject) auto
  with Cons \<open>qs = q # qs'\<close> show ?case by simp
qed simp

lemma unwrap_or_default_inject:
  "unwrap_or_default a = unwrap_or_default b \<longleftrightarrow> a = b \<or> (a = None \<and> b = Some []) \<or> (a = Some [] \<and> b = None)"
  by (auto simp: unwrap_or_default_def split: option.splits)

text \<open>What a digest hashes tells two listings of an object apart whenever the store reports a different
  size, time, etag or version, except that an empty etag or version counts as none: the framing of
  the parts leaves no other way for two objects to hash the same bytes.\<close>

theorem digest_preimage_inject:
  assumes "\<forall>p\<in>set (digest_parts e). length p < 2 ^ 64" "\<forall>p\<in>set (digest_parts f). length p < 2 ^ 64"
  shows "concat (map framed (digest_parts e)) = concat (map framed (digest_parts f)) \<longleftrightarrow>
    oe_size e = oe_size f \<and> oe_modified_at_ms e = oe_modified_at_ms f \<and>
    unwrap_or_default (oe_etag e) = unwrap_or_default (oe_etag f) \<and>
    unwrap_or_default (oe_version e) = unwrap_or_default (oe_version f)"
proof -
  have "concat (map framed (digest_parts e)) = concat (map framed (digest_parts f)) \<longleftrightarrow> digest_parts e = digest_parts f"
    using framed_parts_inject [OF assms] by (auto simp: digest_parts_def)
  moreover have "[] \<noteq> dec_nat n" for n by (metis dec_nat_not_Nil)
  then have "unwrap_or_default (map_option dec_nat a) = unwrap_or_default (map_option dec_nat b) \<longleftrightarrow> a = b" for a b
    by (cases a; cases b) (auto simp: unwrap_or_default_def dec_nat_inject)
  moreover have "[] \<noteq> dec_int i" "dec_int i \<noteq> []" for i by (metis dec_int_def dec_nat_not_Nil list.discI)+
  then have "unwrap_or_default (map_option dec_int a) = unwrap_or_default (map_option dec_int b) \<longleftrightarrow> a = b" for a b
    by (cases a; cases b) (auto simp: unwrap_or_default_def dec_int_inject)
  ultimately show ?thesis by (auto simp: digest_parts_def)
qed

theorem digest_preimage_inject_witness:
  "concat (map framed (digest_parts (demo_entry ''a'' ''1''))) \<noteq> concat (map framed (digest_parts (demo_entry ''a'' ''2'')))"
proof -
  have len: "\<forall>p\<in>set (digest_parts (demo_entry ''a'' t)). length p < 2 ^ 64" if "length t = 1" for t
    using that by (auto simp: digest_parts_def demo_entry_def unwrap_or_default_def dec_nat.simps)
  have "unwrap_or_default (oe_etag (demo_entry ''a'' ''1'')) \<noteq> unwrap_or_default (oe_etag (demo_entry ''a'' ''2''))"
    by (simp add: demo_entry_def unwrap_or_default_def)
  then show ?thesis
    using digest_preimage_inject [OF len len, of "''1''" "''2''"] by simp
qed

end
