(* ===== verification/Inventory_Walk.thy ===== *)
theory Inventory_Walk
  imports Inventory_Engine
begin

text \<open>
  The directory walk that makes a listing of a remote tree, \<^verbatim>\<open>walk\<close> of \<^verbatim>\<open>src/src/inventory.rs\<close>:
  breadth first, in name order, bounded by \<^verbatim>\<open>max_dirs\<close> and \<^verbatim>\<open>max_files\<close>.

  \<^verbatim>\<open>list_dir\<close> is the plugin's \<^verbatim>\<open>FnMut\<close>: a function from its own state and a directory to a result and
  its next state. The \<^verbatim>\<open>glob\<close> crate's matcher is the argument \<open>matches_with\<close>, a function of the
  pattern, \<^verbatim>\<open>require_literal_separator\<close> and the key.
\<close>

section \<open>Definitions\<close>

record dir_item =
  di_name :: string
  di_is_dir :: bool
  di_size :: "nat option"
  di_modified_at_ms :: "int option"

record 'p walk_options =
  wo_recursive :: bool
  wo_pattern :: "'p option"
  wo_max_files :: nat
  wo_max_dirs :: nat

definition matches_key :: "('p \<Rightarrow> bool \<Rightarrow> string \<Rightarrow> bool) \<Rightarrow> 'p \<Rightarrow> string \<Rightarrow> bool" where
  "matches_key matches_with pattern key = matches_with pattern True key"

definition item_key :: "string \<Rightarrow> dir_item \<Rightarrow> string" where
  "item_key dir item = (if dir = [] then di_name item else dir @ ''/'' @ di_name item)"

definition skipped_name :: "string \<Rightarrow> bool" where
  "skipped_name n = (n = [] \<or> n = ''.'' \<or> n = ''..'')"

definition item_entry :: "string \<Rightarrow> dir_item \<Rightarrow> object_entry" where
  "item_entry key item = \<lparr>oe_key = key, oe_size = di_size item, oe_modified_at_ms = di_modified_at_ms item,
     oe_etag = None, oe_version = None\<rparr>"

definition pattern_skips :: "('p \<Rightarrow> bool \<Rightarrow> string \<Rightarrow> bool) \<Rightarrow> 'p walk_options \<Rightarrow> string \<Rightarrow> bool" where
  "pattern_skips matches_with opts key =
     (case wo_pattern opts of None \<Rightarrow> False | Some p \<Rightarrow> \<not> matches_key matches_with p key)"

fun take_items :: "('p \<Rightarrow> bool \<Rightarrow> string \<Rightarrow> bool) \<Rightarrow> 'p walk_options \<Rightarrow> string \<Rightarrow> dir_item list \<Rightarrow>
    string list \<Rightarrow> object_entry list \<Rightarrow> string list \<times> object_entry list" where
  "take_items mw opts dir [] dirs entries = (dirs, entries)"
| "take_items mw opts dir (item # items) dirs entries =
     (if skipped_name (di_name item) then take_items mw opts dir items dirs entries
      else let key = item_key dir item in
        if di_is_dir item
        then take_items mw opts dir items (if wo_recursive opts then dirs @ [key] else dirs) entries
        else if pattern_skips mw opts key then take_items mw opts dir items dirs entries
        else take_items mw opts dir items dirs (entries @ [item_entry key item]))"

text \<open>
  The loop over the queue. It counts the directories it lists from 0, one at a time, so the source's
  test \<^verbatim>\<open>listed == max_dirs\<close> is the same as \<open>max_dirs \<le> listed\<close>.
\<close>

function walk_loop :: "('p \<Rightarrow> bool \<Rightarrow> string \<Rightarrow> bool) \<Rightarrow> 'p walk_options \<Rightarrow>
    ('s \<Rightarrow> string \<Rightarrow> (string, dir_item list) result \<times> 's) \<Rightarrow> nat \<Rightarrow> string list \<Rightarrow> object_entry list \<Rightarrow> 's \<Rightarrow>
    (string, object_entry list) result \<times> 's" where
  "walk_loop mw opts list_dir listed [] entries s = (Ok entries, s)"
| "walk_loop mw opts list_dir listed (dir # dirs) entries s =
     (if wo_max_dirs opts \<le> listed then (Ok entries, s)
      else (case list_dir s dir of
              (Inl e, s') \<Rightarrow> (Err e, s')
            | (Inr items, s') \<Rightarrow>
                (let (dirs', entries') = take_items mw opts dir (sort_key di_name items) dirs entries
                 in walk_loop mw opts list_dir (listed + 1) dirs' entries' s')))"
  by pat_completeness auto
termination
  by (relation "measure (\<lambda>(mw, opts, list_dir, listed, dirs, entries, s). wo_max_dirs opts - listed)") auto

fun dedup_by_key :: "object_entry list \<Rightarrow> object_entry list" where
  "dedup_by_key [] = []"
| "dedup_by_key [e] = [e]"
| "dedup_by_key (e # f # es) =
     (if oe_key e = oe_key f then dedup_by_key (e # es) else e # dedup_by_key (f # es))"

definition walk :: "('p \<Rightarrow> bool \<Rightarrow> string \<Rightarrow> bool) \<Rightarrow> 'p walk_options \<Rightarrow>
    ('s \<Rightarrow> string \<Rightarrow> (string, dir_item list) result \<times> 's) \<Rightarrow> 's \<Rightarrow> (string, object_entry list) result \<times> 's" where
  "walk mw opts list_dir s =
     (case walk_loop mw opts list_dir 0 [[]] [] s of
        (Inl e, s') \<Rightarrow> (Err e, s')
      | (Inr entries, s') \<Rightarrow> (Ok (take (wo_max_files opts) (dedup_by_key (sort_key oe_key entries))), s'))"

section \<open>Order and bounds\<close>

lemma set_dedup_by_key: "oe_key ` set (dedup_by_key es) = oe_key ` set es"
  by (induction es rule: dedup_by_key.induct) auto

lemma set_dedup_by_key_sub: "set (dedup_by_key es) \<subseteq> set es"
  by (induction es rule: dedup_by_key.induct) auto

lemma dedup_by_key_sorted: "sorted (map oe_key es) \<Longrightarrow> sorted_wrt (<) (map oe_key (dedup_by_key es))"
proof (induction es rule: dedup_by_key.induct)
  case (3 e f es)
  show ?case
  proof (cases "oe_key e = oe_key f")
    case True
    with 3 show ?thesis by auto
  next
    case False
    then have "oe_key e < oe_key f" "\<forall>x\<in>set es. oe_key f \<le> oe_key x"
      using 3(3) by (simp_all add: order_less_le)
    then have "\<forall>k\<in>oe_key ` set (dedup_by_key (f # es)). oe_key e < k"
      unfolding set_dedup_by_key using order.strict_trans2 by fastforce
    with False 3 show ?thesis by simp
  qed
qed auto

lemma walk_result:
  "walk mw opts list_dir s = (Inr es, s') \<Longrightarrow>
     sorted_wrt (<) (map oe_key es) \<and> length es \<le> wo_max_files opts"
proof -
  assume "walk mw opts list_dir s = (Inr es, s')"
  then obtain entries where "es = take (wo_max_files opts) (dedup_by_key (sort_key oe_key entries))"
    by (auto simp: walk_def split: prod.splits sum.splits)
  then show ?thesis
    using dedup_by_key_sorted [of "sort_key oe_key entries"] by (simp add: take_map [symmetric] sorted_wrt_take)
qed

text \<open>A plugin whose listing depends only on the directory, with a count of its calls as its state.\<close>

definition counted :: "(string \<Rightarrow> (string, dir_item list) result) \<Rightarrow> nat \<Rightarrow> string \<Rightarrow> (string, dir_item list) result \<times> nat" where
  "counted f n dir = (f dir, Suc n)"

definition counting :: "('s \<Rightarrow> string \<Rightarrow> (string, dir_item list) result \<times> 's) \<Rightarrow> nat \<times> 's \<Rightarrow> string \<Rightarrow>
    (string, dir_item list) result \<times> (nat \<times> 's)" where
  "counting list_dir ns dir = (let (r, s') = list_dir (snd ns) dir in (r, (Suc (fst ns), s')))"

lemma walk_loop_calls:
  "listed \<le> wo_max_dirs opts \<Longrightarrow>
     fst (snd (walk_loop mw opts (counting list_dir) listed dirs entries (n, s))) + listed \<le> n + wo_max_dirs opts"
proof (induction mw opts "counting list_dir" listed dirs entries "(n, s)" arbitrary: n s rule: walk_loop.induct)
  case (2 mw opts listed dir dirs entries n s)
  show ?case
  proof (cases "wo_max_dirs opts \<le> listed")
    case True
    with 2 show ?thesis by simp
  next
    case False
    obtain r s' where r: "list_dir s dir = (r, s')" by fastforce
    show ?thesis
    proof (cases r)
      case (Inl e)
      with False r 2 show ?thesis by (simp add: counting_def)
    next
      case (Inr items)
      obtain dirs' entries' where t: "take_items mw opts dir (sort_key di_name items) dirs entries = (dirs', entries')"
        by fastforce
      have "fst (snd (walk_loop mw opts (counting list_dir) (listed + 1) dirs' entries' (Suc n, s'))) + (listed + 1) \<le> Suc n + wo_max_dirs opts"
        using False by (intro "2.hyps" [OF False _ Inr _ t [symmetric]]) (auto simp: counting_def r)
      with False r Inr t show ?thesis by (simp add: counting_def)
    qed
  qed
qed simp

section \<open>What is listed\<close>

text \<open>
  The directories and files of a tree \<open>f\<close>: the root is a directory, and the items of a directory
  that its listing names, other than \<open>.\<close> and \<open>..\<close>.
\<close>

inductive tree_dir :: "'p walk_options \<Rightarrow> (string \<Rightarrow> (string, dir_item list) result) \<Rightarrow> string \<Rightarrow> bool" for opts f where
  tree_root: "tree_dir opts f []"
| tree_sub: "tree_dir opts f dir \<Longrightarrow> f dir = Inr items \<Longrightarrow> item \<in> set items \<Longrightarrow> wo_recursive opts \<Longrightarrow>
    di_is_dir item \<Longrightarrow> \<not> skipped_name (di_name item) \<Longrightarrow> tree_dir opts f (item_key dir item)"

definition kept_file :: "('p \<Rightarrow> bool \<Rightarrow> string \<Rightarrow> bool) \<Rightarrow> 'p walk_options \<Rightarrow> string \<Rightarrow> dir_item \<Rightarrow> bool" where
  "kept_file mw opts dir item = (\<not> di_is_dir item \<and> \<not> skipped_name (di_name item) \<and>
     \<not> pattern_skips mw opts (item_key dir item))"

definition tree_file :: "('p \<Rightarrow> bool \<Rightarrow> string \<Rightarrow> bool) \<Rightarrow> 'p walk_options \<Rightarrow>
    (string \<Rightarrow> (string, dir_item list) result) \<Rightarrow> object_entry \<Rightarrow> bool" where
  "tree_file mw opts f e = (\<exists>dir items item. tree_dir opts f dir \<and> f dir = Inr items \<and> item \<in> set items \<and>
     kept_file mw opts dir item \<and> e = item_entry (item_key dir item) item)"

lemma take_items_sets:
  "take_items mw opts dir items dirs entries = (dirs', entries') \<Longrightarrow>
     set dirs' = set dirs \<union> item_key dir ` {i \<in> set items. wo_recursive opts \<and> di_is_dir i \<and> \<not> skipped_name (di_name i)} \<and>
     set entries' = set entries \<union> (\<lambda>i. item_entry (item_key dir i) i) ` {i \<in> set items. kept_file mw opts dir i}"
  by (induction mw opts dir items dirs entries rule: take_items.induct)
    (auto simp: kept_file_def Let_def split: if_splits)

definition listed_dirs :: "('p \<Rightarrow> bool \<Rightarrow> string \<Rightarrow> bool) \<Rightarrow> 'p walk_options \<Rightarrow>
    (string \<Rightarrow> (string, dir_item list) result) \<Rightarrow> string set \<Rightarrow> string set \<Rightarrow> object_entry set \<Rightarrow> bool" where
  "listed_dirs mw opts f V D E = (\<forall>d\<in>V. \<exists>items. f d = Inr items \<and>
     item_key d ` {i \<in> set items. wo_recursive opts \<and> di_is_dir i \<and> \<not> skipped_name (di_name i)} \<subseteq> V \<union> D \<and>
     (\<lambda>i. item_entry (item_key d i) i) ` {i \<in> set items. kept_file mw opts d i} \<subseteq> E)"

lemma walk_loop_step:
  assumes "walk_loop mw opts (counted f) listed (dir # dirs) entries n = (Inr es, n')" "listed < wo_max_dirs opts"
  obtains items dirs' entries' where "f dir = Inr items"
    "take_items mw opts dir (sort_key di_name items) dirs entries = (dirs', entries')"
    "walk_loop mw opts (counted f) (listed + 1) dirs' entries' (Suc n) = (Inr es, n')"
  using assms by (auto simp: counted_def split: sum.splits prod.splits)

lemma walk_loop_sound:
  "walk_loop mw opts (counted f) listed dirs entries n = (Inr es, n') \<Longrightarrow>
     \<forall>d\<in>set dirs. tree_dir opts f d \<Longrightarrow> \<forall>e\<in>set entries. tree_file mw opts f e \<Longrightarrow> \<forall>e\<in>set es. tree_file mw opts f e"
proof (induction "wo_max_dirs opts - listed" arbitrary: listed dirs entries n)
  case 0
  then show ?case by (cases dirs) auto
next
  case (Suc m)
  show ?case
  proof (cases dirs)
    case Nil
    with Suc show ?thesis by auto
  next
    case (Cons dir ds)
    with Suc.prems(1) Suc.hyps(2) obtain items dirs' entries' where step: "f dir = Inr items"
      "take_items mw opts dir (sort_key di_name items) ds entries = (dirs', entries')"
      "walk_loop mw opts (counted f) (listed + 1) dirs' entries' (Suc n) = (Inr es, n')"
      using walk_loop_step [of mw opts f listed dir ds entries n es n'] by (metis zero_less_Suc zero_less_diff)
    have dir: "tree_dir opts f dir" using Suc.prems(2) Cons by simp
    show ?thesis
    proof (rule Suc.hyps(1) [OF _ step(3)])
      show "\<forall>d\<in>set dirs'. tree_dir opts f d"
        using take_items_sets [OF step(2)] Suc.prems(2) Cons tree_sub [OF dir step(1)] by auto
      show "\<forall>e\<in>set entries'. tree_file mw opts f e"
        using take_items_sets [OF step(2)] Suc.prems(3) dir step(1) by (auto simp: tree_file_def)
    qed (use Suc.hyps(2) in simp)
  qed
qed

lemma walk_loop_complete:
  "walk_loop mw opts (counted f) listed dirs entries n = (Inr es, n') \<Longrightarrow> n' + listed < n + wo_max_dirs opts \<Longrightarrow>
     listed_dirs mw opts f V (set dirs) (set entries) \<Longrightarrow>
     \<exists>V'. V \<union> set dirs \<subseteq> V' \<and> listed_dirs mw opts f V' {} (set es)"
proof (induction "wo_max_dirs opts - listed" arbitrary: listed dirs entries n V)
  case 0
  then show ?case by (cases dirs) auto
next
  case (Suc m)
  show ?case
  proof (cases dirs)
    case Nil
    with Suc.prems show ?thesis by auto
  next
    case (Cons dir ds)
    with Suc.prems(1) Suc.hyps(2) obtain items dirs' entries' where step: "f dir = Inr items"
      "take_items mw opts dir (sort_key di_name items) ds entries = (dirs', entries')"
      "walk_loop mw opts (counted f) (listed + 1) dirs' entries' (Suc n) = (Inr es, n')"
      using walk_loop_step [of mw opts f listed dir ds entries n es n'] by (metis zero_less_Suc zero_less_diff)
    have "listed_dirs mw opts f (insert dir V) (set dirs') (set entries')"
      using Suc.prems(3) Cons step(1) take_items_sets [OF step(2)] unfolding listed_dirs_def by fastforce
    with Suc.hyps Suc.prems(2) step(3) obtain V' where
      "insert dir V \<union> set dirs' \<subseteq> V'" "listed_dirs mw opts f V' {} (set es)"
      by (metis Suc.hyps(1) [of "listed + 1" dirs' entries' "Suc n" "insert dir V"] add_Suc add_Suc_right diff_Suc_Suc
          Suc_eq_plus1 Suc_diff_Suc diff_Suc_1 zero_less_Suc zero_less_diff)
    moreover have "set ds \<subseteq> set dirs'" using take_items_sets [OF step(2)] by auto
    ultimately show ?thesis using Cons by (intro exI [of _ V']) auto
  qed
qed

lemma listed_dirs_tree:
  assumes "listed_dirs mw opts f V {} E" "[] \<in> V"
  shows "tree_dir opts f d \<Longrightarrow> d \<in> V"
proof (induction rule: tree_dir.induct)
  case (tree_sub dir items item)
  with assms(1) show ?case by (fastforce simp: listed_dirs_def)
qed (rule assms(2))

lemma listed_dirs_file:
  assumes "listed_dirs mw opts f V {} E" "[] \<in> V" "tree_file mw opts f e"
  shows "e \<in> E"
proof -
  obtain dir items item where e: "tree_dir opts f dir" "f dir = Inr items" "item \<in> set items"
    "kept_file mw opts dir item" "e = item_entry (item_key dir item) item"
    using assms(3) by (auto simp: tree_file_def)
  then have "dir \<in> V" using listed_dirs_tree [OF assms(1,2)] by blast
  with assms(1) e show ?thesis by (fastforce simp: listed_dirs_def)
qed

lemma walk_counted:
  assumes "walk mw opts (counted f) 0 = (Inr es, n)"
  obtains entries where "walk_loop mw opts (counted f) 0 [[]] [] 0 = (Inr entries, n)"
    "es = take (wo_max_files opts) (dedup_by_key (sort_key oe_key entries))"
  using assms by (auto simp: walk_def split: prod.splits sum.splits)

section \<open>The order of a listing\<close>

text \<open>Two listings of a directory that differ only in the order of items with distinct names.\<close>

definition same_listing :: "(string, dir_item list) result \<Rightarrow> (string, dir_item list) result \<Rightarrow> bool" where
  "same_listing a b = (case (a, b) of
     (Inr xs, Inr ys) \<Rightarrow> mset xs = mset ys \<and> distinct (map di_name xs)
   | (Inl e, Inl e') \<Rightarrow> e = e'
   | _ \<Rightarrow> False)"

lemma sort_key_permuted:
  assumes "mset xs = mset ys" "distinct (map f xs)"
  shows "sort_key f xs = sort_key f ys"
proof (rule properties_for_sort_key)
  have sets: "set xs = set ys" using assms(1) by (metis set_mset_mset)
  have dist: "distinct (map f ys)"
    using assms by (metis distinct_map mset_eq_imp_distinct_iff sets)
  show "mset (sort_key f ys) = mset xs" using assms(1) by simp
  fix k
  assume k: "k \<in> set (sort_key f ys)"
  have one: "filter (\<lambda>x. f k = f x) zs = [k]" if "distinct (map f zs)" "k \<in> set zs" for zs
    using that by (induction zs) (auto simp: filter_empty_conv image_iff)
  show "filter (\<lambda>x. f k = f x) (sort_key f ys) = filter (\<lambda>x. f k = f x) xs"
    using k sets dist assms(2) by (simp add: one distinct_map)
qed simp

lemma walk_loop_same:
  assumes "\<And>d. same_listing (f d) (g d)"
  shows "walk_loop mw opts (counted f) listed dirs entries n = walk_loop mw opts (counted g) listed dirs entries n"
proof (induction "wo_max_dirs opts - listed" arbitrary: listed dirs entries n)
  case 0
  then show ?case by (cases dirs) auto
next
  case (Suc m)
  then have IH: "walk_loop mw opts (counted f) (listed + 1) ds es k = walk_loop mw opts (counted g) (listed + 1) ds es k" for ds es k
    by simp
  show ?case
  proof (cases dirs)
    case (Cons dir ds)
    have "same_listing (f dir) (g dir)" by (rule assms)
    with Cons IH show ?thesis
      by (auto simp: counted_def same_listing_def sort_key_permuted split: sum.splits prod.splits)
  qed simp
qed

section \<open>Properties\<close>

text \<open>A walk that succeeds returns its files in strictly ascending key order, no key twice and at most
  \<^verbatim>\<open>max_files\<close> of them, whatever the plugin's \<^verbatim>\<open>list_dir\<close> does, and it lists at most \<^verbatim>\<open>max_dirs\<close>
  directories.\<close>

theorem walk_bounded:
  "(case fst (walk mw opts (counting list_dir) (0, s)) of
      Inr es \<Rightarrow> sorted_wrt (<) (map oe_key es) \<and> length es \<le> wo_max_files opts
    | Inl _ \<Rightarrow> True) \<and>
   fst (snd (walk mw opts (counting list_dir) (0, s))) \<le> wo_max_dirs opts"
proof
  show "case fst (walk mw opts (counting list_dir) (0, s)) of
      Inr es \<Rightarrow> sorted_wrt (<) (map oe_key es) \<and> length es \<le> wo_max_files opts
    | Inl _ \<Rightarrow> True"
    using walk_result [of mw opts "counting list_dir" "(0, s)"]
    by (cases "walk mw opts (counting list_dir) (0, s)") (auto split: sum.splits)
  have "snd (walk mw opts (counting list_dir) (0, s)) = snd (walk_loop mw opts (counting list_dir) 0 [[]] [] (0, s))"
    by (auto simp: walk_def split: prod.splits sum.splits)
  then show "fst (snd (walk mw opts (counting list_dir) (0, s))) \<le> wo_max_dirs opts"
    using walk_loop_calls [of 0 opts mw list_dir "[[]]" "[]" 0 s] by simp
qed

text \<open>C23. A walk is sound and complete for the tree: every entry it returns is a file of the tree that its
  pattern keeps, and when neither limit stopped it, every such file's key is in the listing.\<close>

theorem walk_lists_tree:
  assumes "walk mw opts (counted f) 0 = (Inr es, n)"
  shows "(\<forall>e\<in>set es. tree_file mw opts f e) \<and>
    (n < wo_max_dirs opts \<and> length es < wo_max_files opts \<longrightarrow>
       oe_key ` set es = oe_key ` {e. tree_file mw opts f e})"
proof (intro conjI impI)
  obtain entries where loop: "walk_loop mw opts (counted f) 0 [[]] [] 0 = (Inr entries, n)"
    and es: "es = take (wo_max_files opts) (dedup_by_key (sort_key oe_key entries))"
    using walk_counted [OF assms] by blast
  have all: "\<forall>e\<in>set entries. tree_file mw opts f e"
    using walk_loop_sound [OF loop] tree_root by auto
  then show sound: "\<forall>e\<in>set es. tree_file mw opts f e"
    using set_dedup_by_key_sub [of "sort_key oe_key entries"] by (auto simp: es dest: in_set_takeD)
  assume few: "n < wo_max_dirs opts \<and> length es < wo_max_files opts"
  then have "oe_key ` set es = oe_key ` set entries"
    using set_dedup_by_key [of "sort_key oe_key entries"] by (simp add: es min_def split: if_splits)
  moreover obtain V where "[] \<in> V" "listed_dirs mw opts f V {} (set entries)"
    using walk_loop_complete [OF loop, of "{}"] few by (auto simp: listed_dirs_def)
  then have "\<forall>e. tree_file mw opts f e \<longrightarrow> e \<in> set entries"
    using listed_dirs_file by blast
  ultimately show "oe_key ` set es = oe_key ` {e. tree_file mw opts f e}"
    using all by blast
qed

definition demo_tree :: "string \<Rightarrow> (string, dir_item list) result" where
  "demo_tree dir =
     (if dir = [] then Inr [\<lparr>di_name = ''z'', di_is_dir = False, di_size = None, di_modified_at_ms = None\<rparr>,
         \<lparr>di_name = ''d'', di_is_dir = True, di_size = None, di_modified_at_ms = None\<rparr>]
      else if dir = ''d'' then Inr [\<lparr>di_name = ''f'', di_is_dir = False, di_size = Some 3, di_modified_at_ms = None\<rparr>]
      else Inl ''no such directory'')"

definition demo_walk :: "unit walk_options" where
  "demo_walk = \<lparr>wo_recursive = True, wo_pattern = None, wo_max_files = 10, wo_max_dirs = 5\<rparr>"

theorem walk_lists_tree_witness:
  "oe_key ` {e. tree_file (\<lambda>_ _ _. True) demo_walk demo_tree e} = {''d/f'', ''z''}"
proof -
  let ?es = "[item_entry ''d/f'' \<lparr>di_name = ''f'', di_is_dir = False, di_size = Some 3, di_modified_at_ms = None\<rparr>,
    item_entry ''z'' \<lparr>di_name = ''z'', di_is_dir = False, di_size = None, di_modified_at_ms = None\<rparr>]"
  have "walk (\<lambda>_ _ _. True) demo_walk (counted demo_tree) 0 = (Inr ?es, 2)" by code_simp
  from walk_lists_tree [OF this] show ?thesis
    by (auto simp: demo_walk_def item_entry_def)
qed

text \<open>The order in which a server lists its directories does not matter: listings with the same items
  under distinct names give the same walk, so a cut listing keeps the same objects.\<close>

theorem walk_order_independent:
  assumes "\<And>d. same_listing (f d) (g d)"
  shows "walk mw opts (counted f) n = walk mw opts (counted g) n"
  unfolding walk_def by (simp only: walk_loop_same [OF assms])

theorem walk_order_independent_witness:
  "walk (\<lambda>_ _ _. True) demo_walk (counted demo_tree) 0 =
   walk (\<lambda>_ _ _. True) demo_walk (counted (\<lambda>d. map_sum id rev (demo_tree d))) 0"
  by (rule walk_order_independent) (auto simp: same_listing_def demo_tree_def)

end
