(* ===== verification/Inventory_Watch.thy ===== *)
theory Inventory_Watch
  imports Inventory_Properties
begin

text \<open>
  The thread of an inventory watch, from \<^verbatim>\<open>spawn_inventory_watch_hooked\<close> of \<^verbatim>\<open>src/src/inventory.rs\<close>,
  and the handle the host acknowledges and cancels it through.

  A watch is the engine, the channel of wakes in the order they were sent, the stop flag, where the
  thread is (about to list, waiting until a deadline, or returned) and what it emitted. One step of
  the thread is a turn of the outer loop (the stop check, the listing and its events) or one
  \<^verbatim>\<open>recv_timeout\<close> with the \<^verbatim>\<open>try_recv\<close> loop behind it; that loop runs until the channel is empty, so a wake
  sent while it runs is as good as sent before. The texts of events (\<^verbatim>\<open>serde_json::to_string\<close>) and
  \<^verbatim>\<open>is_event_source\<close> of the protocol are arguments.
\<close>

section \<open>Definitions\<close>

datatype wake = Ack json | Changed | Stop

datatype phase = Turn | Waiting instant | Done

record inventory_watch =
  iw_inventory :: inventory
  iw_wakes :: "wake list"
  iw_connected :: bool
  iw_stop :: bool
  iw_phase :: phase
  iw_event_source :: bool
  iw_emitted :: "string list"

record inventory_hooks =
  ih_describe :: "describe option"
  ih_quiet_removals :: bool

definition CHANGE_SETTLE :: duration where
  "CHANGE_SETTLE = millis 50"

definition spawn_inventory_watch_hooked ::
    "externs \<Rightarrow> (string \<Rightarrow> bool) \<Rightarrow> string option \<Rightarrow> string \<Rightarrow> inventory_options \<Rightarrow> json option \<Rightarrow> inventory_hooks \<Rightarrow>
     (watch_error, inventory_watch) result" where
  "spawn_inventory_watch_hooked x is_event_source spawn_error uri opts resume hooks =
     (case validate_options opts of
        Inl message \<Rightarrow> Err (InvalidSpec (o_store opts @ '': '' @ message))
      | Inr _ \<Rightarrow>
        (case new_inventory x opts resume of
           Inl e \<Rightarrow> Err e
         | Inr iv0 \<Rightarrow>
           (let iv1 = (case ih_describe hooks of None \<Rightarrow> iv0 | Some d \<Rightarrow> with_describe d iv0);
                iv2 = (if ih_quiet_removals hooks then with_quiet_removals iv1 else iv1)
            in case spawn_error of
                 Some e \<Rightarrow> Err (Subscribe (''inventory watch: cannot start its thread: '' @ e))
               | None \<Rightarrow> Ok \<lparr>iw_inventory = iv2, iw_wakes = [], iw_connected = True, iw_stop = False,
                            iw_phase = Turn, iw_event_source = is_event_source uri, iw_emitted = []\<rparr>)))"

definition spawn_described_inventory_watch ::
    "externs \<Rightarrow> (string \<Rightarrow> bool) \<Rightarrow> string option \<Rightarrow> string \<Rightarrow> inventory_options \<Rightarrow> json option \<Rightarrow> describe option \<Rightarrow>
     (watch_error, inventory_watch) result" where
  "spawn_described_inventory_watch x ies se uri opts resume describe =
     spawn_inventory_watch_hooked x ies se uri opts resume
       \<lparr>ih_describe = describe, ih_quiet_removals = False\<rparr>"

definition spawn_inventory_watch_with_waker ::
    "externs \<Rightarrow> (string \<Rightarrow> bool) \<Rightarrow> string option \<Rightarrow> string \<Rightarrow> inventory_options \<Rightarrow> json option \<Rightarrow>
     (watch_error, inventory_watch) result" where
  "spawn_inventory_watch_with_waker x ies se uri opts resume =
     spawn_described_inventory_watch x ies se uri opts resume None"

subsection \<open>The thread\<close>

text \<open>What the thread does with a listing.\<close>

definition list_turn :: "externs \<Rightarrow> (watch_event \<Rightarrow> string option) \<Rightarrow> bool \<Rightarrow> instant \<Rightarrow> (nat \<Rightarrow> instant) \<Rightarrow>
    (string, object_entry list) result \<Rightarrow> inventory \<Rightarrow> string list \<times> inventory" where
  "list_turn x to_string event_source now stamp listed iv =
     (if has_room iv then
        (case listed of
           Inl error \<Rightarrow> ([], iv)
         | Inr listing \<Rightarrow>
           (let (events, iv1) = poll x now stamp listing iv
            in if event_source then (List.map_filter to_string events, iv1)
               else if list_ex (\<lambda>e. we_event_type e \<noteq> None) events
               then ([''{}''], acknowledge_events events iv1)
               else ([], iv1)))
      else ([], iv))"

definition turn :: "externs \<Rightarrow> (watch_event \<Rightarrow> string option) \<Rightarrow> instant \<Rightarrow> (nat \<Rightarrow> instant) \<Rightarrow> instant \<Rightarrow>
    (string, object_entry list) result \<Rightarrow> inventory_watch \<Rightarrow> inventory_watch" where
  "turn x to_string now stamp later listed w =
     (if iw_stop w then w\<lparr>iw_phase := Done\<rparr>
      else (let (texts, iv) = list_turn x to_string (iw_event_source w) now stamp listed (iw_inventory w)
            in w\<lparr>iw_inventory := iv, iw_emitted := iw_emitted w @ texts,
                 iw_phase := Waiting (later + o_interval (inv_options iv))\<rparr>))"

text \<open>
  The \<^verbatim>\<open>try_recv\<close> loops: \<^verbatim>\<open>None\<close> when the thread returns, else the engine and whether a change was
  announced.
\<close>

fun drain :: "bool \<Rightarrow> wake list \<Rightarrow> inventory \<Rightarrow> bool \<Rightarrow> (inventory \<times> bool) option" where
  "drain connected [] iv changed = (if connected then Some (iv, changed) else None)"
| "drain connected (Ack position # ws) iv changed = drain connected ws (acknowledged position iv) changed"
| "drain connected (Changed # ws) iv changed = drain connected ws iv True"
| "drain connected (Stop # ws) iv changed = None"

text \<open>
  One \<^verbatim>\<open>recv_timeout\<close>: it takes the first wake when there is one; without one it blocks until the
  deadline, unless no sender is left. \<^verbatim>\<open>None\<close> is a thread that stays blocked.
\<close>

definition receive :: "instant \<Rightarrow> instant \<Rightarrow> inventory_watch \<Rightarrow> inventory_watch option" where
  "receive now deadline w =
     (case iw_wakes w of
        [] \<Rightarrow> if \<not> iw_connected w then Some (w\<lparr>iw_phase := Done\<rparr>)
              else if deadline \<le> now then Some (w\<lparr>iw_phase := Turn\<rparr>)
              else None
      | Ack position # ws \<Rightarrow>
          (case drain (iw_connected w) ws (acknowledged position (iw_inventory w)) False of
             None \<Rightarrow> Some (w\<lparr>iw_wakes := [], iw_phase := Done\<rparr>)
           | Some (iv, changed) \<Rightarrow>
               Some (w\<lparr>iw_wakes := [], iw_inventory := iv, iw_phase := (if changed then Turn else Waiting deadline)\<rparr>))
      | Changed # ws \<Rightarrow>
          (case drain (iw_connected w) ws (iw_inventory w) True of
             None \<Rightarrow> Some (w\<lparr>iw_wakes := [], iw_phase := Done\<rparr>)
           | Some (iv, _) \<Rightarrow> Some (w\<lparr>iw_wakes := [], iw_inventory := iv, iw_phase := Turn\<rparr>))
      | Stop # ws \<Rightarrow> Some (w\<lparr>iw_wakes := [], iw_phase := Done\<rparr>))"

subsection \<open>The handle\<close>

text \<open>A send to a thread that returned is dropped: its receiver is gone.\<close>

definition send_wake :: "wake \<Rightarrow> inventory_watch \<Rightarrow> inventory_watch" where
  "send_wake m w = (if iw_phase w = Done then w else w\<lparr>iw_wakes := iw_wakes w @ [m]\<rparr>)"

definition acknowledge_inventory_watch :: "json \<Rightarrow> inventory_watch option \<Rightarrow> inventory_watch option" where
  "acknowledge_inventory_watch position handle = map_option (send_wake (Ack position)) handle"

definition wake_watch :: "inventory_watch \<Rightarrow> inventory_watch" where
  "wake_watch w = send_wake Changed w"

text \<open>Cancel raises the flag, sends \<^verbatim>\<open>Stop\<close> and joins: it returns once the thread is done.\<close>

definition cancel_inventory_watch :: "inventory_watch option \<Rightarrow> inventory_watch option" where
  "cancel_inventory_watch handle = map_option (\<lambda>w. send_wake Stop (w\<lparr>iw_stop := True\<rparr>)) handle"

section \<open>The watch as a state machine\<close>

inductive thread_step :: "externs \<Rightarrow> (watch_event \<Rightarrow> string option) \<Rightarrow> inventory_watch \<Rightarrow> inventory_watch \<Rightarrow> bool"
  for x to_string where
  step_turn: "iw_phase w = Turn \<Longrightarrow> thread_step x to_string w (turn x to_string now stamp later listed w)"
| step_receive: "iw_phase w = Waiting deadline \<Longrightarrow> receive now deadline w = Some w' \<Longrightarrow> thread_step x to_string w w'"

inductive watch_step :: "externs \<Rightarrow> (watch_event \<Rightarrow> string option) \<Rightarrow> inventory_watch \<Rightarrow> inventory_watch \<Rightarrow> bool"
  for x to_string where
  step_thread: "thread_step x to_string w w' \<Longrightarrow> watch_step x to_string w w'"
| step_ack: "acknowledge_inventory_watch position (Some w) = Some w' \<Longrightarrow> watch_step x to_string w w'"
| step_wake: "watch_step x to_string w (wake_watch w)"
| step_cancel: "cancel_inventory_watch (Some w) = Some w' \<Longrightarrow> watch_step x to_string w w'"
| step_disconnect: "watch_step x to_string w (w\<lparr>iw_connected := False\<rparr>)"

inductive_simps thread_step_iff: "thread_step x to_string w w'"
inductive_simps watch_step_iff: "watch_step x to_string w w'"

definition spawned :: "externs \<Rightarrow> inventory_watch \<Rightarrow> bool" where
  "spawned x w = (\<exists>ies se uri opts resume hooks. spawn_inventory_watch_hooked x ies se uri opts resume hooks = Ok w)"

definition options_ok :: "inventory_options \<Rightarrow> bool" where
  "options_ok opts = (MIN_INTERVAL \<le> o_interval opts \<and> o_snapshot_bytes opts \<le> MAX_SNAPSHOT_BYTES \<and>
     1 \<le> o_max_in_flight opts \<and> o_max_in_flight opts \<le> 1000 \<and> 0 < o_ack_timeout opts)"

definition watch_wf :: "inventory_watch \<Rightarrow> bool" where
  "watch_wf w = (inventory_wf (iw_inventory w) \<and> options_ok (inv_options (iw_inventory w)) \<and>
     (\<not> iw_event_source w \<longrightarrow> inv_pending (iw_inventory w) = []) \<and>
     (iw_stop w \<longrightarrow> iw_phase w = Done \<or> Stop \<in> set (iw_wakes w)))"

section \<open>Facts\<close>

lemma validate_options_iff: "validate_options opts = Inr () \<longleftrightarrow> options_ok opts"
  by (auto simp: validate_options_def options_ok_def)

lemma poll_options [simp]: "inv_options (snd (poll x now stamp listing iv)) = inv_options iv"
proof -
  have "inv_options (snd (emit_changes x stamp n i det iv' cs)) = inv_options iv'" for n i det iv' cs
    using emit_changes_state [of x stamp n i det iv' cs] by auto
  then show ?thesis by (simp add: poll_def Let_def split_beta)
qed

lemma acknowledged_options [simp]: "inv_options (acknowledged position iv) = inv_options iv"
  by (auto simp: acknowledged_eq split: option.splits)

lemma acknowledge_events_options [simp]: "inv_options (acknowledge_events evs iv) = inv_options iv"
  unfolding acknowledge_events_def by (induction evs arbitrary: iv) (auto split: option.splits)

lemma acknowledged_at_rest: "inv_pending iv = [] \<Longrightarrow> acknowledged position iv = iv"
  by (auto simp: acknowledged_eq split: option.splits)

lemma list_turn_wf:
  assumes "inventory_wf iv"
  shows "inventory_wf (snd (list_turn x to_string es now stamp listed iv))"
    and "inv_options (snd (list_turn x to_string es now stamp listed iv)) = inv_options iv"
  using assms by (auto simp: list_turn_def split_beta poll_wf acknowledge_events_wf split: sum.splits)

text \<open>A resource watch acknowledges every change it finds, so it leaves nothing in flight.\<close>

lemma list_turn_resource:
  assumes "inventory_wf iv" "inv_pending iv = []"
  shows "inv_pending (snd (list_turn x to_string False now stamp listed iv)) = []"
proof (cases listed)
  case (Inr listing)
  show ?thesis
  proof (cases "inv_baseline iv = Silent")
    case True
    then have "inv_pending (snd (poll x now stamp listing iv)) = []" 
      using assms by (simp add: poll_def Let_def drop_expired_def)
    moreover from this have "acknowledge_events evs (snd (poll x now stamp listing iv)) = snd (poll x now stamp listing iv)" for evs
      unfolding acknowledge_events_def by (induction evs) (auto simp: acknowledged_at_rest split: option.splits)
    ultimately show ?thesis using assms Inr by (simp add: list_turn_def split_beta)
  next
    case False
    with assms have rest: "at_rest iv" and wf: "inventory_wf iv" "inv_baseline iv \<noteq> Silent"
      by (simp_all add: at_rest_def)
    have "inv_pending (acknowledge_events (fst (poll x now stamp listing iv)) (snd (poll x now stamp listing iv))) = []"
      using ack_round_rest(1) [OF rest, of x listing "(now, stamp)"] by (simp add: at_rest_def ack_round_def split_beta)
    moreover have "inv_pending (snd (poll x now stamp listing iv)) = []"
      if "\<not> list_ex (\<lambda>e. we_event_type e \<noteq> None) (fst (poll x now stamp listing iv))"
    proof -
      have "fst (poll x now stamp listing iv) = []"
        using that poll_types [OF wf, of x now stamp listing]
        by (cases "fst (poll x now stamp listing iv)") (auto simp: list_ex_iff)
      then have "sent x now listing iv = []" using poll_nth(1) [OF wf, of x now stamp listing] by simp
      then show ?thesis using assms by (simp add: poll_pending [OF wf] drop_expired_def)
    qed
    ultimately show ?thesis using assms Inr by (simp add: list_turn_def split_beta)
  qed
qed (use assms in \<open>simp add: list_turn_def\<close>)

lemma drain_stop: "Stop \<in> set ws \<Longrightarrow> drain c ws iv ch = None"
  by (induction c ws iv ch rule: drain.induct) auto

definition acks_of :: "wake list \<Rightarrow> json list" where
  "acks_of ws = List.map_filter (\<lambda>m. case m of Ack p \<Rightarrow> Some p | _ \<Rightarrow> None) ws"

lemma drain_eq:
  "drain c ws iv ch = (if Stop \<in> set ws \<or> \<not> c then None
     else Some (foldl (\<lambda>iv p. acknowledged p iv) iv (acks_of ws), ch \<or> Changed \<in> set ws))"
  by (induction c ws iv ch rule: drain.induct) (auto simp: acks_of_def map_filter_simps)

lemma foldl_acknowledged:
  "inventory_wf iv \<Longrightarrow> inventory_wf (foldl (\<lambda>iv p. acknowledged p iv) iv ps)"
  "inv_options (foldl (\<lambda>iv p. acknowledged p iv) iv ps) = inv_options iv"
  "inv_pending iv = [] \<Longrightarrow> foldl (\<lambda>iv p. acknowledged p iv) iv ps = iv"
  by (induction ps arbitrary: iv) (auto simp: acknowledged_wf acknowledged_at_rest)

text \<open>One receive in closed form: the acknowledgements of the channel, in order, and where the thread goes.\<close>

lemma receive_eq:
  assumes "iw_wakes w \<noteq> []"
  shows "receive now d w = Some (if Stop \<in> set (iw_wakes w) \<or> \<not> iw_connected w \<and> hd (iw_wakes w) \<noteq> Stop
    then w\<lparr>iw_wakes := [], iw_phase := Done\<rparr>
    else w\<lparr>iw_wakes := [], iw_inventory := foldl (\<lambda>iv p. acknowledged p iv) (iw_inventory w) (acks_of (iw_wakes w)),
           iw_phase := (if Changed \<in> set (iw_wakes w) then Turn else Waiting d)\<rparr>)"
  using assms by (cases "iw_wakes w"; cases "hd (iw_wakes w)")
    (auto simp: receive_def drain_eq acks_of_def map_filter_simps split: option.splits)

lemma receive_empty:
  "iw_wakes w = [] \<Longrightarrow> receive now d w =
     (if \<not> iw_connected w then Some (w\<lparr>iw_phase := Done\<rparr>) else if d \<le> now then Some (w\<lparr>iw_phase := Turn\<rparr>) else None)"
  by (simp add: receive_def)

lemma receive_wf:
  assumes "watch_wf w" "iw_phase w \<noteq> Done" "receive now d w = Some w'"
  shows "watch_wf w'"
proof (cases "iw_wakes w = []")
  case True
  with assms show ?thesis by (auto simp: receive_empty watch_wf_def split: if_splits)
next
  case False
  with assms show ?thesis
    by (auto simp: receive_eq watch_wf_def foldl_acknowledged split: if_splits)
qed

lemma turn_wf: "watch_wf w \<Longrightarrow> watch_wf (turn x to_string now stamp later listed w)"
  using list_turn_wf [of "iw_inventory w" x to_string "iw_event_source w" now stamp listed]
    list_turn_resource [of "iw_inventory w" x to_string now stamp listed]
  by (auto simp: turn_def watch_wf_def split_beta)

lemma send_wake_wf: "watch_wf w \<Longrightarrow> watch_wf (send_wake m w)"
  by (auto simp: send_wake_def watch_wf_def)

lemma spawned_wf:
  assumes "spawned x w"
  shows "watch_wf w"
proof -
  obtain ies se uri opts resume hooks where sp: "spawn_inventory_watch_hooked x ies se uri opts resume hooks = Ok w"
    using assms by (auto simp: spawned_def)
  obtain iv0 where ok: "options_ok opts" and new: "new_inventory x opts resume = Ok iv0"
    using sp by (auto simp: spawn_inventory_watch_hooked_def simp flip: validate_options_iff split: sum.splits)
  then have iv0: "inventory_wf iv0" "inv_options iv0 = opts" "inv_pending iv0 = []"
    by (auto simp: new_inventory_wf) (auto simp: new_inventory_def Let_def split: option.splits)
  have "\<not> iw_stop w" "iw_inventory w = (let iv1 = (case ih_describe hooks of None \<Rightarrow> iv0 | Some d \<Rightarrow> with_describe d iv0)
      in if ih_quiet_removals hooks then with_quiet_removals iv1 else iv1)"
    using sp ok new
    by (auto simp: spawn_inventory_watch_hooked_def Let_def simp flip: validate_options_iff split: option.splits)
  with iv0 ok show ?thesis
    by (auto simp: watch_wf_def Let_def with_describe_def with_quiet_removals_def inventory_wf_def in_flight_def
        split: option.splits)
qed

lemma cancel_wf: "watch_wf w \<Longrightarrow> watch_wf (send_wake Stop (w\<lparr>iw_stop := True\<rparr>))"
  by (auto simp: send_wake_def watch_wf_def)

lemma watch_step_wf:
  assumes "watch_step x to_string w w'" "watch_wf w"
  shows "watch_wf w'"
  using assms
proof cases
  case step_thread
  then show ?thesis using assms(2) by cases (auto intro: turn_wf receive_wf)
next
  case step_disconnect
  then show ?thesis using assms(2) by (simp add: watch_wf_def)
qed (use assms(2) in \<open>auto simp: acknowledge_inventory_watch_def wake_watch_def cancel_inventory_watch_def send_wake_wf cancel_wf\<close>)

interpretation watch: step_invariant "spawned x" "watch_step x to_string" watch_wf for x to_string
  by unfold_locales (auto intro: spawned_wf watch_step_wf)

section \<open>Properties\<close>

text \<open>C19. In every state a spawned watch can reach under any interleaving of its thread, acknowledgements,
  wakes and a cancel: the engine is well formed, the options are within the bounds that the spec
  may set, a watch on a plain resource has nothing in flight, and a raised stop flag is always
  accompanied by a \<^verbatim>\<open>Stop\<close> in the channel until the thread has returned.\<close>

theorem watch_invariant: "reach (spawned x) (watch_step x to_string) w \<Longrightarrow> watch_wf w"
  by (rule watch.reach_inv)

definition demo_watch :: inventory_watch where
  "demo_watch = \<lparr>iw_inventory = \<lparr>inv_options = demo_options\<lparr>o_interval := MIN_INTERVAL\<rparr>, inv_confirmed = [], inv_seen = [],
     inv_pending = [], inv_next_seq = 0, inv_baseline = Report, inv_gap = False, inv_warned = False, inv_describe = None,
     inv_quiet_removals = False\<rparr>, iw_wakes = [], iw_connected = True, iw_stop = False, iw_phase = Turn,
     iw_event_source = True, iw_emitted = []\<rparr>"

lemma demo_spawned: "spawned demo_externs demo_watch"
proof -
  have "validate_options (demo_options\<lparr>o_interval := MIN_INTERVAL\<rparr>) = Inr ()"
    by (simp add: validate_options_def demo_options_def MAX_SNAPSHOT_BYTES_def)
  then have "spawn_inventory_watch_hooked demo_externs (\<lambda>_. True) None [] (demo_options\<lparr>o_interval := MIN_INTERVAL\<rparr>) None
      \<lparr>ih_describe = None, ih_quiet_removals = False\<rparr> = Ok demo_watch"
    by (simp add: spawn_inventory_watch_hooked_def new_inventory_def demo_watch_def demo_options_def)
  then show ?thesis unfolding spawned_def by blast
qed

theorem watch_invariant_witness: "watch_wf (wake_watch demo_watch)"
proof -
  have "reach (spawned demo_externs) (watch_step demo_externs (\<lambda>_. None)) demo_watch"
    using demo_spawned by (rule reach_init)
  then have "reach (spawned demo_externs) (watch_step demo_externs (\<lambda>_. None)) (wake_watch demo_watch)"
    by (rule reach_step) (rule step_wake)
  then show ?thesis by (rule watch_invariant)
qed



text \<open>Acknowledgements are neither lost nor reordered: one receive of a connected watch that was not
  cancelled applies every acknowledgement in the channel in the order sent, empties it, and lists
  again at once exactly when a change was announced among them.\<close>

theorem receive_applies_acks:
  assumes "iw_wakes w \<noteq> []" "Stop \<notin> set (iw_wakes w)" "iw_connected w"
  shows "receive now deadline w = Some (w\<lparr>iw_wakes := [],
    iw_inventory := foldl (\<lambda>iv p. acknowledged p iv) (iw_inventory w) (acks_of (iw_wakes w)),
    iw_phase := (if Changed \<in> set (iw_wakes w) then Turn else Waiting deadline)\<rparr>)"
  using assms by (simp add: receive_eq)

theorem receive_applies_acks_witness:
  "map_option iw_phase (receive 0 9 (wake_watch demo_watch)) = Some Turn"
proof -
  have "iw_wakes (wake_watch demo_watch) = [Changed]" "iw_connected (wake_watch demo_watch)"
    by (simp_all add: wake_watch_def send_wake_def demo_watch_def)
  then show ?thesis using receive_applies_acks [of "wake_watch demo_watch" 0 9] by simp
qed

end
