(* ===== verification/Queue_Watch.thy ===== *)
theory Queue_Watch
  imports Json_Value
begin

text \<open>
  The queue watch of \<^verbatim>\<open>src/src/queue.rs\<close>: one thread receives deliveries from a broker and offers them
  to the host, one settles them upstream, and both share a window of deliveries emitted and not yet
  settled.

  The two threads and the host are one step relation. A step is what a thread does between two points
  where the other can act: every access to the window is under its lock, so it is one step, together
  with the broker calls that the access decides. \<open>q_calls\<close> records those calls, \<open>q_received\<close> the
  receipts the broker handed out, \<open>q_offered\<close> the receipts put into the window under their sequence
  numbers and \<open>q_acked\<close> the positions the host acknowledged. The broker is the argument \<open>may_return\<close>: the
  deliveries a receive of a given size may return. \<^verbatim>\<open>serde_json::to_string\<close> of an event is the
  argument \<open>to_string\<close>, and the protocol's \<^verbatim>\<open>FFI_MAX_PAYLOAD_BYTES\<close> the argument \<open>limit\<close>.
\<close>

section \<open>Data\<close>

record delivery =
  de_event :: watch_event
  de_receipt :: json

record queue_options =
  qo_source :: string
  qo_max_in_flight :: nat
  qo_ack_timeout :: duration
  qo_receive_wait :: duration

definition QUEUE_CURSOR_VERSION :: nat where
  "QUEUE_CURSOR_VERSION = 1"

definition MAX_BACKOFF :: duration where
  "MAX_BACKOFF = secs 30"

definition FIRST_BACKOFF :: duration where
  "FIRST_BACKOFF = millis 500"

definition validate_queue :: "queue_options \<Rightarrow> (string, unit) result" where
  "validate_queue opts =
     (if \<not> (1 \<le> qo_max_in_flight opts \<and> qo_max_in_flight opts \<le> 1000) then Err ''max_in_flight must be 1 to 1000''
      else if qo_ack_timeout opts = 0 then Err ''ack_timeout_ms must be greater than 0''
      else if qo_receive_wait opts = 0 \<or> qo_receive_wait opts > secs 20
        then Err ''the receive wait must be 1 ms to 20 s''
      else Ok ())"

type_synonym held = "(nat, json \<times> instant) btree_map"

record window =
  wi_pending :: held
  wi_next_seq :: nat

datatype settle = SettleAck json | SettleStop

datatype source_call = SourceAck json | SourceRelease json

text \<open>Where the receiving thread is.\<close>

datatype receiver =
    Top
  | Room
  | Receiving nat
  | Got "delivery list"
  | Offering "delivery list"
  | Offered nat delivery "delivery list"
  | ReceiverDone

datatype settler = SettlerLoop | SettlerWait | SettlerDone

datatype cancel = Running | Stopping | StopSent

record queue_watch =
  q_options :: queue_options
  q_event_source :: bool
  q_window :: window
  q_stop :: bool
  q_connected :: bool
  q_backoff :: duration
  q_receiver :: receiver
  q_settler :: settler
  q_settles :: "settle list"
  q_cancel :: cancel
  q_emitted :: "string list"
  q_calls :: "source_call list"
  q_received :: "json list"
  q_offered :: "(nat \<times> json) list"
  q_acked :: "json list"

section \<open>The window\<close>

definition take_seq :: "nat \<Rightarrow> window \<Rightarrow> json option \<times> window" where
  "take_seq seq w = (map_option fst (bt_get (wi_pending w) seq), w\<lparr>wi_pending := bt_remove seq (wi_pending w)\<rparr>)"

definition late_seqs :: "duration \<Rightarrow> instant \<Rightarrow> window \<Rightarrow> nat list" where
  "late_seqs timeout now w = map fst (filter (\<lambda>p. timeout \<le> elapsed now (snd (snd p))) (wi_pending w))"

fun take_all :: "nat list \<Rightarrow> window \<Rightarrow> json list \<times> window" where
  "take_all [] w = ([], w)"
| "take_all (seq # seqs) w =
     (let (r, w1) = take_seq seq w; (rs, w2) = take_all seqs w1
      in ((case r of None \<Rightarrow> rs | Some receipt \<Rightarrow> receipt # rs), w2))"

definition expired :: "duration \<Rightarrow> instant \<Rightarrow> window \<Rightarrow> json list \<times> window" where
  "expired timeout now w = take_all (late_seqs timeout now w) w"

definition next_expiry :: "duration \<Rightarrow> window \<Rightarrow> instant option" where
  "next_expiry timeout w =
     (case map (\<lambda>p. snd (snd p) + timeout) (wi_pending w) of [] \<Rightarrow> None | t # ts \<Rightarrow> Some (foldl min t ts))"

definition settle_wait :: "duration \<Rightarrow> instant \<Rightarrow> window \<Rightarrow> duration" where
  "settle_wait timeout now w =
     min (case next_expiry timeout w of None \<Rightarrow> secs 1 | Some at \<Rightarrow> at - now) (secs 1)"

definition room_left :: "queue_options \<Rightarrow> window \<Rightarrow> nat option" where
  "room_left opts w =
     (if length (wi_pending w) < qo_max_in_flight opts
      then Some (qo_max_in_flight opts - length (wi_pending w)) else None)"

definition insert_delivery :: "json \<Rightarrow> instant \<Rightarrow> window \<Rightarrow> window" where
  "insert_delivery receipt now w =
     w\<lparr>wi_next_seq := wi_next_seq w + 1, wi_pending := bt_insert (wi_next_seq w) (receipt, now) (wi_pending w)\<rparr>"

definition drain_window :: "window \<Rightarrow> json list \<times> window" where
  "drain_window w = (map (\<lambda>p. fst (snd p)) (wi_pending w), w\<lparr>wi_pending := []\<rparr>)"

section \<open>The receiving thread\<close>

definition spawn_queue_watch :: "(string \<Rightarrow> bool) \<Rightarrow> string option \<Rightarrow> string \<Rightarrow> queue_options \<Rightarrow> (watch_error, queue_watch) result" where
  "spawn_queue_watch is_event_source spawn_error uri opts =
     (case validate_queue opts of
        Inl message \<Rightarrow> Err (InvalidSpec (qo_source opts @ '': '' @ message))
      | Inr _ \<Rightarrow>
        (case spawn_error of
           Some e \<Rightarrow> Err (Subscribe (''queue watch: cannot start its thread: '' @ e))
         | None \<Rightarrow> Ok \<lparr>q_options = opts, q_event_source = is_event_source uri,
             q_window = \<lparr>wi_pending = [], wi_next_seq = 0\<rparr>, q_stop = False, q_connected = False,
             q_backoff = FIRST_BACKOFF, q_receiver = Top, q_settler = SettlerLoop, q_settles = [], q_cancel = Running,
             q_emitted = [], q_calls = [], q_received = [], q_offered = [], q_acked = []\<rparr>))"

text \<open>The head of the loop: stop, or connect when there is no connection.\<close>

definition receive_top :: "(string, unit) result \<Rightarrow> queue_watch \<Rightarrow> queue_watch" where
  "receive_top connect q =
     (if q_stop q then q\<lparr>q_receiver := ReceiverDone\<rparr>
      else if q_connected q then q\<lparr>q_receiver := Room\<rparr>
      else (case connect of
              Inr _ \<Rightarrow> q\<lparr>q_connected := True, q_backoff := FIRST_BACKOFF, q_receiver := Room\<rparr>
            | Inl error \<Rightarrow> q\<lparr>q_backoff := min (q_backoff q * 2) MAX_BACKOFF, q_receiver := Top\<rparr>))"

text \<open>\<^verbatim>\<open>wait_for_room\<close>: \<^verbatim>\<open>None\<close> while it waits.\<close>

definition wait_for_room :: "queue_watch \<Rightarrow> queue_watch option" where
  "wait_for_room q =
     (if q_stop q then Some (q\<lparr>q_receiver := ReceiverDone\<rparr>)
      else map_option (\<lambda>room. q\<lparr>q_receiver := Receiving room\<rparr>) (room_left (q_options q) (q_window q)))"

definition received :: "(string, delivery list) result \<Rightarrow> queue_watch \<Rightarrow> queue_watch" where
  "received result q =
     (case result of
        Inl error \<Rightarrow> q\<lparr>q_connected := False, q_backoff := min (q_backoff q * 2) MAX_BACKOFF, q_receiver := Top\<rparr>
      | Inr deliveries \<Rightarrow>
          q\<lparr>q_received := q_received q @ map de_receipt deliveries,
            q_receiver := (if deliveries = [] then Top else Got deliveries)\<rparr>)"

definition handle_deliveries :: "delivery list \<Rightarrow> queue_watch \<Rightarrow> queue_watch" where
  "handle_deliveries deliveries q =
     (if q_stop q then
        q\<lparr>q_calls := q_calls q @ map (\<lambda>d. SourceRelease (de_receipt d)) deliveries, q_receiver := ReceiverDone\<rparr>
      else if \<not> q_event_source q then
        q\<lparr>q_calls := q_calls q @ map (\<lambda>d. SourceAck (de_receipt d)) deliveries,
          q_emitted := q_emitted q @ [''{}''], q_receiver := Top\<rparr>
      else q\<lparr>q_receiver := Offering deliveries\<rparr>)"

text \<open>\<^verbatim>\<open>offer\<close>, in its two parts: the delivery enters the window, then its event is emitted or given up.\<close>

fun offer_insert :: "instant \<Rightarrow> delivery list \<Rightarrow> queue_watch \<Rightarrow> queue_watch" where
  "offer_insert now [] q = q\<lparr>q_receiver := Top\<rparr>"
| "offer_insert now (d # ds) q =
     q\<lparr>q_offered := q_offered q @ [(wi_next_seq (q_window q), de_receipt d)],
       q_window := insert_delivery (de_receipt d) now (q_window q),
       q_receiver := Offered (wi_next_seq (q_window q)) d ds\<rparr>"

definition position_of :: "nat \<Rightarrow> json" where
  "position_of seq = jobj [(''v'', JNum (PosInt QUEUE_CURSOR_VERSION)), (''seq'', JNum (PosInt seq))]"

definition offered_text :: "(watch_event \<Rightarrow> string option) \<Rightarrow> nat \<Rightarrow> nat \<Rightarrow> delivery \<Rightarrow> string option" where
  "offered_text to_string limit seq d =
     (case to_string ((de_event d)\<lparr>we_upstream_cursor := Some (position_of seq)\<rparr>) of
        None \<Rightarrow> None
      | Some text \<Rightarrow> if length text > limit then None else Some text)"

definition offer_emit :: "(watch_event \<Rightarrow> string option) \<Rightarrow> nat \<Rightarrow> nat \<Rightarrow> delivery \<Rightarrow> delivery list \<Rightarrow> queue_watch \<Rightarrow> queue_watch" where
  "offer_emit to_string limit seq d ds q =
     (case offered_text to_string limit seq d of
        Some text \<Rightarrow> q\<lparr>q_emitted := q_emitted q @ [text], q_receiver := Offering ds\<rparr>
      | None \<Rightarrow> q\<lparr>q_window := snd (take_seq seq (q_window q)),
                  q_calls := q_calls q @ [SourceAck (de_receipt d)], q_receiver := Offering ds\<rparr>)"

section \<open>The settling thread\<close>

definition settle_expired :: "instant \<Rightarrow> queue_watch \<Rightarrow> queue_watch" where
  "settle_expired now q =
     (let (receipts, w) = expired (qo_ack_timeout (q_options q)) now (q_window q)
      in q\<lparr>q_window := w, q_calls := q_calls q @ map SourceRelease receipts, q_settler := SettlerWait\<rparr>)"

definition settle_ack :: "json \<Rightarrow> queue_watch \<Rightarrow> queue_watch" where
  "settle_ack position q =
     (case Option.bind (json_get position ''seq'') as_u64 of
        None \<Rightarrow> q
      | Some seq \<Rightarrow>
          (let (taken, w) = take_seq seq (q_window q)
           in q\<lparr>q_window := w,
                q_calls := q_calls q @ (case taken of None \<Rightarrow> [] | Some receipt \<Rightarrow> [SourceAck receipt])\<rparr>))"

definition settle_stop :: "queue_watch \<Rightarrow> queue_watch" where
  "settle_stop q =
     (let (held, w) = drain_window (q_window q)
      in q\<lparr>q_window := w, q_calls := q_calls q @ map SourceRelease held, q_settler := SettlerDone\<rparr>)"

text \<open>One \<^verbatim>\<open>recv_timeout\<close>: a timeout when nothing was sent.\<close>

definition settle_receive :: "queue_watch \<Rightarrow> queue_watch" where
  "settle_receive q =
     (case q_settles q of
        [] \<Rightarrow> q\<lparr>q_settler := SettlerLoop\<rparr>
      | SettleAck position # ms \<Rightarrow> (settle_ack position (q\<lparr>q_settles := ms\<rparr>))\<lparr>q_settler := SettlerLoop\<rparr>
      | SettleStop # ms \<Rightarrow> settle_stop (q\<lparr>q_settles := ms\<rparr>))"

section \<open>The host's side\<close>

definition acknowledge_queue_watch :: "json \<Rightarrow> queue_watch option \<Rightarrow> queue_watch option" where
  "acknowledge_queue_watch position handle =
     map_option (\<lambda>q. q\<lparr>q_acked := q_acked q @ [position],
       q_settles := (if q_settler q = SettlerDone then q_settles q else q_settles q @ [SettleAck position])\<rparr>) handle"

text \<open>Cancel: stop, join the receiver, send \<^verbatim>\<open>Stop\<close>, join the settler.\<close>

definition cancel_stop :: "queue_watch \<Rightarrow> queue_watch" where
  "cancel_stop q = q\<lparr>q_stop := True, q_cancel := Stopping\<rparr>"

definition cancel_send :: "queue_watch \<Rightarrow> queue_watch" where
  "cancel_send q = q\<lparr>q_settles := q_settles q @ [SettleStop], q_cancel := StopSent\<rparr>"

section \<open>The watch as a state machine\<close>

inductive receiver_step :: "(nat \<Rightarrow> delivery list \<Rightarrow> bool) \<Rightarrow> (watch_event \<Rightarrow> string option) \<Rightarrow> nat \<Rightarrow>
    queue_watch \<Rightarrow> queue_watch \<Rightarrow> bool" for may_return to_string limit where
  r_top: "q_receiver q = Top \<Longrightarrow> receiver_step may_return to_string limit q (receive_top connect q)"
| r_room: "q_receiver q = Room \<Longrightarrow> wait_for_room q = Some q' \<Longrightarrow> receiver_step may_return to_string limit q q'"
| r_receive: "q_receiver q = Receiving n \<Longrightarrow> (\<And>ds. result = Inr ds \<Longrightarrow> may_return n ds) \<Longrightarrow>
    receiver_step may_return to_string limit q (received result q)"
| r_got: "q_receiver q = Got ds \<Longrightarrow> receiver_step may_return to_string limit q (handle_deliveries ds q)"
| r_insert: "q_receiver q = Offering ds \<Longrightarrow> receiver_step may_return to_string limit q (offer_insert now ds q)"
| r_emit: "q_receiver q = Offered seq d ds \<Longrightarrow>
    receiver_step may_return to_string limit q (offer_emit to_string limit seq d ds q)"

inductive settler_step :: "queue_watch \<Rightarrow> queue_watch \<Rightarrow> bool" where
  s_expired: "q_settler q = SettlerLoop \<Longrightarrow> settler_step q (settle_expired now q)"
| s_receive: "q_settler q = SettlerWait \<Longrightarrow> settler_step q (settle_receive q)"

inductive queue_step :: "(nat \<Rightarrow> delivery list \<Rightarrow> bool) \<Rightarrow> (watch_event \<Rightarrow> string option) \<Rightarrow> nat \<Rightarrow>
    queue_watch \<Rightarrow> queue_watch \<Rightarrow> bool" for may_return to_string limit where
  by_receiver: "receiver_step may_return to_string limit q q' \<Longrightarrow> queue_step may_return to_string limit q q'"
| by_settler: "settler_step q q' \<Longrightarrow> queue_step may_return to_string limit q q'"
| host_ack: "q_cancel q = Running \<Longrightarrow> acknowledge_queue_watch position (Some q) = Some q' \<Longrightarrow>
    queue_step may_return to_string limit q q'"
| host_stop: "q_cancel q = Running \<Longrightarrow> queue_step may_return to_string limit q (cancel_stop q)"
| host_join: "q_cancel q = Stopping \<Longrightarrow> q_receiver q = ReceiverDone \<Longrightarrow>
    queue_step may_return to_string limit q (cancel_send q)"

definition queue_spawned :: "queue_watch \<Rightarrow> bool" where
  "queue_spawned q = (\<exists>ies se uri opts. spawn_queue_watch ies se uri opts = Ok q)"

section \<open>The invariant\<close>

definition receipts_of :: "window \<Rightarrow> json list" where
  "receipts_of w = map (\<lambda>p. fst (snd p)) (wi_pending w)"

fun in_hand :: "receiver \<Rightarrow> delivery list" where
  "in_hand (Got ds) = ds"
| "in_hand (Offering ds) = ds"
| "in_hand (Offered seq d ds) = ds"
| "in_hand _ = []"

text \<open>The room of the window a receiver has been promised.\<close>

fun claimed :: "receiver \<Rightarrow> nat" where
  "claimed (Receiving n) = n"
| "claimed r = length (in_hand r)"

fun receipt_of_call :: "source_call \<Rightarrow> json" where
  "receipt_of_call (SourceAck r) = r"
| "receipt_of_call (SourceRelease r) = r"

text \<open>Where the receipts handed out are: held in the window, in the receiver's hand, or settled.\<close>

definition accounted :: "queue_watch \<Rightarrow> json multiset" where
  "accounted q = mset (receipts_of (q_window q)) + mset (map de_receipt (in_hand (q_receiver q))) +
     mset (map receipt_of_call (q_calls q))"

fun offered_same :: "receiver \<Rightarrow> held \<Rightarrow> bool" where
  "offered_same (Offered seq d ds) m = (\<forall>p\<in>set m. fst p = seq \<longrightarrow> fst (snd p) = de_receipt d)"
| "offered_same _ m = True"

definition held_ok :: "window \<Rightarrow> (nat \<times> json) list \<Rightarrow> bool" where
  "held_ok w offered = (\<forall>p\<in>set (wi_pending w). fst p < wi_next_seq w \<and> (fst p, fst (snd p)) \<in> set offered)"

definition window_wf :: "queue_watch \<Rightarrow> bool" where
  "window_wf q = (bt_wf (wi_pending (q_window q)) \<and>
     held_ok (q_window q) (q_offered q) \<and>
     offered_same (q_receiver q) (wi_pending (q_window q)) \<and>
     length (wi_pending (q_window q)) + claimed (q_receiver q) \<le> qo_max_in_flight (q_options q) \<and>
     FIRST_BACKOFF \<le> q_backoff q \<and> q_backoff q \<le> MAX_BACKOFF)"

definition cancel_wf :: "queue_watch \<Rightarrow> bool" where
  "cancel_wf q = ((q_stop q \<longleftrightarrow> q_cancel q \<noteq> Running) \<and>
     (q_receiver q = ReceiverDone \<longrightarrow> q_stop q) \<and>
     (q_cancel q = StopSent \<longrightarrow> q_receiver q = ReceiverDone) \<and>
     (SettleStop \<in> set (q_settles q) \<longrightarrow> q_cancel q = StopSent) \<and>
     (q_cancel q = StopSent \<and> q_settler q \<noteq> SettlerDone \<longrightarrow> SettleStop \<in> set (q_settles q)) \<and>
     (q_settler q = SettlerDone \<longrightarrow> q_cancel q = StopSent \<and> wi_pending (q_window q) = []))"

definition queue_wf :: "queue_watch \<Rightarrow> bool" where
  "queue_wf q = (window_wf q \<and> cancel_wf q \<and> mset (q_received q) \<subseteq># accounted q)"

section \<open>Facts about the window\<close>

lemma bt_insert_last:
  "\<forall>p\<in>set m. fst p < k \<Longrightarrow> bt_insert k v m = m @ [(k, v)]"
  by (induction m) (auto dest: order.asym)

lemma bt_remove_absent: "bt_get m k = None \<Longrightarrow> bt_remove k m = m"
  by (auto simp: bt_remove_def bt_get_def map_of_eq_None_iff filter_id_conv image_iff)

lemma bt_remove_present:
  "bt_wf m \<Longrightarrow> bt_get m k = Some v \<Longrightarrow> mset m = add_mset (k, v) (mset (bt_remove k m))"
proof (induction m)
  case (Cons p m)
  obtain k' v' where p: "p = (k', v')" by (cases p)
  have later: "\<forall>q\<in>set m. k' < fst q" "bt_wf m" using Cons.prems(1) p by (auto simp: bt_wf_Cons)
  show ?case
  proof (cases "k' = k")
    case True
    then have "bt_get m k = None" using later by (auto simp: bt_get_def map_of_eq_None_iff)
    then have "bt_remove k (p # m) = m" using True bt_remove_absent [of m k] by (simp add: p bt_remove_def)
    with True Cons.prems(2) show ?thesis by (simp add: p bt_get_def)
  next
    case False
    with Cons.prems(2) have "bt_get m k = Some v" by (simp add: p bt_get_def)
    with Cons.IH later False show ?thesis by (simp add: p bt_remove_def)
  qed
qed (simp add: bt_get_def)

lemma take_seq_keeps:
  assumes "bt_wf (wi_pending w)" "take_seq seq w = (r, w')"
  shows "mset (receipts_of w) = mset (receipts_of w') + (case r of None \<Rightarrow> {#} | Some x \<Rightarrow> {#x#})"
    and "set (wi_pending w') \<subseteq> set (wi_pending w)" "bt_wf (wi_pending w')" "wi_next_seq w' = wi_next_seq w"
    and "length (wi_pending w') \<le> length (wi_pending w)"
    and "r = Some x \<Longrightarrow> \<exists>at. (seq, x, at) \<in> set (wi_pending w)"
proof -
  have w': "w' = w\<lparr>wi_pending := bt_remove seq (wi_pending w)\<rparr>" and r: "r = map_option fst (bt_get (wi_pending w) seq)"
    using assms(2) by (auto simp: take_seq_def)
  show "mset (receipts_of w) = mset (receipts_of w') + (case r of None \<Rightarrow> {#} | Some x \<Rightarrow> {#x#})"
    using assms(1) bt_remove_present [of "wi_pending w" seq]
    by (cases "bt_get (wi_pending w) seq") (auto simp: w' r receipts_of_def bt_remove_absent)
  show "set (wi_pending w') \<subseteq> set (wi_pending w)" "length (wi_pending w') \<le> length (wi_pending w)"
    by (auto simp: w' bt_remove_def)
  show "bt_wf (wi_pending w')" "wi_next_seq w' = wi_next_seq w"
    using assms(1) by (simp_all add: w' bt_wfs)
  show "r = Some x \<Longrightarrow> \<exists>at. (seq, x, at) \<in> set (wi_pending w)"
    using assms(1) by (auto simp: r bt_in_set_iff)
qed

lemma take_all_keeps:
  assumes "bt_wf (wi_pending w)" "take_all seqs w = (rs, w')"
  shows "mset (receipts_of w) = mset (receipts_of w') + mset rs \<and>
    set (wi_pending w') \<subseteq> set (wi_pending w) \<and> bt_wf (wi_pending w') \<and> wi_next_seq w' = wi_next_seq w \<and>
    length (wi_pending w') \<le> length (wi_pending w)"
  using assms
proof (induction seqs arbitrary: w rs)
  case (Cons seq seqs)
  obtain r w1 rs1 where t: "take_seq seq w = (r, w1)" "take_all seqs w1 = (rs1, w')"
    "rs = (case r of None \<Rightarrow> rs1 | Some x \<Rightarrow> x # rs1)"
    using Cons.prems(2) by (auto simp: Let_def split: prod.splits)
  note one = take_seq_keeps [OF Cons.prems(1) t(1)]
  from Cons.IH [OF one(3) t(2)] one(1,2,4,5) t(3) show ?case
    by (auto split: option.splits)
qed auto

section \<open>Every step keeps the invariant\<close>

definition at_most :: "(nat \<Rightarrow> delivery list \<Rightarrow> bool) \<Rightarrow> nat \<Rightarrow> delivery list \<Rightarrow> bool" where
  "at_most may_return n ds = (may_return n ds \<and> length ds \<le> n)"

lemma backoff_doubles:
  "FIRST_BACKOFF \<le> b \<Longrightarrow> FIRST_BACKOFF \<le> min (b * 2) MAX_BACKOFF \<and> min (b * 2) MAX_BACKOFF \<le> MAX_BACKOFF"
  by (auto simp: FIRST_BACKOFF_def MAX_BACKOFF_def millis_def secs_def)

lemmas queue_wf_defs = queue_wf_def window_wf_def cancel_wf_def

lemma call_receipts [simp]:
  "image_mset receipt_of_call (image_mset (\<lambda>d. SourceRelease (f d)) M) = image_mset f M"
  "image_mset receipt_of_call (image_mset (\<lambda>d. SourceAck (f d)) M) = image_mset f M"
  "receipt_of_call \<circ> SourceRelease = id"
  "receipt_of_call \<circ> (SourceRelease \<circ> h) = h"
  by (simp_all add: multiset.map_comp comp_def fun_eq_iff)

lemma offered_same_sub: "offered_same r m \<Longrightarrow> set m' \<subseteq> set m \<Longrightarrow> offered_same r m'"
  by (cases r) auto

lemma held_ok_sub:
  "held_ok w offered \<Longrightarrow> set (wi_pending w') \<subseteq> set (wi_pending w) \<Longrightarrow> wi_next_seq w' = wi_next_seq w \<Longrightarrow> held_ok w' offered"
  unfolding held_ok_def by (metis subsetD)

subsection \<open>The receiving thread\<close>

lemma receive_top_wf: "queue_wf q \<Longrightarrow> q_receiver q = Top \<Longrightarrow> queue_wf (receive_top connect q)"
  using backoff_doubles [of "q_backoff q"]
  by (auto simp: receive_top_def queue_wf_defs accounted_def FIRST_BACKOFF_def MAX_BACKOFF_def millis_def secs_def
      split: sum.splits)

lemma wait_for_room_wf: "queue_wf q \<Longrightarrow> q_receiver q = Room \<Longrightarrow> wait_for_room q = Some q' \<Longrightarrow> queue_wf q'"
  by (auto simp: wait_for_room_def room_left_def queue_wf_defs accounted_def split: if_splits)

lemma received_wf:
  assumes "queue_wf q" "q_receiver q = Receiving n" "\<And>ds. result = Inr ds \<Longrightarrow> at_most may_return n ds"
  shows "queue_wf (received result q)"
proof (cases result)
  case (Inl e)
  with assms backoff_doubles [of "q_backoff q"] show ?thesis
    by (auto simp: received_def queue_wf_defs accounted_def)
next
  case (Inr ds)
  have "accounted (received result q) = accounted q + mset (map de_receipt ds)"
    using assms(2) by (simp add: received_def Inr accounted_def)
  moreover have "mset (q_received (received result q)) = mset (q_received q) + mset (map de_receipt ds)"
    by (simp add: received_def Inr)
  moreover have "window_wf (received result q)" "cancel_wf (received result q)"
    using assms Inr by (auto simp: received_def queue_wf_defs at_most_def)
  ultimately show ?thesis
    using assms(1) by (simp add: queue_wf_def subset_mset.add_right_mono)
qed

lemma handle_deliveries_wf:
  assumes "queue_wf q" "q_receiver q = Got ds"
  shows "queue_wf (handle_deliveries ds q)"
proof -
  have "accounted (handle_deliveries ds q) = accounted q"
    using assms(2) by (simp add: handle_deliveries_def accounted_def ac_simps)
  with assms show ?thesis
    by (auto simp: handle_deliveries_def queue_wf_defs)
qed

lemma insert_delivery_pending:
  "\<forall>p\<in>set (wi_pending w). fst p < wi_next_seq w \<Longrightarrow>
     wi_pending (insert_delivery r now w) = wi_pending w @ [(wi_next_seq w, r, now)]"
  "wi_next_seq (insert_delivery r now w) = Suc (wi_next_seq w)"
  by (simp_all add: insert_delivery_def bt_insert_last)

lemma offer_insert_wf:
  assumes "queue_wf q" "q_receiver q = Offering ds"
  shows "queue_wf (offer_insert now ds q)"
proof (cases ds)
  case Nil
  with assms show ?thesis by (auto simp: queue_wf_defs accounted_def)
next
  case (Cons d ds')
  have lt: "\<forall>p\<in>set (wi_pending (q_window q)). fst p < wi_next_seq (q_window q)"
    using assms(1) by (simp add: queue_wf_defs held_ok_def)
  note new = insert_delivery_pending(1) [OF lt] insert_delivery_pending(2)
  have "bt_wf (wi_pending (insert_delivery r now (q_window q)))" for r
    using assms(1) by (simp add: insert_delivery_def bt_wfs queue_wf_defs)
  moreover have "accounted (offer_insert now ds q) = accounted q"
    using assms(2) Cons by (simp add: accounted_def receipts_of_def new ac_simps)
  ultimately show ?thesis
    using assms Cons by (auto simp: queue_wf_defs held_ok_def new less_Suc_eq)
qed

lemma offer_emit_accounted:
  assumes "queue_wf q" "q_receiver q = Offered seq d ds"
  shows "accounted q \<subseteq># accounted (offer_emit to_string limit seq d ds q)"
proof (cases "offered_text to_string limit seq d")
  case None
  obtain r w where t: "take_seq seq (q_window q) = (r, w)" by fastforce
  have wf: "bt_wf (wi_pending (q_window q))"
    and same: "\<forall>p\<in>set (wi_pending (q_window q)). fst p = seq \<longrightarrow> fst (snd p) = de_receipt d"
    using assms by (auto simp: queue_wf_defs)
  note keeps = take_seq_keeps [OF wf t]
  have "r = Some x \<Longrightarrow> x = de_receipt d" for x using keeps(6) same by fastforce
  then show ?thesis
    using keeps(1) None assms(2) t
    by (cases r) (auto simp: offer_emit_def accounted_def)
qed (use assms in \<open>simp add: offer_emit_def accounted_def\<close>)

lemma offer_emit_wf:
  assumes "queue_wf q" "q_receiver q = Offered seq d ds"
  shows "queue_wf (offer_emit to_string limit seq d ds q)"
proof -
  obtain r w where t: "take_seq seq (q_window q) = (r, w)" by fastforce
  have wf: "bt_wf (wi_pending (q_window q))" using assms by (auto simp: queue_wf_defs)
  have "window_wf (offer_emit to_string limit seq d ds q)" "cancel_wf (offer_emit to_string limit seq d ds q)"
    using assms take_seq_keeps(2-5) [OF wf t] held_ok_sub [OF _ take_seq_keeps(2,4) [OF wf t]]
    by (auto simp: offer_emit_def queue_wf_defs t split: option.splits)
  moreover have "q_received (offer_emit to_string limit seq d ds q) = q_received q"
    by (simp add: offer_emit_def split: option.splits)
  ultimately show ?thesis
    using assms offer_emit_accounted [OF assms, of to_string limit] by (auto simp: queue_wf_def intro: subset_mset.order_trans)
qed

subsection \<open>The settling thread\<close>

lemma settle_expired_wf:
  assumes "queue_wf q" "q_settler q = SettlerLoop"
  shows "queue_wf (settle_expired now q)" and "accounted (settle_expired now q) = accounted q"
proof -
  obtain rs w where t: "take_all (late_seqs (qo_ack_timeout (q_options q)) now (q_window q)) (q_window q) = (rs, w)" by fastforce
  have wf: "bt_wf (wi_pending (q_window q))" using assms by (auto simp: queue_wf_defs)
  have out: "settle_expired now q = q\<lparr>q_window := w, q_calls := q_calls q @ map SourceRelease rs, q_settler := SettlerWait\<rparr>"
    by (simp add: settle_expired_def expired_def t)
  note keeps = take_all_keeps [OF wf t]
  show acc: "accounted (settle_expired now q) = accounted q"
    using keeps by (simp add: out accounted_def ac_simps)
  have "window_wf (settle_expired now q)"
    using assms keeps held_ok_sub [of "q_window q" _ w] by (auto simp: out queue_wf_defs intro: offered_same_sub)
  moreover have "cancel_wf (settle_expired now q)" "q_received (settle_expired now q) = q_received q"
    using assms by (auto simp: out queue_wf_defs)
  ultimately show "queue_wf (settle_expired now q)"
    using assms acc by (simp add: queue_wf_def)
qed

lemma settle_ack_wf:
  assumes "window_wf q"
  shows "window_wf (settle_ack position q)" and "accounted (settle_ack position q) = accounted q"
proof -
  have wf: "bt_wf (wi_pending (q_window q))" using assms by (simp add: window_wf_def)
  have "window_wf (settle_ack position q) \<and> accounted (settle_ack position q) = accounted q"
  proof (cases "Option.bind (json_get position ''seq'') as_u64")
    case (Some seq)
    obtain r w where t: "take_seq seq (q_window q) = (r, w)" by fastforce
    note keeps = take_seq_keeps [OF wf t]
    show ?thesis
      using assms keeps(1-5) held_ok_sub [OF _ keeps(2,4)] Some t
      by (auto simp: settle_ack_def window_wf_def accounted_def intro: offered_same_sub split: option.splits)
  qed (use assms in \<open>simp add: settle_ack_def\<close>)
  then show "window_wf (settle_ack position q)" "accounted (settle_ack position q) = accounted q" by simp_all
qed

lemma settle_ack_frame [simp]:
  "q_options (settle_ack p q) = q_options q" "q_stop (settle_ack p q) = q_stop q" "q_cancel (settle_ack p q) = q_cancel q"
  "q_receiver (settle_ack p q) = q_receiver q" "q_settles (settle_ack p q) = q_settles q"
  "q_settler (settle_ack p q) = q_settler q" "q_received (settle_ack p q) = q_received q"
  "q_offered (settle_ack p q) = q_offered q" "q_acked (settle_ack p q) = q_acked q"
  "q_event_source (settle_ack p q) = q_event_source q" "q_backoff (settle_ack p q) = q_backoff q"
  by (simp_all add: settle_ack_def split_beta split: option.splits)

lemma accounted_frame [simp]:
  "accounted (q\<lparr>q_settles := ms\<rparr>) = accounted q" "accounted (q\<lparr>q_settler := st\<rparr>) = accounted q"
  "window_wf (q\<lparr>q_settles := ms\<rparr>) = window_wf q" "window_wf (q\<lparr>q_settler := st\<rparr>) = window_wf q"
  by (cases "q_receiver q"; simp add: accounted_def window_wf_def)+

lemma settle_receive_wf:
  assumes "queue_wf q" "q_settler q = SettlerWait"
  shows "queue_wf (settle_receive q) \<and> accounted (settle_receive q) = accounted q"
proof (cases "q_settles q")
  case Nil
  with assms show ?thesis by (auto simp: settle_receive_def queue_wf_def cancel_wf_def)
next
  case (Cons m ms)
  have win: "window_wf (q\<lparr>q_settles := ms\<rparr>)" using assms by (simp add: queue_wf_def)
  show ?thesis
  proof (cases m)
    case (SettleAck p)
    have "cancel_wf ((settle_ack p (q\<lparr>q_settles := ms\<rparr>))\<lparr>q_settler := SettlerLoop\<rparr>)"
      using assms Cons SettleAck by (auto simp: queue_wf_def cancel_wf_def)
    then show ?thesis
      using assms settle_ack_wf [OF win, of p] Cons SettleAck by (simp add: settle_receive_def queue_wf_def)
  next
    case SettleStop
    let ?q = "q\<lparr>q_settles := ms\<rparr>"
    have sent: "q_cancel q = StopSent" using assms Cons SettleStop by (auto simp: queue_wf_def cancel_wf_def)
    have out: "settle_receive q = settle_stop ?q" using Cons SettleStop by (simp add: settle_receive_def)
    have acc: "accounted (settle_stop ?q) = accounted q"
      by (simp add: settle_stop_def drain_window_def accounted_def receipts_of_def ac_simps)
    have "window_wf (settle_stop ?q)" "cancel_wf (settle_stop ?q)" "q_received (settle_stop ?q) = q_received q"
      using assms sent by (auto simp: settle_stop_def drain_window_def queue_wf_defs held_ok_def intro: offered_same_sub)
    then show ?thesis using assms acc by (simp add: out queue_wf_def)
  qed
qed

subsection \<open>All steps\<close>

lemma receiver_step_wf:
  assumes "receiver_step (at_most may_return) to_string limit q q'" "queue_wf q"
  shows "queue_wf q'"
  using assms by cases
    (auto intro: receive_top_wf wait_for_room_wf received_wf handle_deliveries_wf offer_insert_wf offer_emit_wf)

lemma settler_step_wf: "settler_step q q' \<Longrightarrow> queue_wf q \<Longrightarrow> queue_wf q' \<and> accounted q' = accounted q"
  by (auto elim!: settler_step.cases simp: settle_expired_wf settle_receive_wf)

lemma host_wf:
  "queue_wf q \<Longrightarrow> acknowledge_queue_watch position (Some q) = Some q' \<Longrightarrow> queue_wf q' \<and> accounted q' = accounted q"
  "queue_wf q \<Longrightarrow> q_cancel q = Running \<Longrightarrow> queue_wf (cancel_stop q) \<and> accounted (cancel_stop q) = accounted q"
  "queue_wf q \<Longrightarrow> q_cancel q = Stopping \<Longrightarrow> q_receiver q = ReceiverDone \<Longrightarrow>
     queue_wf (cancel_send q) \<and> accounted (cancel_send q) = accounted q"
  by (auto simp: acknowledge_queue_watch_def cancel_stop_def cancel_send_def queue_wf_defs accounted_def)

lemma spawn_queue_watch_ok:
  assumes "spawn_queue_watch ies se uri opts = Ok q"
  shows "validate_queue opts = Inr ()" and "q = \<lparr>q_options = opts, q_event_source = ies uri,
    q_window = \<lparr>wi_pending = [], wi_next_seq = 0\<rparr>, q_stop = False, q_connected = False,
    q_backoff = FIRST_BACKOFF, q_receiver = Top, q_settler = SettlerLoop, q_settles = [], q_cancel = Running,
    q_emitted = [], q_calls = [], q_received = [], q_offered = [], q_acked = []\<rparr>"
  using assms by (cases "validate_queue opts"; cases se; simp add: spawn_queue_watch_def)+

lemma queue_spawned_wf:
  assumes "queue_spawned q"
  shows "queue_wf q"
proof -
  obtain ies se uri opts where "spawn_queue_watch ies se uri opts = Ok q"
    using assms by (auto simp: queue_spawned_def)
  from spawn_queue_watch_ok(2) [OF this] show ?thesis
    by (simp add: queue_wf_defs held_ok_def accounted_def FIRST_BACKOFF_def MAX_BACKOFF_def millis_def secs_def)
qed

interpretation queue: step_invariant queue_spawned "queue_step (at_most may_return) to_string limit" queue_wf
  for may_return to_string limit
proof unfold_locales
  show "queue_wf q \<Longrightarrow> queue_step (at_most may_return) to_string limit q q' \<Longrightarrow> queue_wf q'" for q q'
    by (erule queue_step.cases) (auto dest: receiver_step_wf settler_step_wf host_wf)
qed (rule queue_spawned_wf)

section \<open>Settled once, and only for the host\<close>

text \<open>Every event serialises and fits the host's payload limit.\<close>

definition all_fit :: "(watch_event \<Rightarrow> string option) \<Rightarrow> nat \<Rightarrow> bool" where
  "all_fit to_string limit = (\<forall>seq d. offered_text to_string limit seq d \<noteq> None)"

lemma all_fitE:
  assumes "all_fit to_string limit"
  obtains out where "offered_text to_string limit seq d = Some out"
  using assms by (auto simp: all_fit_def)

lemma receiver_step_accounted:
  assumes "receiver_step may_return to_string limit q q'" "queue_wf q" "all_fit to_string limit"
  shows "\<exists>rs. mset (q_received q') = mset (q_received q) + rs \<and> accounted q' = accounted q + rs"
  using assms(1)
proof cases
  case (r_top connect)
  then show ?thesis by (intro exI [of _ "{#}"]) (simp add: receive_top_def accounted_def split: sum.split)
next
  case r_room
  then show ?thesis
    by (intro exI [of _ "{#}"]) (auto simp: wait_for_room_def accounted_def split: if_splits)
next
  case (r_receive n result)
  then show ?thesis
    by (cases result) (auto simp: received_def accounted_def)
next
  case (r_got ds)
  then show ?thesis by (intro exI [of _ "{#}"]) (simp add: handle_deliveries_def accounted_def ac_simps)
next
  case (r_insert ds now)
  have lt: "\<forall>p\<in>set (wi_pending (q_window q)). fst p < wi_next_seq (q_window q)"
    using assms(2) by (simp add: queue_wf_defs held_ok_def)
  from r_insert show ?thesis
    by (intro exI [of _ "{#}"], cases ds)
      (simp_all add: accounted_def receipts_of_def insert_delivery_pending(1) [OF lt])
next
  case (r_emit seq d ds)
  obtain out where "offered_text to_string limit seq d = Some out" using all_fitE [OF assms(3)] by blast
  with r_emit show ?thesis
    by (intro exI [of _ "{#}"]) (simp add: offer_emit_def accounted_def)
qed

definition seq_of_position :: "json \<Rightarrow> nat option" where
  "seq_of_position position = Option.bind (json_get position ''seq'') as_u64"

definition host_acked :: "queue_watch \<Rightarrow> json \<Rightarrow> bool" where
  "host_acked q r = (\<exists>seq position. (seq, r) \<in> set (q_offered q) \<and> position \<in> set (q_acked q) \<and>
     seq_of_position position = Some seq)"

definition offered_ok :: "queue_watch \<Rightarrow> bool" where
  "offered_ok q = (distinct (map fst (q_offered q)) \<and> list_all (\<lambda>p. fst p < wi_next_seq (q_window q)) (q_offered q) \<and>
     (\<forall>p. SettleAck p \<in> set (q_settles q) \<longrightarrow> p \<in> set (q_acked q)))"

definition settled_ok :: "(watch_event \<Rightarrow> string option) \<Rightarrow> nat \<Rightarrow> queue_watch \<Rightarrow> bool" where
  "settled_ok to_string limit q = (queue_wf q \<and> offered_ok q \<and>
     (all_fit to_string limit \<longrightarrow> mset (q_received q) = accounted q \<and>
        (q_event_source q \<longrightarrow> (\<forall>r. SourceAck r \<in> set (q_calls q) \<longrightarrow> host_acked q r))))"

lemma take_all_next_seq: "wi_next_seq (snd (take_all seqs w)) = wi_next_seq w"
  by (induction seqs arbitrary: w) (simp_all add: take_seq_def split_beta)

lemma receiver_step_frame:
  assumes "receiver_step may_return to_string limit q q'" "offered_ok q"
  shows "offered_ok q' \<and> q_acked q' = q_acked q \<and> set (q_offered q) \<subseteq> set (q_offered q') \<and>
    q_event_source q' = q_event_source q"
  using assms(1)
proof cases
  case (r_insert ds now)
  then show ?thesis
    using assms(2) by (cases ds) (auto simp: offered_ok_def insert_delivery_pending(2) less_Suc_eq list_all_iff)
qed (use assms(2) in \<open>auto simp: offered_ok_def receive_top_def wait_for_room_def received_def handle_deliveries_def
  offer_emit_def take_seq_def split: sum.splits option.splits if_splits\<close>)

lemma receiver_step_acks:
  assumes "receiver_step may_return to_string limit q q'" "all_fit to_string limit" "q_event_source q"
    "SourceAck r \<in> set (q_calls q')"
  shows "SourceAck r \<in> set (q_calls q)"
  using assms(1)
proof cases
  case (r_insert ds now)
  then show ?thesis using assms(4) by (cases ds) auto
next
  case (r_emit seq d ds)
  obtain out where "offered_text to_string limit seq d = Some out" using all_fitE [OF assms(2)] by blast
  with r_emit show ?thesis using assms(4) by (simp add: offer_emit_def)
qed (use assms(3,4) in \<open>auto simp: receive_top_def wait_for_room_def received_def handle_deliveries_def
  split: sum.splits option.splits if_splits\<close>)

lemma settler_step_frame:
  assumes "settler_step q q'" "queue_wf q" "offered_ok q"
  shows "offered_ok q' \<and> q_acked q' = q_acked q \<and> q_offered q' = q_offered q \<and>
    q_event_source q' = q_event_source q \<and> q_received q' = q_received q"
  using assms(1)
proof cases
  case (s_expired now)
  then show ?thesis
    using assms(3) by (simp add: settle_expired_def expired_def split_beta offered_ok_def take_all_next_seq)
next
  case s_receive
  have next_seq: "wi_next_seq (q_window (settle_ack p q0)) = wi_next_seq (q_window q0)" for p q0
    by (simp add: settle_ack_def take_seq_def split_beta split: option.split)
  from s_receive show ?thesis
    using assms(3) by (auto simp: settle_receive_def settle_stop_def drain_window_def offered_ok_def next_seq
      split: list.splits settle.splits)
qed

lemma settler_step_acks:
  assumes "settler_step q q'" "queue_wf q" "offered_ok q" "SourceAck r \<in> set (q_calls q')"
  shows "SourceAck r \<in> set (q_calls q) \<or> host_acked q r"
  using assms(1)
proof cases
  case (s_expired now)
  then show ?thesis using assms(4) by (auto simp: settle_expired_def split_beta)
next
  case s_receive
  have wf: "bt_wf (wi_pending (q_window q))" "held_ok (q_window q) (q_offered q)" using assms(2) by (simp_all add: queue_wf_defs)
  have ack: "host_acked q r" if "SettleAck p \<in> set (q_settles q)" "seq_of_position p = Some seq"
    "fst (take_seq seq (q_window q)) = Some r" for p seq
  proof -
    note ack = that
    obtain w' where "take_seq seq (q_window q) = (Some r, w')" using ack(3) by (metis prod.collapse)
    then obtain at where "(seq, r, at) \<in> set (wi_pending (q_window q))" using take_seq_keeps(6) [OF wf(1)] by blast
    then have "(seq, r) \<in> set (q_offered q)" using wf(2) by (fastforce simp: held_ok_def)
    then show ?thesis using ack assms(3) by (auto simp: host_acked_def offered_ok_def)
  qed
  from s_receive assms(4) show ?thesis
    by (auto simp: settle_receive_def settle_stop_def settle_ack_def split_beta seq_of_position_def [symmetric]
        split: list.splits settle.splits option.splits intro!: ack)
qed

lemma host_acked_mono:
  "host_acked q r \<Longrightarrow> set (q_offered q) \<subseteq> set (q_offered q') \<Longrightarrow> set (q_acked q) \<subseteq> set (q_acked q') \<Longrightarrow> host_acked q' r"
  by (fastforce simp: host_acked_def)

lemma receiver_step_settled:
  assumes "receiver_step (at_most may_return) to_string limit q q'" "settled_ok to_string limit q"
  shows "settled_ok to_string limit q'"
proof -
  have ok: "queue_wf q" "offered_ok q" using assms(2) by (simp_all add: settled_ok_def)
  note frame = receiver_step_frame [OF assms(1) ok(2)]
  show ?thesis
    unfolding settled_ok_def
  proof (intro conjI impI allI)
    show "queue_wf q'" using receiver_step_wf [OF assms(1) ok(1)] .
    show "offered_ok q'" using frame by simp
  next
    assume fit: "all_fit to_string limit"
    then show "mset (q_received q') = accounted q'"
      using receiver_step_accounted [OF assms(1) ok(1) fit] assms(2) by (auto simp: settled_ok_def)
    fix r assume "q_event_source q'" "SourceAck r \<in> set (q_calls q')"
    then have "host_acked q r"
      using receiver_step_acks [OF assms(1) fit] frame fit assms(2) by (auto simp: settled_ok_def)
    then show "host_acked q' r" by (rule host_acked_mono) (use frame in auto)
  qed
qed

lemma settler_step_settled:
  assumes "settler_step q q'" "settled_ok to_string limit q"
  shows "settled_ok to_string limit q'"
proof -
  have ok: "queue_wf q" "offered_ok q" using assms(2) by (simp_all add: settled_ok_def)
  note frame = settler_step_frame [OF assms(1) ok]
  have "host_acked q' r" if "host_acked q r" for r
    using host_acked_mono [OF that] frame by auto
  then show ?thesis
    using frame settler_step_wf [OF assms(1) ok(1)] settler_step_acks [OF assms(1) ok] assms(2)
    by (fastforce simp: settled_ok_def)
qed

lemma host_settled:
  "settled_ok to_string limit q \<Longrightarrow> acknowledge_queue_watch position (Some q) = Some q' \<Longrightarrow> settled_ok to_string limit q'"
  "settled_ok to_string limit q \<Longrightarrow> q_cancel q = Running \<Longrightarrow> settled_ok to_string limit (cancel_stop q)"
  "settled_ok to_string limit q \<Longrightarrow> q_cancel q = Stopping \<Longrightarrow> q_receiver q = ReceiverDone \<Longrightarrow>
     settled_ok to_string limit (cancel_send q)"
  using host_wf [of q] unfolding settled_ok_def
  by (auto simp: acknowledge_queue_watch_def cancel_stop_def cancel_send_def offered_ok_def elim!: host_acked_mono split: if_splits)

lemma queue_spawned_settled: "queue_spawned q \<Longrightarrow> settled_ok to_string limit q"
  using queue_spawned_wf [of q] spawn_queue_watch_ok(2)
  by (fastforce simp: queue_spawned_def settled_ok_def offered_ok_def accounted_def receipts_of_def)

interpretation settled: step_invariant queue_spawned "queue_step (at_most may_return) to_string limit" "settled_ok to_string limit"
  for may_return to_string limit
proof unfold_locales
  show "settled_ok to_string limit q \<Longrightarrow> queue_step (at_most may_return) to_string limit q q' \<Longrightarrow> settled_ok to_string limit q'" for q q'
    by (erule queue_step.cases) (auto dest: receiver_step_settled settler_step_settled host_settled)
qed (rule queue_spawned_settled)

text \<open>A broker that keeps to the trait's contract never returns more deliveries than asked for.\<close>

definition respects_max :: "(nat \<Rightarrow> delivery list \<Rightarrow> bool) \<Rightarrow> bool" where
  "respects_max may_return = (\<forall>n ds. may_return n ds \<longrightarrow> length ds \<le> n)"

lemma respects_max_eq: "respects_max may_return \<Longrightarrow> at_most may_return = may_return"
  by (auto simp: respects_max_def at_most_def fun_eq_iff)

section \<open>Stopping\<close>

fun receiver_rank :: "receiver \<Rightarrow> nat" where
  "receiver_rank ReceiverDone = 0"
| "receiver_rank Top = 1"
| "receiver_rank Room = 1"
| "receiver_rank (Got ds) = 1"
| "receiver_rank (Receiving n) = 2"
| "receiver_rank (Offering ds) = 2 * length ds + 2"
| "receiver_rank (Offered seq d ds) = 2 * length ds + 3"

lemma receiver_rank_decreases:
  assumes "receiver_step may_return to_string limit q q'" "q_stop q"
  shows "receiver_rank (q_receiver q') < receiver_rank (q_receiver q) \<and> q_stop q'"
  using assms(1)
proof cases
  case (r_insert ds now)
  then show ?thesis using assms(2) by (cases ds) auto
qed (use assms(2) in \<open>auto simp: receive_top_def wait_for_room_def received_def handle_deliveries_def offer_emit_def
  split: sum.splits option.splits\<close>)

section \<open>Properties\<close>

definition demo_queue :: queue_watch where
  "demo_queue = \<lparr>q_options = \<lparr>qo_source = ''q'', qo_max_in_flight = 2, qo_ack_timeout = 5, qo_receive_wait = 1\<rparr>,
     q_event_source = True, q_window = \<lparr>wi_pending = [], wi_next_seq = 0\<rparr>, q_stop = False, q_connected = False,
     q_backoff = FIRST_BACKOFF, q_receiver = Top, q_settler = SettlerLoop, q_settles = [], q_cancel = Running,
     q_emitted = [], q_calls = [], q_received = [], q_offered = [], q_acked = []\<rparr>"

lemma demo_queue_spawned: "queue_spawned demo_queue"
proof -
  have "spawn_queue_watch (\<lambda>_. True) None [] (q_options demo_queue) = Ok demo_queue"
    by (simp add: spawn_queue_watch_def validate_queue_def demo_queue_def secs_def)
  then show ?thesis unfolding queue_spawned_def by blast
qed

definition demo_broker :: "nat \<Rightarrow> delivery list \<Rightarrow> bool" where
  "demo_broker n ds = (length ds \<le> n)"

lemma demo_broker_respects: "respects_max demo_broker"
  by (simp add: respects_max_def demo_broker_def)

lemma demo_queue_reach: "reach queue_spawned (queue_step demo_broker to_string limit) (cancel_stop demo_queue)"
proof -
  have "reach queue_spawned (queue_step demo_broker to_string limit) demo_queue"
    using demo_queue_spawned by (rule reach_init)
  then show ?thesis by (rule reach_step) (rule host_stop, simp add: demo_queue_def)
qed

text \<open>C30. With a broker that returns no more than it is asked for, the window never holds more than
  \<^verbatim>\<open>max_in_flight\<close> deliveries, whatever the interleaving of the two threads and the host, and the
  reconnection delay stays between its first value and its maximum.\<close>

theorem queue_window_bounded:
  assumes "respects_max may_return" "reach queue_spawned (queue_step may_return to_string limit) q"
  shows "length (wi_pending (q_window q)) \<le> qo_max_in_flight (q_options q) \<and>
    FIRST_BACKOFF \<le> q_backoff q \<and> q_backoff q \<le> MAX_BACKOFF"
  using queue.reach_inv [of may_return to_string limit q] assms
  by (simp add: respects_max_eq queue_wf_def window_wf_def)

theorem queue_window_bounded_witness:
  "length (wi_pending (q_window (cancel_stop demo_queue))) \<le> qo_max_in_flight (q_options (cancel_stop demo_queue))"
  using queue_window_bounded [OF demo_broker_respects demo_queue_reach] by blast

text \<open>C2. No delivery is lost: every receipt the broker handed out is held in the window, in the hand of the
  receiving thread, or was settled by an ack or a release; and once a cancel has joined both threads
  the window is empty and all of them were settled.\<close>

theorem queue_loses_nothing:
  assumes "respects_max may_return" "reach queue_spawned (queue_step may_return to_string limit) q"
  shows "mset (q_received q) \<subseteq># accounted q \<and>
    (q_receiver q = ReceiverDone \<and> q_settler q = SettlerDone \<longrightarrow>
       wi_pending (q_window q) = [] \<and> mset (q_received q) \<subseteq># mset (map receipt_of_call (q_calls q)))"
proof -
  have wf: "queue_wf q" using queue.reach_inv [of may_return to_string limit q] assms by (simp add: respects_max_eq)
  then have "q_settler q = SettlerDone \<Longrightarrow> wi_pending (q_window q) = []" by (simp add: queue_wf_def cancel_wf_def)
  with wf show ?thesis by (auto simp: queue_wf_def accounted_def receipts_of_def)
qed

theorem queue_loses_nothing_witness: "mset (q_received (cancel_stop demo_queue)) \<subseteq># accounted (cancel_stop demo_queue)"
  using queue_loses_nothing [OF demo_broker_respects demo_queue_reach] by blast



text \<open>Stopping is bounded: once the stop flag is up, every step of the receiving thread brings it closer
  to its return, so it returns after at most twice the deliveries in its hand and three more steps.\<close>

theorem queue_stop_bounded:
  assumes "q_stop q" "receiver_step may_return to_string limit q q'"
  shows "receiver_rank (q_receiver q') < receiver_rank (q_receiver q) \<and> q_stop q' \<and>
    receiver_rank (q_receiver q) \<le> 2 * length (in_hand (q_receiver q)) + 3"
  using receiver_rank_decreases [OF assms(2,1)] by (cases "q_receiver q") simp_all

theorem queue_stop_bounded_witness:
  "receiver_rank (q_receiver (receive_top (Inr ()) (cancel_stop demo_queue))) < receiver_rank (q_receiver (cancel_stop demo_queue))"
proof -
  have "q_stop (cancel_stop demo_queue)" "q_receiver (cancel_stop demo_queue) = Top"
    by (simp_all add: cancel_stop_def demo_queue_def)
  from queue_stop_bounded [OF this(1) r_top [OF this(2)]] show ?thesis by blast
qed

text \<open>The settling thread never sleeps past the time-out of a delivery, nor longer than a second.\<close>

lemma foldl_min_first: "foldl min (t::nat) ts \<le> t"
  by (induction ts arbitrary: t) (auto intro: order_trans [OF _ min.cobounded1])

lemma foldl_min_le: "u \<in> set ts \<Longrightarrow> foldl min (t::nat) ts \<le> u"
  by (induction ts arbitrary: t) (auto intro: order_trans [OF foldl_min_first])

lemma settle_wait_bound:
  assumes "(seq, r, at) \<in> set (wi_pending w)"
  shows "settle_wait timeout now w \<le> at + timeout - now \<and> settle_wait timeout now w \<le> secs 1"
proof -
  obtain p ps where "wi_pending w = p # ps" using assms by (cases "wi_pending w") auto
  then have "\<exists>t. next_expiry timeout w = Some t \<and> t \<le> at + timeout"
    using assms foldl_min_first [of "snd (snd p) + timeout" "map (\<lambda>p. snd (snd p) + timeout) ps"]
      foldl_min_le [of "at + timeout" "map (\<lambda>p. snd (snd p) + timeout) ps" "snd (snd p) + timeout"]
    by (force simp: next_expiry_def image_iff)
  then show ?thesis by (auto simp: settle_wait_def)
qed

definition demo_delivery :: delivery where
  "demo_delivery = \<lparr>de_event = default_event, de_receipt = JNull\<rparr>"

text \<open>C39. When an event cannot be emitted, its delivery can be settled twice: if it times out between entering
  the window and being given up, the settling thread releases it and the receiving thread acks it.\<close>

theorem queue_double_settlement:
  "\<exists>q. reach queue_spawned (queue_step demo_broker (\<lambda>_. None) limit) q \<and>
     q_received q = [JNull] \<and> q_calls q = [SourceRelease JNull, SourceAck JNull]"
proof -
  let ?step = "queue_step demo_broker (\<lambda>_. None) limit" and ?d = demo_delivery
  define q1 where "q1 = receive_top (Inr ()) demo_queue"
  define q2 where "q2 = q1\<lparr>q_receiver := Receiving 2\<rparr>"
  define q3 where "q3 = received (Inr [?d]) q2"
  define q4 where "q4 = handle_deliveries [?d] q3"
  define q5 where "q5 = offer_insert 0 [?d] q4"
  define q6 where "q6 = settle_expired 5 q5"
  define q7 where "q7 = offer_emit (\<lambda>_. None) limit 0 ?d [] q6"
  note r = by_receiver [of demo_broker "\<lambda>_. None" limit]
  have 1: "?step demo_queue q1" unfolding q1_def by (rule r, rule r_top) (simp add: demo_queue_def)
  have e1: "q1 = demo_queue\<lparr>q_connected := True, q_receiver := Room\<rparr>"
    by (simp add: q1_def receive_top_def demo_queue_def)
  have 2: "?step q1 q2" by (rule r, rule r_room) (simp_all add: q2_def e1 wait_for_room_def room_left_def demo_queue_def)
  have 3: "?step q2 q3" unfolding q3_def by (rule r, rule r_receive) (auto simp: q2_def demo_broker_def)
  have 4: "?step q3 q4" unfolding q4_def by (rule r, rule r_got) (simp add: q3_def received_def)
  have e4: "q4 = demo_queue\<lparr>q_connected := True, q_receiver := Offering [?d], q_received := [JNull]\<rparr>"
    by (simp add: q4_def handle_deliveries_def q3_def received_def q2_def e1 demo_queue_def demo_delivery_def)
  have 5: "?step q4 q5" unfolding q5_def by (rule r, rule r_insert) (simp add: e4)
  have 6: "?step q5 q6" unfolding q6_def by (rule by_settler, rule s_expired) (simp add: q5_def e4 demo_queue_def)
  have e6: "q_receiver q6 = Offered 0 ?d []" "q_calls q6 = [SourceRelease JNull]" "q_received q6 = [JNull]"
    by (simp_all add: q6_def q5_def e4 settle_expired_def expired_def late_seqs_def elapsed_def insert_delivery_def
        take_seq_def bt_get_def demo_queue_def demo_delivery_def)
  have 7: "?step q6 q7" unfolding q7_def by (rule r, rule r_emit) (rule e6(1))
  have "reach queue_spawned ?step demo_queue" using demo_queue_spawned by (rule reach_init)
  from reach_step [OF reach_step [OF reach_step [OF reach_step [OF reach_step [OF reach_step [OF reach_step [OF this 1] 2] 3] 4] 5] 6] 7]
  have "reach queue_spawned ?step q7" .
  moreover have "q_received q7 = [JNull]" "q_calls q7 = [SourceRelease JNull, SourceAck JNull]"
    by (simp_all add: q7_def offer_emit_def offered_text_def e6 demo_delivery_def)
  ultimately show ?thesis by blast
qed

end
