(* ===== verification/Polling_Watch.thy ===== *)
theory Polling_Watch
  imports Json_Value
begin

text \<open>
  The polling watch of \<^verbatim>\<open>src/src/watch.rs\<close>: a thread that polls a state, takes the first one as its
  baseline and signals every later difference, and sleeps in slices so that a cancel is seen soon.

  One tick of the thread is \<open>tick\<close>; the loop takes, per round, what the stop flag reads and what the
  poll returns. \<^verbatim>\<open>serde_json::to_string\<close>, \<^verbatim>\<open>is_event_source\<close> and the plugin's \<^verbatim>\<open>diff\<close> are arguments.
\<close>

section \<open>Definitions\<close>

definition POLL_MIN_INTERVAL :: duration where
  "POLL_MIN_INTERVAL = millis 250"

record 's polling_watch =
  pw_event_source :: bool
  pw_interval :: duration
  pw_event_json :: string
  pw_last :: "'s option"
  pw_emitted :: "string list"

definition spawn_diffing_watch :: "(string \<Rightarrow> bool) \<Rightarrow> (watch_event \<Rightarrow> string option) \<Rightarrow> string \<Rightarrow> duration \<Rightarrow> 's polling_watch" where
  "spawn_diffing_watch is_event_source to_string uri interval =
     \<lparr>pw_event_source = is_event_source uri, pw_interval = max interval POLL_MIN_INTERVAL,
      pw_event_json = (case to_string default_event of Some json \<Rightarrow> json | None \<Rightarrow> ''{}''),
      pw_last = None, pw_emitted = []\<rparr>"

definition tick :: "(watch_event \<Rightarrow> string option) \<Rightarrow> ('s \<Rightarrow> 's \<Rightarrow> watch_event list) \<Rightarrow>
    (string, 's option) result \<Rightarrow> 's polling_watch \<Rightarrow> 's polling_watch" where
  "tick to_string diff polled w =
     (case polled of
        Inl error \<Rightarrow> w
      | Inr None \<Rightarrow> w
      | Inr (Some cur) \<Rightarrow>
          (case pw_last w of
             None \<Rightarrow> w\<lparr>pw_last := Some cur\<rparr>
           | Some prev \<Rightarrow>
               if prev \<noteq> cur
               then w\<lparr>pw_emitted := pw_emitted w @
                        (if pw_event_source w then List.map_filter to_string (diff prev cur) else [pw_event_json w]),
                      pw_last := Some cur\<rparr>
               else w))"

text \<open>\<^verbatim>\<open>spawn_polling_watch\<close> is the diffing watch whose every difference is one default event.\<close>

definition polling_diff :: "'s \<Rightarrow> 's \<Rightarrow> watch_event list" where
  "polling_diff prev cur = [default_event]"

fun watch_loop :: "(watch_event \<Rightarrow> string option) \<Rightarrow> ('s \<Rightarrow> 's \<Rightarrow> watch_event list) \<Rightarrow>
    (bool \<times> (string, 's option) result) list \<Rightarrow> 's polling_watch \<Rightarrow> 's polling_watch" where
  "watch_loop to_string diff [] w = w"
| "watch_loop to_string diff ((stop, polled) # rounds) w =
     (if stop then w else watch_loop to_string diff rounds (tick to_string diff polled w))"

definition SLICE :: duration where
  "SLICE = millis 200"

text \<open>
  \<^verbatim>\<open>sleep_interruptible\<close>: \<open>stop i\<close> is what the flag reads at the \<open>i\<close>-th check; the result is how long it
  slept.
\<close>

function sleep_loop :: "(nat \<Rightarrow> bool) \<Rightarrow> nat \<Rightarrow> duration \<Rightarrow> duration \<Rightarrow> duration" where
  "sleep_loop stop i slept whole =
     (if slept < whole
      then (if stop i then slept else sleep_loop stop (i + 1) (slept + min SLICE (whole - slept)) whole)
      else slept)"
  by pat_completeness auto
termination
  by (relation "measure (\<lambda>(stop, i, slept, whole). whole - slept)") (auto simp: SLICE_def millis_def)

definition sleep_interruptible :: "(nat \<Rightarrow> bool) \<Rightarrow> duration \<Rightarrow> duration" where
  "sleep_interruptible stop whole = sleep_loop stop 0 0 whole"

declare sleep_loop.simps [simp del]

section \<open>The thread and its cancel\<close>

text \<open>
  The thread between its atomic actions: the check of the stop flag, a poll, the events of a difference
  one at a time, and the sleep between its checks. \<^verbatim>\<open>cancel_polling_watch\<close> raises the flag and joins
  the thread; the box behind the handle goes when the join returns. \<open>pr_polled\<close> is what the polls returned.
\<close>

datatype 's poll_phase = LoopTop | InPoll | Emitting "string list" 's | Napping duration | ThreadExited

datatype poll_cancel = NotAsked | Joining | Joined

record 's polling_run =
  pr_watch :: "'s polling_watch"
  pr_phase :: "'s poll_phase"
  pr_stop :: bool
  pr_cancel :: poll_cancel
  pr_box :: bool
  pr_polled :: "(string, 's option) result list"

definition polling_thread :: "'s polling_watch \<Rightarrow> 's polling_run" where
  "polling_thread w = \<lparr>pr_watch = w, pr_phase = LoopTop, pr_stop = False, pr_cancel = NotAsked, pr_box = True, pr_polled = []\<rparr>"

definition check_stop :: "'s polling_run \<Rightarrow> 's polling_run" where
  "check_stop w = w\<lparr>pr_phase := (if pr_stop w then ThreadExited else InPoll)\<rparr>"

definition poll_returns :: "(watch_event \<Rightarrow> string option) \<Rightarrow> ('s \<Rightarrow> 's \<Rightarrow> watch_event list) \<Rightarrow> (string, 's option) result \<Rightarrow> 's polling_run \<Rightarrow> 's polling_run" where
  "poll_returns to_string diff r w =
     (let w = w\<lparr>pr_polled := pr_polled w @ [r]\<rparr>
      in case r of
           Inr (Some cur) \<Rightarrow>
             (case pw_last (pr_watch w) of
                None \<Rightarrow> w\<lparr>pr_watch := (pr_watch w)\<lparr>pw_last := Some cur\<rparr>, pr_phase := Napping 0\<rparr>
              | Some prev \<Rightarrow>
                  if prev \<noteq> cur
                  then w\<lparr>pr_phase := Emitting (if pw_event_source (pr_watch w) then List.map_filter to_string (diff prev cur)
                           else [pw_event_json (pr_watch w)]) cur\<rparr>
                  else w\<lparr>pr_phase := Napping 0\<rparr>)
         | _ \<Rightarrow> w\<lparr>pr_phase := Napping 0\<rparr>)"

text \<open>A poll, or the difference of its state, that panics unwinds the thread.\<close>

definition poll_panics :: "'s polling_run \<Rightarrow> 's polling_run" where
  "poll_panics w = w\<lparr>pr_phase := ThreadExited\<rparr>"

definition emit_next :: "string list \<Rightarrow> 's \<Rightarrow> 's polling_run \<Rightarrow> 's polling_run" where
  "emit_next texts cur w =
     (case texts of
        t # ts \<Rightarrow> w\<lparr>pr_watch := (pr_watch w)\<lparr>pw_emitted := pw_emitted (pr_watch w) @ [t]\<rparr>, pr_phase := Emitting ts cur\<rparr>
      | [] \<Rightarrow> w\<lparr>pr_watch := (pr_watch w)\<lparr>pw_last := Some cur\<rparr>, pr_phase := Napping 0\<rparr>)"

definition nap :: "duration \<Rightarrow> 's polling_run \<Rightarrow> 's polling_run" where
  "nap slept w = w\<lparr>pr_phase := (if slept < pw_interval (pr_watch w) \<and> \<not> pr_stop w
      then Napping (slept + min SLICE (pw_interval (pr_watch w) - slept)) else LoopTop)\<rparr>"

definition cancel_polling_watch :: "bool \<Rightarrow> 's polling_run \<Rightarrow> 's polling_run" where
  "cancel_polling_watch null w = (if null then w else w\<lparr>pr_stop := True, pr_cancel := Joining\<rparr>)"

definition join_returns :: "'s polling_run \<Rightarrow> 's polling_run" where
  "join_returns w = w\<lparr>pr_cancel := Joined, pr_box := False\<rparr>"

inductive poll_thread_step :: "(watch_event \<Rightarrow> string option) \<Rightarrow> ('s \<Rightarrow> 's \<Rightarrow> watch_event list) \<Rightarrow> 's polling_run \<Rightarrow> 's polling_run \<Rightarrow> bool"
  for to_string diff where
  t_check: "pr_phase w = LoopTop \<Longrightarrow> poll_thread_step to_string diff w (check_stop w)"
| t_poll: "pr_phase w = InPoll \<Longrightarrow> poll_thread_step to_string diff w (poll_returns to_string diff r w)"
| t_panic: "pr_phase w = InPoll \<Longrightarrow> poll_thread_step to_string diff w (poll_panics w)"
| t_emit: "pr_phase w = Emitting ts cur \<Longrightarrow> poll_thread_step to_string diff w (emit_next ts cur w)"
| t_nap: "pr_phase w = Napping slept \<Longrightarrow> poll_thread_step to_string diff w (nap slept w)"

text \<open>The host cancels a handle once, or passes a null one.\<close>

inductive polling_step :: "(watch_event \<Rightarrow> string option) \<Rightarrow> ('s \<Rightarrow> 's \<Rightarrow> watch_event list) \<Rightarrow> 's polling_run \<Rightarrow> 's polling_run \<Rightarrow> bool"
  for to_string diff where
  p_thread: "poll_thread_step to_string diff w w' \<Longrightarrow> polling_step to_string diff w w'"
| p_cancel: "null \<or> pr_cancel w = NotAsked \<Longrightarrow> polling_step to_string diff w (cancel_polling_watch null w)"
| p_join: "pr_cancel w = Joining \<Longrightarrow> pr_phase w = ThreadExited \<Longrightarrow> polling_step to_string diff w (join_returns w)"

section \<open>What a run emits\<close>

definition polled_values :: "(string, 's option) result list \<Rightarrow> 's list" where
  "polled_values = List.map_filter (\<lambda>r. case r of Inl _ \<Rightarrow> None | Inr v \<Rightarrow> v)"

definition change_texts :: "(watch_event \<Rightarrow> string option) \<Rightarrow> ('s \<Rightarrow> 's \<Rightarrow> watch_event list) \<Rightarrow> 's polling_watch \<Rightarrow> 's \<Rightarrow> 's \<Rightarrow> string list" where
  "change_texts to_string diff w prev cur =
     (if pw_event_source w then List.map_filter to_string (diff prev cur) else [pw_event_json w])"

text \<open>The texts of all the changes of a sequence of states.\<close>

fun texts_between :: "('s \<Rightarrow> 's \<Rightarrow> string list) \<Rightarrow> 's list \<Rightarrow> string list" where
  "texts_between f (x # y # xs) = f x y @ texts_between f (y # xs)"
| "texts_between f _ = []"

lemma tick_frame [simp]:
  "pw_event_source (tick ts diff r w) = pw_event_source w" "pw_event_json (tick ts diff r w) = pw_event_json w"
  "pw_interval (tick ts diff r w) = pw_interval w"
  by (simp_all add: tick_def split: sum.splits option.splits)

lemma change_texts_tick [simp]: "change_texts ts diff (tick ts' d r w) = change_texts ts diff w"
  by (simp add: change_texts_def fun_eq_iff)

lemma ticks_emit:
  "pw_last w = Some v \<Longrightarrow>
     pw_emitted (foldl (\<lambda>w r. tick ts diff r w) w rs) =
       pw_emitted w @ texts_between (change_texts ts diff w) (remdups_adj (v # polled_values rs))"
proof (induction rs arbitrary: w v)
  case Nil
  then show ?case by (simp add: polled_values_def map_filter_simps)
next
  case (Cons r rs)
  let ?w = "tick ts diff r w"
  show ?case
  proof (cases "case r of Inl _ \<Rightarrow> None | Inr u \<Rightarrow> u")
    case None
    then have "?w = w" by (simp add: tick_def split: sum.splits)
    with Cons None show ?thesis by (simp add: polled_values_def map_filter_simps)
  next
    case (Some u)
    then have r: "r = Inr (Some u)" by (simp split: sum.splits)
    have last: "pw_last ?w = Some u" using Cons.prems by (simp add: tick_def r)
    have vals: "polled_values (r # rs) = u # polled_values rs" by (simp add: polled_values_def map_filter_simps r)
    obtain us where us: "remdups_adj (u # polled_values rs) = u # us" by (metis remdups_adj_Cons_alt)
    have "pw_emitted ?w = pw_emitted w @ (if u = v then [] else change_texts ts diff w v u)"
      using Cons.prems by (simp add: tick_def r change_texts_def)
    with Cons.IH [OF last] us show ?thesis
      by (auto simp: vals)
  qed
qed

lemma ticks_emit_fresh:
  "pw_last w = None \<Longrightarrow>
     pw_emitted (foldl (\<lambda>w r. tick ts diff r w) w rs) =
       pw_emitted w @ texts_between (change_texts ts diff w) (remdups_adj (polled_values rs))"
proof (induction rs arbitrary: w)
  case Nil
  then show ?case by (simp add: polled_values_def map_filter_simps)
next
  case (Cons r rs)
  show ?case
  proof (cases "case r of Inl _ \<Rightarrow> None | Inr u \<Rightarrow> u")
    case None
    then have "tick ts diff r w = w" by (simp add: tick_def split: sum.splits)
    with Cons None show ?thesis by (simp add: polled_values_def map_filter_simps)
  next
    case (Some u)
    then have r: "r = Inr (Some u)" by (simp split: sum.splits)
    have "pw_last (tick ts diff r w) = Some u" "pw_emitted (tick ts diff r w) = pw_emitted w"
      using Cons.prems by (simp_all add: tick_def r)
    moreover have "polled_values (r # rs) = u # polled_values rs" by (simp add: polled_values_def map_filter_simps r)
    ultimately show ?thesis by (simp add: ticks_emit)
  qed
qed

lemma watch_loop_foldl:
  "watch_loop ts diff rounds w = foldl (\<lambda>w r. tick ts diff r w) w (map snd (takeWhile (\<lambda>p. \<not> fst p) rounds))"
  by (induction ts diff rounds w rule: watch_loop.induct) auto

text \<open>What the watch is once the events under way are out.\<close>

definition settled :: "'s polling_run \<Rightarrow> 's polling_watch" where
  "settled w = (case pr_phase w of
      Emitting ts cur \<Rightarrow> (pr_watch w)\<lparr>pw_emitted := pw_emitted (pr_watch w) @ ts, pw_last := Some cur\<rparr>
    | _ \<Rightarrow> pr_watch w)"

definition polling_wf :: "(watch_event \<Rightarrow> string option) \<Rightarrow> ('s \<Rightarrow> 's \<Rightarrow> watch_event list) \<Rightarrow> 's polling_watch \<Rightarrow> 's polling_run \<Rightarrow> bool" where
  "polling_wf to_string diff w0 w \<longleftrightarrow> settled w = foldl (\<lambda>w r. tick to_string diff r w) w0 (pr_polled w) \<and>
     (pr_stop w \<longleftrightarrow> pr_cancel w \<noteq> NotAsked) \<and> (pr_cancel w = Joined \<longrightarrow> pr_phase w = ThreadExited) \<and>
     (pr_box w \<longleftrightarrow> pr_cancel w \<noteq> Joined)"

lemma settled_poll: "pr_phase w = InPoll \<Longrightarrow> settled (poll_returns to_string diff r w) = tick to_string diff r (settled w)"
  by (auto simp: settled_def poll_returns_def tick_def Let_def split: sum.splits option.splits)

lemma poll_returns_frame [simp]:
  "pr_stop (poll_returns ts d r w) = pr_stop w" "pr_cancel (poll_returns ts d r w) = pr_cancel w" "pr_box (poll_returns ts d r w) = pr_box w"
  "pr_polled (poll_returns ts d r w) = pr_polled w @ [r]" "pr_phase (poll_returns ts d r w) \<noteq> ThreadExited" "pr_phase (poll_returns ts d r w) \<noteq> InPoll"
  by (auto simp: poll_returns_def Let_def split: sum.splits option.splits)

lemma settled_rest:
  "pr_phase w = LoopTop \<Longrightarrow> settled (check_stop w) = settled w"
  "pr_phase w = InPoll \<Longrightarrow> settled (poll_panics w) = settled w"
  "pr_phase w = Emitting ts cur \<Longrightarrow> settled (emit_next ts cur w) = settled w"
  "pr_phase w = Napping slept \<Longrightarrow> settled (nap slept w) = settled w"
  "settled (w\<lparr>pr_stop := b, pr_cancel := c\<rparr>) = settled w" "settled (w\<lparr>pr_cancel := c, pr_box := b\<rparr>) = settled w"
  by (auto simp: settled_def check_stop_def poll_panics_def emit_next_def nap_def split: list.splits poll_phase.splits)

lemma polling_rest_frame:
  "pr_polled (check_stop w) = pr_polled w" "pr_polled (emit_next ts cur w) = pr_polled w" "pr_polled (nap slept w) = pr_polled w"
  "pr_stop (check_stop w) = pr_stop w" "pr_stop (emit_next ts cur w) = pr_stop w" "pr_stop (nap slept w) = pr_stop w"
  "pr_cancel (check_stop w) = pr_cancel w" "pr_cancel (emit_next ts cur w) = pr_cancel w" "pr_cancel (nap slept w) = pr_cancel w"
  "pr_box (check_stop w) = pr_box w" "pr_box (emit_next ts cur w) = pr_box w" "pr_box (nap slept w) = pr_box w"
  "pr_polled (poll_panics w) = pr_polled w" "pr_stop (poll_panics w) = pr_stop w" "pr_cancel (poll_panics w) = pr_cancel w" "pr_box (poll_panics w) = pr_box w"
  "pr_phase (poll_panics w) = ThreadExited"
  by (simp_all add: check_stop_def poll_panics_def emit_next_def nap_def split: list.splits)

lemma polling_wf_thread:
  assumes "poll_thread_step to_string diff w w'" "polling_wf to_string diff w0 w"
  shows "polling_wf to_string diff w0 w'"
  using assms by cases (auto simp: polling_wf_def settled_poll settled_rest polling_rest_frame)

interpretation polling: step_invariant "\<lambda>w. w = polling_thread w0" "polling_step to_string diff" "polling_wf to_string diff w0"
proof unfold_locales
  show "polling_wf to_string diff w0 w" if "w = polling_thread w0" for w :: "'a polling_run"
    using that by (simp add: polling_wf_def polling_thread_def settled_def)
  show "polling_wf to_string diff w0 w'" if "polling_step to_string diff w w'" "polling_wf to_string diff w0 w" for w w'
    using that(1)
  proof cases
    case p_thread
    then show ?thesis by (rule polling_wf_thread [OF _ that(2)])
  qed (use that(2) in \<open>auto simp: polling_wf_def settled_rest cancel_polling_watch_def join_returns_def split: if_splits\<close>)
qed

text \<open>The steps the thread still takes once the flag is up and no poll is under way.\<close>

fun phase_left :: "'s poll_phase \<Rightarrow> nat" where
  "phase_left (Emitting ts cur) = 3 + length ts"
| "phase_left (Napping slept) = 2"
| "phase_left LoopTop = 1"
| "phase_left _ = 0"

lemma stopped_thread_step:
  "poll_thread_step to_string diff w w' \<Longrightarrow> pr_stop w \<Longrightarrow> pr_phase w \<noteq> InPoll \<Longrightarrow>
     pr_phase w' \<noteq> InPoll \<and> phase_left (pr_phase w') < phase_left (pr_phase w)"
  by (cases rule: poll_thread_step.cases) (auto simp: check_stop_def emit_next_def nap_def split: list.splits)

lemma thread_can_step:
  "pr_phase w \<noteq> InPoll \<Longrightarrow> pr_phase w \<noteq> ThreadExited \<Longrightarrow> \<exists>w'. poll_thread_step to_string diff w w'"
  by (cases "pr_phase w") (auto intro: poll_thread_step.intros)

inductive_cases exited_step: "poll_thread_step to_string diff w w'"

lemma sleep_loop_le: "slept \<le> whole \<Longrightarrow> sleep_loop stop i slept whole \<le> whole"
proof (induction stop i slept whole rule: sleep_loop.induct)
  case (1 stop i slept whole)
  then show ?case by (subst sleep_loop.simps) auto
qed

lemma sleep_loop_full: "\<forall>j\<ge>i. \<not> stop j \<Longrightarrow> slept \<le> whole \<Longrightarrow> sleep_loop stop i slept whole = whole"
proof (induction stop i slept whole rule: sleep_loop.induct)
  case (1 stop i slept whole)
  then show ?case by (subst sleep_loop.simps) auto
qed

lemma sleep_loop_stop:
  "i \<le> k \<Longrightarrow> stop k \<Longrightarrow> sleep_loop stop i slept whole \<le> slept + (k - i) * SLICE"
proof (induction stop i slept whole rule: sleep_loop.induct)
  case (1 stop i slept whole)
  show ?case
  proof (cases "slept < whole \<and> \<not> stop i")
    case True
    then have "Suc i \<le> k" using 1(2,3) by (metis Suc_leI le_neq_implies_less)
    then have "(k - i) * SLICE = SLICE + (k - Suc i) * SLICE" by (metis Suc_diff_le diff_Suc_Suc mult_Suc Suc_le_eq Suc_diff_Suc)
    moreover have "sleep_loop stop (i + 1) (slept + min SLICE (whole - slept)) whole \<le>
        slept + min SLICE (whole - slept) + (k - (i + 1)) * SLICE"
      using True 1(1) [OF _ _ _ 1(3)] \<open>Suc i \<le> k\<close> by simp
    moreover have "min SLICE (whole - slept) \<le> SLICE" by simp
    ultimately show ?thesis
      using True by (subst sleep_loop.simps) (simp, linarith)
  next
    case False
    then show ?thesis by (subst sleep_loop.simps) auto
  qed
qed

section \<open>Properties\<close>

text \<open>Over any run of rounds, what a polling watch emits is, for each step between two different consecutive states
  polled before the stop, the events of their difference on an event source or one bare change otherwise.\<close>

theorem polling_watch_emits:
  "pw_emitted (watch_loop to_string diff rounds (spawn_diffing_watch is_event_source to_string uri interval)) =
    texts_between (change_texts to_string diff (spawn_diffing_watch is_event_source to_string uri interval))
      (remdups_adj (polled_values (map snd (takeWhile (\<lambda>p. \<not> fst p) rounds))))"
  by (simp add: watch_loop_foldl ticks_emit_fresh spawn_diffing_watch_def)

text \<open>C34. A polling watch signals every change and nothing else, and its cancel returns. In every state of the thread
  and the host, what was emitted and what is about to be is, for each step between two different
  consecutive states polled so far, the events of their difference on an event source or one bare change
  otherwise; the first state, repeated states, polls without a state and failed polls emit nothing. Once the
  flag is up no poll begins, and outside a poll every step brings the thread closer to its end, which it can
  always take; when the cancel has returned, the thread has ended, with no event left, and the box is gone.\<close>

theorem polling_watch_runs:
  assumes "w0 = spawn_diffing_watch is_event_source to_string uri interval"
    and "reach (\<lambda>w. w = polling_thread w0) (polling_step to_string diff) w"
  shows "pw_emitted (settled w) = texts_between (change_texts to_string diff w0) (remdups_adj (polled_values (pr_polled w))) \<and>
    (pr_cancel w \<noteq> NotAsked \<and> pr_phase w \<noteq> InPoll \<longrightarrow>
       (pr_phase w = ThreadExited \<or> (\<exists>w'. poll_thread_step to_string diff w w')) \<and>
       (\<forall>w'. poll_thread_step to_string diff w w' \<longrightarrow> pr_phase w' \<noteq> InPoll \<and> phase_left (pr_phase w') < phase_left (pr_phase w))) \<and>
    (pr_cancel w = Joined \<longrightarrow> settled w = pr_watch w \<and> \<not> pr_box w \<and> (\<nexists>w'. poll_thread_step to_string diff w w'))"
proof -
  have wf: "polling_wf to_string diff w0 w" using assms(2) by (rule polling.reach_inv)
  then have "pw_emitted (settled w) = texts_between (change_texts to_string diff w0) (remdups_adj (polled_values (pr_polled w)))"
    using assms(1) by (simp add: polling_wf_def ticks_emit_fresh spawn_diffing_watch_def)
  moreover have "pr_stop w \<longleftrightarrow> pr_cancel w \<noteq> NotAsked" "pr_cancel w = Joined \<longrightarrow> pr_phase w = ThreadExited" "pr_box w \<longleftrightarrow> pr_cancel w \<noteq> Joined"
    using wf by (simp_all add: polling_wf_def)
  moreover have "\<nexists>w'. poll_thread_step to_string diff w w'" if "pr_phase w = ThreadExited"
    using that by (auto elim: exited_step)
  ultimately show ?thesis
    using stopped_thread_step [of to_string diff w] thread_can_step [of w to_string diff] by (auto simp: settled_def)
qed

definition demo_polling :: "nat polling_watch" where
  "demo_polling = spawn_diffing_watch (\<lambda>_. False) (\<lambda>_. Some ''changed'') ''db://t'' 0"

definition demo_polled :: "nat polling_run" where
  "demo_polled = poll_returns (\<lambda>_. Some ''changed'') polling_diff (Inr (Some 7)) (check_stop (polling_thread demo_polling))"

definition demo_cancelled_run :: "nat polling_run" where
  "demo_cancelled_run = cancel_polling_watch False (poll_returns (\<lambda>_. Some ''changed'') polling_diff (Inr (Some 8))
     (check_stop (nap (millis 250) (nap (millis 200) (nap 0 demo_polled)))))"

lemmas demo_polling_evals = demo_cancelled_run_def demo_polled_def demo_polling_def spawn_diffing_watch_def polling_thread_def check_stop_def
  poll_returns_def nap_def cancel_polling_watch_def POLL_MIN_INTERVAL_def SLICE_def millis_def

lemma reached_thread:
  "reach init (polling_step to_string diff) w \<Longrightarrow> poll_thread_step to_string diff w w' \<Longrightarrow> reach init (polling_step to_string diff) w'"
  by (rule reach_step) (auto intro: p_thread)

lemma reached_cancel:
  "reach init (polling_step to_string diff) w \<Longrightarrow> pr_cancel w = NotAsked \<Longrightarrow> reach init (polling_step to_string diff) (cancel_polling_watch null w)"
  by (rule reach_step) (auto intro: p_cancel)

lemma demo_polling_reached:
  "reach (\<lambda>w. w = polling_thread demo_polling) (polling_step (\<lambda>_. Some ''changed'') polling_diff) demo_cancelled_run"
  unfolding demo_cancelled_run_def
proof (rule reached_cancel)
  show "reach (\<lambda>w. w = polling_thread demo_polling) (polling_step (\<lambda>_. Some ''changed'') polling_diff)
      (poll_returns (\<lambda>_. Some ''changed'') polling_diff (Inr (Some 8)) (check_stop (nap (millis 250) (nap (millis 200) (nap 0 demo_polled)))))"
    unfolding demo_polled_def
    by (rule reached_thread [OF _ t_poll] reached_thread [OF _ t_check] reached_thread [OF _ t_nap] reach_init refl | simp add: demo_polling_evals)+
qed (simp add: demo_polling_evals)

theorem polling_watch_runs_witness:
  "pw_emitted (settled demo_cancelled_run) = [''changed''] \<and> pw_emitted (pr_watch demo_cancelled_run) = [] \<and>
   (\<exists>w'. poll_thread_step (\<lambda>_. Some ''changed'') polling_diff demo_cancelled_run w')"
proof -
  have run: "pr_cancel demo_cancelled_run = Joining" "pr_phase demo_cancelled_run = Emitting [''changed''] 8" "pr_polled demo_cancelled_run = [Inr (Some 7), Inr (Some 8)]"
    "pw_emitted (pr_watch demo_cancelled_run) = []" "change_texts (\<lambda>_. Some ''changed'') polling_diff demo_polling 7 8 = [''changed'']"
    by (simp_all add: demo_polling_evals change_texts_def)
  have "polled_values [Inr (Some 7), Inr (Some (8 :: nat))] = [7, 8]" by (simp add: polled_values_def map_filter_simps)
  then show ?thesis
    using polling_watch_runs [OF demo_polling_def demo_polling_reached] run by simp
qed

text \<open>The interruptible sleep ends: it never sleeps longer than asked, sleeps all of it when no stop is
  seen, and once the flag is up at its \<open>k\<close>-th check it has slept at most \<open>k\<close> slices.\<close>

theorem sleep_interruptible_bounds:
  "sleep_interruptible stop whole \<le> whole \<and>
   sleep_interruptible (\<lambda>_. False) whole = whole \<and>
   sleep_interruptible (\<lambda>i. k \<le> i \<or> stop i) whole \<le> k * SLICE"
  using sleep_loop_stop [of 0 k "\<lambda>i. k \<le> i \<or> stop i" 0 whole]
  by (auto simp: sleep_interruptible_def sleep_loop_le sleep_loop_full)

end
