(* ===== verification/Config_Guard.thy ===== *)
theory Config_Guard
  imports Rust_Text
begin

text \<open>
  The fail-closed configuration parser of \<^verbatim>\<open>src/src/config.rs\<close>. Texts are lists of Unicode code points
  here, since \<^verbatim>\<open>str::trim\<close> removes Unicode's \<^verbatim>\<open>White_Space\<close>. \<^verbatim>\<open>serde_json::from_str\<close>, the type's default
  and its name are arguments; a panic is the error branch of the result.
\<close>

section \<open>Definitions\<close>

type_synonym code_points = "nat list"

definition points :: "string \<Rightarrow> code_points" where
  "points s = map of_char s"

definition unicode_white_space :: "nat \<Rightarrow> bool" where
  "unicode_white_space c = ((9 \<le> c \<and> c \<le> 13) \<or> c \<in> {0x20, 0x85, 0xA0, 0x1680} \<or> (0x2000 \<le> c \<and> c \<le> 0x200A) \<or>
     c \<in> {0x2028, 0x2029, 0x202F, 0x205F, 0x3000})"

definition str_trim :: "code_points \<Rightarrow> code_points" where
  "str_trim s = trim_both unicode_white_space s"

definition config_panic :: "code_points \<Rightarrow> code_points \<Rightarrow> code_points" where
  "config_panic type_name e = points ''plugin config rejected (failing closed) for `'' @ type_name @ points ''`: '' @ e @
     points ''. A malformed operator `config:` block refuses the plugin rather than silently falling back to defaults '' @
     [0x2014] @ points '' fix the config.''"

definition parse_config_or_fail_closed :: "code_points \<Rightarrow> (code_points \<Rightarrow> (code_points, 't) result) \<Rightarrow> 't \<Rightarrow> code_points \<Rightarrow>
    (code_points, 't) result" where
  "parse_config_or_fail_closed type_name from_str dflt config_json =
     (let trimmed = str_trim config_json in
      if trimmed = [] \<or> trimmed = points ''{}'' \<or> trimmed = points ''null'' then Ok dflt
      else (case from_str trimmed of
              Inr v \<Rightarrow> Ok v
            | Inl e \<Rightarrow> Err (config_panic type_name e)))"

section \<open>Properties\<close>

text \<open>A block the operator left empty: nothing, an empty object or null between white space.\<close>

definition left_empty :: "code_points \<Rightarrow> bool" where
  "left_empty s = (\<exists>pre body post. s = pre @ body @ post \<and> list_all unicode_white_space pre \<and>
     list_all unicode_white_space post \<and> body \<in> {[], points ''{}'', points ''null''})"

lemma ends_not_white: "body \<in> {points ''{}'', points ''null''} \<Longrightarrow>
    body \<noteq> [] \<and> \<not> unicode_white_space (hd body) \<and> \<not> unicode_white_space (last body)"
  by (auto simp: points_def unicode_white_space_def)

lemma left_empty_iff: "left_empty s \<longleftrightarrow> str_trim s \<in> {[], points ''{}'', points ''null''}"
proof
  assume "left_empty s"
  then obtain pre body post where s: "s = pre @ body @ post" "\<forall>c\<in>set pre. unicode_white_space c"
    "\<forall>c\<in>set post. unicode_white_space c" "body \<in> {[], points ''{}'', points ''null''}"
    by (auto simp: left_empty_def list_all_iff)
  then have "str_trim s = body"
    using ends_not_white [of body] unfolding str_trim_def s(1) by (intro trim_both_unique) auto
  with s(4) show "str_trim s \<in> {[], points ''{}'', points ''null''}" by simp
next
  assume trimmed: "str_trim s \<in> {[], points ''{}'', points ''null''}"
  obtain u v where "s = u @ str_trim s @ v" "\<forall>c\<in>set u. unicode_white_space c" "\<forall>c\<in>set v. unicode_white_space c"
    unfolding str_trim_def by (rule trim_both_decomp)
  with trimmed show "left_empty s" unfolding left_empty_def list_all_iff by blast
qed

text \<open>C1. The parser fails closed: it yields a configuration only from a block the operator left empty,
  which gives the default, or from a block that deserialises, which gives exactly that value. Every
  other block is refused with the message that names the type and the error.\<close>

theorem parse_config_fails_closed:
  "parse_config_or_fail_closed type_name from_str dflt s =
     (if left_empty s then Ok dflt
      else case from_str (str_trim s) of Inr v \<Rightarrow> Ok v | Inl e \<Rightarrow> Err (config_panic type_name e))"
  unfolding parse_config_or_fail_closed_def left_empty_iff by (simp add: Let_def)

end
