(* ===== verification/Sql_Guard.thy ===== *)
theory Sql_Guard
  imports Rust_Text
begin

text \<open>
  The read-only SQL guard, \<^verbatim>\<open>src/src/sql_guard.rs\<close>.

  \<open>sql_skeleton\<close> translates the byte loop with its index; \<open>skel\<close> is the same scan as a recursion
  on the rest of the text, and \<open>sql_skeleton_eq_skel\<close> says the two agree. \<open>enforce_read_only\<close> is
  the classifier. The lemmas show that a write keyword outside comments and quotes is always
  refused, that text inside quotes never matters, that the verdict ignores letter case, and that a
  second statement is refused.

  The input is the statement's UTF-8 bytes. The skeleton pushes each byte as the character of that
  code, so the skeleton is a list of characters below 256; \<open>is_white_space\<close> is Unicode's
  \<^verbatim>\<open>White_Space\<close> restricted to those.
\<close>

section \<open>Definitions\<close>

definition READ_ONLY_LEADERS :: "string list" where
  "READ_ONLY_LEADERS = [''SELECT'', ''WITH'', ''SHOW'', ''DESCRIBE'', ''DESC'', ''EXPLAIN'']"

definition WRITE_KEYWORDS :: "string list" where
  "WRITE_KEYWORDS =
    [''INSERT'', ''UPDATE'', ''DELETE'', ''MERGE'', ''UPSERT'', ''REPLACE'', ''TRUNCATE'', ''CREATE'', ''DROP'',
     ''ALTER'', ''RENAME'', ''GRANT'', ''REVOKE'', ''COMMENT'', ''INTO'', ''CALL'', ''EXEC'', ''EXECUTE'', ''COPY'',
     ''LOAD'', ''UNLOAD'', ''PUT'', ''REMOVE'', ''ATTACH'', ''DETACH'', ''INSTALL'', ''PRAGMA'', ''VACUUM'',
     ''ANALYZE'', ''OPTIMIZE'']"

datatype guard_error =
    EmptyStatement
  | MultipleStatements
  | NotReadOnlyLeader string
  | WriteKeyword string

definition is_ident_char :: "char \<Rightarrow> bool" where
  "is_ident_char c = (is_ascii_alphanumeric c \<or> c = CHR ''_'' \<or> c = CHR ''$'' \<or> c = CHR ''#'')"

definition is_white_space :: "char \<Rightarrow> bool" where
  "is_white_space c = (let n = (of_char c :: nat) in (9 \<le> n \<and> n \<le> 13) \<or> n = 32 \<or> n = 133 \<or> n = 160)"

definition is_quote :: "char \<Rightarrow> bool" where
  "is_quote c = (c = CHR 0x27 \<or> c = CHR 0x22 \<or> c = CHR 0x60)"

subsection \<open>The skeleton, with the source's index\<close>

function skip_line_at :: "string \<Rightarrow> nat \<Rightarrow> nat" where
  "skip_line_at bytes i =
     (if i < length bytes \<and> bytes ! i \<noteq> CHR 0x0A then skip_line_at bytes (i + 1) else i)"
  by pat_completeness auto
termination by (relation "measure (\<lambda>(bytes, i). length bytes - i)") auto

function skip_block_at :: "string \<Rightarrow> nat \<Rightarrow> nat" where
  "skip_block_at bytes i =
     (if i + 1 < length bytes \<and> \<not> (bytes ! i = CHR ''*'' \<and> bytes ! (i + 1) = CHR ''/'')
      then skip_block_at bytes (i + 1) else i)"
  by pat_completeness auto
termination by (relation "measure (\<lambda>(bytes, i). length bytes - i)") auto

function skip_quoted_at :: "char \<Rightarrow> string \<Rightarrow> nat \<Rightarrow> nat" where
  "skip_quoted_at quote bytes i =
     (if i < length bytes then
        if bytes ! i = quote then
          if i + 1 < length bytes \<and> bytes ! (i + 1) = quote then skip_quoted_at quote bytes (i + 2)
          else i + 1
        else skip_quoted_at quote bytes (i + 1)
      else i)"
  by pat_completeness auto
termination by (relation "measure (\<lambda>(quote, bytes, i). length bytes - i)") auto

declare skip_line_at.simps [simp del] skip_block_at.simps [simp del] skip_quoted_at.simps [simp del]

lemma skip_line_at_ge: "i \<le> skip_line_at bytes i"
proof (induction bytes i rule: skip_line_at.induct)
  case (1 bytes i)
  then show ?case by (subst skip_line_at.simps) auto
qed

lemma skip_block_at_ge: "i \<le> skip_block_at bytes i"
proof (induction bytes i rule: skip_block_at.induct)
  case (1 bytes i)
  then show ?case by (subst skip_block_at.simps) auto
qed

lemma skip_quoted_at_ge: "i \<le> skip_quoted_at quote bytes i"
proof (induction quote bytes i rule: skip_quoted_at.induct)
  case (1 quote bytes i)
  then show ?case by (subst skip_quoted_at.simps) auto
qed

function skeleton_loop :: "string \<Rightarrow> nat \<Rightarrow> string \<Rightarrow> string" where
  "skeleton_loop bytes i out =
     (if i < length bytes then
        if bytes ! i = CHR ''-'' \<and> i + 1 < length bytes \<and> bytes ! (i + 1) = CHR ''-'' then
          skeleton_loop bytes (skip_line_at bytes (i + 2)) out
        else if bytes ! i = CHR ''/'' \<and> i + 1 < length bytes \<and> bytes ! (i + 1) = CHR ''*'' then
          skeleton_loop bytes (min (skip_block_at bytes (i + 2) + 2) (length bytes)) (out @ '' '')
        else if is_quote (bytes ! i) then
          skeleton_loop bytes (skip_quoted_at (bytes ! i) bytes (i + 1)) (out @ '' '')
        else skeleton_loop bytes (i + 1) (out @ [bytes ! i])
      else out)"
  by pat_completeness auto
termination
proof (relation "measure (\<lambda>(bytes, i, out). length bytes - i)", goal_cases)
  case (2 bytes i out)
  then show ?case using skip_line_at_ge [of "i + 2" bytes] by auto
next
  case (3 bytes i out)
  then show ?case using skip_block_at_ge [of "i + 2" bytes] by auto
next
  case (4 bytes i out)
  then show ?case using skip_quoted_at_ge [of "i + 1" "bytes ! i" bytes] by auto
qed simp_all

declare skeleton_loop.simps [simp del]

definition sql_skeleton :: "string \<Rightarrow> string" where
  "sql_skeleton s = skeleton_loop s 0 []"

subsection \<open>The classifier\<close>

definition trim :: "string \<Rightarrow> string" where
  "trim s = trim_both is_white_space s"

definition tokens :: "string \<Rightarrow> string list" where
  "tokens s = split_on (\<lambda>c. \<not> is_ident_char c) s"

fun find_write_keyword :: "string list \<Rightarrow> string option" where
  "find_write_keyword [] = None"
| "find_write_keyword (token # ts) =
     (if token = [] then find_write_keyword ts
      else if to_ascii_uppercase token \<in> set WRITE_KEYWORDS then Some (to_ascii_uppercase token)
      else find_write_keyword ts)"

text \<open>What follows the first \<open>;\<close> of the trimmed skeleton, when there is one.\<close>

fun after_semicolon :: "string \<Rightarrow> string option" where
  "after_semicolon [] = None"
| "after_semicolon (c # cs) = (if c = CHR '';'' then Some cs else after_semicolon cs)"

definition first_token :: "string \<Rightarrow> string" where
  "first_token s = (case find (\<lambda>t. t \<noteq> []) (tokens s) of None \<Rightarrow> [] | Some t \<Rightarrow> t)"

definition enforce_read_only :: "string \<Rightarrow> (guard_error, unit) result" where
  "enforce_read_only statement =
     (let trimmed = trim (sql_skeleton statement) in
      if trimmed = [] then Err EmptyStatement
      else if (case after_semicolon trimmed of None \<Rightarrow> False | Some rest \<Rightarrow> trim rest \<noteq> [])
        then Err MultipleStatements
      else if to_ascii_uppercase (first_token trimmed) \<notin> set READ_ONLY_LEADERS
        then Err (NotReadOnlyLeader (first_token trimmed))
      else case find_write_keyword (tokens trimmed) of
        Some upper \<Rightarrow> Err (WriteKeyword upper)
      | None \<Rightarrow> Ok ())"

text \<open>The operator-facing message of each refusal.\<close>

fun guard_message :: "guard_error \<Rightarrow> string" where
  "guard_message EmptyStatement = ''read-only guard: empty statement''"
| "guard_message MultipleStatements =
     ''read-only guard: multiple statements are not allowed under read_only (set read_only=false to allow writes)''"
| "guard_message (NotReadOnlyLeader first) =
     ''read-only guard: statement starts with `'' @ first @
     ''`, not a read-only keyword (SELECT/WITH/SHOW/DESCRIBE/EXPLAIN); set read_only=false to allow writes''"
| "guard_message (WriteKeyword upper) =
     ''read-only guard: statement contains the write keyword `'' @ upper @
     ''` (e.g. a data-modifying CTE or EXPLAIN ANALYZE); set read_only=false to allow writes''"

section \<open>The scan as a recursion on the rest of the text\<close>

fun skip_block :: "string \<Rightarrow> string" where
  "skip_block (a # b # rest) = (if a = CHR ''*'' \<and> b = CHR ''/'' then rest else skip_block (b # rest))"
| "skip_block _ = []"

fun skip_quoted :: "char \<Rightarrow> string \<Rightarrow> string" where
  "skip_quoted q [] = []"
| "skip_quoted q [c] = []"
| "skip_quoted q (c # d # ds) =
     (if c = q then if d = q then skip_quoted q ds else d # ds else skip_quoted q (d # ds))"

lemma length_skip_block: "length (skip_block s) \<le> length s"
  by (induction s rule: skip_block.induct) auto

lemma length_skip_quoted: "length (skip_quoted q s) \<le> length s"
  by (induction q s rule: skip_quoted.induct) auto

function skel :: "string \<Rightarrow> string" where
  "skel [] = []"
| "skel (c # cs) =
     (if c = CHR ''-'' \<and> cs \<noteq> [] \<and> hd cs = CHR ''-'' then skel (dropWhile (\<lambda>d. d \<noteq> CHR 0x0A) (tl cs))
      else if c = CHR ''/'' \<and> cs \<noteq> [] \<and> hd cs = CHR ''*'' then CHR '' '' # skel (skip_block (tl cs))
      else if is_quote c then CHR '' '' # skel (skip_quoted c cs)
      else c # skel cs)"
  by pat_completeness auto
termination
proof (relation "measure length", goal_cases)
  case (2 c cs)
  have "length (dropWhile (\<lambda>d. d \<noteq> CHR 0x0A) (tl cs)) \<le> length (tl cs)" by (rule length_dropWhile_le)
  then show ?case by simp
next
  case (3 c cs)
  then show ?case using length_skip_block [of "tl cs"] by simp
next
  case (4 c cs)
  then show ?case using length_skip_quoted [of c cs] by simp
qed simp_all

declare skel.simps(2) [simp del]

lemma skip_line_at_drop:
  "drop (skip_line_at bytes i) bytes = dropWhile (\<lambda>d. d \<noteq> CHR 0x0A) (drop i bytes)"
proof (induction bytes i rule: skip_line_at.induct)
  case (1 bytes i)
  show ?case
  proof (cases "i < length bytes")
    case True
    then have "drop i bytes = bytes ! i # drop (i + 1) bytes" by (simp add: Cons_nth_drop_Suc)
    with 1 True show ?thesis by (subst skip_line_at.simps) auto
  next
    case False
    then show ?thesis by (subst skip_line_at.simps) simp
  qed
qed

lemma skip_block_at_drop:
  "drop (min (skip_block_at bytes i + 2) (length bytes)) bytes = skip_block (drop i bytes)"
proof (induction bytes i rule: skip_block_at.induct)
  case (1 bytes i)
  show ?case
  proof (cases "i + 1 < length bytes")
    case True
    then have "drop i bytes = bytes ! i # bytes ! (i + 1) # drop (i + 2) bytes"
      and "drop (i + 1) bytes = bytes ! (i + 1) # drop (i + 2) bytes"
      by (simp_all add: Cons_nth_drop_Suc)
    with 1 True show ?thesis by (subst skip_block_at.simps) auto
  next
    case False
    then have "length (drop i bytes) \<le> 1" by simp
    then have "skip_block (drop i bytes) = []"
      by (cases "drop i bytes" rule: skip_block.cases) auto
    with False show ?thesis by (subst skip_block_at.simps) auto
  qed
qed

lemma skip_quoted_at_drop: "drop (skip_quoted_at q bytes i) bytes = skip_quoted q (drop i bytes)"
proof (induction q bytes i rule: skip_quoted_at.induct)
  case (1 q bytes i)
  consider "\<not> i < length bytes" | "i + 1 = length bytes" | "i + 1 < length bytes" by linarith
  then show ?case
  proof cases
    case 1
    then show ?thesis by (subst skip_quoted_at.simps) simp
  next
    case 2
    then have "drop i bytes = [bytes ! i]" by (simp add: Cons_nth_drop_Suc [symmetric])
    moreover have "skip_quoted_at q bytes (i + 1) = i + 1" using 2 by (subst skip_quoted_at.simps) simp
    ultimately show ?thesis using 2 by (subst skip_quoted_at.simps) simp
  next
    case 3
    then have "drop i bytes = bytes ! i # bytes ! (i + 1) # drop (i + 2) bytes"
      and "drop (i + 1) bytes = bytes ! (i + 1) # drop (i + 2) bytes"
      by (simp_all add: Cons_nth_drop_Suc)
    with 1 3 show ?thesis by (subst skip_quoted_at.simps) auto
  qed
qed

lemma skeleton_loop_skel: "skeleton_loop bytes i out = out @ skel (drop i bytes)"
proof (induction bytes i out rule: skeleton_loop.induct)
  case (1 bytes i out)
  show ?case
  proof (cases "i < length bytes")
    case True
    then have d: "drop i bytes = bytes ! i # drop (i + 1) bytes" by (simp add: Cons_nth_drop_Suc)
    have hd: "(drop (i + 1) bytes \<noteq> [] \<and> hd (drop (i + 1) bytes) = x) = (i + 1 < length bytes \<and> bytes ! (i + 1) = x)" for x
      by (auto simp: hd_drop_conv_nth)
    have tl: "tl (drop (i + 1) bytes) = drop (i + 2) bytes" by (simp add: drop_Suc tl_drop)
    show ?thesis
      unfolding d skel.simps(2) hd tl
      using 1 True
      by (subst skeleton_loop.simps)
        (simp add: skip_line_at_drop skip_block_at_drop [simplified] skip_quoted_at_drop)
  next
    case False
    then show ?thesis by (subst skeleton_loop.simps) simp
  qed
qed

lemma sql_skeleton_skel: "sql_skeleton s = skel s"
  by (simp add: sql_skeleton_def skeleton_loop_skel)

section \<open>Tokens, trimming and keywords\<close>

abbreviation not_ident :: "char \<Rightarrow> bool" where
  "not_ident c \<equiv> \<not> is_ident_char c"

lemma white_not_ident: "is_white_space c \<Longrightarrow> not_ident c"
  by (auto simp: is_white_space_def is_ident_char_def is_ascii_alphanumeric_def is_ascii_digit_def
      is_ascii_lowercase_def is_ascii_uppercase_def less_eq_char_def Let_def)

lemma split_on_seps_prefix: "\<forall>c\<in>set u. p c \<Longrightarrow> split_on p (u @ t) = replicate (length u) [] @ split_on p t"
  by (induction u) auto

lemma split_on_seps_suffix: "\<forall>c\<in>set v. p c \<Longrightarrow> split_on p (t @ v) = split_on p t @ replicate (length v) []"
proof (induction t)
  case Nil
  then show ?case using split_on_seps_prefix [of v p "[]"] by (simp add: replicate_append_same [symmetric])
next
  case (Cons c t)
  then show ?case by (cases "split_on p t") auto
qed

text \<open>Trimming keeps the non-empty tokens, in order.\<close>

lemma tokens_trim: "filter (\<lambda>t. t \<noteq> []) (tokens (trim s)) = filter (\<lambda>t. t \<noteq> []) (tokens s)"
proof -
  obtain u v where s: "s = u @ trim s @ v" and u: "\<forall>c\<in>set u. is_white_space c" and v: "\<forall>c\<in>set v. is_white_space c"
    unfolding trim_def by (rule trim_both_decomp)
  have "tokens s = replicate (length u) [] @ tokens (trim s) @ replicate (length v) []"
    unfolding tokens_def by (subst s) (use u v white_not_ident in \<open>simp add: split_on_seps_prefix split_on_seps_suffix\<close>)
  then show ?thesis by simp
qed

lemma find_filter: "find P xs = find P (filter P xs)"
  by (induction xs) auto

lemma first_token_trim: "first_token (trim s) = first_token s"
  unfolding first_token_def
  by (metis find_filter tokens_trim)

lemma find_write_keyword_filter: "find_write_keyword ts = find_write_keyword (filter (\<lambda>t. t \<noteq> []) ts)"
  by (induction ts) auto

lemma find_write_keyword_trim: "find_write_keyword (tokens (trim s)) = find_write_keyword (tokens s)"
  by (metis find_write_keyword_filter tokens_trim)

lemma find_write_keyword_None:
  "find_write_keyword ts = None \<longleftrightarrow> (\<forall>t\<in>set ts. to_ascii_uppercase t \<notin> set WRITE_KEYWORDS)"
proof (induction ts)
  case (Cons t ts)
  have "[] \<notin> set WRITE_KEYWORDS" by (simp add: WRITE_KEYWORDS_def)
  then show ?case using Cons.IH by (cases "t = []") (auto simp: to_ascii_uppercase_def)
qed simp

section \<open>What the guard accepts\<close>

text \<open>
  The three conditions of the module's documentation, stated over the skeleton without its loops:
  a write keyword occurs as a whole word in any letter case, a \<open>;\<close> is followed by more text, the
  first word opens a read-only statement.
\<close>

definition has_write_word :: "string \<Rightarrow> bool" where
  "has_write_word s \<longleftrightarrow> (\<exists>w. whole_word not_ident w s \<and> to_ascii_uppercase w \<in> set WRITE_KEYWORDS)"

definition is_stacked :: "string \<Rightarrow> bool" where
  "is_stacked s \<longleftrightarrow> (\<exists>pre post. s = pre @ CHR '';'' # post \<and> (\<exists>c\<in>set post. \<not> is_white_space c))"

definition opens_with :: "string \<Rightarrow> string \<Rightarrow> bool" where
  "opens_with w s \<longleftrightarrow> (\<exists>pre post. s = pre @ w @ post \<and> (\<forall>c\<in>set pre. not_ident c) \<and>
      w \<noteq> [] \<and> (\<forall>c\<in>set w. is_ident_char c) \<and> (post = [] \<or> not_ident (hd post)))"

definition opens_read_only :: "string \<Rightarrow> bool" where
  "opens_read_only s \<longleftrightarrow> (\<exists>w. opens_with w s \<and> to_ascii_uppercase w \<in> set READ_ONLY_LEADERS)"

lemma has_write_word_iff: "has_write_word s \<longleftrightarrow> find_write_keyword (tokens s) \<noteq> None"
  unfolding has_write_word_def find_write_keyword_None tokens_def split_on_iff [symmetric] by auto

lemma after_semicolon_first:
  "after_semicolon s = Some post \<longleftrightarrow> (\<exists>pre. s = pre @ CHR '';'' # post \<and> CHR '';'' \<notin> set pre)"
proof (induction s)
  case (Cons c cs)
  show ?case
  proof (cases "c = CHR '';''")
    case True
    then show ?thesis by (auto simp: Cons_eq_append_conv)
  next
    case False
    then show ?thesis using Cons.IH by (auto simp: Cons_eq_append_conv)
  qed
qed simp

lemma after_semicolon_None: "after_semicolon s = None \<longleftrightarrow> CHR '';'' \<notin> set s"
  by (induction s) auto

lemma trim_Nil_iff: "trim s = [] \<longleftrightarrow> (\<forall>c\<in>set s. is_white_space c)"
  unfolding trim_def by (rule trim_both_Nil_iff)

lemma semicolon_not_white [simp]: "\<not> is_white_space (CHR '';'')"
  by (simp add: is_white_space_def)

lemma mid_after_prefix:
  "x \<notin> set u \<Longrightarrow> u @ t = pre @ x # post \<Longrightarrow> \<exists>pre'. pre = u @ pre' \<and> t = pre' @ x # post"
  by (induction u arbitrary: pre) (auto simp: Cons_eq_append_conv)

lemma mid_before_suffix:
  "x \<notin> set v \<Longrightarrow> t @ v = pre @ x # post \<Longrightarrow> \<exists>post'. t = pre @ x # post' \<and> post = post' @ v"
  by (induction pre arbitrary: t) (auto simp: Cons_eq_append_conv append_eq_Cons_conv)

lemma is_stacked_iff:
  "is_stacked s \<longleftrightarrow> (case after_semicolon s of None \<Rightarrow> False | Some rest \<Rightarrow> trim rest \<noteq> [])"
proof (cases "after_semicolon s")
  case None
  then show ?thesis by (auto simp: is_stacked_def dest: after_semicolon_None [THEN iffD1])
next
  case (Some rest)
  then obtain pre where s: "s = pre @ CHR '';'' # rest" and pre: "CHR '';'' \<notin> set pre"
    by (auto simp: after_semicolon_first)
  have "\<exists>c\<in>set rest. \<not> is_white_space c" if "s = u @ CHR '';'' # v" "\<exists>c\<in>set v. \<not> is_white_space c" for u v
  proof -
    from that(1) s pre obtain w where "CHR '';'' # rest = w @ CHR '';'' # v"
      using mid_after_prefix [of "CHR '';''" pre "CHR '';'' # rest" u v] by auto
    then show ?thesis using that(2) by (cases w) auto
  qed
  then show ?thesis using Some s by (auto simp: is_stacked_def trim_Nil_iff)
qed

lemma is_stacked_trim: "is_stacked (trim s) \<longleftrightarrow> is_stacked s"
proof -
  obtain u v where s: "s = u @ trim s @ v" and u: "\<forall>c\<in>set u. is_white_space c" and v: "\<forall>c\<in>set v. is_white_space c"
    unfolding trim_def by (rule trim_both_decomp)
  show ?thesis
  proof
    assume "is_stacked (trim s)"
    then obtain pre post where "trim s = pre @ CHR '';'' # post" "\<exists>c\<in>set post. \<not> is_white_space c"
      by (auto simp: is_stacked_def)
    then have "s = (u @ pre) @ CHR '';'' # (post @ v) \<and> (\<exists>c\<in>set (post @ v). \<not> is_white_space c)"
      using s by auto
    then show "is_stacked s" unfolding is_stacked_def by blast
  next
    assume "is_stacked s"
    then obtain pre post where p: "s = pre @ CHR '';'' # post" "\<exists>c\<in>set post. \<not> is_white_space c"
      by (auto simp: is_stacked_def)
    have "CHR '';'' \<notin> set u" "CHR '';'' \<notin> set v" using u v by auto
    moreover have "u @ trim s @ v = pre @ CHR '';'' # post" using p(1) s by (rule back_subst [where P = "\<lambda>x. x = pre @ CHR '';'' # post"])
    ultimately obtain pre' where pre': "trim s @ v = pre' @ CHR '';'' # post"
      using mid_after_prefix [of "CHR '';''" u "trim s @ v" pre post] by auto
    then obtain post' where "trim s = pre' @ CHR '';'' # post'" "post = post' @ v"
      using mid_before_suffix [OF \<open>CHR '';'' \<notin> set v\<close> pre'] by auto
    moreover from this have "\<exists>c\<in>set post'. \<not> is_white_space c" using p(2) v by auto
    ultimately show "is_stacked (trim s)" unfolding is_stacked_def by blast
  qed
qed

lemma opens_with_find:
  "opens_with w s \<longleftrightarrow> w \<noteq> [] \<and> find (\<lambda>t. t \<noteq> []) (tokens s) = Some w"
proof
  assume "opens_with w s"
  then obtain pre post where s: "s = pre @ w @ post" and pre: "\<forall>c\<in>set pre. not_ident c" and w: "w \<noteq> []"
    and wi: "\<forall>c\<in>set w. is_ident_char c" and post: "post = [] \<or> not_ident (hd post)"
    unfolding opens_with_def by blast
  have "hd (split_on not_ident (w @ post)) = w"
    using wi post by (intro hd_split_on_word) auto
  then obtain ts where "split_on not_ident (w @ post) = w # ts"
    by (metis list.exhaust_sel split_on_not_Nil)
  then have "tokens s = replicate (length pre) [] @ w # ts"
    using pre s by (simp add: tokens_def split_on_seps_prefix)
  moreover have "find (\<lambda>t. t \<noteq> []) (replicate n [] @ w # ts) = Some w" for n
    using w by (induction n) auto
  ultimately show "w \<noteq> [] \<and> find (\<lambda>t. t \<noteq> []) (tokens s) = Some w" using w by simp
next
  show "w \<noteq> [] \<and> find (\<lambda>t. t \<noteq> []) (tokens s) = Some w \<Longrightarrow> opens_with w s"
  proof (induction s rule: length_induct)
    case (1 s)
    show ?case
    proof (cases s)
      case Nil
      with "1.prems" show ?thesis by (simp add: tokens_def)
    next
      case (Cons c cs)
      show ?thesis
      proof (cases "is_ident_char c")
        case False
        then have "find (\<lambda>t. t \<noteq> []) (tokens cs) = Some w"
          using "1.prems" Cons by (simp add: tokens_def)
        then have "opens_with w cs" using "1.IH" "1.prems" Cons by simp
        then obtain pre post where "cs = pre @ w @ post \<and> (\<forall>c\<in>set pre. not_ident c) \<and>
            w \<noteq> [] \<and> (\<forall>c\<in>set w. is_ident_char c) \<and> (post = [] \<or> not_ident (hd post))"
          unfolding opens_with_def by blast
        then have "s = (c # pre) @ w @ post \<and> (\<forall>c\<in>set (c # pre). not_ident c) \<and>
            w \<noteq> [] \<and> (\<forall>c\<in>set w. is_ident_char c) \<and> (post = [] \<or> not_ident (hd post))"
          using Cons False by simp
        then show ?thesis unfolding opens_with_def by blast
      next
        case True
        let ?w = "takeWhile is_ident_char s" and ?post = "dropWhile is_ident_char s"
        have s: "s = ?w @ ?post" and post: "?post = [] \<or> not_ident (hd ?post)"
          by (simp, metis hd_dropWhile)
        have wi: "\<forall>c\<in>set ?w. is_ident_char c" by (auto dest: set_takeWhileD)
        have "hd (split_on not_ident (?w @ ?post)) = ?w"
          using wi post by (intro hd_split_on_word) blast+
        then have "hd (tokens s) = ?w" by (simp add: tokens_def)
        moreover have w: "?w \<noteq> []" using True Cons by simp
        moreover obtain t ts where "tokens s = t # ts" by (cases "tokens s") (auto simp: tokens_def)
        ultimately have "find (\<lambda>t. t \<noteq> []) (tokens s) = Some ?w" by simp
        then have "?w = w" using "1.prems" by simp
        moreover have "s = [] @ ?w @ ?post \<and> (\<forall>c\<in>set []. not_ident c) \<and>
            ?w \<noteq> [] \<and> (\<forall>c\<in>set ?w. is_ident_char c) \<and> (?post = [] \<or> not_ident (hd ?post))"
          using s post wi w by simp
        ultimately show ?thesis unfolding opens_with_def by metis
      qed
    qed
  qed
qed

lemma find_Some_nonempty: "find (\<lambda>t. t \<noteq> []) ts = Some w \<Longrightarrow> w \<noteq> []"
  by (induction ts) (auto split: if_splits)

lemma opens_read_only_iff:
  "opens_read_only s \<longleftrightarrow> to_ascii_uppercase (first_token s) \<in> set READ_ONLY_LEADERS"
proof -
  have "to_ascii_uppercase [] \<notin> set READ_ONLY_LEADERS"
    by (simp add: READ_ONLY_LEADERS_def to_ascii_uppercase_def)
  then show ?thesis
    unfolding opens_read_only_def opens_with_find first_token_def
    by (cases "find (\<lambda>t. t \<noteq> []) (tokens s)") (auto dest: find_Some_nonempty)
qed

lemma enforce_read_only_cases:
  "enforce_read_only s =
     (let sk = sql_skeleton s in
      if trim sk = [] then Err EmptyStatement
      else if is_stacked sk then Err MultipleStatements
      else if \<not> opens_read_only sk then Err (NotReadOnlyLeader (first_token sk))
      else case find_write_keyword (tokens sk) of Some upper \<Rightarrow> Err (WriteKeyword upper) | None \<Rightarrow> Ok ())"
  unfolding enforce_read_only_def Let_def
  by (simp add: is_stacked_iff [symmetric] is_stacked_trim first_token_trim find_write_keyword_trim
      opens_read_only_iff)

section \<open>Quoted text\<close>

definition plain_char :: "char \<Rightarrow> bool" where
  "plain_char c \<longleftrightarrow> c \<noteq> CHR ''-'' \<and> c \<noteq> CHR ''/'' \<and> \<not> is_quote c"

lemma skel_plain: "list_all plain_char pre \<Longrightarrow> skel (pre @ s) = pre @ skel s"
  by (induction pre) (auto simp: skel.simps(2) plain_char_def)

lemma skip_quoted_body:
  "q \<notin> set body \<Longrightarrow> post = [] \<or> hd post \<noteq> q \<Longrightarrow> skip_quoted q (body @ q # post) = post"
proof (induction body)
  case Nil
  then show ?case by (cases post) auto
next
  case (Cons c body)
  then show ?case by (cases body) auto
qed

lemma quote_not_comment [simp]: "is_quote q \<Longrightarrow> q \<noteq> CHR ''-'' \<and> q \<noteq> CHR ''/''"
  by (auto simp: is_quote_def)

lemma skel_quoted:
  assumes "list_all plain_char pre" "is_quote q" "q \<notin> set body" "post = [] \<or> hd post \<noteq> q"
  shows "skel (pre @ q # body @ q # post) = pre @ CHR '' '' # skel post"
  using assms by (simp add: skel_plain skel.simps(2) skip_quoted_body)

section \<open>Letter case\<close>

lemma upper_special:
  "upper_char c = CHR ''-'' \<longleftrightarrow> c = CHR ''-''" "upper_char c = CHR ''/'' \<longleftrightarrow> c = CHR ''/''"
  "upper_char c = CHR ''*'' \<longleftrightarrow> c = CHR ''*''" "upper_char c = CHR '';'' \<longleftrightarrow> c = CHR '';''"
  "upper_char c = CHR 0x0A \<longleftrightarrow> c = CHR 0x0A" "upper_char c = CHR '' '' \<longleftrightarrow> c = CHR '' ''"
  "upper_char c = CHR 0x27 \<longleftrightarrow> c = CHR 0x27" "upper_char c = CHR 0x22 \<longleftrightarrow> c = CHR 0x22"
  "upper_char c = CHR 0x60 \<longleftrightarrow> c = CHR 0x60"
  "upper_char c = CHR ''_'' \<longleftrightarrow> c = CHR ''_''" "upper_char c = CHR ''$'' \<longleftrightarrow> c = CHR ''$''"
  "upper_char c = CHR ''#'' \<longleftrightarrow> c = CHR ''#''"
  by (rule upper_char_eq_iff; simp add: is_ascii_lowercase_def is_ascii_uppercase_def less_eq_char_def)+

lemma is_quote_upper [simp]: "is_quote (upper_char c) = is_quote c"
  by (simp add: is_quote_def upper_special)

lemma is_ident_char_upper [simp]: "is_ident_char (upper_char c) = is_ident_char c"
  by (simp add: is_ident_char_def upper_special)

lemma letters_not_white: "is_ascii_lowercase c \<or> is_ascii_uppercase c \<Longrightarrow> \<not> is_white_space c"
  by (auto simp: is_white_space_def is_ascii_lowercase_def is_ascii_uppercase_def less_eq_char_def Let_def)

lemma is_white_space_upper [simp]: "is_white_space (upper_char c) = is_white_space c"
  using upper_char_cases [of c] letters_not_white by metis

lemma is_quote_upper_id: "is_quote q \<Longrightarrow> upper_char q = q"
  by (auto simp: is_quote_def upper_special)

lemma skip_block_upper: "skip_block (map upper_char s) = map upper_char (skip_block s)"
  by (induction s rule: skip_block.induct) (auto simp: upper_special)

lemma upper_eq_quote: "is_quote q \<Longrightarrow> upper_char c = q \<longleftrightarrow> c = q"
  by (auto simp: is_quote_def upper_special)

lemma skip_quoted_upper: "is_quote q \<Longrightarrow> skip_quoted q (map upper_char s) = map upper_char (skip_quoted q s)"
  by (induction q s rule: skip_quoted.induct) (auto simp: upper_eq_quote)

lemma skel_upper: "skel (map upper_char s) = map upper_char (skel s)"
proof (induction s rule: skel.induct)
  case (2 c cs)
  have sp: "upper_char (CHR '' '') = CHR '' ''" by (simp add: upper_special)
  have line: "dropWhile (\<lambda>d. d \<noteq> CHR 0x0A) (map upper_char ds) = map upper_char (dropWhile (\<lambda>d. d \<noteq> CHR 0x0A) ds)" for ds
    by (simp add: dropWhile_map comp_def upper_special)
  have hd: "(map upper_char cs \<noteq> [] \<and> hd (map upper_char cs) = CHR ''-'') = (cs \<noteq> [] \<and> hd cs = CHR ''-'')"
    "(map upper_char cs \<noteq> [] \<and> hd (map upper_char cs) = CHR ''*'') = (cs \<noteq> [] \<and> hd cs = CHR ''*'')"
    by (cases cs; simp add: upper_special)+
  have q: "skip_quoted (upper_char c) (map upper_char cs) = map upper_char (skip_quoted c cs)" if "is_quote c"
    using skip_quoted_upper [OF that, of cs] that by (simp add: is_quote_upper_id)
  have unf: "skel (map upper_char (c # cs)) =
     (if c = CHR ''-'' \<and> cs \<noteq> [] \<and> hd cs = CHR ''-'' then skel (map upper_char (dropWhile (\<lambda>d. d \<noteq> CHR 0x0A) (tl cs)))
      else if c = CHR ''/'' \<and> cs \<noteq> [] \<and> hd cs = CHR ''*'' then CHR '' '' # skel (map upper_char (skip_block (tl cs)))
      else if is_quote c then CHR '' '' # skel (map upper_char (skip_quoted c cs))
      else upper_char c # skel (map upper_char cs))"
    unfolding list.map skel.simps(2) [of "upper_char c" "map upper_char cs"] hd upper_special is_quote_upper
      map_tl [symmetric] line skip_block_upper
    using q by simp
  show ?case
    unfolding unf skel.simps(2) [of c cs] using 2 sp by simp
qed simp

lemma tokens_upper: "tokens (map upper_char s) = map (map upper_char) (tokens s)"
  unfolding tokens_def by (rule split_on_map) simp

lemma trim_upper: "trim (map upper_char s) = map upper_char (trim s)"
  unfolding trim_def by (rule trim_both_map) simp

lemma after_semicolon_upper: "after_semicolon (map upper_char s) = map_option (map upper_char) (after_semicolon s)"
  by (induction s) (auto simp: upper_special)

lemma is_stacked_upper: "is_stacked (map upper_char s) = is_stacked s"
  by (simp add: is_stacked_iff after_semicolon_upper trim_upper split: option.splits)

lemma find_nonempty_map:
  "find (\<lambda>t. t \<noteq> []) (map (map f) ts) = map_option (map f) (find (\<lambda>t. t \<noteq> []) ts)"
  by (induction ts) auto

lemma opens_read_only_upper: "opens_read_only (map upper_char s) = opens_read_only s"
  unfolding opens_read_only_iff first_token_def tokens_upper find_nonempty_map
  by (auto simp: to_ascii_uppercase_def comp_def split: option.splits)

lemma has_write_word_upper: "has_write_word (map upper_char s) = has_write_word s"
  unfolding has_write_word_iff find_write_keyword_None tokens_upper
  by (auto simp: to_ascii_uppercase_def comp_def)

section \<open>Properties\<close>

text \<open>C1. The guard accepts a statement exactly when its skeleton has text, no \<open>;\<close> with more text
  behind it, a first word that opens a read-only statement, and no write keyword as a whole word in
  any letter case.\<close>

theorem enforce_read_only_ok_iff:
  "enforce_read_only s = Ok () \<longleftrightarrow>
     trim (sql_skeleton s) \<noteq> [] \<and> \<not> is_stacked (sql_skeleton s) \<and>
     opens_read_only (sql_skeleton s) \<and> \<not> has_write_word (sql_skeleton s)"
  unfolding enforce_read_only_cases has_write_word_iff Let_def
  by (auto split: option.splits)

text \<open>The body of a quoted string or identifier never changes the verdict: after a prefix
  without quotes and comment openers, any two bodies without the quote character give the same
  result.\<close>

theorem quoted_body_ignored:
  assumes "list_all plain_char pre" "is_quote q" "q \<notin> set body" "q \<notin> set body'"
    and "post = [] \<or> hd post \<noteq> q"
  shows "enforce_read_only (pre @ q # body @ q # post) = enforce_read_only (pre @ q # body' @ q # post)"
  using assms by (simp add: enforce_read_only_def sql_skeleton_skel skel_quoted)

theorem quoted_body_ignored_witness:
  "enforce_read_only (''SELECT * FROM t WHERE name = '' @ CHR 0x27 # ''DROP TABLE evil'' @ CHR 0x27 # [])
   = enforce_read_only (''SELECT * FROM t WHERE name = '' @ CHR 0x27 # ''x'' @ CHR 0x27 # [])"
  by (rule quoted_body_ignored) (simp_all add: plain_char_def is_quote_def)

text \<open>The verdict does not depend on the letter case of the statement.\<close>

theorem enforce_read_only_case_insensitive:
  "enforce_read_only (to_ascii_uppercase s) = Ok () \<longleftrightarrow> enforce_read_only s = Ok ()"
  unfolding enforce_read_only_cases has_write_word_iff Let_def sql_skeleton_skel to_ascii_uppercase_def
    skel_upper is_stacked_upper opens_read_only_upper
  using has_write_word_upper [of "skel s"]
  by (auto simp: trim_upper has_write_word_iff split: option.splits)

text \<open>C35. The index loop of \<^verbatim>\<open>sql_skeleton\<close> computes the scan \<open>skel\<close>, a recursion on the text that
  is left.\<close>

theorem sql_skeleton_eq_skel: "sql_skeleton s = skel s"
  by (rule sql_skeleton_skel)


end
