(* ===== verification/Cluster_Client.thy ===== *)
theory Cluster_Client
  imports Json_Value
begin

text \<open>
  The plugin's side of the cluster coordinator, \<^verbatim>\<open>src/src/cluster.rs\<close>: the calls of \<^verbatim>\<open>ClusterClient\<close>, the
  leases it hands out and the subscriptions whose callbacks live in boxes that the coordinator
  reaches by address.

  The coordinator is code behind a table of function pointers: an operation takes what the slot
  returns as an argument and records the call in \<open>cw_calls\<close>. The state also has the boxes that are
  alive (\<open>cw_boxes\<close>), the streams the coordinator may still fire (\<open>cw_streams\<close>, handle to box address),
  the \<^verbatim>\<open>Subscription\<close> values the plugin holds, the events delivered to callbacks, and whether an
  address that is not alive was ever used (\<open>cw_ub\<close>). The decoders of \<^verbatim>\<open>mcpg_cluster_api\<close> and serde are
  the record \<open>codec\<close>.
\<close>

section \<open>Data\<close>

record ('e, 'n, 'p, 'ev) codec =
  cc_error_of_str :: "string \<Rightarrow> 'e option"
  cc_error_of_value :: "json \<Rightarrow> 'e option"
  cc_internal :: "string \<Rightarrow> 'e"
  cc_value_of_str :: "string \<Rightarrow> json option"
  cc_to_string :: "json \<Rightarrow> string option"
  cc_node_info :: "string \<Rightarrow> 'n option"
  cc_empty_node_info :: 'n
  cc_peers :: "string \<Rightarrow> 'p list option"
  cc_event :: "string \<Rightarrow> 'ev option"

datatype coord_call =
    CallNodeInfo
  | CallListPeers
  | CallPublish string
  | CallAcquireLeadership string
  | CallAcquireLock string
  | CallTryAcquireLeadership string
  | CallTryAcquireLock string
  | CallSubscribe string nat
  | CallWatchPeers nat
  | CallCancelStream nat
  | CallLeaseRenew nat
  | CallLeaseRelease nat
  | CallLeaseDrop nat

record lease_handle =
  lh_handle :: nat
  lh_fencing_token :: nat
  lh_expires_at :: string
  lh_error_json :: string

record stream_handle =
  sh_handle :: nat
  sh_error_json :: string

record cluster_lease =
  cl_lease_handle :: nat
  cl_fencing_token :: nat
  cl_expires_at :: string
  cl_released :: bool

record subscription =
  su_stream_handle :: nat
  su_callback_ptr :: nat

record 'ev cluster_world =
  cw_calls :: "coord_call list"
  cw_boxes :: "nat list"
  cw_next_ptr :: nat
  cw_streams :: "(nat \<times> nat) list"
  cw_subs :: "subscription list"
  cw_delivered :: "(nat \<times> 'ev) list"
  cw_ub :: bool

datatype try_acquire_outcome = Acquired nat nat string | Declined

section \<open>Calls\<close>

definition call :: "coord_call \<Rightarrow> 'ev cluster_world \<Rightarrow> 'ev cluster_world" where
  "call c w = w\<lparr>cw_calls := cw_calls w @ [c]\<rparr>"

definition args_json :: "('e, 'n, 'p, 'ev) codec \<Rightarrow> json \<Rightarrow> string" where
  "args_json cc args = (case cc_to_string cc args of Some s \<Rightarrow> s | None \<Rightarrow> ''{}'')"

definition decode_error :: "('e, 'n, 'p, 'ev) codec \<Rightarrow> string \<Rightarrow> string \<Rightarrow> 'e" where
  "decode_error cc payload op =
     (case cc_error_of_str cc payload of
        Some e \<Rightarrow> e
      | None \<Rightarrow> cc_internal cc (''undecodable '' @ op @ '' error from coordinator''))"

definition opt_str :: "string option \<Rightarrow> json" where
  "opt_str s = (case s of None \<Rightarrow> JNull | Some s \<Rightarrow> JStr s)"

text \<open>\<^verbatim>\<open>as_millis() as u64\<close>: the milliseconds of a duration, cut to 64 bits.\<close>

definition ttl_ms :: "duration \<Rightarrow> nat" where
  "ttl_ms ttl = (ttl div 1000000) mod 2 ^ 64"

definition node_info :: "('e, 'n, 'p, 'ev) codec \<Rightarrow> string \<Rightarrow> 'ev cluster_world \<Rightarrow> 'n \<times> 'ev cluster_world" where
  "node_info cc reply w =
     ((case cc_node_info cc reply of Some n \<Rightarrow> n | None \<Rightarrow> cc_empty_node_info cc), call CallNodeInfo w)"

definition list_peers :: "('e, 'n, 'p, 'ev) codec \<Rightarrow> string \<Rightarrow> 'ev cluster_world \<Rightarrow> 'p list \<times> 'ev cluster_world" where
  "list_peers cc reply w = ((case cc_peers cc reply of Some ps \<Rightarrow> ps | None \<Rightarrow> []), call CallListPeers w)"

definition publish :: "('e, 'n, 'p, 'ev) codec \<Rightarrow> string \<Rightarrow> string \<Rightarrow> string option \<Rightarrow> string \<Rightarrow> 'ev cluster_world \<Rightarrow>
    ('e, unit) result \<times> 'ev cluster_world" where
  "publish cc reply topic routing_key payload w =
     (let args = jobj [(''topic'', JStr topic), (''routing_key'', opt_str routing_key),
                       (''payload'', JArr (map (\<lambda>b. JNum (PosInt (of_char b))) payload))]
      in ((if reply = [] then Ok () else Err (decode_error cc reply ''publish'')),
          call (CallPublish (args_json cc args)) w))"

definition lease_of :: "lease_handle \<Rightarrow> cluster_lease" where
  "lease_of r = \<lparr>cl_lease_handle = lh_handle r, cl_fencing_token = lh_fencing_token r,
     cl_expires_at = lh_expires_at r, cl_released = False\<rparr>"

definition acquire_common :: "('e, 'n, 'p, 'ev) codec \<Rightarrow> (string \<Rightarrow> coord_call) \<Rightarrow> lease_handle \<Rightarrow> json \<Rightarrow> 'ev cluster_world \<Rightarrow>
    ('e, cluster_lease) result \<times> 'ev cluster_world" where
  "acquire_common cc slot reply args w =
     ((if lh_handle reply = 0 then Err (decode_error cc (lh_error_json reply) ''acquire'') else Ok (lease_of reply)),
      call (slot (args_json cc args)) w)"

definition acquire_leadership :: "('e, 'n, 'p, 'ev) codec \<Rightarrow> lease_handle \<Rightarrow> string \<Rightarrow> duration \<Rightarrow> 'ev cluster_world \<Rightarrow>
    ('e, cluster_lease) result \<times> 'ev cluster_world" where
  "acquire_leadership cc reply role ttl w =
     acquire_common cc CallAcquireLeadership reply
       (jobj [(''role'', JStr role), (''ttl_ms'', JNum (PosInt (ttl_ms ttl)))]) w"

definition acquire_lock :: "('e, 'n, 'p, 'ev) codec \<Rightarrow> lease_handle \<Rightarrow> string \<Rightarrow> duration \<Rightarrow> 'ev cluster_world \<Rightarrow>
    ('e, cluster_lease) result \<times> 'ev cluster_world" where
  "acquire_lock cc reply key ttl w =
     acquire_common cc CallAcquireLock reply (jobj [(''key'', JStr key), (''ttl_ms'', JNum (PosInt (ttl_ms ttl)))]) w"

definition decode_try_acquire :: "('e, 'n, 'p, 'ev) codec \<Rightarrow> lease_handle \<Rightarrow> ('e, try_acquire_outcome) result" where
  "decode_try_acquire cc r =
     (if lh_handle r \<noteq> 0 then Ok (Acquired (lh_handle r) (lh_fencing_token r) (lh_expires_at r))
      else if lh_error_json r = [] then Ok Declined
      else Err (decode_error cc (lh_error_json r) ''try_acquire''))"

definition try_acquire_common :: "('e, 'n, 'p, 'ev) codec \<Rightarrow> (string \<Rightarrow> coord_call) \<Rightarrow> lease_handle \<Rightarrow> json \<Rightarrow> 'ev cluster_world \<Rightarrow>
    ('e, cluster_lease option) result \<times> 'ev cluster_world" where
  "try_acquire_common cc slot reply args w =
     ((case decode_try_acquire cc reply of
         Inl e \<Rightarrow> Err e
       | Inr (Acquired h token expires) \<Rightarrow>
           Ok (Some \<lparr>cl_lease_handle = h, cl_fencing_token = token, cl_expires_at = expires, cl_released = False\<rparr>)
       | Inr Declined \<Rightarrow> Ok None),
      call (slot (args_json cc args)) w)"

definition try_acquire_leadership :: "('e, 'n, 'p, 'ev) codec \<Rightarrow> lease_handle \<Rightarrow> string \<Rightarrow> duration \<Rightarrow> 'ev cluster_world \<Rightarrow>
    ('e, cluster_lease option) result \<times> 'ev cluster_world" where
  "try_acquire_leadership cc reply role ttl w =
     try_acquire_common cc CallTryAcquireLeadership reply
       (jobj [(''role'', JStr role), (''ttl_ms'', JNum (PosInt (ttl_ms ttl)))]) w"

definition try_acquire_lock :: "('e, 'n, 'p, 'ev) codec \<Rightarrow> lease_handle \<Rightarrow> string \<Rightarrow> duration \<Rightarrow> 'ev cluster_world \<Rightarrow>
    ('e, cluster_lease option) result \<times> 'ev cluster_world" where
  "try_acquire_lock cc reply key ttl w =
     try_acquire_common cc CallTryAcquireLock reply (jobj [(''key'', JStr key), (''ttl_ms'', JNum (PosInt (ttl_ms ttl)))]) w"

section \<open>Subscriptions\<close>

text \<open>\<^verbatim>\<open>Box::into_raw\<close> of a new callback box, and \<^verbatim>\<open>Box::from_raw\<close> dropping one.\<close>

definition box_new :: "'ev cluster_world \<Rightarrow> nat \<times> 'ev cluster_world" where
  "box_new w = (cw_next_ptr w, w\<lparr>cw_boxes := cw_next_ptr w # cw_boxes w, cw_next_ptr := cw_next_ptr w + 1\<rparr>)"

definition box_free :: "nat \<Rightarrow> 'ev cluster_world \<Rightarrow> 'ev cluster_world" where
  "box_free ptr w = (if ptr \<in> set (cw_boxes w) then w\<lparr>cw_boxes := remove1 ptr (cw_boxes w)\<rparr> else w\<lparr>cw_ub := True\<rparr>)"

text \<open>
  The shared body of \<^verbatim>\<open>subscribe\<close> and \<^verbatim>\<open>watch_peers\<close>: on success the coordinator may fire the box
  through the stream until the stream is cancelled.
\<close>

definition open_stream :: "('e, 'n, 'p, 'ev) codec \<Rightarrow> (nat \<Rightarrow> coord_call) \<Rightarrow> string \<Rightarrow> stream_handle \<Rightarrow> 'ev cluster_world \<Rightarrow>
    ('e, subscription) result \<times> 'ev cluster_world" where
  "open_stream cc slot op reply w =
     (let (ptr, w1) = box_new w;
          w2 = call (slot ptr) w1
      in if sh_handle reply = 0
         then (Err (decode_error cc (sh_error_json reply) op), box_free ptr w2)
         else (let sub = \<lparr>su_stream_handle = sh_handle reply, su_callback_ptr = ptr\<rparr>
               in (Ok sub, w2\<lparr>cw_streams := (sh_handle reply, ptr) # cw_streams w2, cw_subs := cw_subs w2 @ [sub]\<rparr>)))"

definition subscribe :: "('e, 'n, 'p, 'ev) codec \<Rightarrow> stream_handle \<Rightarrow> string \<Rightarrow> string option \<Rightarrow> string option \<Rightarrow> 'ev cluster_world \<Rightarrow>
    ('e, subscription) result \<times> 'ev cluster_world" where
  "subscribe cc reply topic grp routing_key w =
     open_stream cc (CallSubscribe (args_json cc (jobj [(''topic'', JStr topic), (''group'', opt_str grp),
       (''routing_key'', opt_str routing_key)]))) ''subscribe'' reply w"

definition watch_peers :: "('e, 'n, 'p, 'ev) codec \<Rightarrow> stream_handle \<Rightarrow> 'ev cluster_world \<Rightarrow>
    ('e, subscription) result \<times> 'ev cluster_world" where
  "watch_peers cc reply w = open_stream cc CallWatchPeers ''watch_peers'' reply w"

text \<open>The trampolines; a panic of the callback is caught, so the call counts as delivered either way.\<close>

definition trampoline :: "('e, 'n, 'p, 'ev) codec \<Rightarrow> nat \<Rightarrow> string \<Rightarrow> 'ev cluster_world \<Rightarrow> 'ev cluster_world" where
  "trampoline cc ctx payload w =
     (if ctx = 0 then w
      else if ctx \<notin> set (cw_boxes w) then w\<lparr>cw_ub := True\<rparr>
      else if payload = [] then w
      else (case cc_event cc payload of
              Some ev \<Rightarrow> w\<lparr>cw_delivered := cw_delivered w @ [(ctx, ev)]\<rparr>
            | None \<Rightarrow> w))"

definition drop_subscription :: "subscription \<Rightarrow> 'ev cluster_world \<Rightarrow> 'ev cluster_world" where
  "drop_subscription sub w =
     (let w1 = (call (CallCancelStream (su_stream_handle sub)) w)\<lparr>
            cw_streams := filter (\<lambda>p. fst p \<noteq> su_stream_handle sub) (cw_streams w)\<rparr>;
          w2 = w1\<lparr>cw_subs := remove1 sub (cw_subs w1)\<rparr>
      in if su_callback_ptr sub \<noteq> 0 then box_free (su_callback_ptr sub) w2 else w2)"

section \<open>Leases\<close>

definition renew :: "('e, 'n, 'p, 'ev) codec \<Rightarrow> string \<Rightarrow> cluster_lease \<Rightarrow> ('e, unit) result \<times> cluster_lease \<times> coord_call list" where
  "renew cc payload l =
     (let fallback = Err (cc_internal cc (''undecodable renew payload: '' @ payload));
          (r, l') =
            (case cc_value_of_str cc payload of
               None \<Rightarrow> (fallback, l)
             | Some value \<Rightarrow>
                 (case Option.bind (json_get value ''ok'') as_str of
                    Some expires \<Rightarrow> (Ok (), l\<lparr>cl_expires_at := expires\<rparr>)
                  | None \<Rightarrow>
                      (case Option.bind (json_get value ''err'') (cc_error_of_value cc) of
                         Some e \<Rightarrow> (Err e, l)
                       | None \<Rightarrow> (fallback, l))))
      in (r, l', [CallLeaseRenew (cl_lease_handle l)]))"

definition release :: "('e, 'n, 'p, 'ev) codec \<Rightarrow> string \<Rightarrow> cluster_lease \<Rightarrow> ('e, unit) result \<times> cluster_lease \<times> coord_call list" where
  "release cc payload l =
     (if cl_released l then (Ok (), l, [])
      else ((if payload = [] then Ok () else Err (decode_error cc payload ''release'')),
            l\<lparr>cl_released := True\<rparr>, [CallLeaseRelease (cl_lease_handle l)]))"

definition drop_lease :: "cluster_lease \<Rightarrow> coord_call list" where
  "drop_lease l = (if cl_released l then [] else [CallLeaseRelease (cl_lease_handle l)]) @ [CallLeaseDrop (cl_lease_handle l)]"

section \<open>Subscriptions as a state machine\<close>

text \<open>
  What the coordinator promises: a stream it opens has a handle that no other open stream has, it fires
  callbacks only on open streams, and \<^verbatim>\<open>cancel_stream\<close> closes a stream before it returns. The plugin
  drops a subscription it holds, once.
\<close>

inductive cluster_step :: "('e, 'n, 'p, 'ev) codec \<Rightarrow> 'ev cluster_world \<Rightarrow> 'ev cluster_world \<Rightarrow> bool" for cc where
  cs_subscribe: "sh_handle reply \<notin> fst ` set (cw_streams w) \<Longrightarrow> cluster_step cc w (snd (subscribe cc reply topic grp rk w))"
| cs_watch_peers: "sh_handle reply \<notin> fst ` set (cw_streams w) \<Longrightarrow> cluster_step cc w (snd (watch_peers cc reply w))"
| cs_fire: "(h, ctx) \<in> set (cw_streams w) \<Longrightarrow> cluster_step cc w (trampoline cc ctx payload w)"
| cs_drop: "sub \<in> set (cw_subs w) \<Longrightarrow> cluster_step cc w (drop_subscription sub w)"

definition new_world :: "'ev cluster_world \<Rightarrow> bool" where
  "new_world w = (cw_boxes w = [] \<and> 0 < cw_next_ptr w \<and> cw_streams w = [] \<and> cw_subs w = [] \<and> cw_delivered w = [] \<and> \<not> cw_ub w)"

definition stream_of :: "subscription \<Rightarrow> nat \<times> nat" where
  "stream_of s = (su_stream_handle s, su_callback_ptr s)"

definition world_wf :: "'ev cluster_world \<Rightarrow> bool" where
  "world_wf w = (\<not> cw_ub w \<and> 0 < cw_next_ptr w \<and>
     mset (cw_boxes w) = mset (map su_callback_ptr (cw_subs w)) \<and>
     list_all (\<lambda>b. 0 < b \<and> b < cw_next_ptr w) (cw_boxes w) \<and> distinct (cw_boxes w) \<and>
     set (cw_streams w) = stream_of ` set (cw_subs w) \<and> distinct (map su_stream_handle (cw_subs w)))"

lemma world_boxes: "world_wf w \<Longrightarrow> set (cw_boxes w) = su_callback_ptr ` set (cw_subs w)"
  unfolding world_wf_def by (metis list.set_map set_mset_mset)

lemma open_stream_wf:
  assumes "world_wf w" "sh_handle reply \<notin> fst ` set (cw_streams w)"
  shows "world_wf (snd (open_stream cc slot op reply w))"
proof -
  have fresh: "cw_next_ptr w \<notin> set (cw_boxes w)" using assms(1) by (auto simp: world_wf_def list_all_iff)
  have handle: "sh_handle reply \<notin> su_stream_handle ` set (cw_subs w)"
    using assms by (auto simp: world_wf_def stream_of_def image_iff)
  show ?thesis
    using assms fresh handle
    by (auto simp: open_stream_def box_new_def box_free_def call_def world_wf_def Let_def stream_of_def list_all_iff less_Suc_eq)
qed

lemma drop_subscription_wf:
  assumes "world_wf w" "sub \<in> set (cw_subs w)"
  shows "world_wf (drop_subscription sub w)"
proof -
  let ?p = "su_callback_ptr sub"
  have box: "?p \<in> set (cw_boxes w)" using assms world_boxes by blast
  then have pos: "?p \<noteq> 0" using assms(1) by (auto simp: world_wf_def list_all_iff)
  have subs: "distinct (map su_stream_handle (cw_subs w))" "distinct (cw_subs w)"
    using assms(1) by (auto simp: world_wf_def distinct_map)
  have others: "set (remove1 sub (cw_subs w)) = {s \<in> set (cw_subs w). su_stream_handle s \<noteq> su_stream_handle sub}"
    using subs assms(2) by (auto simp: distinct_map dest: inj_onD)
  have "set (filter (\<lambda>p. fst p \<noteq> su_stream_handle sub) (cw_streams w)) = stream_of ` set (remove1 sub (cw_subs w))"
    using assms(1) by (auto simp: others world_wf_def stream_of_def)
  moreover have "mset (remove1 ?p (cw_boxes w)) = mset (map su_callback_ptr (remove1 sub (cw_subs w)))"
    using assms by (simp add: world_wf_def image_mset_Diff)
  moreover have "distinct (map su_stream_handle (remove1 sub (cw_subs w)))"
    using subs by (simp add: distinct_map inj_on_def distinct_remove1 others)
  moreover have "drop_subscription sub w = w\<lparr>cw_calls := cw_calls w @ [CallCancelStream (su_stream_handle sub)],
      cw_streams := filter (\<lambda>p. fst p \<noteq> su_stream_handle sub) (cw_streams w), cw_subs := remove1 sub (cw_subs w),
      cw_boxes := remove1 ?p (cw_boxes w)\<rparr>"
    using pos box by (simp add: drop_subscription_def call_def box_free_def Let_def)
  ultimately show ?thesis
    using assms(1) by (auto simp: world_wf_def list_all_iff dest: notin_set_remove1)
qed

lemma trampoline_wf:
  assumes "world_wf w" "(h, ctx) \<in> set (cw_streams w)"
  shows "world_wf (trampoline cc ctx payload w)"
proof -
  have "ctx \<in> su_callback_ptr ` set (cw_subs w)" using assms by (auto simp: world_wf_def stream_of_def)
  then have "ctx \<in> set (cw_boxes w)" using world_boxes [OF assms(1)] by simp
  with assms(1) show ?thesis by (auto simp: trampoline_def world_wf_def split: option.splits)
qed

interpretation cluster: step_invariant new_world "cluster_step cc" world_wf for cc :: "('e, 'n, 'p, 'ev) codec"
proof unfold_locales
  show "new_world w \<Longrightarrow> world_wf w" for w :: "'ev cluster_world"
    by (simp add: new_world_def world_wf_def)
  show "world_wf w \<Longrightarrow> cluster_step cc w w' \<Longrightarrow> world_wf w'" for w w'
    by (erule cluster_step.cases)
      (simp_all add: subscribe_def watch_peers_def open_stream_wf drop_subscription_wf trampoline_wf)
qed

section \<open>The life of a lease\<close>

datatype lease_op = OpRenew string | OpRelease string

fun lease_run :: "('e, 'n, 'p, 'ev) codec \<Rightarrow> lease_op list \<Rightarrow> cluster_lease \<Rightarrow> cluster_lease \<times> coord_call list" where
  "lease_run cc [] l = (l, [])"
| "lease_run cc (OpRenew reply # ops) l =
     (let (_, l1, calls) = renew cc reply l; (l2, calls') = lease_run cc ops l1 in (l2, calls @ calls'))"
| "lease_run cc (OpRelease reply # ops) l =
     (let (_, l1, calls) = release cc reply l; (l2, calls') = lease_run cc ops l1 in (l2, calls @ calls'))"

lemma renew_frame:
  "renew cc reply l = (r, l', calls) \<Longrightarrow> cl_lease_handle l' = cl_lease_handle l \<and> cl_fencing_token l' = cl_fencing_token l \<and>
     cl_released l' = cl_released l \<and> calls = [CallLeaseRenew (cl_lease_handle l)]"
  by (auto simp: renew_def Let_def split: option.splits prod.splits)

lemma lease_run_calls:
  "lease_run cc ops l = (l', calls) \<Longrightarrow>
     cl_lease_handle l' = cl_lease_handle l \<and> cl_fencing_token l' = cl_fencing_token l \<and>
     CallLeaseDrop h \<notin> set calls \<and>
     count_list calls (CallLeaseRelease (cl_lease_handle l)) = (if cl_released l' \<and> \<not> cl_released l then 1 else 0) \<and>
     (cl_released l \<longrightarrow> cl_released l') \<and>
     (\<forall>c\<in>set calls. c \<in> {CallLeaseRenew (cl_lease_handle l), CallLeaseRelease (cl_lease_handle l)})"
proof (induction cc ops l arbitrary: l' calls rule: lease_run.induct)
  case (2 cc reply ops l)
  obtain r l1 c1 where step: "renew cc reply l = (r, l1, c1)" by (metis prod_cases3)
  obtain l2 c2 where rest: "lease_run cc ops l1 = (l2, c2)" by fastforce
  from 2(1) [OF refl step [symmetric] refl rest] renew_frame [OF step] 2(2) step rest show ?case by auto
next
  case (3 cc reply ops l)
  obtain r l1 c1 where step: "release cc reply l = (r, l1, c1)" by (metis prod_cases3)
  obtain l2 c2 where rest: "lease_run cc ops l1 = (l2, c2)" by fastforce
  from 3(1) [OF refl step [symmetric] refl rest] 3(2) step rest show ?case
    by (cases "cl_released l") (auto simp: release_def)
qed simp

section \<open>Properties\<close>

definition demo_codec :: "(string, unit, unit, string) codec" where
  "demo_codec = \<lparr>cc_error_of_str = (\<lambda>_. None), cc_error_of_value = (\<lambda>_. None), cc_internal = (\<lambda>s. s),
     cc_value_of_str = (\<lambda>s. Some (jobj [(''ok'', JStr s)])), cc_to_string = (\<lambda>_. None), cc_node_info = (\<lambda>_. None),
     cc_empty_node_info = (), cc_peers = (\<lambda>_. None), cc_event = Some\<rparr>"

definition demo_world :: "string cluster_world" where
  "demo_world = \<lparr>cw_calls = [], cw_boxes = [], cw_next_ptr = 1, cw_streams = [], cw_subs = [], cw_delivered = [], cw_ub = False\<rparr>"



text \<open>C26. A lease is released exactly once and dropped exactly once, last, however it was used: over any
  sequence of renewals and explicit releases followed by its drop, the coordinator sees one
  \<^verbatim>\<open>lease_release\<close> and, after everything else, one \<^verbatim>\<open>lease_drop\<close> of that lease, and the fencing token never
  changes.\<close>

theorem lease_released_once:
  assumes "lease_run cc ops (lease_of reply) = (l, calls)"
  shows "count_list (calls @ drop_lease l) (CallLeaseRelease (lh_handle reply)) = 1 \<and>
    (\<exists>before. calls @ drop_lease l = before @ [CallLeaseDrop (lh_handle reply)] \<and> CallLeaseDrop (lh_handle reply) \<notin> set before) \<and>
    cl_fencing_token l = lh_fencing_token reply"
  using lease_run_calls [OF assms, of "lh_handle reply"]
  by (auto simp: drop_lease_def lease_of_def)

theorem lease_released_once_witness:
  "\<exists>l calls. lease_run demo_codec [OpRelease [], OpRelease []]
      (lease_of \<lparr>lh_handle = 3, lh_fencing_token = 9, lh_expires_at = [], lh_error_json = []\<rparr>) = (l, calls) \<and>
    count_list (calls @ drop_lease l) (CallLeaseRelease 3) = 1"
proof -
  obtain l calls where run: "lease_run demo_codec [OpRelease [], OpRelease []]
      (lease_of \<lparr>lh_handle = 3, lh_fencing_token = 9, lh_expires_at = [], lh_error_json = []\<rparr>) = (l, calls)"
    by fastforce
  with lease_released_once [OF run] show ?thesis by simp
qed

text \<open>A renewal after a release is not a no-op: the released lease still calls \<^verbatim>\<open>lease_renew\<close> on the
  coordinator and takes over the expiry it answers.\<close>

theorem renew_after_release_calls:
  "lease_run demo_codec [OpRelease [], OpRenew ''2030-01-01T00:00:00Z''] (lease_of reply) =
     (\<lparr>cl_lease_handle = lh_handle reply, cl_fencing_token = lh_fencing_token reply,
       cl_expires_at = ''2030-01-01T00:00:00Z'', cl_released = True\<rparr>,
      [CallLeaseRelease (lh_handle reply), CallLeaseRenew (lh_handle reply)])"
  by (simp add: renew_def release_def lease_of_def demo_codec_def Let_def json_get_jobj)

end
