(* ===== verification/Plugin_Log.thy ===== *)
theory Plugin_Log
  imports Json_Value
begin

text \<open>
  A plugin's instances and its log: \<^verbatim>\<open>src/src/plugin_log.rs\<close> and the helpers \<^verbatim>\<open>boxed_make_with_host\<close>,
  \<^verbatim>\<open>boxed_drop\<close> and \<^verbatim>\<open>typed_handle\<close> of \<^verbatim>\<open>src/src/ffi.rs\<close>. An instance is a box whose address is the
  host's handle; while it lives its host handle is in a registry, and the events of the plugin are sent
  to the newest of them.

  The registry's lock is modelled: a forward holds the read lock from its choice of a host to the return
  of the host's call, and attach and detach are steps that only run while nobody reads. A drop is three
  steps, as other threads see it: the box is freed, the handle leaves the registry, and after
  \<^verbatim>\<open>drop_instance\<close> returned the host frees its bridge. The allocator's choice of an address and the
  texts of serde and of \<^verbatim>\<open>Debug\<close> are parameters.
\<close>

section \<open>Records\<close>

datatype trace_level = ERROR | WARN | INFO | DEBUG | TRACE

fun verbosity :: "trace_level \<Rightarrow> nat" where
  "verbosity ERROR = 0"
| "verbosity WARN = 1"
| "verbosity INFO = 2"
| "verbosity DEBUG = 3"
| "verbosity TRACE = 4"

datatype log_level = LError | LWarn | LInfo | LDebug | LTrace

record metadata =
  md_is_event :: bool
  md_level :: trace_level
  md_target :: string

definition MAX_LEVEL :: trace_level where
  "MAX_LEVEL = INFO"

definition enabled :: "metadata \<Rightarrow> bool" where
  "enabled md = (md_is_event md \<and> verbosity (md_level md) \<le> verbosity MAX_LEVEL)"

datatype interest = Always | Never

definition register_callsite :: "metadata \<Rightarrow> interest" where
  "register_callsite md = (if enabled md then Always else Never)"

text \<open>What a field visitor is called with; the text of a \<^verbatim>\<open>Debug\<close> or an error is given.\<close>

datatype field_value =
    FDebug string
  | FStr string
  | FI64 int
  | FU64 nat
  | FBool bool
  | FF64 "64 word"
  | FError string

record log_fields =
  f_message :: string
  f_rest :: "(string, json) btree_map"

fun record_value :: "field_value \<Rightarrow> json" where
  "record_value (FDebug s) = JStr s"
| "record_value (FStr s) = JStr s"
| "record_value (FI64 i) = JNum (if 0 \<le> i then PosInt (nat i) else NegInt i)"
| "record_value (FU64 n) = JNum (PosInt n)"
| "record_value (FBool b) = JBool b"
| "record_value (FF64 w) = json_f64 w"
| "record_value (FError s) = JStr s"

definition put :: "(json \<Rightarrow> string) \<Rightarrow> string \<Rightarrow> json \<Rightarrow> log_fields \<Rightarrow> log_fields" where
  "put to_text n v f =
     (if n = ''message'' then f\<lparr>f_message := (case v of JStr s \<Rightarrow> s | other \<Rightarrow> to_text other)\<rparr>
      else f\<lparr>f_rest := bt_insert n v (f_rest f)\<rparr>)"

definition visit :: "(json \<Rightarrow> string) \<Rightarrow> (string \<times> field_value) list \<Rightarrow> log_fields" where
  "visit to_text vs = foldl (\<lambda>f p. put to_text (fst p) (record_value (snd p)) f) \<lparr>f_message = [], f_rest = []\<rparr> vs"

record log_event =
  le_metadata :: metadata
  le_values :: "(string \<times> field_value) list"

record log_record =
  lr_timestamp_ns :: nat
  lr_level :: log_level
  lr_target :: string
  lr_message :: string
  lr_fields :: "(string, json) btree_map"
  lr_span_id :: "string option"
  lr_trace_id :: "string option"
  lr_request_id :: "string option"
  lr_identity :: "json option"
  lr_node_id :: "string option"
  lr_plugin_id :: "string option"

fun log_level_of :: "trace_level \<Rightarrow> log_level" where
  "log_level_of ERROR = LError"
| "log_level_of WARN = LWarn"
| "log_level_of INFO = LInfo"
| "log_level_of DEBUG = LDebug"
| "log_level_of TRACE = LTrace"

text \<open>The clock gives the nanoseconds since the epoch, or nothing before it; they are cast to 64 bits.\<close>

definition record_of :: "(json \<Rightarrow> string) \<Rightarrow> nat option \<Rightarrow> log_event \<Rightarrow> log_record" where
  "record_of to_text clock ev =
     (let f = visit to_text (le_values ev)
      in \<lparr>lr_timestamp_ns = (case clock of Some ns \<Rightarrow> ns mod 2 ^ 64 | None \<Rightarrow> 0),
          lr_level = log_level_of (md_level (le_metadata ev)), lr_target = md_target (le_metadata ev),
          lr_message = f_message f, lr_fields = f_rest f, lr_span_id = None, lr_trace_id = None,
          lr_request_id = None, lr_identity = None, lr_node_id = None, lr_plugin_id = None\<rparr>)"

lemma visit_snoc: "visit to_text (vs @ [p]) = put to_text (fst p) (record_value (snd p)) (visit to_text vs)"
  by (simp add: visit_def)

lemma visit_wf: "bt_wf (f_rest (visit to_text vs))"
  by (induction vs rule: rev_induct) (simp_all add: visit_snoc put_def bt_wfs, simp add: visit_def bt_wfs)

lemma visit_field:
  "bt_get (f_rest (visit to_text vs)) n =
     (if n = ''message'' then None else map_option record_value (map_of (rev vs) n))"
proof (induction vs rule: rev_induct)
  case Nil
  then show ?case by (simp add: visit_def bt_get_def)
next
  case (snoc p vs)
  then show ?case by (cases p; cases "n = ''message''") (simp_all add: visit_snoc put_def bt_simps visit_wf)
qed

lemma visit_message:
  "f_message (visit to_text vs) =
     (case map_of (rev vs) ''message'' of
        None \<Rightarrow> [] | Some v \<Rightarrow> (case record_value v of JStr s \<Rightarrow> s | other \<Rightarrow> to_text other))"
proof (induction vs rule: rev_induct)
  case Nil
  then show ?case by (simp add: visit_def)
next
  case (snoc p vs)
  then show ?case by (cases p) (simp add: visit_snoc put_def)
qed

section \<open>Instances and the registry\<close>

text \<open>
  \<open>iw_live\<close> is the registry, \<open>iw_made\<close> the instances between \<^verbatim>\<open>make\<close> and \<^verbatim>\<open>drop_instance\<close> with their
  bridges, \<open>iw_freed\<close> those whose box is freed and that are still registered, \<open>iw_detached\<close> those the
  host is about to free, \<open>iw_readers\<close> the forwards under way. A type without data takes no box.
\<close>

record instance_world =
  iw_zero_sized :: bool
  iw_boxes :: "nat list"
  iw_bridges :: "nat list"
  iw_live :: "(nat \<times> nat) list"
  iw_made :: "(nat \<times> nat) list"
  iw_freed :: "(nat \<times> nat) list"
  iw_detached :: "(nat \<times> nat) list"
  iw_readers :: "(nat \<times> string) list"
  iw_delivered :: "(nat \<times> string) list"
  iw_ub :: bool

definition attach :: "nat \<Rightarrow> nat \<Rightarrow> instance_world \<Rightarrow> instance_world" where
  "attach plugin host w = w\<lparr>iw_live := iw_live w @ [(plugin, host)]\<rparr>"

definition detach :: "nat \<Rightarrow> instance_world \<Rightarrow> instance_world" where
  "detach plugin w = w\<lparr>iw_live := filter (\<lambda>e. fst e \<noteq> plugin) (iw_live w)\<rparr>"

text \<open>The host makes a bridge and calls \<^verbatim>\<open>make\<close>; the box lands at \<open>p\<close>.\<close>

definition boxed_make_with_host :: "nat \<Rightarrow> nat \<Rightarrow> instance_world \<Rightarrow> instance_world" where
  "boxed_make_with_host p host w =
     attach p host (w\<lparr>iw_bridges := host # iw_bridges w,
       iw_boxes := (if iw_zero_sized w then iw_boxes w else p # iw_boxes w),
       iw_made := (p, host) # iw_made w\<rparr>)"

definition typed_handle :: "nat \<Rightarrow> instance_world \<Rightarrow> instance_world" where
  "typed_handle p w = (if iw_zero_sized w \<or> p \<in> set (iw_boxes w) then w else w\<lparr>iw_ub := True\<rparr>)"

definition drop_box :: "nat \<times> nat \<Rightarrow> instance_world \<Rightarrow> instance_world" where
  "drop_box i w =
     (typed_handle (fst i) w)\<lparr>iw_boxes := (if iw_zero_sized w then iw_boxes w else remove1 (fst i) (iw_boxes w)),
       iw_made := remove1 i (iw_made w), iw_freed := i # iw_freed w\<rparr>"

definition drop_detach :: "nat \<times> nat \<Rightarrow> instance_world \<Rightarrow> instance_world" where
  "drop_detach i w = (detach (fst i) w)\<lparr>iw_freed := remove1 i (iw_freed w), iw_detached := i # iw_detached w\<rparr>"

definition host_frees :: "nat \<times> nat \<Rightarrow> instance_world \<Rightarrow> instance_world" where
  "host_frees i w = w\<lparr>iw_detached := remove1 i (iw_detached w), iw_bridges := remove1 (snd i) (iw_bridges w)\<rparr>"

text \<open>\<^verbatim>\<open>Forwarder::event\<close>: the call into the host begins and returns.\<close>

definition call_bridge :: "nat \<Rightarrow> instance_world \<Rightarrow> instance_world" where
  "call_bridge host w = (if host \<in> set (iw_bridges w) then w else w\<lparr>iw_ub := True\<rparr>)"

definition forward :: "(log_record \<Rightarrow> string option) \<Rightarrow> log_record \<Rightarrow> instance_world \<Rightarrow> instance_world" where
  "forward to_string r w =
     (case to_string r of
        None \<Rightarrow> w
      | Some attrs \<Rightarrow>
          if iw_live w = [] then w
          else (call_bridge (snd (last (iw_live w))) w)\<lparr>iw_readers := (snd (last (iw_live w)), attrs) # iw_readers w\<rparr>)"

definition deliver :: "nat \<times> string \<Rightarrow> instance_world \<Rightarrow> instance_world" where
  "deliver rd w = (call_bridge (fst rd) w)\<lparr>iw_readers := remove1 rd (iw_readers w), iw_delivered := iw_delivered w @ [rd]\<rparr>"

text \<open>
  The host calls a slot of an instance only between its \<^verbatim>\<open>make\<close> and its \<^verbatim>\<open>drop_instance\<close>, and drops it
  once; the allocator hands out an address that no box has.
\<close>

inductive instance_step :: "(log_record \<Rightarrow> string option) \<Rightarrow> instance_world \<Rightarrow> instance_world \<Rightarrow> bool" for to_string where
  i_make: "iw_readers w = [] \<Longrightarrow> host \<notin> set (iw_bridges w) \<Longrightarrow> (iw_zero_sized w \<or> p \<notin> set (iw_boxes w)) \<Longrightarrow>
    instance_step to_string w (boxed_make_with_host p host w)"
| i_call: "i \<in> set (iw_made w) \<Longrightarrow> instance_step to_string w (typed_handle (fst i) w)"
| i_drop: "i \<in> set (iw_made w) \<Longrightarrow> instance_step to_string w (drop_box i w)"
| i_detach: "i \<in> set (iw_freed w) \<Longrightarrow> iw_readers w = [] \<Longrightarrow> instance_step to_string w (drop_detach i w)"
| i_free: "i \<in> set (iw_detached w) \<Longrightarrow> instance_step to_string w (host_frees i w)"
| i_forward: "instance_step to_string w (forward to_string r w)"
| i_deliver: "rd \<in> set (iw_readers w) \<Longrightarrow> instance_step to_string w (deliver rd w)"

definition no_instances :: "instance_world \<Rightarrow> bool" where
  "no_instances w = (iw_boxes w = [] \<and> iw_bridges w = [] \<and> iw_live w = [] \<and> iw_made w = [] \<and> iw_freed w = [] \<and>
     iw_detached w = [] \<and> iw_readers w = [] \<and> \<not> iw_ub w)"


section \<open>The invariant\<close>

definition all_instances :: "instance_world \<Rightarrow> (nat \<times> nat) list" where
  "all_instances w = iw_made w @ iw_freed w @ iw_detached w"

definition instances_wf :: "instance_world \<Rightarrow> bool" where
  "instances_wf w = (\<not> iw_ub w \<and> distinct (iw_bridges w) \<and>
     mset (iw_bridges w) = image_mset snd (mset (all_instances w)) \<and>
     set (iw_live w) \<subseteq> set (iw_made w) \<union> set (iw_freed w) \<and>
     (\<forall>rd\<in>set (iw_readers w). fst rd \<in> snd ` set (iw_live w)) \<and>
     (iw_zero_sized w \<or> distinct (iw_boxes w) \<and> mset (iw_boxes w) = image_mset fst (mset (iw_made w))))"

lemma wf_bridges: "instances_wf w \<Longrightarrow> set (iw_bridges w) = snd ` set (all_instances w)"
  unfolding instances_wf_def by (metis set_image_mset set_mset_mset)

lemma wf_boxes: "instances_wf w \<Longrightarrow> \<not> iw_zero_sized w \<Longrightarrow> set (iw_boxes w) = fst ` set (iw_made w)"
  unfolding instances_wf_def by (metis set_image_mset set_mset_mset)

lemma wf_live_bridge: "instances_wf w \<Longrightarrow> e \<in> set (iw_live w) \<Longrightarrow> snd e \<in> set (iw_bridges w)"
  by (auto simp: wf_bridges instances_wf_def all_instances_def)

lemma wf_reader_bridge: "instances_wf w \<Longrightarrow> rd \<in> set (iw_readers w) \<Longrightarrow> fst rd \<in> set (iw_bridges w)"
  using wf_live_bridge [of w] unfolding instances_wf_def by fastforce

lemma mset_remove1_add: "x \<in> set xs \<Longrightarrow> add_mset x (mset (remove1 x xs)) = mset xs"
  by simp

lemma image_mset_remove1: "x \<in> set xs \<Longrightarrow> image_mset f (mset (remove1 x xs)) = image_mset f (mset xs) - {#f x#}"
  by (simp add: image_mset_Diff)

lemma wf_make:
  assumes "instances_wf w" "iw_readers w = []" "host \<notin> set (iw_bridges w)" "iw_zero_sized w \<or> p \<notin> set (iw_boxes w)"
  shows "instances_wf (boxed_make_with_host p host w)"
  using assms by (auto simp: instances_wf_def boxed_make_with_host_def attach_def all_instances_def)

lemma wf_call: "instances_wf w \<Longrightarrow> i \<in> set (iw_made w) \<Longrightarrow> typed_handle (fst i) w = w"
  using wf_boxes [of w] by (auto simp: typed_handle_def)

lemma wf_drop:
  assumes "instances_wf w" "i \<in> set (iw_made w)"
  shows "instances_wf (drop_box i w)"
proof -
  have all: "mset (all_instances (drop_box i w)) = mset (all_instances w)"
    using assms wf_call [OF assms] by (simp add: all_instances_def drop_box_def)
  have same: "iw_ub (drop_box i w) = iw_ub w" "iw_bridges (drop_box i w) = iw_bridges w" "iw_live (drop_box i w) = iw_live w"
      "iw_readers (drop_box i w) = iw_readers w" "iw_zero_sized (drop_box i w) = iw_zero_sized w"
      "iw_made (drop_box i w) = remove1 i (iw_made w)" "iw_freed (drop_box i w) = i # iw_freed w"
      "\<not> iw_zero_sized w \<Longrightarrow> iw_boxes (drop_box i w) = remove1 (fst i) (iw_boxes w)"
    using wf_call [OF assms] by (simp_all add: drop_box_def)
  have "set (iw_live w) \<subseteq> set (remove1 i (iw_made w)) \<union> set (i # iw_freed w)"
    using assms(1) by (auto simp: instances_wf_def)
  moreover have "mset (remove1 (fst i) (iw_boxes w)) = image_mset fst (mset (remove1 i (iw_made w)))" if "\<not> iw_zero_sized w"
    using that assms image_mset_remove1 [OF assms(2), of fst] by (simp add: instances_wf_def)
  ultimately show ?thesis
    using assms(1) unfolding instances_wf_def all same by (auto simp: same(8))
qed

lemma wf_detach:
  assumes "instances_wf w" "i \<in> set (iw_freed w)" "iw_readers w = []"
  shows "instances_wf (drop_detach i w)"
proof -
  have all: "mset (all_instances (drop_detach i w)) = mset (all_instances w)"
    using assms(2) by (simp add: all_instances_def drop_detach_def detach_def)
  have "set (filter (\<lambda>e. fst e \<noteq> fst i) (iw_live w)) \<subseteq> set (iw_made w) \<union> set (remove1 i (iw_freed w))"
  proof
    fix e assume "e \<in> set (filter (\<lambda>e. fst e \<noteq> fst i) (iw_live w))"
    then have "e \<in> set (iw_made w) \<union> set (iw_freed w)" "e \<noteq> i" using assms(1) by (auto simp: instances_wf_def)
    then show "e \<in> set (iw_made w) \<union> set (remove1 i (iw_freed w))" by auto
  qed
  with assms(1,3) show ?thesis
    unfolding instances_wf_def all by (simp add: drop_detach_def detach_def)
qed

lemma wf_free:
  assumes "instances_wf w" "i \<in> set (iw_detached w)"
  shows "instances_wf (host_frees i w)"
proof -
  have "mset (remove1 (snd i) (iw_bridges w)) = image_mset snd (mset (all_instances (host_frees i w)))"
    using assms image_mset_remove1 [OF assms(2), of snd]
    by (simp add: instances_wf_def all_instances_def host_frees_def image_mset_Diff)
  with assms(1) show ?thesis by (simp add: instances_wf_def host_frees_def)
qed

lemma wf_forward: "instances_wf w \<Longrightarrow> instances_wf (forward to_string r w)"
  using wf_live_bridge [of w "last (iw_live w)"]
  by (auto simp: forward_def call_bridge_def instances_wf_def all_instances_def split: option.splits)

lemma wf_deliver: "instances_wf w \<Longrightarrow> rd \<in> set (iw_readers w) \<Longrightarrow> instances_wf (deliver rd w)"
  using wf_reader_bridge [of w rd]
  by (auto simp: deliver_def call_bridge_def instances_wf_def all_instances_def dest: notin_set_remove1)

lemma instances_wf_step: "instance_step to_string w w' \<Longrightarrow> instances_wf w \<Longrightarrow> instances_wf w'"
  by (erule instance_step.cases) (auto simp: wf_call intro: wf_make wf_drop wf_detach wf_free wf_forward wf_deliver)

interpretation instances: step_invariant no_instances "instance_step to_string" instances_wf
proof
  show "instances_wf w" if "no_instances w" for w using that by (simp add: no_instances_def instances_wf_def all_instances_def)
qed (rule instances_wf_step)


text \<open>Steps that never register two instances at one address.\<close>

definition apart_step :: "(log_record \<Rightarrow> string option) \<Rightarrow> instance_world \<Rightarrow> instance_world \<Rightarrow> bool" where
  "apart_step to_string w w' = (instance_step to_string w w' \<and> distinct (map fst (iw_live w')))"

definition registered_wf :: "instance_world \<Rightarrow> bool" where
  "registered_wf w = (set (iw_live w) = set (iw_made w) \<union> set (iw_freed w) \<and>
     distinct (map fst (iw_live w)) \<and> distinct (iw_made w @ iw_freed w))"

lemma registered_keep [simp]:
  "registered_wf (w\<lparr>iw_readers := rs\<rparr>) = registered_wf w" "registered_wf (w\<lparr>iw_delivered := ds\<rparr>) = registered_wf w"
  "registered_wf (w\<lparr>iw_ub := u\<rparr>) = registered_wf w" "registered_wf (w\<lparr>iw_detached := is\<rparr>) = registered_wf w"
  "registered_wf (w\<lparr>iw_bridges := bs\<rparr>) = registered_wf w"
  by (simp_all add: registered_wf_def)

lemma registered_make:
  "registered_wf w \<Longrightarrow> distinct (map fst (iw_live (boxed_make_with_host p host w))) \<Longrightarrow> registered_wf (boxed_make_with_host p host w)"
  by (force simp: registered_wf_def boxed_make_with_host_def attach_def)

lemma registered_drop: "registered_wf w \<Longrightarrow> i \<in> set (iw_made w) \<Longrightarrow> registered_wf (drop_box i w)"
  by (auto simp: registered_wf_def drop_box_def typed_handle_def)

lemma registered_detach:
  assumes "registered_wf w" "i \<in> set (iw_freed w)"
  shows "registered_wf (drop_detach i w)"
proof -
  have dist: "distinct (map fst (iw_live w))" "distinct (iw_made w @ iw_freed w)" "i \<in> set (iw_live w)"
    using assms by (auto simp: registered_wf_def)
  have "fst e \<noteq> fst i \<longleftrightarrow> e \<noteq> i" if "e \<in> set (iw_live w)" for e
    using dist(1,3) that by (auto simp: distinct_map dest: inj_onD)
  then have "set (filter (\<lambda>e. fst e \<noteq> fst i) (iw_live w)) = set (iw_live w) - {i}" by auto
  also have "\<dots> = set (iw_made w) \<union> set (remove1 i (iw_freed w))"
    using assms dist(2) by (auto simp: registered_wf_def)
  finally show ?thesis
    using dist by (auto simp: registered_wf_def drop_detach_def detach_def distinct_map_filter dest: notin_set_remove1)
qed

lemma registered_step: "apart_step to_string w w' \<Longrightarrow> registered_wf w \<Longrightarrow> registered_wf w'"
  unfolding apart_step_def
  by (elim conjE instance_step.cases)
    (auto intro: registered_make registered_drop registered_detach simp: typed_handle_def host_frees_def forward_def deliver_def call_bridge_def split: option.splits)

interpretation registered: step_invariant no_instances "apart_step to_string" registered_wf
proof
  show "registered_wf w" if "no_instances w" for w using that by (simp add: no_instances_def registered_wf_def)
qed (rule registered_step)

section \<open>Properties\<close>

text \<open>
  C15. Whatever the order in which instances are made, called and dropped and log events forwarded from
  other threads, no slot runs on a freed box, no box is freed twice, and the host is never called
  through a bridge it has freed: every registered handle and every forward under way has a live bridge.
\<close>

theorem instances_memory_safe:
  assumes "reach no_instances (instance_step to_string) w"
  shows "\<not> iw_ub w \<and> (\<forall>e\<in>set (iw_live w). snd e \<in> set (iw_bridges w)) \<and> (\<forall>rd\<in>set (iw_readers w). fst rd \<in> set (iw_bridges w))"
proof -
  have wf: "instances_wf w" by (rule instances.reach_inv [OF assms])
  then show ?thesis using wf_live_bridge [OF wf] wf_reader_bridge [OF wf] by (auto simp: instances_wf_def)
qed

definition demo_instances :: "bool \<Rightarrow> instance_world" where
  "demo_instances zst = \<lparr>iw_zero_sized = zst, iw_boxes = [], iw_bridges = [], iw_live = [], iw_made = [], iw_freed = [],
     iw_detached = [], iw_readers = [], iw_delivered = [], iw_ub = False\<rparr>"

lemma demo_no_instances: "no_instances (demo_instances z)"
  by (simp add: no_instances_def demo_instances_def)

lemmas demo_evals = demo_instances_def boxed_make_with_host_def attach_def drop_box_def typed_handle_def drop_detach_def
  detach_def forward_def call_bridge_def

lemma demo_made: "reach no_instances (instance_step f) (boxed_make_with_host 16 1 (demo_instances z))"
  by (rule reach.intros(2), rule reach.intros(1), rule demo_no_instances) (rule i_make, simp_all add: demo_evals)

definition demo_record :: log_record where
  "demo_record = record_of (\<lambda>_. []) None
     \<lparr>le_metadata = \<lparr>md_is_event = True, md_level = WARN, md_target = ''kv''\<rparr>, le_values = [(''message'', FStr ''slow'')]\<rparr>"

theorem instances_memory_safe_witness:
  "reach no_instances (instance_step (\<lambda>_. Some ''x'')) (forward (\<lambda>_. Some ''x'') demo_record (boxed_make_with_host 16 1 (demo_instances False))) \<and>
   \<not> iw_ub (forward (\<lambda>_. Some ''x'') demo_record (boxed_make_with_host 16 1 (demo_instances False))) \<and>
   iw_readers (forward (\<lambda>_. Some ''x'') demo_record (boxed_make_with_host 16 1 (demo_instances False))) = [(1, ''x'')]"
proof -
  have "reach no_instances (instance_step (\<lambda>_. Some ''x'')) (forward (\<lambda>_. Some ''x'') demo_record (boxed_make_with_host 16 1 (demo_instances False)))"
    by (rule reach.intros(2), rule demo_made) (rule i_forward)
  then show ?thesis using instances_memory_safe by (auto simp: demo_evals)
qed

text \<open>
  C33. As long as no two registered instances have one address, the registry holds exactly the instances
  whose drop has not detached them, so an event of a plugin with a live instance always reaches the
  host: the forward begins a call with the record's JSON on one of their bridges.
\<close>

theorem live_instance_is_heard:
  assumes "reach no_instances (apart_step to_string) w" "iw_made w \<noteq> []" "to_string r = Some attrs"
  shows "set (iw_live w) = set (iw_made w) \<union> set (iw_freed w) \<and>
    (\<exists>i\<in>set (iw_made w) \<union> set (iw_freed w). iw_readers (forward to_string r w) = (snd i, attrs) # iw_readers w)"
proof -
  have live: "set (iw_live w) = set (iw_made w) \<union> set (iw_freed w)"
    using registered.reach_inv [OF assms(1)] by (simp add: registered_wf_def)
  then have ne: "iw_live w \<noteq> []" using assms(2) by auto
  then have "last (iw_live w) \<in> set (iw_made w) \<union> set (iw_freed w)" using live last_in_set by blast
  then show ?thesis using live ne assms(3) by (auto simp: forward_def)
qed

theorem live_instance_is_heard_witness:
  "\<exists>i\<in>set (iw_made (boxed_make_with_host 16 1 (demo_instances False))) \<union> set (iw_freed (boxed_make_with_host 16 1 (demo_instances False))).
     iw_readers (forward (\<lambda>_. Some ''x'') demo_record (boxed_make_with_host 16 1 (demo_instances False))) = [(snd i, ''x'')]"
proof -
  have "reach no_instances (apart_step (\<lambda>_. Some ''x'')) (boxed_make_with_host 16 1 (demo_instances False))"
    by (rule reach.intros(2), rule reach.intros(1), rule demo_no_instances [of False])
      (simp add: apart_step_def demo_evals, rule i_make [of "demo_instances False" 1 16, unfolded demo_evals, simplified])
  from live_instance_is_heard [OF this, where r = demo_record and attrs = "''x''"] show ?thesis by (simp add: demo_evals)
qed

text \<open>
  C40. The registry is keyed by the box's address, and \<^verbatim>\<open>detach\<close> removes every entry with it. The
  instances of a plugin type without data all have the same dangling address, so dropping one of two
  silences the other: its events go nowhere although it lives and its own bridge is there.
\<close>

theorem shared_address_silences:
  "\<exists>w. reach no_instances (instance_step to_string) w \<and> iw_made w = [(1, 7)] \<and> 7 \<in> set (iw_bridges w) \<and> iw_freed w = [] \<and>
     (\<forall>r. forward to_string r w = w)"
proof -
  let ?one = "boxed_make_with_host 1 7 (demo_instances True)"
  let ?two = "boxed_make_with_host 1 8 ?one"
  let ?last = "drop_detach (1, 8) (drop_box (1, 8) ?two)"
  have "reach no_instances (instance_step to_string) ?one"
    by (rule reach.intros(2), rule reach.intros(1), rule demo_no_instances) (rule i_make, simp_all add: demo_evals)
  then have "reach no_instances (instance_step to_string) ?two"
    by (rule reach.intros(2)) (rule i_make, simp_all add: demo_evals)
  then have "reach no_instances (instance_step to_string) (drop_box (1, 8) ?two)"
    by (rule reach.intros(2)) (rule i_drop, simp add: demo_evals)
  then have "reach no_instances (instance_step to_string) ?last"
    by (rule reach.intros(2)) (rule i_detach, simp_all add: demo_evals)
  moreover have "forward to_string r ?last = ?last" for r by (simp add: demo_evals split: option.splits)
  ultimately show ?thesis by (intro exI [of _ ?last]) (simp add: demo_evals)
qed

text \<open>
  A forwarded record keeps what the event said: of the values recorded under a name the last one is
  the field, a recorded message is the message and no field, and only events at INFO or above are sent.
\<close>

theorem record_of_fields:
  "bt_get (lr_fields (record_of to_text clock ev)) n =
     (if n = ''message'' then None else map_option record_value (map_of (rev (le_values ev)) n)) \<and>
   lr_message (record_of to_text clock ev) =
     (case map_of (rev (le_values ev)) ''message'' of
        None \<Rightarrow> [] | Some v \<Rightarrow> (case record_value v of JStr s \<Rightarrow> s | other \<Rightarrow> to_text other)) \<and>
   (enabled (le_metadata ev) \<longleftrightarrow> md_is_event (le_metadata ev) \<and> lr_level (record_of to_text clock ev) \<in> {LError, LWarn, LInfo})"
proof -
  have "enabled (le_metadata ev) \<longleftrightarrow> md_is_event (le_metadata ev) \<and> log_level_of (md_level (le_metadata ev)) \<in> {LError, LWarn, LInfo}"
    by (cases "md_level (le_metadata ev)") (simp_all add: enabled_def MAX_LEVEL_def)
  then show ?thesis by (simp add: record_of_def Let_def visit_field visit_message)
qed

end
