(* ===== verification/Host_Handle.thy ===== *)
theory Host_Handle
  imports Json_Value
begin

text \<open>
  The plugin's handle to its host, \<^verbatim>\<open>src/src/host_handle.rs\<close>: one set of operations over two backends, a
  table of C functions that exchange JSON texts (cdylib plugins) and direct calls of the host's
  services (static plugins).

  The values of the protocol crate that only pass through (secrets, credentials, snapshots,
  receipts, resources) are their JSON; of its error types the constructors the SDK builds are
  kept and the others are \<open>Remote\<close>. The record \<open>wire\<close> has the codecs the handle calls: serde's
  \<^verbatim>\<open>to_string\<close>, base64 and \<^verbatim>\<open>decode_result_envelope\<close> at each type; a decoder's left value is the text of
  its own error. An asynchronous service that is awaited is its result.
\<close>

section \<open>Data\<close>

datatype host_error =
    NotImplemented
  | TransportError string
  | SecretBackend string
  | CredentialMisconfigured string
  | CredentialBackend string
  | ConfigBackend string
  | AuditWriteFailed string
  | Remote string

type_synonym 'a host_result = "(host_error, 'a) result"
type_synonym 'a envelope = "(string, 'a host_result) result"

record wire =
  wr_to_string :: "json \<Rightarrow> (string, string) result"
  wr_value_text :: "json \<Rightarrow> string"
  wr_b64_encode :: "string \<Rightarrow> string"
  wr_b64_decode :: "string \<Rightarrow> (string, string) result"
  wr_value :: "string \<Rightarrow> json envelope"
  wr_opt :: "string \<Rightarrow> string option envelope"
  wr_unit :: "string \<Rightarrow> unit envelope"
  wr_creds :: "string \<Rightarrow> (json \<times> nat) envelope"

datatype metric_point =
    Counter string nat "(string \<times> string) list"
  | Gauge string "64 word" "(string \<times> string) list"
  | Histogram string "64 word" "(string \<times> string) list"

record host_vtable =
  v_alias :: string
  v_cluster :: "nat option"
  v_resolve_secret :: "string \<Rightarrow> string"
  v_resolve_credentials :: "string \<Rightarrow> string \<Rightarrow> string"
  v_cache_get :: "string \<Rightarrow> string \<Rightarrow> string"
  v_cache_put :: "string \<Rightarrow> string \<Rightarrow> string"
  v_fetch_content :: "string \<Rightarrow> string"
  v_store_content :: "string \<Rightarrow> string"
  v_invoke_tool :: "string \<Rightarrow> string \<Rightarrow> string \<Rightarrow> string"
  v_issue_credential :: "string \<Rightarrow> string \<Rightarrow> string"
  v_config_snapshot :: "string \<Rightarrow> string"
  v_audit_event :: "string \<Rightarrow> string"
  v_span_start :: "string \<Rightarrow> string \<Rightarrow> nat"

record host_services =
  s_resolve_secret :: "string \<Rightarrow> string \<Rightarrow> json host_result"
  s_resolve_credentials :: "string \<Rightarrow> json \<Rightarrow> json option \<Rightarrow> nat host_result \<times> json"
  s_cache_get :: "string \<Rightarrow> string \<Rightarrow> string \<Rightarrow> string option host_result"
  s_cache_put :: "string \<Rightarrow> string \<Rightarrow> string \<Rightarrow> string \<Rightarrow> duration \<Rightarrow> unit host_result"
  s_fetch_content :: "string \<Rightarrow> string \<Rightarrow> string option host_result"
  s_store_content :: "string \<Rightarrow> string \<Rightarrow> string \<Rightarrow> duration option \<Rightarrow> json host_result"
  s_invoke_tool :: "json \<Rightarrow> string \<Rightarrow> json \<Rightarrow> json host_result"
  s_issue_credential :: "string \<Rightarrow> string \<Rightarrow> json \<Rightarrow> json host_result"
  s_config_snapshot :: "string \<Rightarrow> string \<Rightarrow> json host_result"
  s_audit_event :: "string \<Rightarrow> json \<Rightarrow> json host_result"
  s_span_start :: "string \<Rightarrow> string \<Rightarrow> json \<Rightarrow> nat"

text \<open>The runtime of a static handle is only there or not.\<close>

datatype backend =
    Ffi host_vtable
  | Services string host_services "nat option" bool

section \<open>Helpers\<close>

definition to_string_or :: "wire \<Rightarrow> string \<Rightarrow> json \<Rightarrow> string" where
  "to_string_or wr fallback j = (case wr_to_string wr j of Inr s \<Rightarrow> s | Inl _ \<Rightarrow> fallback)"

definition opt_json :: "json option \<Rightarrow> json" where
  "opt_json j = (case j of None \<Rightarrow> JNull | Some v \<Rightarrow> v)"

definition block_on_or_err :: "bool \<Rightarrow> 'a host_result \<Rightarrow> host_error \<Rightarrow> 'a host_result" where
  "block_on_or_err runtime fut on_no_runtime = (if runtime then fut else Err on_no_runtime)"

definition envelope_err :: "string \<Rightarrow> host_error" where
  "envelope_err e = TransportError (''host service: bad result envelope: '' @ e)"

text \<open>\<^verbatim>\<open>decode_result_envelope(..).map_err(f)??\<close>\<close>

definition open_envelope :: "(string \<Rightarrow> host_error) \<Rightarrow> 'a envelope \<Rightarrow> 'a host_result" where
  "open_envelope on_error e = (case e of Inl msg \<Rightarrow> Err (on_error msg) | Inr r \<Rightarrow> r)"

definition decode_b64 :: "wire \<Rightarrow> string \<Rightarrow> string option host_result \<Rightarrow> string option host_result" where
  "decode_b64 wr op r =
     (case r of
        Inl e \<Rightarrow> Err e
      | Inr None \<Rightarrow> Ok None
      | Inr (Some s) \<Rightarrow>
          (case wr_b64_decode wr s of
             Inl e \<Rightarrow> Err (TransportError (op @ '': bad base64: '' @ e))
           | Inr bytes \<Rightarrow> Ok (Some bytes)))"

definition no_runtime :: string where
  "no_runtime = ''host handle: no tokio runtime captured''"

definition U64_MAX :: nat where
  "U64_MAX = 2 ^ 64 - 1"

definition millis_of :: "duration \<Rightarrow> nat" where
  "millis_of d = d div 1000000"

section \<open>Operations\<close>

definition ffi_ref :: "backend \<Rightarrow> host_vtable option" where
  "ffi_ref b = (case b of Ffi vt \<Rightarrow> Some vt | Services _ _ _ _ \<Rightarrow> None)"

definition host_alias :: "backend \<Rightarrow> string" where
  "host_alias b = (case b of Ffi vt \<Rightarrow> v_alias vt | Services a _ _ _ \<Rightarrow> a)"

definition cluster_of :: "backend \<Rightarrow> nat option" where
  "cluster_of b = (case b of Ffi vt \<Rightarrow> v_cluster vt | Services _ _ c _ \<Rightarrow> c)"

definition decode_secret_envelope :: "wire \<Rightarrow> string \<Rightarrow> json host_result" where
  "decode_secret_envelope wr s =
     open_envelope (\<lambda>e. SecretBackend (''undecodable secret envelope: '' @ e)) (wr_value wr s)"

definition resolve_secret :: "wire \<Rightarrow> backend \<Rightarrow> string \<Rightarrow> json host_result" where
  "resolve_secret wr b uri =
     (case b of
        Ffi vt \<Rightarrow> decode_secret_envelope wr (v_resolve_secret vt uri)
      | Services a sv _ rt \<Rightarrow> block_on_or_err rt (s_resolve_secret sv a uri) (SecretBackend no_runtime))"

text \<open>The value is updated in place: the second component.\<close>

definition resolve_credentials :: "wire \<Rightarrow> backend \<Rightarrow> json option \<Rightarrow> json \<Rightarrow> nat host_result \<times> json" where
  "resolve_credentials wr b identity v =
     (case b of
        Ffi vt \<Rightarrow>
          (let out = v_resolve_credentials vt (to_string_or wr ''null'' v) (to_string_or wr ''null'' (opt_json identity))
           in case open_envelope envelope_err (wr_creds wr out) of
                Inl e \<Rightarrow> (Err e, v)
              | Inr (v', n) \<Rightarrow> (Ok n, v'))
      | Services a sv _ rt \<Rightarrow>
          (if rt then s_resolve_credentials sv a v identity else (Err NotImplemented, v)))"

definition cache_get :: "wire \<Rightarrow> backend \<Rightarrow> string \<Rightarrow> string \<Rightarrow> string option host_result" where
  "cache_get wr b binding key =
     (case b of
        Ffi vt \<Rightarrow> decode_b64 wr ''cache_get'' (open_envelope envelope_err (wr_opt wr (v_cache_get vt binding key)))
      | Services a sv _ rt \<Rightarrow> block_on_or_err rt (s_cache_get sv a binding key) NotImplemented)"

definition cache_put_args :: "wire \<Rightarrow> string \<Rightarrow> string \<Rightarrow> duration \<Rightarrow> json" where
  "cache_put_args wr key v ttl =
     jobj [(''key'', JStr key), (''value'', JStr (wr_b64_encode wr v)),
           (''ttl_ms'', JNum (PosInt (min (millis_of ttl) U64_MAX)))]"

definition cache_put :: "wire \<Rightarrow> backend \<Rightarrow> string \<Rightarrow> string \<Rightarrow> string \<Rightarrow> duration \<Rightarrow> unit host_result" where
  "cache_put wr b binding key v ttl =
     (case b of
        Ffi vt \<Rightarrow> open_envelope envelope_err
          (wr_unit wr (v_cache_put vt binding (to_string_or wr [] (cache_put_args wr key v ttl))))
      | Services a sv _ rt \<Rightarrow> block_on_or_err rt (s_cache_put sv a binding key v ttl) NotImplemented)"

definition fetch_content :: "wire \<Rightarrow> backend \<Rightarrow> string \<Rightarrow> string option host_result" where
  "fetch_content wr b uri =
     (case b of
        Ffi vt \<Rightarrow> decode_b64 wr ''fetch_content'' (open_envelope envelope_err (wr_opt wr (v_fetch_content vt uri)))
      | Services a sv _ rt \<Rightarrow> block_on_or_err rt (s_fetch_content sv a uri) NotImplemented)"

text \<open>Here the milliseconds are cast with \<^verbatim>\<open>as u64\<close>, which wraps.\<close>

definition store_content_args :: "wire \<Rightarrow> string \<Rightarrow> string \<Rightarrow> duration option \<Rightarrow> json" where
  "store_content_args wr bytes mime ttl =
     jobj [(''bytes'', JStr (wr_b64_encode wr bytes)), (''mime_type'', JStr mime),
           (''ttl_ms'', (case ttl of None \<Rightarrow> JNull | Some d \<Rightarrow> JNum (PosInt (millis_of d mod 2 ^ 64))))]"

definition store_content :: "wire \<Rightarrow> backend \<Rightarrow> string \<Rightarrow> string \<Rightarrow> duration option \<Rightarrow> json host_result" where
  "store_content wr b bytes mime ttl =
     (case b of
        Ffi vt \<Rightarrow> open_envelope envelope_err
          (wr_value wr (v_store_content vt (to_string_or wr [] (store_content_args wr bytes mime ttl))))
      | Services a sv _ rt \<Rightarrow> block_on_or_err rt (s_store_content sv a bytes mime ttl) NotImplemented)"

definition invoke_tool :: "wire \<Rightarrow> backend \<Rightarrow> json \<Rightarrow> string \<Rightarrow> json \<Rightarrow> json host_result" where
  "invoke_tool wr b ctx tool args =
     (case b of
        Ffi vt \<Rightarrow> open_envelope envelope_err
          (wr_value wr (v_invoke_tool vt (to_string_or wr [] ctx) tool (to_string_or wr [] args)))
      | Services a sv _ rt \<Rightarrow> block_on_or_err rt (s_invoke_tool sv ctx tool args) NotImplemented)"

definition issue_credential :: "wire \<Rightarrow> backend \<Rightarrow> string \<Rightarrow> json \<Rightarrow> json host_result" where
  "issue_credential wr b uri identity =
     (case b of
        Ffi vt \<Rightarrow>
          (case wr_to_string wr identity of
             Inl e \<Rightarrow> Err (CredentialMisconfigured (''identity serialise: '' @ e))
           | Inr id_json \<Rightarrow>
               open_envelope (\<lambda>e. CredentialMisconfigured (''undecodable credential envelope: '' @ e))
                 (wr_value wr (v_issue_credential vt uri id_json)))
      | Services a sv _ rt \<Rightarrow> block_on_or_err rt (s_issue_credential sv a uri identity) (CredentialBackend no_runtime))"

definition config_snapshot :: "wire \<Rightarrow> backend \<Rightarrow> string \<Rightarrow> json host_result" where
  "config_snapshot wr b uri =
     (case b of
        Ffi vt \<Rightarrow> open_envelope (\<lambda>e. ConfigBackend (''undecodable config envelope: '' @ e)) (wr_value wr (v_config_snapshot vt uri))
      | Services a sv _ rt \<Rightarrow> block_on_or_err rt (s_config_snapshot sv a uri) (ConfigBackend no_runtime))"

definition audit_event :: "wire \<Rightarrow> backend \<Rightarrow> json \<Rightarrow> json host_result" where
  "audit_event wr b ev =
     (case b of
        Ffi vt \<Rightarrow>
          (case wr_to_string wr ev of
             Inl e \<Rightarrow> Err (AuditWriteFailed (''event serialise: '' @ e))
           | Inr event_json \<Rightarrow>
               open_envelope (\<lambda>e. AuditWriteFailed (''undecodable audit envelope: '' @ e)) (wr_value wr (v_audit_event vt event_json)))
      | Services a sv _ rt \<Rightarrow> block_on_or_err rt (s_audit_event sv a ev) (AuditWriteFailed no_runtime))"

subsection \<open>Metrics and spans\<close>

text \<open>What a handle sends to the host, as a log.\<close>

datatype host_effect =
    FfiMetric string
  | ServiceMetric string metric_point
  | FfiSpanEvent nat string string
  | ServiceSpanEvent nat string json
  | FfiSpanEnd nat
  | ServiceSpanEnd nat

definition labels_json :: "(string \<times> string) list \<Rightarrow> json" where
  "labels_json ls = JArr (map (\<lambda>p. JArr [JStr (fst p), JStr (snd p)]) ls)"

fun metric_json :: "metric_point \<Rightarrow> json" where
  "metric_json (Counter n v ls) = jobj [(''kind'', JStr ''counter''), (''name'', JStr n), (''value'', JNum (PosInt v)), (''labels'', labels_json ls)]"
| "metric_json (Gauge n v ls) = jobj [(''kind'', JStr ''gauge''), (''name'', JStr n), (''value'', json_f64 v), (''labels'', labels_json ls)]"
| "metric_json (Histogram n v ls) = jobj [(''kind'', JStr ''histogram''), (''name'', JStr n), (''value'', json_f64 v), (''labels'', labels_json ls)]"

fun label_of_json :: "json \<Rightarrow> (string \<times> string) option" where
  "label_of_json (JArr [JStr k, JStr v]) = Some (k, v)"
| "label_of_json _ = None"

fun all_some :: "'a option list \<Rightarrow> 'a list option" where
  "all_some [] = Some []"
| "all_some (None # xs) = None"
| "all_some (Some x # xs) = map_option (\<lambda>ys. x # ys) (all_some xs)"

definition labels_of_json :: "json option \<Rightarrow> (string \<times> string) list option" where
  "labels_of_json j = (case j of None \<Rightarrow> Some [] | Some (JArr xs) \<Rightarrow> all_some (map label_of_json xs) | Some _ \<Rightarrow> None)"

text \<open>An integer is taken for a float too, rounded by \<open>to_f64\<close>.\<close>

definition f64_of_json :: "(jnumber \<Rightarrow> 64 word) \<Rightarrow> json \<Rightarrow> 64 word option" where
  "f64_of_json to_f64 j = (case j of JNum (Float w) \<Rightarrow> Some w | JNum n \<Rightarrow> Some (to_f64 n) | _ \<Rightarrow> None)"

definition metric_of_json :: "(jnumber \<Rightarrow> 64 word) \<Rightarrow> json \<Rightarrow> metric_point option" where
  "metric_of_json to_f64 j =
     (case (Option.bind (json_get j ''kind'') as_str, Option.bind (json_get j ''name'') as_str, json_get j ''value'',
            labels_of_json (json_get j ''labels'')) of
        (Some kind, Some n, Some v, Some ls) \<Rightarrow>
          if kind = ''counter'' then map_option (\<lambda>x. Counter n x ls) (as_u64 v)
          else if kind = ''gauge'' then map_option (\<lambda>x. Gauge n x ls) (f64_of_json to_f64 v)
          else if kind = ''histogram'' then map_option (\<lambda>x. Histogram n x ls) (f64_of_json to_f64 v)
          else None
      | _ \<Rightarrow> None)"

definition emit_metric :: "wire \<Rightarrow> backend \<Rightarrow> metric_point \<Rightarrow> host_effect list" where
  "emit_metric wr b point =
     (case b of
        Ffi vt \<Rightarrow> [FfiMetric (wr_value_text wr (metric_json point))]
      | Services a _ _ _ \<Rightarrow> [ServiceMetric a point])"

definition counter :: "wire \<Rightarrow> backend \<Rightarrow> string \<Rightarrow> nat \<Rightarrow> (string \<times> string) list \<Rightarrow> host_effect list" where
  "counter wr b n v ls = emit_metric wr b (Counter n v ls)"

definition gauge :: "wire \<Rightarrow> backend \<Rightarrow> string \<Rightarrow> 64 word \<Rightarrow> (string \<times> string) list \<Rightarrow> host_effect list" where
  "gauge wr b n v ls = emit_metric wr b (Gauge n v ls)"

definition histogram :: "wire \<Rightarrow> backend \<Rightarrow> string \<Rightarrow> 64 word \<Rightarrow> (string \<times> string) list \<Rightarrow> host_effect list" where
  "histogram wr b n v ls = emit_metric wr b (Histogram n v ls)"

record span_guard =
  sg_handle :: backend
  sg_span_id :: nat

definition span :: "wire \<Rightarrow> backend \<Rightarrow> string \<Rightarrow> json \<Rightarrow> span_guard" where
  "span wr b n attrs =
     \<lparr>sg_handle = b,
      sg_span_id = (case b of Ffi vt \<Rightarrow> v_span_start vt n (wr_value_text wr attrs) | Services a sv _ _ \<Rightarrow> s_span_start sv a n attrs)\<rparr>"

definition span_event :: "wire \<Rightarrow> backend \<Rightarrow> nat \<Rightarrow> string \<Rightarrow> json \<Rightarrow> host_effect list" where
  "span_event wr b span_id n attrs =
     (case b of
        Ffi vt \<Rightarrow> [FfiSpanEvent span_id n (wr_value_text wr attrs)]
      | Services _ _ _ _ \<Rightarrow> [ServiceSpanEvent span_id n attrs])"

definition span_end_raw :: "backend \<Rightarrow> nat \<Rightarrow> host_effect list" where
  "span_end_raw b span_id = (case b of Ffi _ \<Rightarrow> [FfiSpanEnd span_id] | Services _ _ _ _ \<Rightarrow> [ServiceSpanEnd span_id])"

definition guard_event :: "wire \<Rightarrow> span_guard \<Rightarrow> string \<Rightarrow> json \<Rightarrow> host_effect list" where
  "guard_event wr g n attrs = span_event wr (sg_handle g) (sg_span_id g) n attrs"

definition drop_span_guard :: "span_guard \<Rightarrow> host_effect list" where
  "drop_span_guard g = span_end_raw (sg_handle g) (sg_span_id g)"

section \<open>The asynchronous adapter\<close>

record invocation_context =
  ic_initiating_backend :: string
  ic_identity :: "json option"
  ic_value :: json

definition bh_invoke_tool :: "wire \<Rightarrow> backend \<Rightarrow> invocation_context \<Rightarrow> string \<Rightarrow> json \<Rightarrow> json host_result" where
  "bh_invoke_tool wr b ctx tool args = invoke_tool wr b (ic_value ctx) tool args"

definition bh_cache_get :: "wire \<Rightarrow> backend \<Rightarrow> invocation_context \<Rightarrow> string \<Rightarrow> string option host_result" where
  "bh_cache_get wr b ctx key = cache_get wr b (ic_initiating_backend ctx) key"

definition bh_cache_put :: "wire \<Rightarrow> backend \<Rightarrow> invocation_context \<Rightarrow> string \<Rightarrow> string \<Rightarrow> duration \<Rightarrow> unit host_result" where
  "bh_cache_put wr b ctx key v ttl = cache_put wr b (ic_initiating_backend ctx) key v ttl"

definition bh_fetch_content :: "wire \<Rightarrow> backend \<Rightarrow> invocation_context \<Rightarrow> string \<Rightarrow> string option host_result" where
  "bh_fetch_content wr b ctx uri = fetch_content wr b uri"

definition bh_store_content :: "wire \<Rightarrow> backend \<Rightarrow> invocation_context \<Rightarrow> string \<Rightarrow> string \<Rightarrow> duration option \<Rightarrow> json host_result" where
  "bh_store_content wr b ctx bytes mime ttl = store_content wr b bytes mime ttl"

definition bh_resolve_credentials :: "wire \<Rightarrow> backend \<Rightarrow> invocation_context \<Rightarrow> json \<Rightarrow> nat host_result \<times> json" where
  "bh_resolve_credentials wr b ctx v = resolve_credentials wr b (ic_identity ctx) v"

section \<open>The two backends agree\<close>

text \<open>
  A host that answers each slot of the table with the result of the same service, in an envelope the
  handle's decoder opens again: what the gateway's bridge promises to a dynamic plugin. Durations
  reach the service in the milliseconds that the arguments carry.
\<close>

definition text_of :: "wire \<Rightarrow> json \<Rightarrow> string" where
  "text_of wr j = (case wr_to_string wr j of Inr s \<Rightarrow> s | Inl _ \<Rightarrow> [])"

definition bridge :: "wire \<Rightarrow> string \<Rightarrow> host_services \<Rightarrow> nat option \<Rightarrow> host_vtable \<Rightarrow> bool" where
  "bridge wr a sv c vt \<longleftrightarrow>
     v_alias vt = a \<and> v_cluster vt = c \<and>
     (\<forall>uri. wr_value wr (v_resolve_secret vt uri) = Inr (s_resolve_secret sv a uri)) \<and>
     (\<forall>v i. wr_creds wr (v_resolve_credentials vt (text_of wr v) (text_of wr (case i of None \<Rightarrow> JNull | Some p \<Rightarrow> p))) =
        Inr (map_sum id (\<lambda>n. (snd (s_resolve_credentials sv a v i), n)) (fst (s_resolve_credentials sv a v i)))) \<and>
     (\<forall>v i. (\<exists>e. fst (s_resolve_credentials sv a v i) = Inl e) \<longrightarrow> snd (s_resolve_credentials sv a v i) = v) \<and>
     (\<forall>bd k. wr_opt wr (v_cache_get vt bd k) = Inr (map_sum id (map_option (wr_b64_encode wr)) (s_cache_get sv a bd k))) \<and>
     (\<forall>bd k x bytes ms. wr_b64_decode wr x = Inr bytes \<and> ms \<le> U64_MAX \<longrightarrow>
        wr_unit wr (v_cache_put vt bd (text_of wr (jobj [(''key'', JStr k), (''value'', JStr x), (''ttl_ms'', JNum (PosInt ms))]))) =
        Inr (s_cache_put sv a bd k bytes (millis ms))) \<and>
     (\<forall>uri. wr_opt wr (v_fetch_content vt uri) = Inr (map_sum id (map_option (wr_b64_encode wr)) (s_fetch_content sv a uri))) \<and>
     (\<forall>x bytes m. wr_b64_decode wr x = Inr bytes \<longrightarrow>
        wr_value wr (v_store_content vt (text_of wr (jobj [(''bytes'', JStr x), (''mime_type'', JStr m), (''ttl_ms'', JNull)]))) =
        Inr (s_store_content sv a bytes m None)) \<and>
     (\<forall>x bytes m ms. wr_b64_decode wr x = Inr bytes \<and> ms \<le> U64_MAX \<longrightarrow>
        wr_value wr (v_store_content vt (text_of wr (jobj [(''bytes'', JStr x), (''mime_type'', JStr m), (''ttl_ms'', JNum (PosInt ms))]))) =
        Inr (s_store_content sv a bytes m (Some (millis ms)))) \<and>
     (\<forall>ctx t args. wr_value wr (v_invoke_tool vt (text_of wr ctx) t (text_of wr args)) = Inr (s_invoke_tool sv ctx t args)) \<and>
     (\<forall>uri i. wr_value wr (v_issue_credential vt uri (text_of wr i)) = Inr (s_issue_credential sv a uri i)) \<and>
     (\<forall>uri. wr_value wr (v_config_snapshot vt uri) = Inr (s_config_snapshot sv a uri)) \<and>
     (\<forall>ev. wr_value wr (v_audit_event vt (text_of wr ev)) = Inr (s_audit_event sv a ev))"

text \<open>serde writes every value the handle sends, and base64 decodes what it encoded.\<close>

definition codecs_total :: "wire \<Rightarrow> bool" where
  "codecs_total wr \<longleftrightarrow> (\<forall>j. \<exists>s. wr_to_string wr j = Inr s) \<and> (\<forall>x. wr_b64_decode wr (wr_b64_encode wr x) = Inr x)"

definition whole_millis :: "duration \<Rightarrow> bool" where
  "whole_millis d = (d mod 1000000 = 0 \<and> millis_of d \<le> U64_MAX)"

lemma whole_millis_exact: "whole_millis d \<Longrightarrow> millis (millis_of d) = d \<and> millis_of d \<le> U64_MAX \<and> millis_of d mod 2 ^ 64 = millis_of d"
  by (auto simp: whole_millis_def millis_def millis_of_def U64_MAX_def)

lemma to_string_text: "codecs_total wr \<Longrightarrow> to_string_or wr fallback j = text_of wr j"
  by (metis codecs_total_def text_of_def to_string_or_def sum.case(2))

lemma to_string_Inr: "codecs_total wr \<Longrightarrow> wr_to_string wr j = Inr (text_of wr j)"
  unfolding codecs_total_def text_of_def by (metis sum.case(2))

lemma decode_b64_encode:
  "\<forall>x. wr_b64_decode wr (wr_b64_encode wr x) = Inr x \<Longrightarrow> decode_b64 wr op (map_sum id (map_option (wr_b64_encode wr)) r) = r"
  by (cases r) (auto simp: decode_b64_def map_option_case split: option.splits)

lemma open_envelope_Inr [simp]: "open_envelope f (Inr r) = r"
  by (simp add: open_envelope_def)

lemma bridge_creds:
  assumes "bridge wr a sv c vt" "codecs_total wr"
  shows "resolve_credentials wr (Ffi vt) i v = s_resolve_credentials sv a v i"
proof -
  obtain r v' where r: "s_resolve_credentials sv a v i = (r, v')" by fastforce
  have "\<exists>e. r = Inl e \<Longrightarrow> v' = v" using assms(1) r unfolding bridge_def by (metis fst_conv snd_conv)
  moreover have "wr_creds wr (v_resolve_credentials vt (text_of wr v) (text_of wr (opt_json i))) =
      Inr (map_sum id (\<lambda>n. (v', n)) r)"
    using assms(1) r unfolding bridge_def opt_json_def by (metis fst_conv snd_conv)
  ultimately show ?thesis
    by (cases r) (simp_all add: resolve_credentials_def r Let_def to_string_text [OF assms(2)])
qed

lemma bridge_cache_get:
  "bridge wr a sv c vt \<Longrightarrow> codecs_total wr \<Longrightarrow> cache_get wr (Ffi vt) bd k = s_cache_get sv a bd k"
  by (simp add: bridge_def codecs_total_def cache_get_def decode_b64_encode)

lemma bridge_fetch_content:
  "bridge wr a sv c vt \<Longrightarrow> codecs_total wr \<Longrightarrow> fetch_content wr (Ffi vt) uri = s_fetch_content sv a uri"
  by (simp add: bridge_def codecs_total_def fetch_content_def decode_b64_encode)

lemma bridge_cache_put:
  assumes "bridge wr a sv c vt" "codecs_total wr" "whole_millis ttl"
  shows "cache_put wr (Ffi vt) bd k v ttl = s_cache_put sv a bd k v ttl"
proof -
  note ms = whole_millis_exact [OF assms(3)]
  have "wr_unit wr (v_cache_put vt bd (text_of wr (cache_put_args wr k v ttl))) = Inr (s_cache_put sv a bd k v (millis (millis_of ttl)))"
    using assms(1,2) ms unfolding bridge_def codecs_total_def cache_put_args_def by (simp add: min_absorb1)
  then show ?thesis by (simp add: cache_put_def to_string_text [OF assms(2)] ms)
qed

lemma bridge_store_content:
  assumes "bridge wr a sv c vt" "codecs_total wr" "\<forall>d. ttl = Some d \<longrightarrow> whole_millis d"
  shows "store_content wr (Ffi vt) x m ttl = s_store_content sv a x m ttl"
proof -
  have "wr_value wr (v_store_content vt (text_of wr (store_content_args wr x m ttl))) = Inr (s_store_content sv a x m ttl)"
  proof (cases ttl)
    case None
    then show ?thesis using assms(1,2) unfolding bridge_def codecs_total_def store_content_args_def by simp
  next
    case (Some d)
    with assms(3) have ms: "millis (millis_of d) = d" "millis_of d \<le> U64_MAX" "millis_of d mod 2 ^ 64 = millis_of d"
      using whole_millis_exact by blast+
    have "wr_b64_decode wr (wr_b64_encode wr x) = Inr x" using assms(2) by (simp add: codecs_total_def)
    with assms(1) ms(2) have "wr_value wr (v_store_content vt (text_of wr (jobj [(''bytes'', JStr (wr_b64_encode wr x)),
        (''mime_type'', JStr m), (''ttl_ms'', JNum (PosInt (millis_of d)))]))) =
      Inr (s_store_content sv a x m (Some (millis (millis_of d))))"
      unfolding bridge_def by blast
    then show ?thesis by (simp only: Some store_content_args_def option.case ms)
  qed
  then show ?thesis by (simp add: store_content_def to_string_text [OF assms(2)])
qed

lemma bridge_invoke_tool:
  "bridge wr a sv c vt \<Longrightarrow> codecs_total wr \<Longrightarrow> invoke_tool wr (Ffi vt) ctx t args = s_invoke_tool sv ctx t args"
  by (simp add: bridge_def invoke_tool_def to_string_text)

lemma bridge_issue_credential:
  "bridge wr a sv c vt \<Longrightarrow> codecs_total wr \<Longrightarrow> issue_credential wr (Ffi vt) uri i = s_issue_credential sv a uri i"
  by (simp add: bridge_def issue_credential_def to_string_Inr)

lemma bridge_audit_event:
  "bridge wr a sv c vt \<Longrightarrow> codecs_total wr \<Longrightarrow> audit_event wr (Ffi vt) ev = s_audit_event sv a ev"
  by (simp add: bridge_def audit_event_def to_string_Inr)

lemmas bridge_lemmas = bridge_creds bridge_cache_get bridge_fetch_content bridge_cache_put bridge_store_content
  bridge_invoke_tool bridge_issue_credential bridge_audit_event

lemma metric_labels_roundtrip: "labels_of_json (Some (labels_json ls)) = Some ls"
proof -
  have "all_some (map label_of_json (map (\<lambda>p. JArr [JStr (fst p), JStr (snd p)]) ls)) = Some ls"
    by (induction ls) auto
  then show ?thesis by (simp add: labels_of_json_def labels_json_def)
qed

fun metric_finite :: "metric_point \<Rightarrow> bool" where
  "metric_finite (Counter _ _ _) = True"
| "metric_finite (Gauge _ v _) = finite_f64 v"
| "metric_finite (Histogram _ v _) = finite_f64 v"

section \<open>Subscriptions\<close>

text \<open>
  A subscription through the table of functions: the callback is boxed, the host registers its address
  and trampoline under an id, and the guard unsubscribes and frees the box when it is dropped. An id of
  0 is a host that registered nothing. A box has the type of the callback it was made for; a trampoline
  or a \<^verbatim>\<open>free\<close> of the other type on it is undefined behaviour, as is one on a freed address.
\<close>

datatype cb_kind = CredentialRevocationCallback | SecretRotationCallback

datatype host_notice = CredentialRevoked string string | SecretRotated string nat

record ffi_sub_guard =
  fg_sub_id :: nat
  fg_cb_ctx :: nat
  fg_free :: cb_kind

record sub_world =
  hw_boxes :: "(nat \<times> cb_kind) list"
  hw_next_ptr :: nat
  hw_registered :: "(nat \<times> nat \<times> cb_kind) list"
  hw_guards :: "ffi_sub_guard list"
  hw_fired :: "(nat \<times> host_notice) list"
  hw_ub :: bool

definition subscribe_ffi :: "cb_kind \<Rightarrow> nat \<Rightarrow> sub_world \<Rightarrow> ffi_sub_guard \<times> sub_world" where
  "subscribe_ffi kind sub_id w =
     (let cb_ctx = hw_next_ptr w;
          g = \<lparr>fg_sub_id = sub_id, fg_cb_ctx = cb_ctx, fg_free = kind\<rparr>
      in (g, w\<lparr>hw_boxes := (cb_ctx, kind) # hw_boxes w, hw_next_ptr := cb_ctx + 1,
               hw_registered := (if sub_id = 0 then hw_registered w else (sub_id, cb_ctx, kind) # hw_registered w),
               hw_guards := g # hw_guards w\<rparr>))"

definition subscribe_credential_revoked :: "nat \<Rightarrow> sub_world \<Rightarrow> ffi_sub_guard \<times> sub_world" where
  "subscribe_credential_revoked sub_id w = subscribe_ffi CredentialRevocationCallback sub_id w"

definition subscribe_secret_rotation :: "nat \<Rightarrow> sub_world \<Rightarrow> ffi_sub_guard \<times> sub_world" where
  "subscribe_secret_rotation sub_id w = subscribe_ffi SecretRotationCallback sub_id w"

text \<open>The trampolines read the box; a panic of the callback is caught.\<close>

fun notice_kind :: "host_notice \<Rightarrow> cb_kind" where
  "notice_kind (CredentialRevoked _ _) = CredentialRevocationCallback"
| "notice_kind (SecretRotated _ _) = SecretRotationCallback"

definition tramp :: "nat \<Rightarrow> host_notice \<Rightarrow> sub_world \<Rightarrow> sub_world" where
  "tramp cb_ctx n w =
     (if (cb_ctx, notice_kind n) \<in> set (hw_boxes w) then w\<lparr>hw_fired := hw_fired w @ [(cb_ctx, n)]\<rparr> else w\<lparr>hw_ub := True\<rparr>)"

definition free_callback :: "cb_kind \<Rightarrow> nat \<Rightarrow> sub_world \<Rightarrow> sub_world" where
  "free_callback kind cb_ctx w =
     (if (cb_ctx, kind) \<in> set (hw_boxes w) then w\<lparr>hw_boxes := remove1 (cb_ctx, kind) (hw_boxes w)\<rparr> else w\<lparr>hw_ub := True\<rparr>)"

definition drop_sub_guard :: "ffi_sub_guard \<Rightarrow> sub_world \<Rightarrow> sub_world" where
  "drop_sub_guard g w =
     (let w1 = (if fg_sub_id g \<noteq> 0 then w\<lparr>hw_registered := filter (\<lambda>p. fst p \<noteq> fg_sub_id g) (hw_registered w)\<rparr> else w)
      in free_callback (fg_free g) (fg_cb_ctx g) (w1\<lparr>hw_guards := remove1 g (hw_guards w1)\<rparr>))"

text \<open>The host hands out ids that are not in use, and fires what is registered through its trampoline.\<close>

inductive sub_step :: "sub_world \<Rightarrow> sub_world \<Rightarrow> bool" where
  sub_revoked: "sub_id \<notin> fst ` set (hw_registered w) \<Longrightarrow> sub_step w (snd (subscribe_credential_revoked sub_id w))"
| sub_rotation: "sub_id \<notin> fst ` set (hw_registered w) \<Longrightarrow> sub_step w (snd (subscribe_secret_rotation sub_id w))"
| sub_fire: "(sub_id, cb_ctx, notice_kind n) \<in> set (hw_registered w) \<Longrightarrow> sub_step w (tramp cb_ctx n w)"
| sub_drop: "g \<in> set (hw_guards w) \<Longrightarrow> sub_step w (drop_sub_guard g w)"

definition new_subs :: "sub_world \<Rightarrow> bool" where
  "new_subs w = (hw_boxes w = [] \<and> hw_registered w = [] \<and> hw_guards w = [] \<and> \<not> hw_ub w)"

definition cb_of :: "ffi_sub_guard \<Rightarrow> nat \<times> cb_kind" where
  "cb_of g = (fg_cb_ctx g, fg_free g)"

definition subs_wf :: "sub_world \<Rightarrow> bool" where
  "subs_wf w = (\<not> hw_ub w \<and> hw_boxes w = map cb_of (hw_guards w) \<and> distinct (map fg_cb_ctx (hw_guards w)) \<and>
     list_all (\<lambda>g. fg_cb_ctx g < hw_next_ptr w) (hw_guards w) \<and>
     (\<forall>i c k. (i, c, k) \<in> set (hw_registered w) \<longleftrightarrow> i \<noteq> 0 \<and> \<lparr>fg_sub_id = i, fg_cb_ctx = c, fg_free = k\<rparr> \<in> set (hw_guards w)) \<and>
     distinct (filter (\<lambda>i. i \<noteq> 0) (map fg_sub_id (hw_guards w))))"

lemma guard_surjective: "\<lparr>fg_sub_id = fg_sub_id g, fg_cb_ctx = fg_cb_ctx g, fg_free = fg_free g\<rparr> = (g :: ffi_sub_guard)"
  by simp

lemma subs_wf_subscribe:
  assumes "subs_wf w" "sub_id \<notin> fst ` set (hw_registered w)"
  shows "subs_wf (snd (subscribe_ffi kind sub_id w))"
proof -
  have fresh: "hw_next_ptr w \<notin> fg_cb_ctx ` set (hw_guards w)" using assms(1) by (auto simp: subs_wf_def list_all_iff)
  have "sub_id \<noteq> 0 \<Longrightarrow> sub_id \<notin> fg_sub_id ` set (hw_guards w)"
  proof
    assume "sub_id \<noteq> 0" "sub_id \<in> fg_sub_id ` set (hw_guards w)"
    then obtain g where "g \<in> set (hw_guards w)" "sub_id = fg_sub_id g" by blast
    then have "\<lparr>fg_sub_id = sub_id, fg_cb_ctx = fg_cb_ctx g, fg_free = fg_free g\<rparr> \<in> set (hw_guards w)"
      by (metis guard_surjective)
    then have "(sub_id, fg_cb_ctx g, fg_free g) \<in> set (hw_registered w)"
      using assms(1) \<open>sub_id \<noteq> 0\<close> by (simp add: subs_wf_def)
    then show False using assms(2) by force
  qed
  with assms fresh show ?thesis
    by (auto simp: subs_wf_def subscribe_ffi_def Let_def list_all_iff less_Suc_eq cb_of_def)
qed

lemma map_remove1_inj:
  "distinct (map f xs) \<Longrightarrow> x \<in> set xs \<Longrightarrow> map f (remove1 x xs) = remove1 (f x) (map f xs)"
  by (induction xs) (auto simp: image_iff)

lemma distinct_filter_map_remove1:
  "distinct (filter P (map f xs)) \<Longrightarrow> distinct (filter P (map f (remove1 x xs)))"
proof (induction xs)
  case (Cons y ys)
  have "set (remove1 x ys) \<subseteq> set ys" by (rule set_remove1_subset)
  with Cons show ?case by (auto simp: image_iff split: if_splits)
qed simp

lemma distinct_cb_of: "distinct (map fg_cb_ctx gs) \<Longrightarrow> distinct (map cb_of gs)"
  by (auto simp: distinct_map cb_of_def inj_on_def)

lemma subs_wf_drop:
  assumes "subs_wf w" "g \<in> set (hw_guards w)"
  shows "subs_wf (drop_sub_guard g w)"
proof -
  have dist: "distinct (map fg_cb_ctx (hw_guards w))" "distinct (hw_guards w)"
    using assms(1) by (auto simp: subs_wf_def distinct_map)
  have boxes: "hw_boxes w = map cb_of (hw_guards w)" using assms(1) by (simp add: subs_wf_def)
  have box: "cb_of g \<in> set (hw_boxes w)" using assms(2) boxes by simp
  define reg where "reg = (if fg_sub_id g \<noteq> 0 then filter (\<lambda>p. fst p \<noteq> fg_sub_id g) (hw_registered w) else hw_registered w)"
  have out: "drop_sub_guard g w = w\<lparr>hw_registered := reg, hw_guards := remove1 g (hw_guards w),
      hw_boxes := map cb_of (remove1 g (hw_guards w))\<rparr>"
    using box boxes map_remove1_inj [OF distinct_cb_of [OF dist(1)] assms(2)]
    by (simp add: drop_sub_guard_def free_callback_def reg_def Let_def cb_of_def)
  have same: "h = g" if "h \<in> set (hw_guards w)" "fg_sub_id h = fg_sub_id g" "fg_sub_id g \<noteq> 0" for h
  proof -
    have "distinct (map fg_sub_id (filter (\<lambda>g. fg_sub_id g \<noteq> 0) (hw_guards w)))"
      using assms(1) by (simp add: subs_wf_def filter_map comp_def)
    with that assms(2) show ?thesis by (auto simp: distinct_map dest: inj_onD)
  qed
  have "(i, c, k) \<in> set reg \<longleftrightarrow> i \<noteq> 0 \<and> \<lparr>fg_sub_id = i, fg_cb_ctx = c, fg_free = k\<rparr> \<in> set (remove1 g (hw_guards w))" for i c k
  proof -
    have reg_iff: "(i, c, k) \<in> set (hw_registered w) \<longleftrightarrow>
        i \<noteq> 0 \<and> \<lparr>fg_sub_id = i, fg_cb_ctx = c, fg_free = k\<rparr> \<in> set (hw_guards w)"
      using assms(1) by (simp add: subs_wf_def)
    show ?thesis
      using same [of "\<lparr>fg_sub_id = i, fg_cb_ctx = c, fg_free = k\<rparr>"] dist(2) reg_iff
      by (cases "fg_sub_id g = 0") (auto simp: reg_def)
  qed
  moreover have "list_all (\<lambda>g. fg_cb_ctx g < hw_next_ptr w) (remove1 g (hw_guards w))"
    using assms(1) by (auto simp: subs_wf_def list_all_iff dest: notin_set_remove1)
  moreover have "distinct (map fg_cb_ctx (remove1 g (hw_guards w)))"
    using distinct_filter_map_remove1 [of "\<lambda>_. True"] dist(1) by simp
  moreover have "distinct (filter (\<lambda>i. i \<noteq> 0) (map fg_sub_id (remove1 g (hw_guards w))))"
    using assms(1) unfolding subs_wf_def by (intro distinct_filter_map_remove1) blast
  moreover have "\<not> hw_ub w" using assms(1) by (simp add: subs_wf_def)
  ultimately show ?thesis unfolding subs_wf_def out by simp
qed

lemma subs_wf_fire:
  assumes "subs_wf w" "(i, c, notice_kind n) \<in> set (hw_registered w)"
  shows "subs_wf (tramp c n w)"
proof -
  have "(c, notice_kind n) \<in> set (hw_boxes w)" using assms by (force simp: subs_wf_def cb_of_def)
  with assms(1) show ?thesis unfolding subs_wf_def by (auto simp: tramp_def)
qed

lemma subs_wf_step: "sub_step w w' \<Longrightarrow> subs_wf w \<Longrightarrow> subs_wf w'"
  by (erule sub_step.cases)
    (auto simp: subscribe_credential_revoked_def subscribe_secret_rotation_def dest: subs_wf_subscribe subs_wf_drop subs_wf_fire)

interpretation subs: step_invariant new_subs sub_step subs_wf
proof
  show "subs_wf w" if "new_subs w" for w using that by (simp add: new_subs_def subs_wf_def)
qed (rule subs_wf_step)

section \<open>Properties\<close>

lemma bridge_agree:
  assumes "bridge wr a sv c vt" "codecs_total wr"
  shows "resolve_secret wr (Ffi vt) uri = resolve_secret wr (Services a sv c True) uri"
    and "bh_resolve_credentials wr (Ffi vt) ctx v = bh_resolve_credentials wr (Services a sv c True) ctx v"
    and "bh_cache_get wr (Ffi vt) ctx k = bh_cache_get wr (Services a sv c True) ctx k"
    and "whole_millis ttl \<Longrightarrow> bh_cache_put wr (Ffi vt) ctx k x ttl = bh_cache_put wr (Services a sv c True) ctx k x ttl"
    and "bh_fetch_content wr (Ffi vt) ctx uri = bh_fetch_content wr (Services a sv c True) ctx uri"
    and "\<forall>d. keep = Some d \<longrightarrow> whole_millis d \<Longrightarrow>
      bh_store_content wr (Ffi vt) ctx x m keep = bh_store_content wr (Services a sv c True) ctx x m keep"
    and "bh_invoke_tool wr (Ffi vt) ctx t args = bh_invoke_tool wr (Services a sv c True) ctx t args"
    and "issue_credential wr (Ffi vt) uri i = issue_credential wr (Services a sv c True) uri i"
    and "config_snapshot wr (Ffi vt) uri = config_snapshot wr (Services a sv c True) uri"
    and "audit_event wr (Ffi vt) ev = audit_event wr (Services a sv c True) ev"
proof -
  note ops = bh_resolve_credentials_def bh_cache_get_def bh_cache_put_def bh_fetch_content_def bh_store_content_def bh_invoke_tool_def
  note [simp] = bridge_lemmas [OF assms] block_on_or_err_def
  show "resolve_secret wr (Ffi vt) uri = resolve_secret wr (Services a sv c True) uri"
      "config_snapshot wr (Ffi vt) uri = config_snapshot wr (Services a sv c True) uri"
    using assms(1) by (simp_all add: bridge_def resolve_secret_def decode_secret_envelope_def config_snapshot_def)
  show "bh_resolve_credentials wr (Ffi vt) ctx v = bh_resolve_credentials wr (Services a sv c True) ctx v"
    by (simp add: ops) (simp add: resolve_credentials_def)
  show "bh_cache_get wr (Ffi vt) ctx k = bh_cache_get wr (Services a sv c True) ctx k"
    by (simp add: ops) (simp add: cache_get_def)
  show "bh_cache_put wr (Ffi vt) ctx k x ttl = bh_cache_put wr (Services a sv c True) ctx k x ttl" if "whole_millis ttl"
    using that by (simp add: ops) (simp add: cache_put_def)
  show "bh_fetch_content wr (Ffi vt) ctx uri = bh_fetch_content wr (Services a sv c True) ctx uri"
    by (simp add: ops) (simp add: fetch_content_def)
  show "bh_store_content wr (Ffi vt) ctx x m keep = bh_store_content wr (Services a sv c True) ctx x m keep"
    if "\<forall>d. keep = Some d \<longrightarrow> whole_millis d"
    using that by (simp add: ops) (simp add: store_content_def)
  show "bh_invoke_tool wr (Ffi vt) ctx t args = bh_invoke_tool wr (Services a sv c True) ctx t args"
    by (simp add: ops) (simp add: invoke_tool_def)
  show "issue_credential wr (Ffi vt) uri i = issue_credential wr (Services a sv c True) uri i"
    by simp (simp add: issue_credential_def)
  show "audit_event wr (Ffi vt) ev = audit_event wr (Services a sv c True) ev"
    by simp (simp add: audit_event_def)
qed


text \<open>A host whose cache holds one value and that stores nothing.\<close>

definition demo_wire :: wire where
  "demo_wire = \<lparr>wr_to_string = (\<lambda>_. Inr ''j''), wr_value_text = (\<lambda>_. ''j''), wr_b64_encode = (\<lambda>s. ''b'' @ s),
     wr_b64_decode = (\<lambda>s. Inr (tl s)), wr_value = (\<lambda>s. if s = ''no'' then Inr (Inl NotImplemented) else Inr (Inr (JStr s))),
     wr_opt = (\<lambda>s. Inr (Inr (if s = [] then None else Some s))), wr_unit = (\<lambda>s. Inr (Inr ())),
     wr_creds = (\<lambda>s. Inr (Inl (Remote s)))\<rparr>"

definition demo_vtable :: host_vtable where
  "demo_vtable = \<lparr>v_alias = ''db'', v_cluster = None, v_resolve_secret = (\<lambda>uri. ''s-'' @ uri),
     v_resolve_credentials = (\<lambda>_ _. ''denied''), v_cache_get = (\<lambda>bd k. if k = ''hit'' then ''bvalue'' else []),
     v_cache_put = (\<lambda>_ _. ''ok''), v_fetch_content = (\<lambda>_. []), v_store_content = (\<lambda>_. ''no''),
     v_invoke_tool = (\<lambda>_ t _. ''t-'' @ t), v_issue_credential = (\<lambda>uri _. ''c-'' @ uri),
     v_config_snapshot = (\<lambda>uri. ''f-'' @ uri), v_audit_event = (\<lambda>_. ''receipt''), v_span_start = (\<lambda>_ _. 0)\<rparr>"

definition demo_services :: host_services where
  "demo_services = \<lparr>s_resolve_secret = (\<lambda>_ uri. Inr (JStr (''s-'' @ uri))),
     s_resolve_credentials = (\<lambda>_ v _. (Inl (Remote ''denied''), v)),
     s_cache_get = (\<lambda>_ bd k. Inr (if k = ''hit'' then Some ''value'' else None)), s_cache_put = (\<lambda>_ _ _ _ _. Inr ()),
     s_fetch_content = (\<lambda>_ _. Inr None), s_store_content = (\<lambda>_ _ _ _. Inl NotImplemented),
     s_invoke_tool = (\<lambda>_ t _. Inr (JStr (''t-'' @ t))), s_issue_credential = (\<lambda>_ uri _. Inr (JStr (''c-'' @ uri))),
     s_config_snapshot = (\<lambda>_ uri. Inr (JStr (''f-'' @ uri))), s_audit_event = (\<lambda>_ _. Inr (JStr ''receipt'')),
     s_span_start = (\<lambda>_ _ _. 0)\<rparr>"

lemma demo_bridge: "bridge demo_wire ''db'' demo_services None demo_vtable"
  by (simp add: bridge_def demo_wire_def demo_vtable_def demo_services_def)


text \<open>
  A metric sent over the table of functions is the metric the host reads back from its JSON, kind,
  name, value and labels in order, for every counter and every finite gauge and histogram.
\<close>

theorem metric_roundtrip:
  assumes "metric_finite p"
  shows "metric_of_json to_f64 (metric_json p) = Some p"
  using assms by (cases p) (simp_all add: metric_of_json_def metric_labels_roundtrip json_f64_def f64_of_json_def json_get_jobj)

theorem metric_roundtrip_witness:
  "metric_finite (Gauge ''depth'' 0x4000000000000000 [(''q'', ''a''), (''q'', ''b'')]) \<and>
   metric_of_json (\<lambda>_. 0) (metric_json (Gauge ''depth'' 0x4000000000000000 [(''q'', ''a''), (''q'', ''b'')])) =
     Some (Gauge ''depth'' 0x4000000000000000 [(''q'', ''a''), (''q'', ''b'')])"
proof -
  have "metric_finite (Gauge ''depth'' 0x4000000000000000 [(''q'', ''a''), (''q'', ''b'')])"
    by (simp add: finite_f64_def)
  then show ?thesis using metric_roundtrip by blast
qed


definition demo_subs :: sub_world where
  "demo_subs = \<lparr>hw_boxes = [], hw_next_ptr = 7, hw_registered = [], hw_guards = [], hw_fired = [], hw_ub = False\<rparr>"

definition demo_subs_dropped :: sub_world where
  "demo_subs_dropped = drop_sub_guard \<lparr>fg_sub_id = 3, fg_cb_ctx = 7, fg_free = SecretRotationCallback\<rparr>
     (tramp 7 (SecretRotated ''db'' 2) (snd (subscribe_secret_rotation 3 demo_subs)))"


end
