(* ===== verification/Mock_Gateway.thy ===== *)
theory Mock_Gateway
  imports Host_Handle Rust_Text "HOL-Library.Sublist"
begin

text \<open>
  The mock gateway, \<^verbatim>\<open>src/src/testing.rs\<close>: the tables that plugins register in, the dispatch of a tool
  call through gates and transforms, identity resolution, route dispatch, the context builder and the
  stub host.

  A registered plugin is the record of the answers its trait methods give; each method of a gate or a
  transform is called once in a tool call. Where only the identity of a plugin matters (stores, caches,
  providers, sinks) it has a number. A failed \<^verbatim>\<open>assert!\<close> of a builder is a \<open>mock_panic\<close>.
\<close>

section \<open>Plugins\<close>

record plugin_identity =
  pi_kind :: string
  pi_trust_level :: string
  pi_subject_id :: "string option"
  pi_auth_provider :: "string option"
  pi_issuer :: "string option"
  pi_roles :: "string list"
  pi_groups :: "string list"
  pi_scopes :: "string list"
  pi_attributes :: "(string, json) btree_map"

record plugin_context =
  pc_request_id :: string
  pc_session_id :: "string option"
  pc_tool_name :: string
  pc_surface :: string
  pc_identity :: plugin_identity
  pc_transport :: string

datatype gate_decision =
    Allow json
  | Deny string json
  | Challenge json json
  | PendingApproval json

datatype transform_result = Unchanged | Modified json | TransformFailed string

datatype identity_resolution = Resolved json | Invalid json | Unresolved

record tool_gate =
  tg_pre :: "plugin_context \<Rightarrow> json \<Rightarrow> json option \<Rightarrow> json \<Rightarrow> gate_decision"
  tg_post :: "plugin_context \<Rightarrow> json \<Rightarrow> json \<Rightarrow> nat \<Rightarrow> json \<Rightarrow> gate_decision"

record transform_plugin =
  tp_arguments :: "plugin_context \<Rightarrow> json \<Rightarrow> json \<Rightarrow> transform_result"
  tp_result :: "plugin_context \<Rightarrow> json \<Rightarrow> json \<Rightarrow> transform_result"

type_synonym headers = "(string \<times> string) list"
type_synonym identity_plugin = "headers \<Rightarrow> json \<Rightarrow> json \<Rightarrow> identity_resolution"

record route_spec =
  rs_method :: string
  rs_path :: string

record http_request =
  hq_method :: string
  hq_full_path :: string
  hq_body :: string

record http_response =
  hp_status :: nat
  hp_body :: string

record http_route =
  hr_routes :: "route_spec list"
  hr_handle :: "http_request \<Rightarrow> http_response"

record store_plugin =
  sp_id :: nat
  sp_supported_roles :: "string list"

record cache_plugin =
  cp_id :: nat
  cp_supported_namespaces :: "string list"
  cp_serves_any :: bool

record provider =
  pv_id :: nat
  pv_supported_schemes :: "string list"

record named_plugin =
  np_id :: nat
  np_name :: string

type_synonym audit_sink = "json \<Rightarrow> (string, json) result"

record mock_gateway =
  mg_tool_gates :: "(tool_gate \<times> json) list"
  mg_transforms :: "(transform_plugin \<times> json) list"
  mg_identities :: "(identity_plugin \<times> json) list"
  mg_http_routes :: "(string \<times> http_route) list"
  mg_audit_sinks :: "audit_sink list"
  mg_stores :: "(string, store_plugin) btree_map"
  mg_caches :: "(string, cache_plugin) btree_map"
  mg_telemetry_sinks :: "nat list"
  mg_log_sinks :: "nat list"
  mg_secret_providers :: "(string, provider) btree_map"
  mg_config_providers :: "(string, provider) btree_map"
  mg_transports :: "(string, named_plugin) btree_map"
  mg_policy_engines :: "(string, named_plugin) btree_map"
  mg_cluster_backend :: "nat option"
  mg_default_identity :: plugin_identity

datatype mock_panic =
    UnsupportedRole string
  | UnsupportedNamespace string
  | UnsupportedSecretScheme string
  | UnsupportedConfigScheme string
  | EmptyTransportName
  | DuplicateTransport string
  | EmptyEngineName
  | DuplicateEngine string
  | ClusterInstalled

section \<open>Registration\<close>

definition anonymous_identity :: plugin_identity where
  "anonymous_identity = \<lparr>pi_kind = ''anonymous'', pi_trust_level = ''unauthenticated'', pi_subject_id = None,
     pi_auth_provider = None, pi_issuer = None, pi_roles = [], pi_groups = [], pi_scopes = [], pi_attributes = []\<rparr>"

definition new_gateway :: mock_gateway where
  "new_gateway = \<lparr>mg_tool_gates = [], mg_transforms = [], mg_identities = [], mg_http_routes = [], mg_audit_sinks = [],
     mg_stores = [], mg_caches = [], mg_telemetry_sinks = [], mg_log_sinks = [], mg_secret_providers = [],
     mg_config_providers = [], mg_transports = [], mg_policy_engines = [], mg_cluster_backend = None,
     mg_default_identity = anonymous_identity\<rparr>"

definition with_tool_gate_config :: "tool_gate \<Rightarrow> json \<Rightarrow> mock_gateway \<Rightarrow> mock_gateway" where
  "with_tool_gate_config plugin config g = g\<lparr>mg_tool_gates := mg_tool_gates g @ [(plugin, config)]\<rparr>"

definition with_tool_gate :: "tool_gate \<Rightarrow> mock_gateway \<Rightarrow> mock_gateway" where
  "with_tool_gate plugin g = g\<lparr>mg_tool_gates := mg_tool_gates g @ [(plugin, jobj [])]\<rparr>"

definition with_transform_config :: "transform_plugin \<Rightarrow> json \<Rightarrow> mock_gateway \<Rightarrow> mock_gateway" where
  "with_transform_config plugin config g = g\<lparr>mg_transforms := mg_transforms g @ [(plugin, config)]\<rparr>"

definition with_transform :: "transform_plugin \<Rightarrow> mock_gateway \<Rightarrow> mock_gateway" where
  "with_transform plugin g = g\<lparr>mg_transforms := mg_transforms g @ [(plugin, jobj [])]\<rparr>"

definition with_identity :: "identity_plugin \<Rightarrow> mock_gateway \<Rightarrow> mock_gateway" where
  "with_identity plugin g = g\<lparr>mg_identities := mg_identities g @ [(plugin, jobj [])]\<rparr>"

definition with_default_identity :: "plugin_identity \<Rightarrow> mock_gateway \<Rightarrow> mock_gateway" where
  "with_default_identity i g = g\<lparr>mg_default_identity := i\<rparr>"

definition with_http_route :: "string \<Rightarrow> http_route \<Rightarrow> mock_gateway \<Rightarrow> mock_gateway" where
  "with_http_route entity_name plugin g = g\<lparr>mg_http_routes := mg_http_routes g @ [(entity_name, plugin)]\<rparr>"

definition with_audit_sink :: "audit_sink \<Rightarrow> mock_gateway \<Rightarrow> mock_gateway" where
  "with_audit_sink sink g = g\<lparr>mg_audit_sinks := mg_audit_sinks g @ [sink]\<rparr>"

definition with_store :: "string \<Rightarrow> store_plugin \<Rightarrow> mock_gateway \<Rightarrow> (mock_panic, mock_gateway) result" where
  "with_store role plugin g =
     (if role \<in> set (sp_supported_roles plugin) then Ok (g\<lparr>mg_stores := bt_insert role plugin (mg_stores g)\<rparr>)
      else Err (UnsupportedRole role))"

definition store_for_role :: "mock_gateway \<Rightarrow> string \<Rightarrow> store_plugin option" where
  "store_for_role g role = bt_get (mg_stores g) role"

definition with_cache :: "string \<Rightarrow> cache_plugin \<Rightarrow> mock_gateway \<Rightarrow> (mock_panic, mock_gateway) result" where
  "with_cache namespace plugin g =
     (if cp_serves_any plugin \<or> namespace \<in> set (cp_supported_namespaces plugin)
      then Ok (g\<lparr>mg_caches := bt_insert namespace plugin (mg_caches g)\<rparr>)
      else Err (UnsupportedNamespace namespace))"

definition cache_for_namespace :: "mock_gateway \<Rightarrow> string \<Rightarrow> cache_plugin option" where
  "cache_for_namespace g namespace = bt_get (mg_caches g) namespace"

definition with_telemetry_sink :: "nat \<Rightarrow> mock_gateway \<Rightarrow> mock_gateway" where
  "with_telemetry_sink sink g = g\<lparr>mg_telemetry_sinks := mg_telemetry_sinks g @ [sink]\<rparr>"

definition with_log_sink :: "nat \<Rightarrow> mock_gateway \<Rightarrow> mock_gateway" where
  "with_log_sink sink g = g\<lparr>mg_log_sinks := mg_log_sinks g @ [sink]\<rparr>"

definition with_secret_provider :: "string \<Rightarrow> provider \<Rightarrow> mock_gateway \<Rightarrow> (mock_panic, mock_gateway) result" where
  "with_secret_provider scheme pv g =
     (if scheme \<in> set (pv_supported_schemes pv)
      then Ok (g\<lparr>mg_secret_providers := bt_insert scheme pv (mg_secret_providers g)\<rparr>)
      else Err (UnsupportedSecretScheme scheme))"

definition secret_provider_for_scheme :: "mock_gateway \<Rightarrow> string \<Rightarrow> provider option" where
  "secret_provider_for_scheme g scheme = bt_get (mg_secret_providers g) scheme"

definition with_config_provider :: "string \<Rightarrow> provider \<Rightarrow> mock_gateway \<Rightarrow> (mock_panic, mock_gateway) result" where
  "with_config_provider scheme pv g =
     (if scheme \<in> set (pv_supported_schemes pv)
      then Ok (g\<lparr>mg_config_providers := bt_insert scheme pv (mg_config_providers g)\<rparr>)
      else Err (UnsupportedConfigScheme scheme))"

definition config_provider_for_scheme :: "mock_gateway \<Rightarrow> string \<Rightarrow> provider option" where
  "config_provider_for_scheme g scheme = bt_get (mg_config_providers g) scheme"

definition with_transport :: "named_plugin \<Rightarrow> mock_gateway \<Rightarrow> (mock_panic, mock_gateway) result" where
  "with_transport plugin g =
     (if np_name plugin = [] then Err EmptyTransportName
      else if bt_get (mg_transports g) (np_name plugin) \<noteq> None then Err (DuplicateTransport (np_name plugin))
      else Ok (g\<lparr>mg_transports := bt_insert (np_name plugin) plugin (mg_transports g)\<rparr>))"

definition transport_by_name :: "mock_gateway \<Rightarrow> string \<Rightarrow> named_plugin option" where
  "transport_by_name g n = bt_get (mg_transports g) n"

definition with_policy_engine :: "named_plugin \<Rightarrow> mock_gateway \<Rightarrow> (mock_panic, mock_gateway) result" where
  "with_policy_engine engine g =
     (if np_name engine = [] then Err EmptyEngineName
      else if bt_get (mg_policy_engines g) (np_name engine) \<noteq> None then Err (DuplicateEngine (np_name engine))
      else Ok (g\<lparr>mg_policy_engines := bt_insert (np_name engine) engine (mg_policy_engines g)\<rparr>))"

definition policy_engine_by_name :: "mock_gateway \<Rightarrow> string \<Rightarrow> named_plugin option" where
  "policy_engine_by_name g n = bt_get (mg_policy_engines g) n"

definition with_cluster_backend :: "nat \<Rightarrow> mock_gateway \<Rightarrow> (mock_panic, mock_gateway) result" where
  "with_cluster_backend coordinator g =
     (if mg_cluster_backend g \<noteq> None then Err ClusterInstalled
      else Ok (g\<lparr>mg_cluster_backend := Some coordinator\<rparr>))"

section \<open>Fan-out\<close>

text \<open>Each sink is called in registration order; a failure does not stop the others.\<close>

definition emit_audit :: "mock_gateway \<Rightarrow> json \<Rightarrow> (string, json) result list" where
  "emit_audit g ev = map (\<lambda>sink. sink ev) (mg_audit_sinks g)"

datatype telemetry = SpanStarted json | SpanEnded json | MetricRecorded json

definition emit_telemetry :: "mock_gateway \<Rightarrow> telemetry \<Rightarrow> (nat \<times> telemetry) list" where
  "emit_telemetry g t = map (\<lambda>sink. (sink, t)) (mg_telemetry_sinks g)"

definition emit_log_record :: "mock_gateway \<Rightarrow> json \<Rightarrow> (nat \<times> json) list" where
  "emit_log_record g record = map (\<lambda>sink. (sink, record)) (mg_log_sinks g)"

section \<open>Tool calls\<close>

datatype tool_call_phase =
    PreDispatchGate
  | PreDispatchTransform
  | PostDispatchGate
  | PostDispatchTransform
  | Complete

record tool_call_result =
  tr_phase :: tool_call_phase
  tr_gate_decision :: "gate_decision option"
  tr_arguments :: json
  tr_result :: "json option"
  tr_metadata :: "json list"

definition stops :: "gate_decision \<Rightarrow> gate_decision option" where
  "stops d = (case d of Allow _ \<Rightarrow> None | Deny _ _ \<Rightarrow> Some d | Challenge _ _ \<Rightarrow> Some d | PendingApproval _ \<Rightarrow> Some d)"

fun pre_gates :: "plugin_context \<Rightarrow> json \<Rightarrow> json option \<Rightarrow> (tool_gate \<times> json) list \<Rightarrow> gate_decision option" where
  "pre_gates ctx arguments meta [] = None"
| "pre_gates ctx arguments meta (p # ps) =
     (case tg_pre (fst p) ctx arguments meta (snd p) of
        Deny m r \<Rightarrow> Some (Deny m r)
      | Challenge c r \<Rightarrow> Some (Challenge c r)
      | Allow _ \<Rightarrow> pre_gates ctx arguments meta ps
      | PendingApproval r \<Rightarrow> Some (PendingApproval r))"

text \<open>A failed transform leaves the value as it was before it.\<close>

fun transform_loop :: "(transform_plugin \<times> json \<Rightarrow> json \<Rightarrow> transform_result) \<Rightarrow> (transform_plugin \<times> json) list \<Rightarrow> json \<Rightarrow>
    (json \<times> string, json) result" where
  "transform_loop f [] v = Ok v"
| "transform_loop f (p # ps) v =
     (case f p v of
        Unchanged \<Rightarrow> transform_loop f ps v
      | Modified v' \<Rightarrow> transform_loop f ps v'
      | TransformFailed message \<Rightarrow> Err (v, message))"

definition transform_arguments :: "plugin_context \<Rightarrow> (transform_plugin \<times> json) list \<Rightarrow> json \<Rightarrow> (json \<times> string, json) result" where
  "transform_arguments ctx = transform_loop (\<lambda>p v. tp_arguments (fst p) ctx v (snd p))"

definition transform_results :: "plugin_context \<Rightarrow> (transform_plugin \<times> json) list \<Rightarrow> json \<Rightarrow> (json \<times> string, json) result" where
  "transform_results ctx = transform_loop (\<lambda>p v. tp_result (fst p) ctx v (snd p))"

fun post_gates :: "plugin_context \<Rightarrow> json \<Rightarrow> json \<Rightarrow> (tool_gate \<times> json) list \<Rightarrow> gate_decision option" where
  "post_gates ctx args res [] = None"
| "post_gates ctx args res (p # ps) =
     (case tg_post (fst p) ctx args res 1 (snd p) of
        Allow _ \<Rightarrow> post_gates ctx args res ps
      | d \<Rightarrow> Some d)"

definition execution_result :: "(json \<Rightarrow> string) \<Rightarrow> json \<Rightarrow> json" where
  "execution_result to_text args =
     jobj [(''content'', JArr [jobj [(''type'', JStr ''text''), (''text'', JStr (to_text args))]]), (''isError'', JBool False)]"

definition error_result :: "string \<Rightarrow> json" where
  "error_result message = jobj [(''error'', JStr message)]"

definition mock_context :: "mock_gateway \<Rightarrow> string \<Rightarrow> plugin_context" where
  "mock_context g tool_name = \<lparr>pc_request_id = ''mock-request-1'', pc_session_id = Some ''mock-session-1'', pc_tool_name = tool_name,
     pc_surface = ''tool'', pc_identity = mg_default_identity g, pc_transport = ''mock''\<rparr>"

definition stopped_at :: "tool_call_phase \<Rightarrow> gate_decision option \<Rightarrow> json \<Rightarrow> json option \<Rightarrow> tool_call_result" where
  "stopped_at ph d args res = \<lparr>tr_phase = ph, tr_gate_decision = d, tr_arguments = args, tr_result = res, tr_metadata = []\<rparr>"

definition call_tool_with_meta :: "(json \<Rightarrow> string) \<Rightarrow> mock_gateway \<Rightarrow> string \<Rightarrow> json \<Rightarrow> json option \<Rightarrow> tool_call_result" where
  "call_tool_with_meta to_text g tool_name arguments meta =
     (let ctx = mock_context g tool_name
      in case pre_gates ctx arguments meta (mg_tool_gates g) of
           Some d \<Rightarrow> stopped_at PreDispatchGate (Some d) arguments None
         | None \<Rightarrow>
           (case transform_arguments ctx (mg_transforms g) arguments of
              Inl (args, message) \<Rightarrow> stopped_at PreDispatchTransform None args (Some (error_result message))
            | Inr args \<Rightarrow>
              (case transform_results ctx (mg_transforms g) (execution_result to_text args) of
                 Inl (_, message) \<Rightarrow> stopped_at PostDispatchTransform None args (Some (error_result message))
               | Inr res \<Rightarrow>
                 (case post_gates ctx args res (mg_tool_gates g) of
                    Some d \<Rightarrow> stopped_at PostDispatchGate (Some d) args (Some res)
                  | None \<Rightarrow> stopped_at Complete None args (Some res)))))"

definition call_tool :: "(json \<Rightarrow> string) \<Rightarrow> mock_gateway \<Rightarrow> string \<Rightarrow> json \<Rightarrow> tool_call_result" where
  "call_tool to_text g tool_name arguments = call_tool_with_meta to_text g tool_name arguments None"

definition is_allowed :: "tool_call_result \<Rightarrow> bool" where
  "is_allowed r = (tr_phase r = Complete)"

definition is_denied :: "tool_call_result \<Rightarrow> bool" where
  "is_denied r = (case tr_gate_decision r of Some (Deny _ _) \<Rightarrow> True | _ \<Rightarrow> False)"

definition is_challenged :: "tool_call_result \<Rightarrow> bool" where
  "is_challenged r = (case tr_gate_decision r of Some (Challenge _ _) \<Rightarrow> True | _ \<Rightarrow> False)"

definition denial_message :: "tool_call_result \<Rightarrow> string option" where
  "denial_message r = (case tr_gate_decision r of Some (Deny message _) \<Rightarrow> Some message | _ \<Rightarrow> None)"

definition challenge_data :: "tool_call_result \<Rightarrow> json option" where
  "challenge_data r = (case tr_gate_decision r of Some (Challenge d _) \<Rightarrow> Some d | _ \<Rightarrow> None)"

text \<open>
  The assertion helpers: a failed one panics with the decision and the phase it saw, or with the text it
  looked for and the message it found.
\<close>

datatype assertion_panic =
    Unexpected string "gate_decision option" tool_call_phase
  | NotDenied "gate_decision option"
  | MissingText string string

definition assert_that :: "bool \<Rightarrow> 'e \<Rightarrow> ('e, unit) result" where
  "assert_that b e = (if b then Inr () else Inl e)"

definition assert_allowed :: "tool_call_result \<Rightarrow> (assertion_panic, unit) result" where
  "assert_allowed r = assert_that (is_allowed r) (Unexpected ''allowed'' (tr_gate_decision r) (tr_phase r))"

definition assert_denied :: "tool_call_result \<Rightarrow> (assertion_panic, unit) result" where
  "assert_denied r = assert_that (is_denied r) (Unexpected ''denied'' (tr_gate_decision r) (tr_phase r))"

definition assert_challenged :: "tool_call_result \<Rightarrow> (assertion_panic, unit) result" where
  "assert_challenged r = assert_that (is_challenged r) (Unexpected ''challenged'' (tr_gate_decision r) (tr_phase r))"

definition assert_denied_with_message :: "tool_call_result \<Rightarrow> string \<Rightarrow> (assertion_panic, unit) result" where
  "assert_denied_with_message r expected =
     (case assert_that (is_denied r) (NotDenied (tr_gate_decision r)) of
        Inl e \<Rightarrow> Inl e
      | Inr _ \<Rightarrow>
          (let msg = (case denial_message r of Some m \<Rightarrow> m | None \<Rightarrow> [])
           in assert_that (sublist expected msg) (MissingText expected msg)))"

section \<open>Identities\<close>

fun identity_loop :: "headers \<Rightarrow> json \<Rightarrow> (identity_plugin \<times> json) list \<Rightarrow> identity_resolution" where
  "identity_loop hs metadata [] = Unresolved"
| "identity_loop hs metadata (p # ps) =
     (case fst p hs metadata (snd p) of
        Resolved i \<Rightarrow> Resolved i
      | Invalid r \<Rightarrow> Invalid r
      | Unresolved \<Rightarrow> identity_loop hs metadata ps)"

definition resolve_identity_with_metadata :: "mock_gateway \<Rightarrow> headers \<Rightarrow> json \<Rightarrow> identity_resolution" where
  "resolve_identity_with_metadata g hs metadata = identity_loop hs metadata (mg_identities g)"

section \<open>Routes\<close>

definition normalise :: "string \<Rightarrow> string" where
  "normalise p =
     (let trimmed = trim_end (\<lambda>c. c = CHR ''/'') p
      in if trimmed = [] then ''/''
         else if take 1 trimmed = ''/'' then trimmed
         else CHR ''/'' # trimmed)"

definition ends_with :: "string \<Rightarrow> string \<Rightarrow> bool" where
  "ends_with s t = (length t \<le> length s \<and> drop (length s - length t) s = t)"

definition eq_ignore_ascii_case :: "string \<Rightarrow> string \<Rightarrow> bool" where
  "eq_ignore_ascii_case s t = (to_ascii_uppercase s = to_ascii_uppercase t)"

definition spec_matches :: "route_spec \<Rightarrow> string \<Rightarrow> string \<Rightarrow> bool" where
  "spec_matches spec incoming_method incoming_path =
     (if \<not> (rs_method spec = ''*'' \<or> eq_ignore_ascii_case (rs_method spec) incoming_method) then False
      else (let suffix = normalise (rs_path spec); incoming = normalise incoming_path
            in incoming = suffix \<or> ends_with incoming (CHR ''/'' # trim_start (\<lambda>c. c = CHR ''/'') suffix)))"

definition status_response :: "nat \<Rightarrow> http_response" where
  "status_response code = \<lparr>hp_status = code, hp_body = []\<rparr>"

definition call_http_route :: "mock_gateway \<Rightarrow> string \<Rightarrow> http_request \<Rightarrow> http_response" where
  "call_http_route g entity_name req =
     (case List.find (\<lambda>p. fst p = entity_name) (mg_http_routes g) of
        None \<Rightarrow> status_response 404
      | Some (_, plugin) \<Rightarrow>
          if list_ex (\<lambda>s. spec_matches s (hq_method req) (hq_full_path req)) (hr_routes plugin)
          then hr_handle plugin req else status_response 404)"

section \<open>Contexts\<close>

record context_builder =
  cb_request_id :: string
  cb_session_id :: "string option"
  cb_tool_name :: string
  cb_identity :: plugin_identity
  cb_transport :: string

definition new_context :: "string \<Rightarrow> context_builder" where
  "new_context tool_name = \<lparr>cb_request_id = ''test-request-1'', cb_session_id = Some ''test-session-1'', cb_tool_name = tool_name,
     cb_identity = anonymous_identity, cb_transport = ''http''\<rparr>"

definition request_id :: "string \<Rightarrow> context_builder \<Rightarrow> context_builder" where
  "request_id i b = b\<lparr>cb_request_id := i\<rparr>"

definition session_id :: "string \<Rightarrow> context_builder \<Rightarrow> context_builder" where
  "session_id i b = b\<lparr>cb_session_id := Some i\<rparr>"

definition anonymous :: "context_builder \<Rightarrow> context_builder" where
  "anonymous b = b\<lparr>cb_identity := anonymous_identity\<rparr>"

definition verified :: "string \<Rightarrow> context_builder \<Rightarrow> context_builder" where
  "verified subject b = b\<lparr>cb_identity := \<lparr>pi_kind = ''verified'', pi_trust_level = ''verified'', pi_subject_id = Some subject,
     pi_auth_provider = Some ''test'', pi_issuer = Some ''test-issuer'', pi_roles = [], pi_groups = [], pi_scopes = [],
     pi_attributes = []\<rparr>\<rparr>"

definition transport :: "string \<Rightarrow> context_builder \<Rightarrow> context_builder" where
  "transport t b = b\<lparr>cb_transport := t\<rparr>"

definition build :: "context_builder \<Rightarrow> plugin_context" where
  "build b = \<lparr>pc_request_id = cb_request_id b, pc_session_id = cb_session_id b, pc_tool_name = cb_tool_name b,
     pc_surface = ''tool'', pc_identity = cb_identity b, pc_transport = cb_transport b\<rparr>"

section \<open>The stub host\<close>

definition quoted :: "string \<Rightarrow> string" where
  "quoted s = [CHR 34] @ s @ [CHR 34]"

definition ok_null :: string where
  "ok_null = ''{'' @ quoted ''ok'' @ '':null}''"

definition ok_no_credentials :: string where
  "ok_no_credentials = ''{'' @ quoted ''ok'' @ '':{'' @ quoted ''value'' @ '':null,'' @ quoted ''count'' @ '':0}}''"

definition err_not_implemented :: string where
  "err_not_implemented = ''{'' @ quoted ''err'' @ '':{'' @ quoted ''error'' @ '':'' @ quoted ''not_implemented'' @ ''}}''"

definition stub_host_ref :: host_vtable where
  "stub_host_ref = \<lparr>v_alias = [], v_cluster = None, v_resolve_secret = (\<lambda>_. []),
     v_resolve_credentials = (\<lambda>_ _. ok_no_credentials), v_cache_get = (\<lambda>_ _. ok_null), v_cache_put = (\<lambda>_ _. ok_null),
     v_fetch_content = (\<lambda>_. ok_null), v_store_content = (\<lambda>_. err_not_implemented),
     v_invoke_tool = (\<lambda>_ _ _. err_not_implemented), v_issue_credential = (\<lambda>_ _. []), v_config_snapshot = (\<lambda>_. []),
     v_audit_event = (\<lambda>_. []), v_span_start = (\<lambda>_ _. 0)\<rparr>"

section \<open>The chains\<close>

lemma stops_Some: "stops d = Some e \<longleftrightarrow> e = d \<and> stops d \<noteq> None"
  by (cases d) (auto simp: stops_def)

interpretation pre: first_answer "\<lambda>p. stops (tg_pre (fst p) ctx arguments meta (snd p))" "pre_gates ctx arguments meta"
  for ctx arguments meta
  by unfold_locales (auto simp: stops_def split: gate_decision.splits)

interpretation post: first_answer "\<lambda>p. stops (tg_post (fst p) ctx args res 1 (snd p))" "post_gates ctx args res"
  for ctx args res
  by unfold_locales (auto simp: stops_def split: gate_decision.splits)

definition identity_answer :: "identity_resolution \<Rightarrow> identity_resolution option" where
  "identity_answer r = (if r = Unresolved then None else Some r)"

interpretation ident: first_answer "\<lambda>p. identity_answer (fst p hs metadata (snd p))" "\<lambda>ps. identity_answer (identity_loop hs metadata ps)"
  for hs metadata
  by unfold_locales (auto simp: identity_answer_def split: identity_resolution.splits)

lemma pre_gates_None: "pre_gates ctx a m ps = None \<longleftrightarrow> list_all (\<lambda>p. stops (tg_pre (fst p) ctx a m (snd p)) = None) ps"
  by (simp add: pre.run_None list_all_iff)

lemma post_gates_None: "post_gates ctx a r ps = None \<longleftrightarrow> list_all (\<lambda>p. stops (tg_post (fst p) ctx a r 1 (snd p)) = None) ps"
  by (simp add: post.run_None list_all_iff)

lemma pre_gates_Some:
  "pre_gates ctx a m ps = Some d \<longleftrightarrow>
     (\<exists>before p rest. ps = before @ p # rest \<and> list_all (\<lambda>q. stops (tg_pre (fst q) ctx a m (snd q)) = None) before \<and>
        stops (tg_pre (fst p) ctx a m (snd p)) = Some d)"
  using pre.run_SomeD [of ctx a m ps d] pre.run_SomeI [of _ ctx a m _ d] unfolding list_all_iff by blast

lemma post_gates_Some:
  "post_gates ctx a r ps = Some d \<longleftrightarrow>
     (\<exists>before p rest. ps = before @ p # rest \<and> list_all (\<lambda>q. stops (tg_post (fst q) ctx a r 1 (snd q)) = None) before \<and>
        stops (tg_post (fst p) ctx a r 1 (snd p)) = Some d)"
  using post.run_SomeD [of ctx a r ps d] post.run_SomeI [of _ ctx a r _ d] unfolding list_all_iff by blast

section \<open>Tables\<close>

inductive build_step :: "mock_gateway \<Rightarrow> mock_gateway \<Rightarrow> bool" where
  "build_step g (with_tool_gate_config tg c g)"
| "build_step g (with_tool_gate tg g)"
| "build_step g (with_transform_config tp c g)"
| "build_step g (with_transform tp g)"
| "build_step g (with_identity ip g)"
| "build_step g (with_default_identity i g)"
| "build_step g (with_http_route n hr g)"
| "build_step g (with_audit_sink a g)"
| "build_step g (with_telemetry_sink t g)"
| "build_step g (with_log_sink t g)"
| "with_store role st g = Ok g' \<Longrightarrow> build_step g g'"
| "with_cache ns ca g = Ok g' \<Longrightarrow> build_step g g'"
| "with_secret_provider sc pv g = Ok g' \<Longrightarrow> build_step g g'"
| "with_config_provider sc pv g = Ok g' \<Longrightarrow> build_step g g'"
| "with_transport np g = Ok g' \<Longrightarrow> build_step g g'"
| "with_policy_engine np g = Ok g' \<Longrightarrow> build_step g g'"
| "with_cluster_backend c g = Ok g' \<Longrightarrow> build_step g g'"

text \<open>Every binding is one the plugin advertises.\<close>

definition table_ok :: "('v \<Rightarrow> string \<Rightarrow> bool) \<Rightarrow> (string, 'v) btree_map \<Rightarrow> bool" where
  "table_ok ok m = (bt_wf m \<and> (\<forall>k v. bt_get m k = Some v \<longrightarrow> ok v k))"

lemma table_ok_insert [simp]: "table_ok ok m \<Longrightarrow> ok v k \<Longrightarrow> table_ok ok (bt_insert k v m)"
  by (auto simp: table_ok_def bt_simps bt_wfs split: if_splits)

lemma table_ok_Nil [simp]: "table_ok ok []"
  by (simp add: table_ok_def bt_get_def bt_wf_def)

definition store_serves :: "store_plugin \<Rightarrow> string \<Rightarrow> bool" where
  "store_serves st role = (role \<in> set (sp_supported_roles st))"

definition cache_serves :: "cache_plugin \<Rightarrow> string \<Rightarrow> bool" where
  "cache_serves ca ns = (cp_serves_any ca \<or> ns \<in> set (cp_supported_namespaces ca))"

definition provider_serves :: "provider \<Rightarrow> string \<Rightarrow> bool" where
  "provider_serves pv scheme = (scheme \<in> set (pv_supported_schemes pv))"

definition has_name :: "named_plugin \<Rightarrow> string \<Rightarrow> bool" where
  "has_name np n = (np_name np = n \<and> n \<noteq> [])"

definition tables_ok :: "mock_gateway \<Rightarrow> bool" where
  "tables_ok g = (table_ok store_serves (mg_stores g) \<and> table_ok cache_serves (mg_caches g) \<and>
     table_ok provider_serves (mg_secret_providers g) \<and> table_ok provider_serves (mg_config_providers g) \<and>
     table_ok has_name (mg_transports g) \<and> table_ok has_name (mg_policy_engines g))"

lemma tables_ok_step: "build_step g g' \<Longrightarrow> tables_ok g \<Longrightarrow> tables_ok g'"
  by (erule build_step.cases)
    (auto simp: tables_ok_def with_tool_gate_config_def with_tool_gate_def with_transform_config_def with_transform_def
      with_identity_def with_default_identity_def with_http_route_def with_audit_sink_def with_telemetry_sink_def
      with_log_sink_def with_store_def with_cache_def with_secret_provider_def with_config_provider_def with_transport_def
      with_policy_engine_def with_cluster_backend_def store_serves_def cache_serves_def provider_serves_def has_name_def
      split: if_splits)

interpretation tables: step_invariant "\<lambda>g. g = new_gateway" build_step tables_ok
proof
  show "tables_ok g" if "g = new_gateway" for g using that by (simp add: tables_ok_def new_gateway_def)
qed (rule tables_ok_step)

section \<open>Properties\<close>

lemmas call_tool_unfold = call_tool_with_meta_def Let_def stopped_at_def


text \<open>
  On the result of a tool call at most one of the three assertions passes, and the message assertion
  passes exactly on a denial whose message contains the text; a call that awaits approval or that a
  transform stopped fails all of them.
\<close>

lemma assert_iff [simp]: "assert_that b e = Inr () \<longleftrightarrow> b"
  by (simp add: assert_that_def)

lemma assertions_exclusive:
  fixes to_text g tool arguments meta
  defines "r \<equiv> call_tool_with_meta to_text g tool arguments meta"
  shows "assert_allowed r = Inr () \<longleftrightarrow> tr_phase r = Complete"
    and "assert_allowed r = Inr () \<Longrightarrow> assert_denied r \<noteq> Inr () \<and> assert_challenged r \<noteq> Inr ()"
    and "\<not> (assert_denied r = Inr () \<and> assert_challenged r = Inr ())"
    and "assert_denied_with_message r t = Inr () \<longleftrightarrow> (\<exists>m. denial_message r = Some m \<and> sublist t m)"
  unfolding r_def
  by (auto simp: assert_allowed_def assert_denied_def assert_challenged_def assert_denied_with_message_def
      is_allowed_def is_denied_def is_challenged_def denial_message_def call_tool_unfold assert_that_def Let_def
      split: option.splits sum.splits gate_decision.splits)

text \<open>
  Whatever is registered and in which order, every table of the mock gateway binds only what the
  bound plugin advertises: a store under its roles, a cache under its namespaces or any if it serves
  any, providers under their schemes, and a transport or a policy engine under its own name, which is
  not empty.
\<close>

theorem bindings_supported:
  assumes "reach (\<lambda>g. g = new_gateway) build_step g"
  shows "(store_for_role g k = Some st \<longrightarrow> k \<in> set (sp_supported_roles st)) \<and>
    (cache_for_namespace g k = Some ca \<longrightarrow> cp_serves_any ca \<or> k \<in> set (cp_supported_namespaces ca)) \<and>
    (secret_provider_for_scheme g k = Some pv \<longrightarrow> k \<in> set (pv_supported_schemes pv)) \<and>
    (config_provider_for_scheme g k = Some pv \<longrightarrow> k \<in> set (pv_supported_schemes pv)) \<and>
    (transport_by_name g k = Some np \<longrightarrow> np_name np = k \<and> k \<noteq> []) \<and>
    (policy_engine_by_name g k = Some np \<longrightarrow> np_name np = k \<and> k \<noteq> [])"
  using tables.reach_inv [OF assms]
  by (simp add: tables_ok_def table_ok_def store_for_role_def cache_for_namespace_def secret_provider_for_scheme_def
      config_provider_for_scheme_def transport_by_name_def policy_engine_by_name_def store_serves_def cache_serves_def
      provider_serves_def has_name_def)

definition demo_engine :: named_plugin where
  "demo_engine = \<lparr>np_id = 1, np_name = ''cedar''\<rparr>"

definition demo_gateway :: mock_gateway where
  "demo_gateway = new_gateway\<lparr>mg_policy_engines := [(''cedar'', demo_engine)]\<rparr>"

theorem bindings_supported_witness:
  "policy_engine_by_name demo_gateway ''cedar'' = Some demo_engine \<and> np_name demo_engine = ''cedar''"
proof -
  have "with_policy_engine demo_engine new_gateway = Ok demo_gateway"
    by (simp add: with_policy_engine_def demo_gateway_def demo_engine_def new_gateway_def bt_get_def)
  then have "reach (\<lambda>g. g = new_gateway) build_step demo_gateway"
    by (intro reach.intros(2) [OF reach.intros(1)] build_step.intros) simp_all
  moreover have "policy_engine_by_name demo_gateway ''cedar'' = Some demo_engine"
    by (simp add: policy_engine_by_name_def demo_gateway_def bt_get_def)
  ultimately show ?thesis using bindings_supported [of demo_gateway "''cedar''"] by blast
qed

text \<open>
  The first identity plugin with an answer decides, valid or not.
\<close>

lemma resolve_identity_first:
  "resolve_identity_with_metadata g hs metadata = r \<and> r \<noteq> Unresolved \<longleftrightarrow>
     (\<exists>before p rest. mg_identities g = before @ p # rest \<and> (\<forall>q\<in>set before. fst q hs metadata (snd q) = Unresolved) \<and>
        fst p hs metadata (snd p) = r \<and> r \<noteq> Unresolved)"
  using ident.run_SomeD [of hs metadata "mg_identities g" r] ident.run_SomeI [of _ hs metadata _ r]
  unfolding resolve_identity_with_metadata_def identity_answer_def by (fastforce split: if_splits)

text \<open>
  On the stub host a call that resolves credentials does not keep the value: it becomes null.
\<close>

lemma stub_credentials_null:
  "wr_creds wr ok_no_credentials = Inr (Inr (JNull, 0)) \<Longrightarrow> resolve_credentials wr (Ffi stub_host_ref) identity v = (Ok 0, JNull)"
  by (simp add: resolve_credentials_def stub_host_ref_def Let_def)

end
