(* ===== verification/Slot_Shims.thy ===== *)
theory Slot_Shims
  imports Plugin_Log
begin

text \<open>
  What every \<^verbatim>\<open>extern "C"\<close> slot of \<^verbatim>\<open>src/src/macros.rs\<close> is built from.

  A call into a plugin is a \<open>body\<close>: it takes the state behind the plugin's handle and gives an answer,
  or none when it panicked, with the state it leaves. A slot runs a body under a guard of the protocol
  crate (\<^verbatim>\<open>catch_panic_to_*\<close>), which is a parameter: the slots rely on \<open>guard_law\<close>, that a guard hands
  through the answer of a body that did not panic and the state in any case. serde's text codecs
  (\<open>serde\<close>) and the protocol's result envelope (\<open>responder\<close>) are parameters in the same way.
  \<^verbatim>\<open>std::panic::catch_unwind\<close> is modelled.

  The contract of a slot is the locale \<open>wire_slot\<close>: it reads its arguments from a text, calls one
  method of the plugin and writes its answer to a text. \<open>report_slot\<close> is one without a text to read,
  \<open>drop_slot\<close> one without an answer and \<open>stream_slot\<close> one that opens a stream. Every slot of such a form is
  an interpretation of it in the theory of its kind.
\<close>

section \<open>Bodies and guards\<close>

type_synonym ('s, 'a) body = "'s \<Rightarrow> 'a option \<times> 's"
type_synonym ('s, 'a) guard = "('s, 'a) body \<Rightarrow> 's \<Rightarrow> 'a \<times> 's"

definition answer :: "('a \<Rightarrow> 'b) \<Rightarrow> ('s, 'a) body \<Rightarrow> ('s, 'b) body" where
  "answer f b s = (case b s of (r, s') \<Rightarrow> (map_option f r, s'))"

definition yields :: "'a \<Rightarrow> ('s, 'a) body" where
  "yields v s = (Some v, s)"

definition and_then :: "('s, 'a) body \<Rightarrow> ('a \<Rightarrow> ('s, 'b) body) \<Rightarrow> ('s, 'b) body" where
  "and_then b k s = (case b s of (None, s') \<Rightarrow> (None, s') | (Some v, s') \<Rightarrow> k v s')"

definition guard_law :: "('s, 'a) guard \<Rightarrow> bool" where
  "guard_law g \<longleftrightarrow> (\<forall>b s v s'. b s = (Some v, s') \<longrightarrow> g b s = (v, s')) \<and> (\<forall>b s s'. b s = (None, s') \<longrightarrow> snd (g b s) = s')"

definition catch_unwind :: "'a \<Rightarrow> ('s, 'a) guard" where
  "catch_unwind fallback b s = (case b s of (Some v, s') \<Rightarrow> (v, s') | (None, s') \<Rightarrow> (fallback, s'))"

lemma guard_answer: "guard_law g \<Longrightarrow> b s = (Some v, s') \<Longrightarrow> g b s = (v, s')"
  by (simp add: guard_law_def)

lemma guard_panic: "guard_law g \<Longrightarrow> b s = (None, s') \<Longrightarrow> snd (g b s) = s'"
  by (simp add: guard_law_def)

lemma guard_yields [simp]: "guard_law g \<Longrightarrow> g (yields v) s = (v, s)"
  by (simp add: guard_law_def yields_def)

lemma guard_state: "guard_law g \<Longrightarrow> snd (g b s) = snd (b s)"
  by (cases "b s"; cases "fst (b s)") (auto simp: guard_law_def)

lemma catch_unwind_law [simp]: "guard_law (catch_unwind fallback)"
  by (auto simp: guard_law_def catch_unwind_def)

lemma answer_Some [simp]: "b s = (Some r, s') \<Longrightarrow> answer f b s = (Some (f r), s')"
  by (simp add: answer_def)

lemma answer_None [simp]: "b s = (None, s') \<Longrightarrow> answer f b s = (None, s')"
  by (simp add: answer_def)

section \<open>Texts\<close>

record 'a serde =
  sd_from :: "string \<Rightarrow> (string, 'a) result"
  sd_to :: "'a \<Rightarrow> string option"

text \<open>A value goes through a codec exactly when its text, which is not empty, reads back as the value.\<close>

definition exact :: "'a serde \<Rightarrow> 'a \<Rightarrow> bool" where
  "exact c x \<longleftrightarrow> (\<exists>t. sd_to c x = Some t \<and> t \<noteq> [] \<and> sd_from c t = Inr x)"

text \<open>A codec that knows the texts of a few values.\<close>

definition table_serde :: "(string \<times> 'a) list \<Rightarrow> 'a serde" where
  "table_serde tb = \<lparr>sd_from = (\<lambda>t. case map_of tb t of Some x \<Rightarrow> Inr x | None \<Rightarrow> Inl ''unexpected text''),
     sd_to = (\<lambda>x. map_of (map (\<lambda>(t, y). (y, t)) tb) x)\<rparr>"

text \<open>\<^verbatim>\<open>to_string(x).unwrap_or(fallback)\<close> and \<^verbatim>\<open>from_str(t).unwrap_or(fallback)\<close>.\<close>

definition text_or :: "string \<Rightarrow> 'a serde \<Rightarrow> 'a \<Rightarrow> string" where
  "text_or fallback c x = (case sd_to c x of Some t \<Rightarrow> t | None \<Rightarrow> fallback)"

definition parse_or :: "'a \<Rightarrow> 'a serde \<Rightarrow> string \<Rightarrow> 'a" where
  "parse_or fallback c t = (case sd_from c t of Inr x \<Rightarrow> x | Inl _ \<Rightarrow> fallback)"

definition parse_opt :: "'a serde \<Rightarrow> string \<Rightarrow> 'a option" where
  "parse_opt c t = (case sd_from c t of Inr x \<Rightarrow> Some x | Inl _ \<Rightarrow> None)"

lemma serde_text: "exact c x \<Longrightarrow> sd_from c (text_or fallback c x) = Inr x"
  by (auto simp: exact_def text_or_def)

lemma serde_to: "exact c x \<Longrightarrow> sd_to c x = Some (text_or fallback c x)"
  by (auto simp: exact_def text_or_def)

lemma serde_text_nonempty: "exact c x \<Longrightarrow> text_or fallback c x \<noteq> []"
  by (auto simp: exact_def text_or_def)

lemma parse_or_text [simp]: "exact c x \<Longrightarrow> parse_or d c (text_or fallback c x) = x"
  by (simp add: parse_or_def serde_text)

lemma parse_opt_text [simp]: "exact c x \<Longrightarrow> parse_opt c (text_or fallback c x) = Some x"
  by (simp add: parse_opt_def serde_text)

lemma from_empty_table [simp]: "sd_from (table_serde []) t = Inl ''unexpected text''"
  by (simp add: table_serde_def)

lemma exact_table: "distinct (map fst tb) \<Longrightarrow> distinct (map snd tb) \<Longrightarrow> (t, x) \<in> set tb \<Longrightarrow> t \<noteq> [] \<Longrightarrow> exact (table_serde tb) x"
proof -
  assume tb: "distinct (map fst tb)" "distinct (map snd tb)" "(t, x) \<in> set tb" "t \<noteq> []"
  have "map_of (map (\<lambda>(t, y). (y, t)) tb) x = Some t"
    using tb(2,3) by (intro map_of_is_SomeI) (force simp: comp_def case_prod_beta)+
  then show ?thesis using tb(1,3,4) by (auto simp: exact_def table_serde_def)
qed

text \<open>How a slot writes an answer and the host reads it.\<close>

record 'b reply =
  re_write :: "'b \<Rightarrow> string"
  re_read :: "string \<Rightarrow> (string, 'b) result"

definition legible :: "'b reply \<Rightarrow> 'b \<Rightarrow> bool" where
  "legible re r \<longleftrightarrow> re_read re (re_write re r) = Inr r"

definition json_reply :: "string \<Rightarrow> 'b serde \<Rightarrow> 'b reply" where
  "json_reply fallback c = \<lparr>re_write = text_or fallback c, re_read = sd_from c\<rparr>"

lemma json_reply_legible [simp]: "exact c r \<Longrightarrow> legible (json_reply fallback c) r"
  by (simp add: legible_def json_reply_def serde_text)

lemma json_reply_read [simp]: "re_read (json_reply fallback c) = sd_from c"
  by (simp add: json_reply_def)

lemma json_reply_write [simp]: "re_write (json_reply fallback c) = text_or fallback c"
  by (simp add: json_reply_def)

text \<open>The protocol's \<^verbatim>\<open>result_envelope\<close>: its three writers and the reader on the host's side.\<close>

record ('e, 'a) responder =
  respond_result :: "('e, 'a) result \<Rightarrow> string"
  respond_ok :: "'a \<Rightarrow> string"
  respond_err :: "'e \<Rightarrow> string"
  read_envelope :: "string \<Rightarrow> (string, ('e, 'a) result) result"

text \<open>\<^verbatim>\<open>respond_result\<close> writes what the other two write.\<close>

definition responder_law :: "('e, 'a) responder \<Rightarrow> bool" where
  "responder_law en \<longleftrightarrow> (\<forall>v. respond_result en (Inr v) = respond_ok en v) \<and> (\<forall>e. respond_result en (Inl e) = respond_err en e)"

definition respond_match :: "('e, 'a) responder \<Rightarrow> ('e, 'a) result \<Rightarrow> string" where
  "respond_match en r = (case r of Inr v \<Rightarrow> respond_ok en v | Inl e \<Rightarrow> respond_err en e)"

definition envelope_reply :: "('e, 'a) responder \<Rightarrow> ('e, 'a) result reply" where
  "envelope_reply en = \<lparr>re_write = respond_result en, re_read = read_envelope en\<rparr>"

definition match_reply :: "('e, 'a) responder \<Rightarrow> ('e, 'a) result reply" where
  "match_reply en = \<lparr>re_write = respond_match en, re_read = read_envelope en\<rparr>"

lemma reply_write [simp]: "re_write (envelope_reply en) = respond_result en" "re_write (match_reply en) = respond_match en"
  by (simp_all add: envelope_reply_def match_reply_def)

lemma match_is_result: "responder_law en \<Longrightarrow> respond_match en = respond_result en"
  by (auto simp: responder_law_def respond_match_def split: sum.splits)

section \<open>The contract of a slot\<close>

text \<open>A slot that reads its arguments: malformed ones are answered at once, without the plugin.\<close>

definition with_args :: "'a serde \<Rightarrow> string \<Rightarrow> (string \<Rightarrow> 'b) \<Rightarrow> ('a \<Rightarrow> ('s, 'b) body) \<Rightarrow> ('s, 'b) body" where
  "with_args c t malformed k = (case sd_from c t of Inr a \<Rightarrow> k a | Inl e \<Rightarrow> yields (malformed e))"

text \<open>
  A slot serves a method when the host, writing arguments and reading the answer, gets what the method
  answers to these arguments, and the plugin is left in the state the method leaves it in.
\<close>

definition serves :: "(string \<Rightarrow> 's \<Rightarrow> string \<times> 's) \<Rightarrow> 'a serde \<Rightarrow> 'b reply \<Rightarrow> ('a \<Rightarrow> ('s, 'b) body) \<Rightarrow> bool" where
  "serves run args re m \<longleftrightarrow> (\<forall>a s r s'. exact args a \<longrightarrow> legible re r \<longrightarrow> m a s = (Some r, s') \<longrightarrow>
     (\<exists>t u. sd_to args a = Some t \<and> run t s = (u, s') \<and> re_read re u = Inr r))"

text \<open>The same of a slot without a text to read.\<close>

definition reports :: "('s \<Rightarrow> string \<times> 's) \<Rightarrow> 'b reply \<Rightarrow> ('s, 'b) body \<Rightarrow> bool" where
  "reports run re m \<longleftrightarrow> (\<forall>s r s'. legible re r \<longrightarrow> m s = (Some r, s') \<longrightarrow> (\<exists>u. run s = (u, s') \<and> re_read re u = Inr r))"

locale wire_slot =
  fixes guard :: "('s, string) guard"
    and args :: "'a serde"
    and re :: "'b reply"
    and malformed :: "string \<Rightarrow> string"
    and call :: "'a \<Rightarrow> ('s, 'b) body"
    and run :: "string \<Rightarrow> 's \<Rightarrow> string \<times> 's"
  assumes run: "run t = guard (with_args args t malformed (\<lambda>a. answer (re_write re) (call a)))"
begin

lemma run_serves: "guard_law guard \<Longrightarrow> serves run args re call"
  unfolding serves_def
proof (intro allI impI)
  fix a s r s' assume "guard_law guard" "exact args a" "legible re r" "call a s = (Some r, s')"
  then have "run (text_or [] args a) s = (re_write re r, s')" "re_read re (re_write re r) = Inr r"
    by (simp_all add: run with_args_def serde_text guard_answer legible_def)
  then show "\<exists>t u. sd_to args a = Some t \<and> run t s = (u, s') \<and> re_read re u = Inr r"
    using serde_to [OF \<open>exact args a\<close>] by blast
qed

lemma run_malformed: "guard_law guard \<Longrightarrow> sd_from args t = Inl e \<Longrightarrow> run t s = (malformed e, s)"
  by (simp add: run with_args_def)

lemma run_panicked:
  "guard_law guard \<Longrightarrow> sd_from args t = Inr a \<Longrightarrow> call a s = (None, s') \<Longrightarrow> snd (run t s) = s'"
  by (simp add: run with_args_def guard_state)

end

locale report_slot =
  fixes guard :: "('s, string) guard"
    and re :: "'b reply"
    and call :: "('s, 'b) body"
    and run :: "'s \<Rightarrow> string \<times> 's"
  assumes run: "run = guard (answer (re_write re) call)"
begin

lemma run_reports: "guard_law guard \<Longrightarrow> reports run re call"
  by (auto simp: reports_def run guard_answer legible_def)

end

text \<open>A slot without an answer: what parses is recorded, the rest is dropped.\<close>

locale drop_slot =
  fixes silent :: "('s, unit) guard"
    and args :: "'a serde"
    and call :: "'a \<Rightarrow> ('s, unit) body"
    and run :: "string \<Rightarrow> 's \<Rightarrow> unit \<times> 's"
  assumes run: "run t = silent (with_args args t (\<lambda>_. ()) call)"
begin

lemma run_recorded: "guard_law silent \<Longrightarrow> exact args a \<Longrightarrow> snd (run (text_or [] args a) s) = snd (call a s)"
  by (simp add: run with_args_def serde_text guard_state)

lemma run_dropped: "guard_law silent \<Longrightarrow> sd_from args t = Inl e \<Longrightarrow> snd (run t s) = s"
  by (simp add: run with_args_def)

end

lemma servesD:
  assumes "serves run args re m" "exact args a" "legible re r" "m a s = (Some r, s')"
  shows "\<exists>t u. sd_to args a = Some t \<and> run t s = (u, s') \<and> re_read re u = Inr r"
  using assms unfolding serves_def by blast

section \<open>Slots that open a stream\<close>

text \<open>
  The protocol's \<^verbatim>\<open>StreamHandle\<close>. A plugin's callback is boxed into a closure that calls the host's sink
  with its context; the plugin gives back the address of what it keeps for the stream.
\<close>

record ffi_stream =
  fs_handle :: nat
  fs_error_json :: string
  fs_metadata_json :: string

definition stream_opened :: "nat \<Rightarrow> ffi_stream" where
  "stream_opened h = \<lparr>fs_handle = h, fs_error_json = [], fs_metadata_json = []\<rparr>"

definition stream_failed :: "string \<Rightarrow> ffi_stream" where
  "stream_failed e = \<lparr>fs_handle = 0, fs_error_json = e, fs_metadata_json = []\<rparr>"

definition sink_emit :: "nat \<Rightarrow> string \<Rightarrow> nat \<times> string" where
  "sink_emit ctx payload = (ctx, payload)"

definition stream_of_result :: "'e serde \<Rightarrow> ('e, nat) result \<Rightarrow> ffi_stream" where
  "stream_of_result es r = (case r of Inr h \<Rightarrow> stream_opened h | Inl e \<Rightarrow> stream_failed (text_or [] es e))"

text \<open>What the host makes of a stream handle.\<close>

definition read_stream :: "'e serde \<Rightarrow> ffi_stream \<Rightarrow> (string, ('e, nat) result) result" where
  "read_stream es st = (if fs_handle st \<noteq> 0 then Inr (Inr (fs_handle st)) else map_sum id Inl (sd_from es (fs_error_json st)))"

locale stream_slot =
  fixes es :: "'e serde"
    and panicked :: 'e
    and call :: "('s, ('e, nat) result) body"
    and run :: "'s \<Rightarrow> ffi_stream \<times> 's"
  assumes run: "run = catch_unwind (stream_failed (text_or [] es panicked)) (answer (stream_of_result es) call)"
begin

lemma run_opened: "call s = (Some (Inr h), s') \<Longrightarrow> h \<noteq> 0 \<Longrightarrow> \<exists>st. run s = (st, s') \<and> fs_error_json st = [] \<and> read_stream es st = Inr (Inr h)"
  by (simp add: run catch_unwind_def stream_of_result_def stream_opened_def read_stream_def)

lemma run_failed: "call s = (Some (Inl e), s') \<Longrightarrow> exact es e \<Longrightarrow> \<exists>st. run s = (st, s') \<and> fs_handle st = 0 \<and> read_stream es st = Inr (Inl e)"
  by (simp add: run catch_unwind_def stream_of_result_def stream_failed_def read_stream_def serde_text)

lemma run_panicked: "call s = (None, s') \<Longrightarrow> exact es panicked \<Longrightarrow> \<exists>st. run s = (st, s') \<and> fs_handle st = 0 \<and> read_stream es st = Inr (Inl panicked)"
  by (simp add: run catch_unwind_def stream_failed_def read_stream_def serde_text)

end

section \<open>Adapters with conversions\<close>

text \<open>
  A method of the host's trait, over the host's own types, is served by a slot over the wire types when
  the host converts the arguments it writes by \<open>i\<close> and the answers it reads by \<open>out\<close>.
\<close>

definition serves_via :: "(string \<Rightarrow> 's \<Rightarrow> string \<times> 's) \<Rightarrow> 'a serde \<Rightarrow> 'b reply \<Rightarrow> ('x \<Rightarrow> 'a) \<Rightarrow> ('b \<Rightarrow> 'c) \<Rightarrow> ('x \<Rightarrow> ('s, 'c) body) \<Rightarrow> bool" where
  "serves_via run args re i out m \<longleftrightarrow> (\<forall>x s c s'. m x s = (Some c, s') \<longrightarrow> (\<exists>r. c = out r \<and>
     (exact args (i x) \<and> legible re r \<longrightarrow> (\<exists>t u. sd_to args (i x) = Some t \<and> run t s = (u, s') \<and> re_read re u = Inr r))))"

lemma serves_viaI:
  assumes "serves run args re wm" "\<And>x. m x = answer out (wm (i x))"
  shows "serves_via run args re i out m"
  unfolding serves_via_def
proof (intro allI impI)
  fix x s c s' assume "m x s = (Some c, s')"
  then obtain r where "wm (i x) s = (Some r, s')" "c = out r"
    using assms(2) by (auto simp: answer_def split: prod.splits)
  then show "\<exists>r. c = out r \<and> (exact args (i x) \<and> legible re r \<longrightarrow> (\<exists>t u. sd_to args (i x) = Some t \<and> run t s = (u, s') \<and> re_read re u = Inr r))"
    using servesD [OF assms(1)] by blast
qed

lemma serves_viaE:
  assumes "serves_via run args re i out m" "m x s = (Some c, s')"
  obtains r where "c = out r"
    "exact args (i x) \<Longrightarrow> legible re r \<Longrightarrow> \<exists>t u. sd_to args (i x) = Some t \<and> run t s = (u, s') \<and> re_read re u = Inr r"
  using assms unfolding serves_via_def by blast

lemma answer_id [simp]: "answer (\<lambda>r. r) b = b" "answer id b = b"
  by (simp_all add: answer_def fun_eq_iff option.map_ident option.map_id split: prod.splits)

section \<open>The life of an instance\<close>

text \<open>
  Two of the four slots every kind has; \<^verbatim>\<open>make\<close> and \<^verbatim>\<open>drop_instance\<close>, which work on the boxes of a process,
  are with the process.
\<close>

definition slot_manifest_json :: "('s, string) guard \<Rightarrow> 'm serde \<Rightarrow> ('s, 'm) body \<Rightarrow> 's \<Rightarrow> string \<times> 's" where
  "slot_manifest_json g c manifest = g (answer (text_or [] c) manifest)"

definition slot_shutdown :: "('s, unit) guard \<Rightarrow> ('s, unit) body \<Rightarrow> 's \<Rightarrow> unit \<times> 's" where
  "slot_shutdown g shutdown = g shutdown"

interpretation manifest_slot: report_slot g "json_reply [] c" m "slot_manifest_json g c m"
  by unfold_locales (simp add: slot_manifest_json_def)

end
