(* ===== verification/Gate_Slots.thy ===== *)
theory Gate_Slots
  imports Slot_Shims Json_Value
begin

text \<open>
  The kinds of plugin that decide on a request: tool gates, transforms, identity resolvers, policy
  engines, approval notifiers, credential issuers and catalog providers. For each kind, the trait an
  author implements (\<^verbatim>\<open>src/src/ffi.rs\<close>) is a record of bodies, the slots of the dynamic build are those
  of \<^verbatim>\<open>src/src/macros.rs\<close> and the static build's adapter is that of \<^verbatim>\<open>src/src/adapters.rs\<close>.

  The protocol's own types are type variables and its conversions parameters: \<open>ctx_in\<close> reads a context
  from its ABI form, \<open>dec_out\<close> and the like write an answer to it. A slot that takes one text of
  arguments reads a struct; the struct is a record here and its codec a parameter.
\<close>

section \<open>Tool gates\<close>

record ('s, 'm, 'ctx, 'd) sync_tool_gate =
  tg_manifest :: "('s, 'm) body"
  tg_evaluate_pre :: "'ctx \<Rightarrow> json \<Rightarrow> json option \<Rightarrow> json \<Rightarrow> ('s, 'd) body"
  tg_evaluate_post :: "'ctx \<Rightarrow> json \<Rightarrow> json \<Rightarrow> 64 word \<Rightarrow> json \<Rightarrow> ('s, 'd) body"
  tg_shutdown :: "('s, unit) body"

record ('s, 'm, 'ctx, 'd) tool_gate_plugin =
  tp_manifest :: "('s, 'm) body"
  tp_pre_dispatch :: "'ctx \<Rightarrow> json \<Rightarrow> json option \<Rightarrow> json \<Rightarrow> ('s, 'd) body"
  tp_post_dispatch :: "'ctx \<Rightarrow> json \<Rightarrow> json \<Rightarrow> 64 word \<Rightarrow> json \<Rightarrow> ('s, 'd) body"
  tp_shutdown :: "('s, unit) body"

definition tool_gate_evaluate_pre :: "('s, 'rd) guard \<Rightarrow> json serde \<Rightarrow> ('rc \<Rightarrow> 'ctx) \<Rightarrow> ('d \<Rightarrow> 'rd) \<Rightarrow>
    ('s, 'm, 'ctx, 'd) sync_tool_gate \<Rightarrow> 'rc \<Rightarrow> string \<Rightarrow> string option \<Rightarrow> string \<Rightarrow> 's \<Rightarrow> 'rd \<times> 's" where
  "tool_gate_evaluate_pre deny v ctx_in dec_out plugin ctx args meta cfg =
     deny (answer dec_out (tg_evaluate_pre plugin (ctx_in ctx) (parse_or JNull v args)
       (Option.bind meta (parse_opt v)) (parse_or (JObj []) v cfg)))"

definition tool_gate_evaluate_post :: "('s, 'rd) guard \<Rightarrow> json serde \<Rightarrow> ('rc \<Rightarrow> 'ctx) \<Rightarrow> ('d \<Rightarrow> 'rd) \<Rightarrow>
    ('s, 'm, 'ctx, 'd) sync_tool_gate \<Rightarrow> 'rc \<Rightarrow> string \<Rightarrow> string \<Rightarrow> 64 word \<Rightarrow> string \<Rightarrow> 's \<Rightarrow> 'rd \<times> 's" where
  "tool_gate_evaluate_post deny v ctx_in dec_out plugin ctx args res duration_ms cfg =
     deny (answer dec_out (tg_evaluate_post plugin (ctx_in ctx) (parse_or JNull v args) (parse_or JNull v res)
       duration_ms (parse_or (JObj []) v cfg)))"

definition SyncToolGateAdapter :: "('s, 'm, 'ctx, 'd) sync_tool_gate \<Rightarrow> ('s, 'm, 'ctx, 'd) tool_gate_plugin" where
  "SyncToolGateAdapter inner = \<lparr>tp_manifest = tg_manifest inner, tp_pre_dispatch = tg_evaluate_pre inner,
     tp_post_dispatch = tg_evaluate_post inner, tp_shutdown = tg_shutdown inner\<rparr>"

section \<open>Transforms\<close>

record ('s, 'm, 'ctx, 't) sync_transform =
  tf_manifest :: "('s, 'm) body"
  tf_transform_arguments :: "'ctx \<Rightarrow> json \<Rightarrow> json \<Rightarrow> ('s, 't) body"
  tf_transform_result :: "'ctx \<Rightarrow> json \<Rightarrow> json \<Rightarrow> ('s, 't) body"
  tf_shutdown :: "('s, unit) body"

record ('s, 'm, 'ctx, 't) transform_plugin =
  fp_manifest :: "('s, 'm) body"
  fp_transform_arguments :: "'ctx \<Rightarrow> json \<Rightarrow> json \<Rightarrow> ('s, 't) body"
  fp_transform_result :: "'ctx \<Rightarrow> json \<Rightarrow> json \<Rightarrow> ('s, 't) body"
  fp_shutdown :: "('s, unit) body"

definition transform_arguments :: "('s, 'rt) guard \<Rightarrow> json serde \<Rightarrow> ('rc \<Rightarrow> 'ctx) \<Rightarrow> ('t \<Rightarrow> 'rt) \<Rightarrow>
    ('s, 'm, 'ctx, 't) sync_transform \<Rightarrow> 'rc \<Rightarrow> string \<Rightarrow> string \<Rightarrow> 's \<Rightarrow> 'rt \<times> 's" where
  "transform_arguments fail v ctx_in res_out plugin ctx args_json cfg_json =
     fail (answer res_out (tf_transform_arguments plugin (ctx_in ctx) (parse_or JNull v args_json) (parse_or (JObj []) v cfg_json)))"

definition transform_result :: "('s, 'rt) guard \<Rightarrow> json serde \<Rightarrow> ('rc \<Rightarrow> 'ctx) \<Rightarrow> ('t \<Rightarrow> 'rt) \<Rightarrow>
    ('s, 'm, 'ctx, 't) sync_transform \<Rightarrow> 'rc \<Rightarrow> string \<Rightarrow> string \<Rightarrow> 's \<Rightarrow> 'rt \<times> 's" where
  "transform_result fail v ctx_in res_out plugin ctx result_json cfg_json =
     fail (answer res_out (tf_transform_result plugin (ctx_in ctx) (parse_or JNull v result_json) (parse_or (JObj []) v cfg_json)))"

definition SyncTransformAdapter :: "('s, 'm, 'ctx, 't) sync_transform \<Rightarrow> ('s, 'm, 'ctx, 't) transform_plugin" where
  "SyncTransformAdapter inner = \<lparr>fp_manifest = tf_manifest inner, fp_transform_arguments = tf_transform_arguments inner,
     fp_transform_result = tf_transform_result inner, fp_shutdown = tf_shutdown inner\<rparr>"

section \<open>Identity resolvers\<close>

record ('s, 'm, 'md, 'i) sync_identity =
  id_manifest :: "('s, 'm) body"
  id_resolve_identity :: "(string \<times> string) list \<Rightarrow> 'md \<Rightarrow> json \<Rightarrow> ('s, 'i) body"
  id_shutdown :: "('s, unit) body"

text \<open>The host's trait has no shutdown: the adapter drops it.\<close>

record ('s, 'm, 'md, 'i) identity_plugin =
  ip_manifest :: "('s, 'm) body"
  ip_resolve_identity :: "(string \<times> string) list \<Rightarrow> 'md \<Rightarrow> json \<Rightarrow> ('s, 'i) body"

fun header_entry :: "json \<Rightarrow> (string \<times> string) option" where
  "header_entry (JArr (JStr k # JStr x # rest)) = Some (k, x)"
| "header_entry _ = None"

definition parse_headers :: "json \<Rightarrow> (string \<times> string) list" where
  "parse_headers j = (case as_array j of Some arr \<Rightarrow> List.map_filter header_entry arr | None \<Rightarrow> [])"

definition identity_resolve :: "('s, 'ri) guard \<Rightarrow> json serde \<Rightarrow> 'md serde \<Rightarrow> 'md \<Rightarrow> ('i \<Rightarrow> 'ri) \<Rightarrow>
    ('s, 'm, 'md, 'i) sync_identity \<Rightarrow> string \<Rightarrow> string \<Rightarrow> string \<Rightarrow> 's \<Rightarrow> 'ri \<times> 's" where
  "identity_resolve invalid v md md_default res_out plugin headers_json metadata_json config_json =
     invalid (answer res_out (id_resolve_identity plugin
       (parse_headers (parse_or (JArr []) v headers_json))
       (if metadata_json = [] then md_default else parse_or md_default md metadata_json)
       (parse_or (JObj []) v config_json)))"

definition SyncIdentityAdapter :: "('s, 'm, 'md, 'i) sync_identity \<Rightarrow> ('s, 'm, 'md, 'i) identity_plugin" where
  "SyncIdentityAdapter inner = \<lparr>ip_manifest = id_manifest inner, ip_resolve_identity = id_resolve_identity inner\<rparr>"

text \<open>How the host writes the headers.\<close>

definition headers_json :: "(string \<times> string) list \<Rightarrow> json" where
  "headers_json hs = JArr (map (\<lambda>(k, x). JArr [JStr k, JStr x]) hs)"

lemma parse_headers_roundtrip: "parse_headers (headers_json hs) = hs"
  by (induction hs) (auto simp: parse_headers_def headers_json_def map_filter_simps)

lemma parse_headers_drops:
  "parse_headers (JArr (xs @ e # ys)) =
     parse_headers (JArr xs) @ (case header_entry e of None \<Rightarrow> [] | Some h \<Rightarrow> [h]) @ parse_headers (JArr ys)"
  by (induction xs) (auto simp: parse_headers_def map_filter_simps split: option.splits)

section \<open>Policy engines\<close>

record ('s, 'm, 'ctx, 'd, 'ver) sync_policy =
  po_manifest :: "('s, 'm) body"
  po_name :: "('s, string) body"
  po_evaluate :: "string \<Rightarrow> json \<Rightarrow> 'ctx \<Rightarrow> ('s, 'd) body"
  po_policy_version :: "('s, 'ver) body"
  po_shutdown :: "('s, unit) body"

record ('s, 'm, 'ctx, 'd, 'ver) policy_engine =
  pe_manifest :: "('s, 'm) body"
  pe_name :: "('s, string) body"
  pe_evaluate :: "string \<Rightarrow> json \<Rightarrow> 'ctx \<Rightarrow> ('s, 'd) body"
  pe_policy_version :: "('s, 'ver) body"
  pe_shutdown :: "('s, unit) body"

record 'ctx policy_args =
  pa_decision_point :: string
  pa_input :: json
  pa_context :: 'ctx

definition policy_name :: "('s, string) guard \<Rightarrow> ('s, 'm, 'ctx, 'd, 'ver) sync_policy \<Rightarrow> 's \<Rightarrow> string \<times> 's" where
  "policy_name quiet p = quiet (po_name p)"

definition policy_evaluate :: "('s, string) guard \<Rightarrow> 'ctx policy_args serde \<Rightarrow> 'd serde \<Rightarrow> (string \<Rightarrow> string \<Rightarrow> 'd) \<Rightarrow>
    ('s, 'm, 'ctx, 'd, 'ver) sync_policy \<Rightarrow> string \<Rightarrow> 's \<Rightarrow> string \<times> 's" where
  "policy_evaluate quiet pa pd deny p args_json =
     quiet (with_args pa args_json (\<lambda>_. text_or [] pd (deny ''malformed policy input'' ''''))
       (\<lambda>a. answer (text_or [] pd) (po_evaluate p (pa_decision_point a) (pa_input a) (pa_context a))))"

definition policy_version :: "('s, string) guard \<Rightarrow> 'ver serde \<Rightarrow> ('s, 'm, 'ctx, 'd, 'ver) sync_policy \<Rightarrow> 's \<Rightarrow> string \<times> 's" where
  "policy_version quiet pv p = quiet (answer (text_or [] pv) (po_policy_version p))"

definition SyncPolicyEngineAdapter :: "('s, 'm, 'ctx, 'd, 'ver) sync_policy \<Rightarrow> ('s, 'm, 'ctx, 'd, 'ver) policy_engine" where
  "SyncPolicyEngineAdapter inner = \<lparr>pe_manifest = po_manifest inner, pe_name = po_name inner, pe_evaluate = po_evaluate inner,
     pe_policy_version = po_policy_version inner, pe_shutdown = po_shutdown inner\<rparr>"

interpretation pol_eval: wire_slot quiet pa "json_reply [] pd" "\<lambda>_. text_or [] pd (deny ''malformed policy input'' '''')"
  "\<lambda>a. po_evaluate p (pa_decision_point a) (pa_input a) (pa_context a)" "policy_evaluate quiet pa pd deny p"
  by unfold_locales (simp add: policy_evaluate_def)

interpretation pol_version: report_slot quiet "json_reply [] pv" "po_policy_version p" "policy_version quiet pv p"
  by unfold_locales (simp add: policy_version_def)

section \<open>Approval notifiers\<close>

record ('s, 'm, 'q, 'e, 'r) sync_approval =
  ap_manifest :: "('s, 'm) body"
  ap_notify :: "'q \<Rightarrow> ('s, ('e, 'r) result) body"
  ap_shutdown :: "('s, unit) body"

record ('s, 'm, 'q, 'e, 'r) approval_notifier =
  an_manifest :: "('s, 'm) body"
  an_notify :: "'q \<Rightarrow> ('s, ('e, 'r) result) body"
  an_shutdown :: "('s, unit) body"

definition appr_notify :: "('s, string) guard \<Rightarrow> 'q serde \<Rightarrow> ('e, 'r) result serde \<Rightarrow> (string \<Rightarrow> 'e) \<Rightarrow>
    ('s, 'm, 'q, 'e, 'r) sync_approval \<Rightarrow> string \<Rightarrow> 's \<Rightarrow> string \<times> 's" where
  "appr_notify quiet nq nr internal p request_json =
     quiet (with_args nq request_json (\<lambda>_. text_or [] nr (Inl (internal ''malformed notification request json'')))
       (\<lambda>req. answer (text_or [] nr) (ap_notify p req)))"

definition SyncApprovalNotifierAdapter :: "('s, 'm, 'q, 'e, 'r) sync_approval \<Rightarrow> ('s, 'm, 'q, 'e, 'r) approval_notifier" where
  "SyncApprovalNotifierAdapter inner = \<lparr>an_manifest = ap_manifest inner, an_notify = ap_notify inner, an_shutdown = ap_shutdown inner\<rparr>"

interpretation appr: wire_slot quiet nq "json_reply [] nr" "\<lambda>_. text_or [] nr (Inl (internal ''malformed notification request json''))"
  "ap_notify p" "appr_notify quiet nq nr internal p"
  by unfold_locales (simp add: appr_notify_def)

section \<open>Credential issuers\<close>

record ('s, 'm, 'i, 'e, 'c) sync_credential =
  cr_manifest :: "('s, 'm) body"
  cr_issue :: "'i \<Rightarrow> string \<Rightarrow> json \<Rightarrow> ('s, ('e, 'c) result) body"
  cr_revoke :: "string \<Rightarrow> ('s, ('e, unit) result) body"
  cr_shutdown :: "('s, unit) body"

record ('s, 'm, 'i, 'e, 'c) credential_issuer =
  ci_manifest :: "('s, 'm) body"
  ci_issue :: "'i \<Rightarrow> string \<Rightarrow> json \<Rightarrow> ('s, ('e, 'c) result) body"
  ci_revoke :: "string \<Rightarrow> ('s, ('e, unit) result) body"
  ci_shutdown :: "('s, unit) body"

record 'i credential_args =
  ca_identity :: 'i
  ca_target :: string
  ca_config :: json

definition credential_issue :: "('s, string) guard \<Rightarrow> 'i credential_args serde \<Rightarrow> ('e, 'c) result serde \<Rightarrow> (string \<Rightarrow> 'e) \<Rightarrow>
    ('s, 'm, 'i, 'e, 'c) sync_credential \<Rightarrow> string \<Rightarrow> 's \<Rightarrow> string \<times> 's" where
  "credential_issue quiet ca cr backend p args_json =
     quiet (with_args ca args_json (\<lambda>_. text_or [] cr (Inl (backend ''malformed args json'')))
       (\<lambda>a. answer (text_or [] cr) (cr_issue p (ca_identity a) (ca_target a) (ca_config a))))"

definition credential_revoke :: "('s, string) guard \<Rightarrow> ('e, unit) responder \<Rightarrow> ('s, 'm, 'i, 'e, 'c) sync_credential \<Rightarrow>
    string \<Rightarrow> 's \<Rightarrow> string \<times> 's" where
  "credential_revoke quiet en p lease_id = quiet (answer (respond_result en) (cr_revoke p lease_id))"

definition SyncCredentialIssuerAdapter :: "('s, 'm, 'i, 'e, 'c) sync_credential \<Rightarrow> ('s, 'm, 'i, 'e, 'c) credential_issuer" where
  "SyncCredentialIssuerAdapter inner = \<lparr>ci_manifest = cr_manifest inner, ci_issue = cr_issue inner, ci_revoke = cr_revoke inner,
     ci_shutdown = cr_shutdown inner\<rparr>"

interpretation issue: wire_slot quiet ca "json_reply [] cr" "\<lambda>_. text_or [] cr (Inl (backend ''malformed args json''))"
  "\<lambda>a. cr_issue p (ca_identity a) (ca_target a) (ca_config a)" "credential_issue quiet ca cr backend p"
  by unfold_locales (simp add: credential_issue_def)

interpretation revoke: report_slot quiet "envelope_reply en" "cr_revoke p lease_id" "credential_revoke quiet en p lease_id"
  by unfold_locales (simp add: credential_revoke_def)

section \<open>Catalog providers\<close>

record ('s, 'm, 'ctx, 'd, 'e) sync_catalog =
  ct_manifest :: "('s, 'm) body"
  ct_filter_and_enrich :: "'ctx \<Rightarrow> 'd list \<Rightarrow> ('s, 'd list) body"
  ct_describe :: "string \<Rightarrow> ('s, 'e option) body"
  ct_list_catalog :: "('s, 'e list) body"
  ct_shutdown :: "('s, unit) body"

record ('s, 'm, 'ctx, 'd, 'e) catalog_provider =
  cp_manifest :: "('s, 'm) body"
  cp_filter_and_enrich :: "'ctx \<Rightarrow> 'd list \<Rightarrow> ('s, 'd list) body"
  cp_describe :: "string \<Rightarrow> ('s, 'e option) body"
  cp_list_catalog :: "('s, 'e list) body"
  cp_shutdown :: "('s, unit) body"

record ('ctx, 'd) catalog_args =
  cx_ctx :: 'ctx
  cx_in_progress :: "'d list"

definition catalog_filter_and_enrich :: "('s, string) guard \<Rightarrow> ('ctx, 'd) catalog_args serde \<Rightarrow> 'd list serde \<Rightarrow>
    ('s, 'm, 'ctx, 'd, 'e) sync_catalog \<Rightarrow> string \<Rightarrow> 's \<Rightarrow> string \<times> 's" where
  "catalog_filter_and_enrich quiet cx ds p args_json =
     quiet (with_args cx args_json (\<lambda>_. ''[]'')
       (\<lambda>a. answer (text_or ''[]'' ds) (ct_filter_and_enrich p (cx_ctx a) (cx_in_progress a))))"

definition catalog_describe :: "('s, string) guard \<Rightarrow> 'e option serde \<Rightarrow> ('s, 'm, 'ctx, 'd, 'e) sync_catalog \<Rightarrow>
    string \<Rightarrow> 's \<Rightarrow> string \<times> 's" where
  "catalog_describe quiet eo p tool_id = quiet (answer (text_or ''null'' eo) (ct_describe p tool_id))"

definition catalog_list_catalog :: "('s, string) guard \<Rightarrow> 'e list serde \<Rightarrow> ('s, 'm, 'ctx, 'd, 'e) sync_catalog \<Rightarrow>
    's \<Rightarrow> string \<times> 's" where
  "catalog_list_catalog quiet el p = quiet (answer (text_or ''[]'' el) (ct_list_catalog p))"

definition SyncCatalogProviderAdapter :: "('s, 'm, 'ctx, 'd, 'e) sync_catalog \<Rightarrow> ('s, 'm, 'ctx, 'd, 'e) catalog_provider" where
  "SyncCatalogProviderAdapter inner = \<lparr>cp_manifest = ct_manifest inner, cp_filter_and_enrich = ct_filter_and_enrich inner,
     cp_describe = ct_describe inner, cp_list_catalog = ct_list_catalog inner, cp_shutdown = ct_shutdown inner\<rparr>"

interpretation enrich: wire_slot quiet cx "json_reply ''[]'' ds" "\<lambda>_. ''[]''"
  "\<lambda>a. ct_filter_and_enrich p (cx_ctx a) (cx_in_progress a)" "catalog_filter_and_enrich quiet cx ds p"
  by unfold_locales (simp add: catalog_filter_and_enrich_def)

interpretation describe: report_slot quiet "json_reply ''null'' eo" "ct_describe p tool_id" "catalog_describe quiet eo p tool_id"
  by unfold_locales (simp add: catalog_describe_def)

interpretation entries: report_slot quiet "json_reply ''[]'' el" "ct_list_catalog p" "catalog_list_catalog quiet el p"
  by unfold_locales (simp add: catalog_list_catalog_def)

section \<open>The two builds agree\<close>

lemma bind_texts [simp]: "(\<And>x. m = Some x \<Longrightarrow> exact v x) \<Longrightarrow> Option.bind (map_option (text_or fallback v) m) (parse_opt v) = m"
  by (cases m) simp_all

lemmas typed_slot_defs = SyncToolGateAdapter_def SyncTransformAdapter_def SyncIdentityAdapter_def tool_gate_evaluate_pre_def
  tool_gate_evaluate_post_def transform_arguments_def transform_result_def identity_resolve_def

text \<open>C10. The kinds whose slots take and give typed values: when the static build's adapter answers a call,
  the slot of the dynamic build, given the same request as texts, returns that answer in its ABI form
  and leaves the plugin in the same state. Every argument, the optional metadata of a gate, the
  headers of a request and its metadata reach the plugin unchanged.\<close>

theorem typed_slots_agree:
  assumes "guard_law deny" "guard_law fail" "guard_law invalid"
    and "exact v args" "exact v cfg" "exact v res" "pred_option (exact v) meta" "exact v (headers_json hs)" "exact md m"
  shows "(tp_pre_dispatch (SyncToolGateAdapter g) (ctx_in ctx) args meta cfg s = (Some d, s') \<longrightarrow>
      tool_gate_evaluate_pre deny v ctx_in dec_out g ctx (text_or [] v args) (map_option (text_or [] v) meta)
        (text_or [] v cfg) s = (dec_out d, s')) \<and>
    (tp_post_dispatch (SyncToolGateAdapter g) (ctx_in ctx) args res ms cfg s = (Some d, s') \<longrightarrow>
      tool_gate_evaluate_post deny v ctx_in dec_out g ctx (text_or [] v args) (text_or [] v res) ms (text_or [] v cfg) s = (dec_out d, s')) \<and>
    (fp_transform_arguments (SyncTransformAdapter f) (ctx_in ctx) args cfg s = (Some r, s') \<longrightarrow>
      transform_arguments fail v ctx_in res_out f ctx (text_or [] v args) (text_or [] v cfg) s = (res_out r, s')) \<and>
    (fp_transform_result (SyncTransformAdapter f) (ctx_in ctx) res cfg s = (Some r, s') \<longrightarrow>
      transform_result fail v ctx_in res_out f ctx (text_or [] v res) (text_or [] v cfg) s = (res_out r, s')) \<and>
    (ip_resolve_identity (SyncIdentityAdapter p) hs m cfg s = (Some i, s') \<longrightarrow>
      identity_resolve invalid v md md_default id_out p (text_or [] v (headers_json hs)) (text_or [] md m) (text_or [] v cfg) s = (id_out i, s'))"
  using assms by (simp add: typed_slot_defs guard_answer parse_headers_roundtrip serde_text_nonempty pred_option_def)

text \<open>Plugins that count their calls, for the instances of the properties.\<close>

definition demo_gate :: "(nat, unit, string, bool) sync_tool_gate" where
  "demo_gate = \<lparr>tg_manifest = yields (), tg_evaluate_pre = (\<lambda>ctx args meta cfg s. (Some (args = JNull \<and> meta \<noteq> None), s + 1)),
     tg_evaluate_post = (\<lambda>ctx args res ms cfg s. (Some (res = args \<and> ms = 7), s + 1)), tg_shutdown = yields ()\<rparr>"

definition demo_transform :: "(nat, unit, string, json) sync_transform" where
  "demo_transform = \<lparr>tf_manifest = yields (), tf_transform_arguments = (\<lambda>ctx args cfg s. (Some cfg, s + 1)),
     tf_transform_result = (\<lambda>ctx res cfg s. (Some res, s + 1)), tf_shutdown = yields ()\<rparr>"

definition demo_identity :: "(nat, unit, string, string) sync_identity" where
  "demo_identity = \<lparr>id_manifest = yields (), id_resolve_identity = (\<lambda>hs m cfg s. (map_of hs ''x-user'', s + 1)), id_shutdown = yields ()\<rparr>"

definition demo_values :: "json serde" where
  "demo_values = table_serde [(''null'', JNull), (''{}'', JObj []), (''h'', headers_json [(''x-user'', ''ann'')])]"

definition demo_md :: "string serde" where
  "demo_md = table_serde [(''m'', ''meta'')]"

lemma demo_exact: "exact demo_values JNull" "exact demo_values (JObj [])" "exact demo_values (headers_json [(''x-user'', ''ann'')])"
    "exact demo_md ''meta''"
  by (simp_all add: exact_def demo_values_def demo_md_def table_serde_def headers_json_def)

lemma demo_texts: "text_or [] demo_values JNull = ''null''" "text_or [] demo_values (JObj []) = ''{}''"
    "text_or [] demo_values (headers_json [(''x-user'', ''ann'')]) = ''h''" "text_or [] demo_md ''meta'' = ''m''"
  by (simp_all add: text_or_def demo_values_def demo_md_def table_serde_def headers_json_def)

theorem typed_slots_agree_witness:
  "tool_gate_evaluate_pre (catch_unwind ''deny'') demo_values id (\<lambda>d. if d then ''allow'' else ''deny'') demo_gate ''ctx''
      ''null'' (Some ''{}'') ''{}'' 4 = (''allow'', 5) \<and>
   tool_gate_evaluate_post (catch_unwind ''deny'') demo_values id (\<lambda>d. if d then ''allow'' else ''deny'') demo_gate ''ctx''
      ''null'' ''null'' 7 ''{}'' 4 = (''allow'', 5) \<and>
   transform_arguments (catch_unwind JNull) demo_values id id demo_transform ''ctx'' ''null'' ''{}'' 4 = (JObj [], 5) \<and>
   identity_resolve (catch_unwind []) demo_values demo_md ''none'' id demo_identity ''h'' ''m'' ''{}'' 4 = (''ann'', 5)"
  using typed_slots_agree [where deny = "catch_unwind ''deny''" and fail = "catch_unwind JNull" and invalid = "catch_unwind []"
      and v = demo_values and md = demo_md and g = demo_gate and f = demo_transform and p = demo_identity and args = JNull and res = JNull
      and cfg = "JObj []" and meta = "Some (JObj [])" and hs = "[(''x-user'', ''ann'')]" and m = "''meta''" and ms = 7 and s = 4 and s' = 5
      and ctx_in = id and ctx = "''ctx''" and d = True and r = "JObj []" and i = "''ann''" and md_default = "''none''"
      and dec_out = "\<lambda>d. if d then ''allow'' else ''deny''" and res_out = id and id_out = id]
  by (simp add: demo_exact demo_texts, simp add: SyncToolGateAdapter_def SyncTransformAdapter_def SyncIdentityAdapter_def
      demo_gate_def demo_transform_def demo_identity_def)

text \<open>C5. The kinds that decide on a request fail closed: a request that does not parse never reaches the plugin.
  A policy engine's host then reads a denial, a notifier's host an internal error, a credential issuer's host a
  backend error and a catalog's host an empty catalog. What a tool gate, a transform or an identity resolver
  cannot parse reaches it as null, as the empty object, as no headers or as the default metadata.\<close>

theorem malformed_requests_fail_closed:
  assumes "guard_law quiet" "exact pd (deny ''malformed policy input'' '''')"
    and "exact nr (Inl (internal ''malformed notification request json''))" "exact cr (Inl (backend ''malformed args json''))"
    and "sd_from ds ''[]'' = Inr []" "sd_from v bad = Inl e"
    and "sd_from pa t = Inl e" "sd_from nq t = Inl e" "sd_from ca t = Inl e" "sd_from cx t = Inl e"
  shows "(\<exists>u. policy_evaluate quiet pa pd deny p t s = (u, s) \<and> sd_from pd u = Inr (deny ''malformed policy input'' '''')) \<and>
    (\<exists>u. appr_notify quiet nq nr internal n t s = (u, s) \<and> sd_from nr u = Inr (Inl (internal ''malformed notification request json''))) \<and>
    (\<exists>u. credential_issue quiet ca cr backend c t s = (u, s) \<and> sd_from cr u = Inr (Inl (backend ''malformed args json''))) \<and>
    (\<exists>u. catalog_filter_and_enrich quiet cx ds k t s = (u, s) \<and> sd_from ds u = Inr []) \<and>
    tool_gate_evaluate_pre dg v ctx_in dec_out g ctx bad (Some bad) bad s =
      dg (answer dec_out (tg_evaluate_pre g (ctx_in ctx) JNull None (JObj []))) s \<and>
    identity_resolve ig v md md_default id_out i bad [] bad s =
      ig (answer id_out (id_resolve_identity i [] md_default (JObj []))) s"
proof (intro conjI)
  show "\<exists>u. policy_evaluate quiet pa pd deny p t s = (u, s) \<and> sd_from pd u = Inr (deny ''malformed policy input'' '''')"
    using pol_eval.run_malformed [OF assms(1,7)] serde_text [OF assms(2)] by blast
  show "\<exists>u. appr_notify quiet nq nr internal n t s = (u, s) \<and> sd_from nr u = Inr (Inl (internal ''malformed notification request json''))"
    using appr.run_malformed [OF assms(1,8)] serde_text [OF assms(3)] by blast
  show "\<exists>u. credential_issue quiet ca cr backend c t s = (u, s) \<and> sd_from cr u = Inr (Inl (backend ''malformed args json''))"
    using issue.run_malformed [OF assms(1,9)] serde_text [OF assms(4)] by blast
  show "\<exists>u. catalog_filter_and_enrich quiet cx ds k t s = (u, s) \<and> sd_from ds u = Inr []"
    using enrich.run_malformed [OF assms(1,10)] assms(5) by blast
qed (use assms(6) in \<open>simp_all add: typed_slot_defs parse_or_def parse_opt_def parse_headers_def map_filter_simps\<close>)

text \<open>Engines that must not be asked.\<close>

definition demo_policy :: "(nat, unit, string, bool \<times> string, unit) sync_policy" where
  "demo_policy = \<lparr>po_manifest = yields (), po_name = yields ''p'', po_evaluate = (\<lambda>d i c s. (Some (True, d), s + 1)),
     po_policy_version = yields (), po_shutdown = yields ()\<rparr>"

definition demo_approval :: "(nat, unit, string, string, string) sync_approval" where
  "demo_approval = \<lparr>ap_manifest = yields (), ap_notify = (\<lambda>q s. (Some (Inr q), s + 1)), ap_shutdown = yields ()\<rparr>"

definition demo_credential :: "(nat, unit, string, string, string) sync_credential" where
  "demo_credential = \<lparr>cr_manifest = yields (), cr_issue = (\<lambda>i t c s. (Some (Inr (i @ t)), s + 1)),
     cr_revoke = (\<lambda>l s. (Some (Inr ()), s + 1)), cr_shutdown = yields ()\<rparr>"

definition demo_catalog :: "(nat, unit, string, string, string) sync_catalog" where
  "demo_catalog = \<lparr>ct_manifest = yields (), ct_filter_and_enrich = (\<lambda>c ds s. (Some (rev ds), s + 1)),
     ct_describe = (\<lambda>t. yields (Some t)), ct_list_catalog = yields [''a''], ct_shutdown = yields ()\<rparr>"

definition demo_replies :: "(string, string) result serde" where
  "demo_replies = table_serde [(''1'', Inl ''malformed notification request json''), (''2'', Inl ''malformed args json''), (''3'', Inr ''anndb'')]"

definition demo_decisions :: "(bool \<times> string) serde" where
  "demo_decisions = table_serde [(''no'', (False, ''malformed policy input'')), (''yes'', (True, ''call''))]"

definition demo_catalogs :: "string list serde" where
  "demo_catalogs = table_serde [(''[]'', []), (''[b,a]'', [''b'', ''a''])]"

theorem malformed_requests_fail_closed_witness:
  "(\<exists>u. policy_evaluate (catch_unwind []) (table_serde []) demo_decisions (\<lambda>r _. (False, r)) demo_policy ''?'' 4 = (u, 4) \<and>
      sd_from demo_decisions u = Inr (False, ''malformed policy input'')) \<and>
   (\<exists>u. catalog_filter_and_enrich (catch_unwind []) (table_serde []) demo_catalogs demo_catalog ''?'' 4 = (u, 4) \<and>
      sd_from demo_catalogs u = Inr [])"
proof -
  have "exact demo_decisions (False, ''malformed policy input'')" "exact demo_replies (Inl ''malformed notification request json'')"
      "exact demo_replies (Inl ''malformed args json'')" "sd_from demo_catalogs ''[]'' = Inr []"
    by (simp_all add: exact_def demo_decisions_def demo_replies_def demo_catalogs_def table_serde_def)
  then show ?thesis
    using malformed_requests_fail_closed [where quiet = "catch_unwind []" and pd = demo_decisions and deny = "\<lambda>r _. (False, r)"
        and nr = demo_replies and internal = "\<lambda>r. r" and cr = demo_replies and backend = "\<lambda>r. r" and ds = demo_catalogs and v = "table_serde []"
        and bad = "''?''" and t = "''?''" and e = "''unexpected text''" and pa = "table_serde []" and nq = "table_serde []"
        and ca = "table_serde []" and cx = "table_serde []" and p = demo_policy and n = demo_approval and c = demo_credential
        and k = demo_catalog and g = demo_gate and i = demo_identity and s = 4 and dg = "catch_unwind False" and ctx_in = id
        and dec_out = id and ctx = "''c''" and ig = "catch_unwind []" and md = demo_md and md_default = "''m''" and id_out = id]
    by simp
qed

text \<open>The kinds whose slots take one text of arguments: the host of the dynamic build reads from each slot
  what the static build's adapter answers, and the plugin is left in the same state.\<close>

theorem decision_slots_serve:
  assumes "guard_law quiet"
  shows "serves (policy_evaluate quiet pa pd deny p) pa (json_reply [] pd)
      (\<lambda>a. pe_evaluate (SyncPolicyEngineAdapter p) (pa_decision_point a) (pa_input a) (pa_context a)) \<and>
    reports (policy_version quiet pv p) (json_reply [] pv) (pe_policy_version (SyncPolicyEngineAdapter p)) \<and>
    serves (appr_notify quiet nq nr internal n) nq (json_reply [] nr) (an_notify (SyncApprovalNotifierAdapter n)) \<and>
    serves (credential_issue quiet ca cr backend c) ca (json_reply [] cr)
      (\<lambda>a. ci_issue (SyncCredentialIssuerAdapter c) (ca_identity a) (ca_target a) (ca_config a)) \<and>
    reports (credential_revoke quiet en c lease) (envelope_reply en) (ci_revoke (SyncCredentialIssuerAdapter c) lease) \<and>
    serves (catalog_filter_and_enrich quiet cx ds k) cx (json_reply ''[]'' ds)
      (\<lambda>a. cp_filter_and_enrich (SyncCatalogProviderAdapter k) (cx_ctx a) (cx_in_progress a)) \<and>
    reports (catalog_describe quiet eo k tool) (json_reply ''null'' eo) (cp_describe (SyncCatalogProviderAdapter k) tool) \<and>
    reports (catalog_list_catalog quiet el k) (json_reply ''[]'' el) (cp_list_catalog (SyncCatalogProviderAdapter k))"
  using assms
  by (simp add: SyncPolicyEngineAdapter_def SyncApprovalNotifierAdapter_def SyncCredentialIssuerAdapter_def SyncCatalogProviderAdapter_def
      pol_eval.run_serves pol_version.run_reports appr.run_serves issue.run_serves revoke.run_reports enrich.run_serves
      describe.run_reports entries.run_reports)

definition demo_policy_args :: "string policy_args serde" where
  "demo_policy_args = table_serde [(''a'', \<lparr>pa_decision_point = ''call'', pa_input = JNull, pa_context = []\<rparr>)]"

theorem decision_slots_serve_witness:
  "\<exists>t u. policy_evaluate (catch_unwind []) demo_policy_args demo_decisions (\<lambda>r _. (False, r)) demo_policy t 4 = (u, 5) \<and>
     sd_from demo_decisions u = Inr (True, ''call'')"
proof -
  let ?a = "\<lparr>pa_decision_point = ''call'', pa_input = JNull, pa_context = []\<rparr>"
  have "exact demo_policy_args ?a" "legible (json_reply [] demo_decisions) (True, ''call'')"
    by (simp_all add: exact_def legible_def json_reply_def text_or_def demo_policy_args_def demo_decisions_def table_serde_def)
  moreover have "pe_evaluate (SyncPolicyEngineAdapter demo_policy) ''call'' JNull [] 4 = (Some (True, ''call''), 5)"
    by (simp add: SyncPolicyEngineAdapter_def demo_policy_def)
  moreover have "serves (policy_evaluate (catch_unwind []) demo_policy_args demo_decisions (\<lambda>r _. (False, r)) demo_policy) demo_policy_args
      (json_reply [] demo_decisions)
      (\<lambda>a. pe_evaluate (SyncPolicyEngineAdapter demo_policy) (pa_decision_point a) (pa_input a) (pa_context a))"
    by (rule conjunct1 [OF decision_slots_serve [OF catch_unwind_law]])
  ultimately show ?thesis
    using servesD [where a = ?a and s = 4 and s' = 5] by (fastforce simp: json_reply_def)
qed

end
