(* ===== verification/Data_Slots.thy ===== *)
theory Data_Slots
  imports Slot_Shims Json_Value
begin

text \<open>
  The kinds of plugin that keep or provide data: stores, caches, secret providers, config providers and
  content stores. As in \<open>Gate_Slots\<close>, a kind is its author's trait (\<^verbatim>\<open>src/src/ffi.rs\<close>), the slots of the
  dynamic build (\<^verbatim>\<open>src/src/macros.rs\<close>) and the adapter of the static build (\<^verbatim>\<open>src/src/adapters.rs\<close>).
  The structs of arguments the slots declare are records and their codecs parameters, as are the
  conversions between the protocol's wire types and the host's own.
\<close>

definition invalid_args :: "string \<Rightarrow> string" where
  "invalid_args e = ''invalid args: '' @ e"

section \<open>Stores\<close>

record append_result =
  ar_sequence :: "64 word"

record ('s, 'm, 'role, 'w, 'pg, 'e) sync_store =
  st_manifest :: "('s, 'm) body"
  st_supported_roles :: "('s, 'role list) body"
  st_get :: "'role \<Rightarrow> string \<Rightarrow> ('s, ('e, 'w option) result) body"
  st_put :: "'role \<Rightarrow> string \<Rightarrow> 'w \<Rightarrow> ('s, ('e, unit) result) body"
  st_delete :: "'role \<Rightarrow> string \<Rightarrow> ('s, ('e, unit) result) body"
  st_list :: "'role \<Rightarrow> string \<Rightarrow> string option \<Rightarrow> ('s, ('e, 'pg) result) body"
  st_compare_and_swap :: "'role \<Rightarrow> string \<Rightarrow> 'w option \<Rightarrow> 'w \<Rightarrow> ('s, ('e, bool) result) body"
  st_append :: "'role \<Rightarrow> string \<Rightarrow> 'w \<Rightarrow> ('s, ('e, append_result) result) body"
  st_watch :: "'role \<Rightarrow> string \<Rightarrow> (string \<Rightarrow> nat \<times> string) \<Rightarrow> ('s, ('e, nat) result) body"
  st_cancel_watch :: "nat \<Rightarrow> ('s, unit) body"
  st_shutdown :: "('s, unit) body"

text \<open>The methods an author may leave out.\<close>

definition store_default_append :: "('s, 'm, 'role, 'w, 'pg, 'e) sync_store \<Rightarrow> 'role \<Rightarrow> string \<Rightarrow> 'w \<Rightarrow> ('s, ('e, append_result) result) body" where
  "store_default_append p role key val =
     answer (\<lambda>r. case r of Inl e \<Rightarrow> Inl e | Inr _ \<Rightarrow> Inr \<lparr>ar_sequence = 0\<rparr>) (st_put p role key val)"

definition store_default_watch :: "(string \<Rightarrow> 'e) \<Rightarrow> 'role \<Rightarrow> string \<Rightarrow> (string \<Rightarrow> nat \<times> string) \<Rightarrow> ('s, ('e, nat) result) body" where
  "store_default_watch unsupported role key emit = yields (Inl (unsupported ''watch''))"

definition store_default_cancel_watch :: "nat \<Rightarrow> ('s, unit) body" where
  "store_default_cancel_watch h = yields ()"

record 'role store_key =
  sk_role :: 'role
  sk_key :: string

record ('role, 'w) store_entry =
  sn_role :: 'role
  sn_key :: string
  sn_value :: 'w

record 'role store_range =
  sg_role :: 'role
  sg_prefix :: string
  sg_cursor :: "string option"

record ('role, 'w) store_swap =
  sw_role :: 'role
  sw_key :: string
  sw_expected :: "'w option"
  sw_new :: 'w

definition store_supported_roles :: "('s, string) guard \<Rightarrow> 'role list serde \<Rightarrow> ('s, 'm, 'role, 'w, 'pg, 'e) sync_store \<Rightarrow> 's \<Rightarrow> string \<times> 's" where
  "store_supported_roles quiet rs p = quiet (answer (text_or ''[]'' rs) (st_supported_roles p))"

definition store_get :: "('s, string) guard \<Rightarrow> 'role store_key serde \<Rightarrow> ('e, 'w option) responder \<Rightarrow> (string \<Rightarrow> 'e) \<Rightarrow>
    ('s, 'm, 'role, 'w, 'pg, 'e) sync_store \<Rightarrow> string \<Rightarrow> 's \<Rightarrow> string \<times> 's" where
  "store_get quiet sk en backend p args_json =
     quiet (with_args sk args_json (\<lambda>e. respond_err en (backend (invalid_args e)))
       (\<lambda>a. answer (respond_match en) (st_get p (sk_role a) (sk_key a))))"

definition store_put :: "('s, string) guard \<Rightarrow> ('role, 'w) store_entry serde \<Rightarrow> ('e, unit) responder \<Rightarrow> (string \<Rightarrow> 'e) \<Rightarrow>
    ('s, 'm, 'role, 'w, 'pg, 'e) sync_store \<Rightarrow> string \<Rightarrow> 's \<Rightarrow> string \<times> 's" where
  "store_put quiet sn en backend p args_json =
     quiet (with_args sn args_json (\<lambda>e. respond_err en (backend (invalid_args e)))
       (\<lambda>a. answer (respond_result en) (st_put p (sn_role a) (sn_key a) (sn_value a))))"

definition store_delete :: "('s, string) guard \<Rightarrow> 'role store_key serde \<Rightarrow> ('e, unit) responder \<Rightarrow> (string \<Rightarrow> 'e) \<Rightarrow>
    ('s, 'm, 'role, 'w, 'pg, 'e) sync_store \<Rightarrow> string \<Rightarrow> 's \<Rightarrow> string \<times> 's" where
  "store_delete quiet sk en backend p args_json =
     quiet (with_args sk args_json (\<lambda>e. respond_err en (backend (invalid_args e)))
       (\<lambda>a. answer (respond_result en) (st_delete p (sk_role a) (sk_key a))))"

definition store_list :: "('s, string) guard \<Rightarrow> 'role store_range serde \<Rightarrow> ('e, 'pg) responder \<Rightarrow> (string \<Rightarrow> 'e) \<Rightarrow>
    ('s, 'm, 'role, 'w, 'pg, 'e) sync_store \<Rightarrow> string \<Rightarrow> 's \<Rightarrow> string \<times> 's" where
  "store_list quiet sg en backend p args_json =
     quiet (with_args sg args_json (\<lambda>e. respond_err en (backend (invalid_args e)))
       (\<lambda>a. answer (respond_match en) (st_list p (sg_role a) (sg_prefix a) (sg_cursor a))))"

definition store_cas :: "('s, string) guard \<Rightarrow> ('role, 'w) store_swap serde \<Rightarrow> ('e, bool) responder \<Rightarrow> (string \<Rightarrow> 'e) \<Rightarrow>
    ('s, 'm, 'role, 'w, 'pg, 'e) sync_store \<Rightarrow> string \<Rightarrow> 's \<Rightarrow> string \<times> 's" where
  "store_cas quiet sw en backend p args_json =
     quiet (with_args sw args_json (\<lambda>e. respond_err en (backend (invalid_args e)))
       (\<lambda>a. answer (respond_match en) (st_compare_and_swap p (sw_role a) (sw_key a) (sw_expected a) (sw_new a))))"

definition store_append :: "('s, string) guard \<Rightarrow> ('role, 'w) store_entry serde \<Rightarrow> ('e, append_result) responder \<Rightarrow> (string \<Rightarrow> 'e) \<Rightarrow>
    ('s, 'm, 'role, 'w, 'pg, 'e) sync_store \<Rightarrow> string \<Rightarrow> 's \<Rightarrow> string \<times> 's" where
  "store_append quiet sn en backend p args_json =
     quiet (with_args sn args_json (\<lambda>e. respond_err en (backend (invalid_args e)))
       (\<lambda>a. answer (respond_match en) (st_append p (sn_role a) (sn_key a) (sn_value a))))"

definition store_watch_body :: "'role store_key serde \<Rightarrow> (string \<Rightarrow> 'e) \<Rightarrow> ('s, 'm, 'role, 'w, 'pg, 'e) sync_store \<Rightarrow>
    string \<Rightarrow> nat \<Rightarrow> ('s, ('e, nat) result) body" where
  "store_watch_body sk backend p args_json ctx =
     with_args sk args_json (\<lambda>e. Inl (backend (''invalid watch args: '' @ e)))
       (\<lambda>a. st_watch p (sk_role a) (sk_key a) (sink_emit ctx))"

definition store_watch :: "'role store_key serde \<Rightarrow> 'e serde \<Rightarrow> (string \<Rightarrow> 'e) \<Rightarrow> ('s, 'm, 'role, 'w, 'pg, 'e) sync_store \<Rightarrow>
    string \<Rightarrow> nat \<Rightarrow> 's \<Rightarrow> ffi_stream \<times> 's" where
  "store_watch sk es backend p args_json ctx =
     catch_unwind (stream_failed (text_or [] es (backend ''plugin panicked during watch'')))
       (answer (stream_of_result es) (store_watch_body sk backend p args_json ctx))"

definition store_cancel_watch :: "('s, unit) guard \<Rightarrow> ('s, 'm, 'role, 'w, 'pg, 'e) sync_store \<Rightarrow> nat \<Rightarrow> 's \<Rightarrow> unit \<times> 's" where
  "store_cancel_watch silent p h = silent (st_cancel_watch p h)"

text \<open>The host's trait and the adapter: values and pages are converted, \<^verbatim>\<open>watch\<close> is refused.\<close>

record ('s, 'm, 'role, 'v, 'pg, 'e) store_trait =
  ht_manifest :: "('s, 'm) body"
  ht_supported_roles :: "('s, 'role list) body"
  ht_get :: "'role \<Rightarrow> string \<Rightarrow> ('s, ('e, 'v option) result) body"
  ht_put :: "'role \<Rightarrow> string \<Rightarrow> 'v \<Rightarrow> ('s, ('e, unit) result) body"
  ht_delete :: "'role \<Rightarrow> string \<Rightarrow> ('s, ('e, unit) result) body"
  ht_list :: "'role \<Rightarrow> string \<Rightarrow> string option \<Rightarrow> ('s, ('e, 'pg) result) body"
  ht_compare_and_swap :: "'role \<Rightarrow> string \<Rightarrow> 'v option \<Rightarrow> 'v \<Rightarrow> ('s, ('e, bool) result) body"
  ht_append :: "'role \<Rightarrow> string \<Rightarrow> 'v \<Rightarrow> ('s, ('e, append_result) result) body"
  ht_watch :: "'role \<Rightarrow> string \<Rightarrow> ('s, ('e, unit) result) body"
  ht_shutdown :: "('s, unit) body"

definition SyncStorePluginAdapter :: "(string \<Rightarrow> 'e) \<Rightarrow> ('w \<Rightarrow> 'v) \<Rightarrow> ('v \<Rightarrow> 'w) \<Rightarrow> ('pw \<Rightarrow> 'pg) \<Rightarrow>
    ('s, 'm, 'role, 'w, 'pw, 'e) sync_store \<Rightarrow> ('s, 'm, 'role, 'v, 'pg, 'e) store_trait" where
  "SyncStorePluginAdapter unsupported val_from val_into page_from inner =
     \<lparr>ht_manifest = st_manifest inner, ht_supported_roles = st_supported_roles inner,
      ht_get = (\<lambda>role key. answer (map_sum id (map_option val_from)) (st_get inner role key)),
      ht_put = (\<lambda>role key v. st_put inner role key (val_into v)),
      ht_delete = st_delete inner,
      ht_list = (\<lambda>role prefix cursor. answer (map_sum id page_from) (st_list inner role prefix cursor)),
      ht_compare_and_swap = (\<lambda>role key expected new. st_compare_and_swap inner role key (map_option val_into expected) (val_into new)),
      ht_append = (\<lambda>role key v. st_append inner role key (val_into v)),
      ht_watch = (\<lambda>role key. yields (Inl (unsupported ''watch''))),
      ht_shutdown = st_shutdown inner\<rparr>"

interpretation s_roles: report_slot quiet "json_reply ''[]'' rs" "st_supported_roles p" "store_supported_roles quiet rs p"
  by unfold_locales (simp add: store_supported_roles_def)

interpretation s_get: wire_slot quiet sk "match_reply en" "\<lambda>e. respond_err en (backend (invalid_args e))"
  "\<lambda>a. st_get p (sk_role a) (sk_key a)" "store_get quiet sk en backend p"
  by unfold_locales (simp add: store_get_def)

interpretation s_put: wire_slot quiet sn "envelope_reply en" "\<lambda>e. respond_err en (backend (invalid_args e))"
  "\<lambda>a. st_put p (sn_role a) (sn_key a) (sn_value a)" "store_put quiet sn en backend p"
  by unfold_locales (simp add: store_put_def)

interpretation s_delete: wire_slot quiet sk "envelope_reply en" "\<lambda>e. respond_err en (backend (invalid_args e))"
  "\<lambda>a. st_delete p (sk_role a) (sk_key a)" "store_delete quiet sk en backend p"
  by unfold_locales (simp add: store_delete_def)

interpretation s_list: wire_slot quiet sg "match_reply en" "\<lambda>e. respond_err en (backend (invalid_args e))"
  "\<lambda>a. st_list p (sg_role a) (sg_prefix a) (sg_cursor a)" "store_list quiet sg en backend p"
  by unfold_locales (simp add: store_list_def)

interpretation s_cas: wire_slot quiet sw "match_reply en" "\<lambda>e. respond_err en (backend (invalid_args e))"
  "\<lambda>a. st_compare_and_swap p (sw_role a) (sw_key a) (sw_expected a) (sw_new a)" "store_cas quiet sw en backend p"
  by unfold_locales (simp add: store_cas_def)

interpretation s_append: wire_slot quiet sn "match_reply en" "\<lambda>e. respond_err en (backend (invalid_args e))"
  "\<lambda>a. st_append p (sn_role a) (sn_key a) (sn_value a)" "store_append quiet sn en backend p"
  by unfold_locales (simp add: store_append_def)

interpretation s_watch: stream_slot es "backend ''plugin panicked during watch''" "store_watch_body sk backend p t ctx"
  "store_watch sk es backend p t ctx"
  by unfold_locales (simp add: store_watch_def)

section \<open>Caches\<close>

type_synonym bytes = "8 word list"

record ('s, 'm, 'e) sync_cache =
  ch_manifest :: "('s, 'm) body"
  ch_supported_namespaces :: "('s, string list) body"
  ch_serves_any_namespace :: "('s, bool) body"
  ch_get :: "string \<Rightarrow> string \<Rightarrow> ('s, bytes option) body"
  ch_put :: "string \<Rightarrow> string \<Rightarrow> bytes \<Rightarrow> 64 word \<Rightarrow> ('s, ('e, unit) result) body"
  ch_delete :: "string \<Rightarrow> string \<Rightarrow> ('s, unit) body"
  ch_clear :: "string \<Rightarrow> ('s, ('e, unit) result) body"
  ch_incr :: "string \<Rightarrow> string \<Rightarrow> 64 word \<Rightarrow> 64 word \<Rightarrow> ('s, ('e, 64 word) result) body"
  ch_shutdown :: "('s, unit) body"

definition cache_default_serves_any :: "('s, bool) body" where
  "cache_default_serves_any = yields False"

record cache_key =
  ck_ns :: string
  ck_key :: string

record cache_entry =
  cn_ns :: string
  cn_key :: string
  cn_value :: bytes
  cn_ttl_ms :: "64 word"

record cache_count =
  cu_ns :: string
  cu_key :: string
  cu_by :: "64 word"
  cu_ttl_ms :: "64 word"

definition cache_supported_namespaces :: "('s, string) guard \<Rightarrow> string list serde \<Rightarrow> ('s, 'm, 'e) sync_cache \<Rightarrow> 's \<Rightarrow> string \<times> 's" where
  "cache_supported_namespaces quiet ns p = quiet (answer (text_or ''[]'' ns) (ch_supported_namespaces p))"

definition cache_serves_any :: "('s, 'm, 'e) sync_cache \<Rightarrow> 's \<Rightarrow> 8 word \<times> 's" where
  "cache_serves_any p = catch_unwind 0 (answer (\<lambda>b. if b then 1 else 0) (ch_serves_any_namespace p))"

definition cache_slot_get :: "('s, string) guard \<Rightarrow> cache_key serde \<Rightarrow> bytes option serde \<Rightarrow> ('s, 'm, 'e) sync_cache \<Rightarrow> string \<Rightarrow> 's \<Rightarrow> string \<times> 's" where
  "cache_slot_get quiet ck bo p args_json =
     quiet (with_args ck args_json (\<lambda>_. ''null'') (\<lambda>a. answer (text_or ''null'' bo) (ch_get p (ck_ns a) (ck_key a))))"

definition cache_slot_put :: "('s, string) guard \<Rightarrow> cache_entry serde \<Rightarrow> ('e, unit) responder \<Rightarrow> (string \<Rightarrow> 'e) \<Rightarrow>
    ('s, 'm, 'e) sync_cache \<Rightarrow> string \<Rightarrow> 's \<Rightarrow> string \<times> 's" where
  "cache_slot_put quiet cn en backend p args_json =
     quiet (with_args cn args_json (\<lambda>e. respond_err en (backend (invalid_args e)))
       (\<lambda>a. answer (respond_result en) (ch_put p (cn_ns a) (cn_key a) (cn_value a) (cn_ttl_ms a))))"

definition cache_delete :: "('s, unit) guard \<Rightarrow> cache_key serde \<Rightarrow> ('s, 'm, 'e) sync_cache \<Rightarrow> string \<Rightarrow> 's \<Rightarrow> unit \<times> 's" where
  "cache_delete silent ck p args_json =
     silent (with_args ck args_json (\<lambda>_. ()) (\<lambda>a. ch_delete p (ck_ns a) (ck_key a)))"

definition cache_clear :: "('s, string) guard \<Rightarrow> string serde \<Rightarrow> ('e, unit) responder \<Rightarrow> (string \<Rightarrow> 'e) \<Rightarrow>
    ('s, 'm, 'e) sync_cache \<Rightarrow> string \<Rightarrow> 's \<Rightarrow> string \<times> 's" where
  "cache_clear quiet cl en backend p args_json =
     quiet (with_args cl args_json (\<lambda>e. respond_err en (backend (invalid_args e)))
       (\<lambda>ns. answer (respond_result en) (ch_clear p ns)))"

text \<open>Malformed arguments of \<^verbatim>\<open>incr\<close> are answered by an object that the slot builds itself.\<close>

definition cache_incr :: "('s, string) guard \<Rightarrow> cache_count serde \<Rightarrow> ('e, 64 word) responder \<Rightarrow> json serde \<Rightarrow> ('e \<Rightarrow> json) \<Rightarrow> (string \<Rightarrow> 'e) \<Rightarrow>
    ('s, 'm, 'e) sync_cache \<Rightarrow> string \<Rightarrow> 's \<Rightarrow> string \<times> 's" where
  "cache_incr quiet cu en v err_value backend p args_json =
     quiet (with_args cu args_json (\<lambda>e. text_or [] v (jobj [(''err'', err_value (backend (invalid_args e)))]))
       (\<lambda>a. answer (respond_result en) (ch_incr p (cu_ns a) (cu_key a) (cu_by a) (cu_ttl_ms a))))"

record ('s, 'm, 'e) cache_trait =
  hc_manifest :: "('s, 'm) body"
  hc_supported_namespaces :: "('s, string list) body"
  hc_serves_any_namespace :: "('s, bool) body"
  hc_get :: "string \<Rightarrow> string \<Rightarrow> ('s, bytes option) body"
  hc_put :: "string \<Rightarrow> string \<Rightarrow> bytes \<Rightarrow> duration \<Rightarrow> ('s, ('e, unit) result) body"
  hc_delete :: "string \<Rightarrow> string \<Rightarrow> ('s, unit) body"
  hc_clear :: "string \<Rightarrow> ('s, ('e, unit) result) body"
  hc_incr :: "string \<Rightarrow> string \<Rightarrow> 64 word \<Rightarrow> duration \<Rightarrow> ('s, ('e, 64 word) result) body"
  hc_shutdown :: "('s, unit) body"

text \<open>\<^verbatim>\<open>ttl.as_millis() as u64\<close>: whole milliseconds, cut to 64 bits.\<close>

definition as_millis_u64 :: "duration \<Rightarrow> 64 word" where
  "as_millis_u64 ttl = of_nat (ttl div 1000000)"

definition SyncCachePluginAdapter :: "('s, 'm, 'e) sync_cache \<Rightarrow> ('s, 'm, 'e) cache_trait" where
  "SyncCachePluginAdapter inner =
     \<lparr>hc_manifest = ch_manifest inner, hc_supported_namespaces = ch_supported_namespaces inner,
      hc_serves_any_namespace = ch_serves_any_namespace inner, hc_get = ch_get inner,
      hc_put = (\<lambda>ns key val ttl. ch_put inner ns key val (as_millis_u64 ttl)),
      hc_delete = ch_delete inner, hc_clear = ch_clear inner,
      hc_incr = (\<lambda>ns key n ttl. ch_incr inner ns key n (as_millis_u64 ttl)), hc_shutdown = ch_shutdown inner\<rparr>"

interpretation c_spaces: report_slot quiet "json_reply ''[]'' ns" "ch_supported_namespaces p" "cache_supported_namespaces quiet ns p"
  by unfold_locales (simp add: cache_supported_namespaces_def)

interpretation c_get: wire_slot quiet ck "json_reply ''null'' bo" "\<lambda>_. ''null''" "\<lambda>a. ch_get p (ck_ns a) (ck_key a)" "cache_slot_get quiet ck bo p"
  by unfold_locales (simp add: cache_slot_get_def)

interpretation c_put: wire_slot quiet cn "envelope_reply en" "\<lambda>e. respond_err en (backend (invalid_args e))"
  "\<lambda>a. ch_put p (cn_ns a) (cn_key a) (cn_value a) (cn_ttl_ms a)" "cache_slot_put quiet cn en backend p"
  by unfold_locales (simp add: cache_slot_put_def)

interpretation c_clear: wire_slot quiet cl "envelope_reply en" "\<lambda>e. respond_err en (backend (invalid_args e))" "ch_clear p" "cache_clear quiet cl en backend p"
  by unfold_locales (simp add: cache_clear_def)

interpretation c_incr: wire_slot quiet cu "envelope_reply en" "\<lambda>e. text_or [] v (jobj [(''err'', err_value (backend (invalid_args e)))])"
  "\<lambda>a. ch_incr p (cu_ns a) (cu_key a) (cu_by a) (cu_ttl_ms a)" "cache_incr quiet cu en v err_value backend p"
  by unfold_locales (simp add: cache_incr_def)

interpretation c_delete: drop_slot silent ck "\<lambda>a. ch_delete p (ck_ns a) (ck_key a)" "cache_delete silent ck p"
  by unfold_locales (simp add: cache_delete_def)

section \<open>Secret and config providers\<close>

record ('s, 'm, 'w, 'e) sync_secret =
  sp_manifest :: "('s, 'm) body"
  sp_supported_schemes :: "('s, string list) body"
  sp_get :: "string \<Rightarrow> ('s, ('e, 'w) result) body"
  sp_watch :: "string \<Rightarrow> (string \<Rightarrow> nat \<times> string) \<Rightarrow> ('s, ('e, nat) result) body"
  sp_cancel_watch :: "nat \<Rightarrow> ('s, unit) body"
  sp_shutdown :: "('s, unit) body"

definition secret_default_watch :: "(string \<Rightarrow> 'e) \<Rightarrow> string \<Rightarrow> (string \<Rightarrow> nat \<times> string) \<Rightarrow> ('s, ('e, nat) result) body" where
  "secret_default_watch unsupported_scheme r emit = yields (Inl (unsupported_scheme ''watch''))"

definition secret_supported :: "('s, string) guard \<Rightarrow> string list serde \<Rightarrow> ('s, 'm, 'w, 'e) sync_secret \<Rightarrow> 's \<Rightarrow> string \<times> 's" where
  "secret_supported quiet ss p = quiet (answer (text_or ''[]'' ss) (sp_supported_schemes p))"

definition secret_get :: "('s, string) guard \<Rightarrow> ('e, 'w) responder \<Rightarrow> ('s, 'm, 'w, 'e) sync_secret \<Rightarrow> string \<Rightarrow> 's \<Rightarrow> string \<times> 's" where
  "secret_get quiet en p r = quiet (answer (respond_result en) (sp_get p r))"

definition secret_watch :: "'e serde \<Rightarrow> (string \<Rightarrow> 'e) \<Rightarrow> ('s, 'm, 'w, 'e) sync_secret \<Rightarrow> string \<Rightarrow> nat \<Rightarrow> 's \<Rightarrow> ffi_stream \<times> 's" where
  "secret_watch es backend p r ctx =
     catch_unwind (stream_failed (text_or [] es (backend ''plugin panicked during watch'')))
       (answer (stream_of_result es) (sp_watch p r (sink_emit ctx)))"

definition secret_cancel_watch :: "('s, unit) guard \<Rightarrow> ('s, 'm, 'w, 'e) sync_secret \<Rightarrow> nat \<Rightarrow> 's \<Rightarrow> unit \<times> 's" where
  "secret_cancel_watch silent p h = silent (sp_cancel_watch p h)"

text \<open>The host's trait has a \<^verbatim>\<open>watch\<close> with a default, which the adapters of both providers keep.\<close>

record ('s, 'm, 'v, 'e) secret_trait =
  hs_manifest :: "('s, 'm) body"
  hs_supported_schemes :: "('s, string list) body"
  hs_get :: "string \<Rightarrow> ('s, ('e, 'v) result) body"
  hs_watch :: "string \<Rightarrow> ('s, ('e, unit) result) body"
  hs_shutdown :: "('s, unit) body"

definition SyncSecretProviderAdapter :: "('s, 'm, 'v, 'e) secret_trait \<Rightarrow> ('w \<Rightarrow> 'v) \<Rightarrow> ('s, 'm, 'w, 'e) sync_secret \<Rightarrow> ('s, 'm, 'v, 'e) secret_trait" where
  "SyncSecretProviderAdapter defaults val_from inner =
     defaults\<lparr>hs_manifest := sp_manifest inner, hs_supported_schemes := sp_supported_schemes inner,
       hs_get := (\<lambda>r. answer (map_sum id val_from) (sp_get inner r)), hs_shutdown := sp_shutdown inner\<rparr>"

record ('s, 'm, 'w, 'e) sync_config =
  cf_manifest :: "('s, 'm) body"
  cf_supported_schemes :: "('s, string list) body"
  cf_snapshot :: "string \<Rightarrow> ('s, ('e, 'w) result) body"
  cf_watch :: "string \<Rightarrow> (string \<Rightarrow> nat \<times> string) \<Rightarrow> ('s, ('e, nat) result) body"
  cf_cancel_watch :: "nat \<Rightarrow> ('s, unit) body"
  cf_shutdown :: "('s, unit) body"

definition config_default_watch :: "(string \<Rightarrow> 'e) \<Rightarrow> string \<Rightarrow> (string \<Rightarrow> nat \<times> string) \<Rightarrow> ('s, ('e, nat) result) body" where
  "config_default_watch unsupported_scheme r emit = yields (Inl (unsupported_scheme ''watch''))"

definition config_supported :: "('s, string) guard \<Rightarrow> string list serde \<Rightarrow> ('s, 'm, 'w, 'e) sync_config \<Rightarrow> 's \<Rightarrow> string \<times> 's" where
  "config_supported quiet ss p = quiet (answer (text_or ''[]'' ss) (cf_supported_schemes p))"

definition config_snapshot :: "('s, string) guard \<Rightarrow> ('e, 'w) responder \<Rightarrow> ('s, 'm, 'w, 'e) sync_config \<Rightarrow> string \<Rightarrow> 's \<Rightarrow> string \<times> 's" where
  "config_snapshot quiet en p r = quiet (answer (respond_result en) (cf_snapshot p r))"

definition config_watch :: "'e serde \<Rightarrow> (string \<Rightarrow> 'e) \<Rightarrow> ('s, 'm, 'w, 'e) sync_config \<Rightarrow> string \<Rightarrow> nat \<Rightarrow> 's \<Rightarrow> ffi_stream \<times> 's" where
  "config_watch es backend p r ctx =
     catch_unwind (stream_failed (text_or [] es (backend ''plugin panicked during watch'')))
       (answer (stream_of_result es) (cf_watch p r (sink_emit ctx)))"

definition config_cancel_watch :: "('s, unit) guard \<Rightarrow> ('s, 'm, 'w, 'e) sync_config \<Rightarrow> nat \<Rightarrow> 's \<Rightarrow> unit \<times> 's" where
  "config_cancel_watch silent p h = silent (cf_cancel_watch p h)"

record ('s, 'm, 'w, 'e) config_trait =
  hf_manifest :: "('s, 'm) body"
  hf_supported_schemes :: "('s, string list) body"
  hf_snapshot :: "string \<Rightarrow> ('s, ('e, 'w) result) body"
  hf_watch :: "string \<Rightarrow> ('s, ('e, unit) result) body"
  hf_shutdown :: "('s, unit) body"

definition SyncConfigProviderAdapter :: "('s, 'm, 'w, 'e) config_trait \<Rightarrow> ('s, 'm, 'w, 'e) sync_config \<Rightarrow> ('s, 'm, 'w, 'e) config_trait" where
  "SyncConfigProviderAdapter defaults inner =
     defaults\<lparr>hf_manifest := cf_manifest inner, hf_supported_schemes := cf_supported_schemes inner,
       hf_snapshot := cf_snapshot inner, hf_shutdown := cf_shutdown inner\<rparr>"

interpretation se_schemes: report_slot quiet "json_reply ''[]'' ss" "sp_supported_schemes p" "secret_supported quiet ss p"
  by unfold_locales (simp add: secret_supported_def)

interpretation se_get: report_slot quiet "envelope_reply en" "sp_get p r" "secret_get quiet en p r"
  by unfold_locales (simp add: secret_get_def)

interpretation se_watch: stream_slot es "backend ''plugin panicked during watch''" "sp_watch p r (sink_emit ctx)" "secret_watch es backend p r ctx"
  by unfold_locales (simp add: secret_watch_def)

interpretation cf_schemes: report_slot quiet "json_reply ''[]'' ss" "cf_supported_schemes p" "config_supported quiet ss p"
  by unfold_locales (simp add: config_supported_def)

interpretation cf_snap: report_slot quiet "envelope_reply en" "cf_snapshot p r" "config_snapshot quiet en p r"
  by unfold_locales (simp add: config_snapshot_def)

interpretation cf_watches: stream_slot es "backend ''plugin panicked during watch''" "cf_watch p r (sink_emit ctx)" "config_watch es backend p r ctx"
  by unfold_locales (simp add: config_watch_def)

section \<open>Content stores\<close>

record ('s, 'm, 'c, 'h, 'rc, 'st, 'e) sync_content_store =
  co_manifest :: "('s, 'm) body"
  co_kind :: "('s, string) body"
  co_register_profile :: "string \<Rightarrow> json \<Rightarrow> ('s, ('e, unit) result) body"
  co_put :: "string \<Rightarrow> 'c \<Rightarrow> ('s, ('e, 'h) result) body"
  co_get :: "string \<Rightarrow> string \<Rightarrow> ('s, ('e, 'rc option) result) body"
  co_delete :: "string \<Rightarrow> string \<Rightarrow> ('s, ('e, unit) result) body"
  co_signed_url :: "string \<Rightarrow> string \<Rightarrow> duration \<Rightarrow> ('s, ('e, string option) result) body"
  co_stats :: "string \<Rightarrow> ('s, 'st) body"
  co_sweep_expired :: "string \<Rightarrow> ('s, nat) body"
  co_shutdown :: "('s, unit) body"

definition content_default_signed_url :: "'e \<Rightarrow> string \<Rightarrow> string \<Rightarrow> duration \<Rightarrow> ('s, ('e, string option) result) body" where
  "content_default_signed_url not_supported profile resource ttl = yields (Inl not_supported)"

definition content_default_sweep_expired :: "string \<Rightarrow> ('s, nat) body" where
  "content_default_sweep_expired profile = yields 0"

record content_profile_args =
  xp_profile_name :: string
  xp_spec :: json

record 'c content_put_args =
  xu_profile_name :: string
  xu_content :: 'c

record content_id_args =
  xi_profile_name :: string
  xi_id :: string

record content_url_args =
  xl_profile_name :: string
  xl_id :: string
  xl_ttl_seconds :: "64 word"

definition content_store_kind :: "('s, string) guard \<Rightarrow> ('s, 'm, 'c, 'h, 'rc, 'st, 'e) sync_content_store \<Rightarrow> 's \<Rightarrow> string \<times> 's" where
  "content_store_kind quiet p = quiet (co_kind p)"

definition content_store_bad_args :: "('e, 'a) responder \<Rightarrow> (string \<Rightarrow> 'e) \<Rightarrow> string \<Rightarrow> string" where
  "content_store_bad_args en storage e = respond_err en (storage (invalid_args e))"

definition content_store_register_profile :: "('s, string) guard \<Rightarrow> content_profile_args serde \<Rightarrow> ('e, unit) responder \<Rightarrow> (string \<Rightarrow> 'e) \<Rightarrow>
    ('s, 'm, 'c, 'h, 'rc, 'st, 'e) sync_content_store \<Rightarrow> string \<Rightarrow> 's \<Rightarrow> string \<times> 's" where
  "content_store_register_profile quiet xp en storage p args_json =
     quiet (with_args xp args_json (content_store_bad_args en storage)
       (\<lambda>a. answer (respond_result en) (co_register_profile p (xp_profile_name a) (xp_spec a))))"

definition content_store_put :: "('s, string) guard \<Rightarrow> 'c content_put_args serde \<Rightarrow> ('e, 'h) responder \<Rightarrow> (string \<Rightarrow> 'e) \<Rightarrow>
    ('s, 'm, 'c, 'h, 'rc, 'st, 'e) sync_content_store \<Rightarrow> string \<Rightarrow> 's \<Rightarrow> string \<times> 's" where
  "content_store_put quiet xu en storage p args_json =
     quiet (with_args xu args_json (content_store_bad_args en storage)
       (\<lambda>a. answer (respond_result en) (co_put p (xu_profile_name a) (xu_content a))))"

definition content_store_get :: "('s, string) guard \<Rightarrow> content_id_args serde \<Rightarrow> ('e, 'rc option) responder \<Rightarrow> (string \<Rightarrow> 'e) \<Rightarrow>
    ('s, 'm, 'c, 'h, 'rc, 'st, 'e) sync_content_store \<Rightarrow> string \<Rightarrow> 's \<Rightarrow> string \<times> 's" where
  "content_store_get quiet xi en storage p args_json =
     quiet (with_args xi args_json (content_store_bad_args en storage)
       (\<lambda>a. answer (respond_result en) (co_get p (xi_profile_name a) (xi_id a))))"

definition content_store_delete :: "('s, string) guard \<Rightarrow> content_id_args serde \<Rightarrow> ('e, unit) responder \<Rightarrow> (string \<Rightarrow> 'e) \<Rightarrow>
    ('s, 'm, 'c, 'h, 'rc, 'st, 'e) sync_content_store \<Rightarrow> string \<Rightarrow> 's \<Rightarrow> string \<times> 's" where
  "content_store_delete quiet xi en storage p args_json =
     quiet (with_args xi args_json (content_store_bad_args en storage)
       (\<lambda>a. answer (respond_result en) (co_delete p (xi_profile_name a) (xi_id a))))"

definition content_store_signed_url :: "('s, string) guard \<Rightarrow> content_url_args serde \<Rightarrow> ('e, string option) responder \<Rightarrow> (string \<Rightarrow> 'e) \<Rightarrow>
    ('s, 'm, 'c, 'h, 'rc, 'st, 'e) sync_content_store \<Rightarrow> string \<Rightarrow> 's \<Rightarrow> string \<times> 's" where
  "content_store_signed_url quiet xl en storage p args_json =
     quiet (with_args xl args_json (content_store_bad_args en storage)
       (\<lambda>a. answer (respond_result en) (co_signed_url p (xl_profile_name a) (xl_id a) (secs (unat (xl_ttl_seconds a))))))"

definition content_store_stats :: "('s, string) guard \<Rightarrow> string serde \<Rightarrow> 'st serde \<Rightarrow> 'st \<Rightarrow>
    ('s, 'm, 'c, 'h, 'rc, 'st, 'e) sync_content_store \<Rightarrow> string \<Rightarrow> 's \<Rightarrow> string \<times> 's" where
  "content_store_stats quiet xn st zero p args_json =
     quiet (answer (text_or [] st) (with_args xn args_json (\<lambda>_. zero) (co_stats p)))"

definition content_store_sweep_expired :: "('s, string) guard \<Rightarrow> string serde \<Rightarrow> nat serde \<Rightarrow>
    ('s, 'm, 'c, 'h, 'rc, 'st, 'e) sync_content_store \<Rightarrow> string \<Rightarrow> 's \<Rightarrow> string \<times> 's" where
  "content_store_sweep_expired quiet xn ct p args_json =
     quiet (answer (text_or ''0'' ct) (with_args xn args_json (\<lambda>_. 0) (co_sweep_expired p)))"

text \<open>The static build splits the manager into a factory and handles that remember their profile.\<close>

record ('s, 'c, 'h, 'rc, 'st, 'e) content_store_trait =
  hx_put :: "'c \<Rightarrow> ('s, ('e, 'h) result) body"
  hx_get :: "string \<Rightarrow> ('s, ('e, 'rc option) result) body"
  hx_delete :: "string \<Rightarrow> ('s, ('e, unit) result) body"
  hx_signed_url :: "string \<Rightarrow> duration \<Rightarrow> ('s, ('e, string option) result) body"
  hx_stats :: "('s, 'st) body"
  hx_sweep_expired :: "('s, nat) body"
  hx_shutdown :: "('s, unit) body"

definition SyncContentStoreProfile :: "('s, 'm, 'c, 'h, 'rc, 'st, 'e) sync_content_store \<Rightarrow> string \<Rightarrow> ('s, 'c, 'h, 'rc, 'st, 'e) content_store_trait" where
  "SyncContentStoreProfile inner profile_name =
     \<lparr>hx_put = co_put inner profile_name, hx_get = co_get inner profile_name, hx_delete = co_delete inner profile_name,
      hx_signed_url = co_signed_url inner profile_name, hx_stats = co_stats inner profile_name,
      hx_sweep_expired = co_sweep_expired inner profile_name, hx_shutdown = co_shutdown inner\<rparr>"

definition build_profile :: "('s, 'm, 'c, 'h, 'rc, 'st, 'e) sync_content_store \<Rightarrow> string \<Rightarrow> json \<Rightarrow>
    ('s, ('e, ('s, 'c, 'h, 'rc, 'st, 'e) content_store_trait) result) body" where
  "build_profile inner profile_name spec =
     answer (map_sum id (\<lambda>_. SyncContentStoreProfile inner profile_name)) (co_register_profile inner profile_name spec)"

record ('s, 'm, 'c, 'h, 'rc, 'st, 'e) content_store_plugin =
  hz_manifest :: "('s, 'm) body"
  hz_kind :: "('s, string) body"
  hz_build_profile :: "string \<Rightarrow> json \<Rightarrow> ('s, ('e, ('s, 'c, 'h, 'rc, 'st, 'e) content_store_trait) result) body"

definition SyncContentStoreAdapter :: "('s, 'm, 'c, 'h, 'rc, 'st, 'e) sync_content_store \<Rightarrow> ('s, 'm, 'c, 'h, 'rc, 'st, 'e) content_store_plugin" where
  "SyncContentStoreAdapter inner = \<lparr>hz_manifest = co_manifest inner, hz_kind = co_kind inner, hz_build_profile = build_profile inner\<rparr>"

lemma answer_with_args: "answer f (with_args c t bad k) = with_args c t (\<lambda>e. f (bad e)) (\<lambda>a. answer f (k a))"
  by (auto simp: with_args_def yields_def answer_def fun_eq_iff split: sum.splits)

interpretation x_register: wire_slot quiet xp "envelope_reply en" "content_store_bad_args en storage"
  "\<lambda>a. co_register_profile p (xp_profile_name a) (xp_spec a)" "content_store_register_profile quiet xp en storage p"
  by unfold_locales (simp add: content_store_register_profile_def)

interpretation x_put: wire_slot quiet xu "envelope_reply en" "content_store_bad_args en storage"
  "\<lambda>a. co_put p (xu_profile_name a) (xu_content a)" "content_store_put quiet xu en storage p"
  by unfold_locales (simp add: content_store_put_def)

interpretation x_get: wire_slot quiet xi "envelope_reply en" "content_store_bad_args en storage"
  "\<lambda>a. co_get p (xi_profile_name a) (xi_id a)" "content_store_get quiet xi en storage p"
  by unfold_locales (simp add: content_store_get_def)

interpretation x_delete: wire_slot quiet xi "envelope_reply en" "content_store_bad_args en storage"
  "\<lambda>a. co_delete p (xi_profile_name a) (xi_id a)" "content_store_delete quiet xi en storage p"
  by unfold_locales (simp add: content_store_delete_def)

interpretation x_url: wire_slot quiet xl "envelope_reply en" "content_store_bad_args en storage"
  "\<lambda>a. co_signed_url p (xl_profile_name a) (xl_id a) (secs (unat (xl_ttl_seconds a)))" "content_store_signed_url quiet xl en storage p"
  by unfold_locales (simp add: content_store_signed_url_def)

interpretation x_stats: wire_slot quiet xn "json_reply [] st" "\<lambda>_. text_or [] st zero" "co_stats p" "content_store_stats quiet xn st zero p"
  by unfold_locales (simp add: content_store_stats_def answer_with_args)

interpretation x_sweep: wire_slot quiet xn "json_reply ''0'' ct" "\<lambda>_. text_or ''0'' ct 0" "co_sweep_expired p" "content_store_sweep_expired quiet xn ct p"
  by unfold_locales (simp add: content_store_sweep_expired_def answer_with_args)

section \<open>The two builds agree\<close>

lemmas store_adapter_simps = SyncStorePluginAdapter_def store_trait.simps
lemmas data_serves = s_get.run_serves s_put.run_serves s_delete.run_serves s_list.run_serves s_cas.run_serves s_append.run_serves
  c_get.run_serves c_put.run_serves c_clear.run_serves c_incr.run_serves
  x_put.run_serves x_get.run_serves x_delete.run_serves x_url.run_serves x_stats.run_serves x_sweep.run_serves

text \<open>Every operation of a store: the host of the dynamic build, which writes a request in wire values and converts
  the answer it reads, gets what the static build's adapter answers, and the plugin is left in the same state.\<close>

theorem store_slots_serve:
  assumes "guard_law quiet"
  shows "serves_via (store_get quiet sk eg backend p) sk (match_reply eg) (\<lambda>(role, key). \<lparr>sk_role = role, sk_key = key\<rparr>)
      (map_sum id (map_option val_from)) (\<lambda>(role, key). ht_get (SyncStorePluginAdapter un val_from val_into page_from p) role key) \<and>
    serves_via (store_put quiet sn eu backend p) sn (envelope_reply eu) (\<lambda>(role, key, v). \<lparr>sn_role = role, sn_key = key, sn_value = val_into v\<rparr>)
      id (\<lambda>(role, key, v). ht_put (SyncStorePluginAdapter un val_from val_into page_from p) role key v) \<and>
    serves_via (store_delete quiet sk eu backend p) sk (envelope_reply eu) (\<lambda>(role, key). \<lparr>sk_role = role, sk_key = key\<rparr>)
      id (\<lambda>(role, key). ht_delete (SyncStorePluginAdapter un val_from val_into page_from p) role key) \<and>
    serves_via (store_list quiet sg el backend p) sg (match_reply el) (\<lambda>(role, pre, cur). \<lparr>sg_role = role, sg_prefix = pre, sg_cursor = cur\<rparr>)
      (map_sum id page_from) (\<lambda>(role, pre, cur). ht_list (SyncStorePluginAdapter un val_from val_into page_from p) role pre cur) \<and>
    serves_via (store_cas quiet sw eb backend p) sw (match_reply eb)
      (\<lambda>(role, key, old, new). \<lparr>sw_role = role, sw_key = key, sw_expected = map_option val_into old, sw_new = val_into new\<rparr>)
      id (\<lambda>(role, key, old, new). ht_compare_and_swap (SyncStorePluginAdapter un val_from val_into page_from p) role key old new) \<and>
    serves_via (store_append quiet sn ea backend p) sn (match_reply ea) (\<lambda>(role, key, v). \<lparr>sn_role = role, sn_key = key, sn_value = val_into v\<rparr>)
      id (\<lambda>(role, key, v). ht_append (SyncStorePluginAdapter un val_from val_into page_from p) role key v)"
  using assms by (intro conjI) (rule serves_viaI, erule data_serves, clarsimp simp: store_adapter_simps)+

definition demo_store :: "(nat, unit, string, string, string list, string) sync_store" where
  "demo_store = \<lparr>st_manifest = yields (), st_supported_roles = yields [''r''], st_get = (\<lambda>r k s. (Some (Inr (Some (r @ k))), s + 1)),
     st_put = (\<lambda>r k v s. (Some (Inr ()), s + length v)), st_delete = (\<lambda>r k s. (Some (Inr ()), 0)),
     st_list = (\<lambda>r p c. yields (Inr [r])), st_compare_and_swap = (\<lambda>r k old new s. (Some (Inr (old = None)), s + 1)),
     st_append = (\<lambda>r k v. yields (Inr \<lparr>ar_sequence = 0\<rparr>)), st_watch = (\<lambda>r k emit s. (Some (Inr 7), s + 1)),
     st_cancel_watch = (\<lambda>h. yields ()), st_shutdown = yields ()\<rparr>"

definition demo_key :: "string store_key serde" where
  "demo_key = table_serde [(''rk'', \<lparr>sk_role = ''r'', sk_key = ''k''\<rparr>)]"

definition demo_envelope :: "(string, string option) responder" where
  "demo_envelope = \<lparr>respond_result = (\<lambda>r. case r of Inr (Some v) \<Rightarrow> ''S'' @ v | Inr None \<Rightarrow> ''N'' | Inl e \<Rightarrow> ''E'' @ e),
     respond_ok = (\<lambda>v. case v of Some v \<Rightarrow> ''S'' @ v | None \<Rightarrow> ''N''), respond_err = (\<lambda>e. ''E'' @ e),
     read_envelope = (\<lambda>t. if t = [] then Inl ''empty'' else if hd t = CHR ''S'' then Inr (Inr (Some (tl t)))
       else if hd t = CHR ''N'' then Inr (Inr None) else Inr (Inl (tl t)))\<rparr>"

theorem store_slots_serve_witness:
  "\<exists>t u. store_get (catch_unwind []) demo_key demo_envelope (\<lambda>e. e) demo_store t 4 = (u, 5) \<and>
     read_envelope demo_envelope u = Inr (Inr (Some ''rk''))"
proof -
  let ?ad = "SyncStorePluginAdapter (\<lambda>op. op) (Pair True) snd (\<lambda>pg. pg) demo_store"
  have "serves_via (store_get (catch_unwind []) demo_key demo_envelope (\<lambda>e. e) demo_store) demo_key (match_reply demo_envelope)
      (\<lambda>(role, key). \<lparr>sk_role = role, sk_key = key\<rparr>) (map_sum id (map_option (Pair True))) (\<lambda>(role, key). ht_get ?ad role key)"
    by (rule conjunct1 [OF store_slots_serve [OF catch_unwind_law]])
  moreover have "(\<lambda>(role, key). ht_get ?ad role key) (''r'', ''k'') 4 = (Some (Inr (Some (True, ''rk''))), 5)"
    by (simp add: store_adapter_simps demo_store_def answer_def)
  ultimately obtain r where r: "Inr (Some (True, ''rk'')) = map_sum id (map_option (Pair True)) r"
      "exact demo_key \<lparr>sk_role = ''r'', sk_key = ''k''\<rparr> \<Longrightarrow> legible (match_reply demo_envelope) r \<Longrightarrow>
        \<exists>t u. sd_to demo_key \<lparr>sk_role = ''r'', sk_key = ''k''\<rparr> = Some t \<and>
          store_get (catch_unwind []) demo_key demo_envelope (\<lambda>e. e) demo_store t 4 = (u, 5) \<and>
          re_read (match_reply demo_envelope) u = Inr r"
    by (rule serves_viaE) simp
  have "r = Inr (Some ''rk'')" using r(1) by (cases r; cases "projr r") auto
  moreover have "exact demo_key \<lparr>sk_role = ''r'', sk_key = ''k''\<rparr>" "legible (match_reply demo_envelope) (Inr (Some ''rk''))"
    by (simp_all add: exact_def demo_key_def table_serde_def legible_def match_reply_def demo_envelope_def respond_match_def)
  ultimately show ?thesis using r(2) by (auto simp: match_reply_def)
qed

text \<open>C20. Caches and content stores: the two builds agree for every operation that answers by a text. The static build
  hands a cache's time to live over in whole milliseconds, which is what the dynamic build's host writes; a
  signed URL's time to live crosses in whole seconds.\<close>

theorem keyed_slots_serve:
  assumes "guard_law quiet"
  shows "serves_via (cache_slot_get quiet ck bo c) ck (json_reply ''null'' bo) (\<lambda>(ns, key). \<lparr>ck_ns = ns, ck_key = key\<rparr>)
      id (\<lambda>(ns, key). hc_get (SyncCachePluginAdapter c) ns key) \<and>
    serves_via (cache_slot_put quiet cn ec backend c) cn (envelope_reply ec)
      (\<lambda>(ns, key, v, ttl). \<lparr>cn_ns = ns, cn_key = key, cn_value = v, cn_ttl_ms = as_millis_u64 ttl\<rparr>)
      id (\<lambda>(ns, key, v, ttl). hc_put (SyncCachePluginAdapter c) ns key v ttl) \<and>
    serves_via (cache_clear quiet cl ec backend c) cl (envelope_reply ec) id id (hc_clear (SyncCachePluginAdapter c)) \<and>
    serves_via (cache_incr quiet cu ei v err_value backend c) cu (envelope_reply ei)
      (\<lambda>(ns, key, n, ttl). \<lparr>cu_ns = ns, cu_key = key, cu_by = n, cu_ttl_ms = as_millis_u64 ttl\<rparr>)
      id (\<lambda>(ns, key, n, ttl). hc_incr (SyncCachePluginAdapter c) ns key n ttl) \<and>
    serves_via (content_store_put quiet xu eh storage x) xu (envelope_reply eh) (\<lambda>(pn, d). \<lparr>xu_profile_name = pn, xu_content = d\<rparr>)
      id (\<lambda>(pn, d). hx_put (SyncContentStoreProfile x pn) d) \<and>
    serves_via (content_store_get quiet xi er storage x) xi (envelope_reply er) (\<lambda>(pn, i). \<lparr>xi_profile_name = pn, xi_id = i\<rparr>)
      id (\<lambda>(pn, i). hx_get (SyncContentStoreProfile x pn) i) \<and>
    serves_via (content_store_delete quiet xi eu storage x) xi (envelope_reply eu) (\<lambda>(pn, i). \<lparr>xi_profile_name = pn, xi_id = i\<rparr>)
      id (\<lambda>(pn, i). hx_delete (SyncContentStoreProfile x pn) i) \<and>
    serves_via (content_store_signed_url quiet xl es storage x) xl (envelope_reply es)
      (\<lambda>(pn, i, n). \<lparr>xl_profile_name = pn, xl_id = i, xl_ttl_seconds = n\<rparr>)
      id (\<lambda>(pn, i, n). hx_signed_url (SyncContentStoreProfile x pn) i (secs (unat n))) \<and>
    serves_via (content_store_stats quiet xn st zero x) xn (json_reply [] st) id id (\<lambda>pn. hx_stats (SyncContentStoreProfile x pn)) \<and>
    serves_via (content_store_sweep_expired quiet xn ct x) xn (json_reply ''0'' ct) id id (\<lambda>pn. hx_sweep_expired (SyncContentStoreProfile x pn))"
  using assms by (intro conjI) (rule serves_viaI, erule data_serves, clarsimp simp: SyncCachePluginAdapter_def SyncContentStoreProfile_def)+

definition demo_cache :: "(nat, unit, string) sync_cache" where
  "demo_cache = \<lparr>ch_manifest = yields (), ch_supported_namespaces = yields [''n''], ch_serves_any_namespace = cache_default_serves_any,
     ch_get = (\<lambda>ns k s. (Some (Some [1, 2]), s + 1)), ch_put = (\<lambda>ns k v ttl s. (Some (Inr ()), unat ttl)), ch_delete = (\<lambda>ns k. yields ()),
     ch_clear = (\<lambda>ns s. (Some (Inr ()), 0)), ch_incr = (\<lambda>ns k n ttl s. (Some (Inr (n + 1)), s + 1)), ch_shutdown = yields ()\<rparr>"

definition demo_cache_key :: "cache_key serde" where
  "demo_cache_key = table_serde [(''nk'', \<lparr>ck_ns = ''n'', ck_key = ''k''\<rparr>)]"

definition demo_cache_hits :: "bytes option serde" where
  "demo_cache_hits = table_serde [(''[1,2]'', Some [1, 2]), (''null'', None)]"

theorem keyed_slots_serve_witness:
  "\<exists>t u. cache_slot_get (catch_unwind []) demo_cache_key demo_cache_hits demo_cache t 4 = (u, 5) \<and>
     sd_from demo_cache_hits u = Inr (Some [1, 2])"
proof -
  have "serves_via (cache_slot_get (catch_unwind []) demo_cache_key demo_cache_hits demo_cache) demo_cache_key (json_reply ''null'' demo_cache_hits)
      (\<lambda>(ns, key). \<lparr>ck_ns = ns, ck_key = key\<rparr>) id (\<lambda>(ns, key). hc_get (SyncCachePluginAdapter demo_cache) ns key)"
    by (rule conjunct1 [OF keyed_slots_serve [OF catch_unwind_law]])
  moreover have "(\<lambda>(ns, key). hc_get (SyncCachePluginAdapter demo_cache) ns key) (''n'', ''k'') 4 = (Some (Some [1, 2]), 5)"
    by (simp add: SyncCachePluginAdapter_def demo_cache_def)
  ultimately obtain r where r: "Some [1, 2] = id r"
      "exact demo_cache_key \<lparr>ck_ns = ''n'', ck_key = ''k''\<rparr> \<Longrightarrow> legible (json_reply ''null'' demo_cache_hits) r \<Longrightarrow>
        \<exists>t u. sd_to demo_cache_key \<lparr>ck_ns = ''n'', ck_key = ''k''\<rparr> = Some t \<and>
          cache_slot_get (catch_unwind []) demo_cache_key demo_cache_hits demo_cache t 4 = (u, 5) \<and>
          re_read (json_reply ''null'' demo_cache_hits) u = Inr r"
    by (rule serves_viaE) simp
  have "exact demo_cache_key \<lparr>ck_ns = ''n'', ck_key = ''k''\<rparr>" "exact demo_cache_hits (Some [1, 2])"
    by (simp_all add: exact_def demo_cache_key_def demo_cache_hits_def table_serde_def)
  then show ?thesis using r by auto
qed

text \<open>A watch of a store, a secret or a config value opens exactly when the plugin says so: the host reads the
  plugin's own handle, or the plugin's error, or, after a panic, the backend error that names it. Arguments that do
  not parse are an error of the same type and never reach the plugin, and the plugin's events go to the sink the
  host gave.\<close>

theorem watch_slots_outcome:
  assumes "exact es err" "exact es (backend ''plugin panicked during watch'')" "exact es (backend (''invalid watch args: '' @ e))"
    and "sd_from sk bad = Inl e"
  shows "(sp_watch p r (\<lambda>payload. (ctx, payload)) s = (Some (Inr h), s') \<and> h \<noteq> 0 \<longrightarrow>
      (\<exists>st. secret_watch es backend p r ctx s = (st, s') \<and> read_stream es st = Inr (Inr h))) \<and>
    (sp_watch p r (\<lambda>payload. (ctx, payload)) s = (Some (Inl err), s') \<longrightarrow>
      (\<exists>st. secret_watch es backend p r ctx s = (st, s') \<and> read_stream es st = Inr (Inl err))) \<and>
    (cf_watch f r (\<lambda>payload. (ctx, payload)) s = (None, s') \<longrightarrow>
      (\<exists>st. config_watch es backend f r ctx s = (st, s') \<and> read_stream es st = Inr (Inl (backend ''plugin panicked during watch'')))) \<and>
    (\<exists>st. store_watch sk es backend w bad ctx s = (st, s) \<and> read_stream es st = Inr (Inl (backend (''invalid watch args: '' @ e)))) \<and>
    (exact sk a \<and> st_watch w (sk_role a) (sk_key a) (\<lambda>payload. (ctx, payload)) s = (Some (Inr h), s') \<and> h \<noteq> 0 \<longrightarrow>
      (\<exists>st. store_watch sk es backend w (text_or [] sk a) ctx s = (st, s') \<and> read_stream es st = Inr (Inr h)))"
proof -
  have emit: "sink_emit ctx = (\<lambda>payload. (ctx, payload))" by (simp add: sink_emit_def fun_eq_iff)
  have bad: "store_watch_body sk backend w bad ctx s = (Some (Inl (backend (''invalid watch args: '' @ e))), s)"
    using assms(4) by (simp add: store_watch_body_def with_args_def yields_def)
  have good: "store_watch_body sk backend w (text_or [] sk a) ctx = st_watch w (sk_role a) (sk_key a) (sink_emit ctx)" if "exact sk a"
    using that by (simp add: store_watch_body_def with_args_def serde_text)
  show ?thesis
    unfolding emit [symmetric]
  proof (intro conjI impI)
    show "\<exists>st. store_watch sk es backend w bad ctx s = (st, s) \<and> read_stream es st = Inr (Inl (backend (''invalid watch args: '' @ e)))"
      using s_watch.run_failed [OF bad assms(3)] by blast
    assume "exact sk a \<and> st_watch w (sk_role a) (sk_key a) (sink_emit ctx) s = (Some (Inr h), s') \<and> h \<noteq> 0"
    then show "\<exists>st. store_watch sk es backend w (text_or [] sk a) ctx s = (st, s') \<and> read_stream es st = Inr (Inr h)"
      using s_watch.run_opened [of sk backend w "text_or [] sk a" ctx s h s' es] good by auto
  qed (use se_watch.run_opened [of p r ctx s h s' es backend] se_watch.run_failed [of p r ctx s err s' es backend] assms(1) cf_watches.run_panicked [of f r ctx s s' es backend] assms(2) in blast)+
qed

definition demo_secret :: "(nat, unit, string, string) sync_secret" where
  "demo_secret = \<lparr>sp_manifest = yields (), sp_supported_schemes = yields [''vault''], sp_get = (\<lambda>r. yields (Inr r)),
     sp_watch = (\<lambda>r emit s. (Some (Inr (fst (emit r))), s + 1)), sp_cancel_watch = (\<lambda>h. yields ()), sp_shutdown = yields ()\<rparr>"

definition demo_config :: "(nat, unit, string, string) sync_config" where
  "demo_config = \<lparr>cf_manifest = yields (), cf_supported_schemes = yields [''env''], cf_snapshot = (\<lambda>r. yields (Inr r)),
     cf_watch = (\<lambda>r emit s. (None, s + 1)), cf_cancel_watch = (\<lambda>h. yields ()), cf_shutdown = yields ()\<rparr>"

definition demo_errors :: "string serde" where
  "demo_errors = \<lparr>sd_from = (\<lambda>t. Inr (tl t)), sd_to = (\<lambda>e. Some (CHR ''e'' # e))\<rparr>"

theorem watch_slots_outcome_witness:
  "(\<exists>st. secret_watch demo_errors (\<lambda>e. e) demo_secret ''vault:x'' 9 4 = (st, 5) \<and> read_stream demo_errors st = Inr (Inr 9)) \<and>
   (\<exists>st. config_watch demo_errors (\<lambda>e. e) demo_config ''env:x'' 9 4 = (st, 5) \<and>
      read_stream demo_errors st = Inr (Inl ''plugin panicked during watch''))"
proof -
  have "exact demo_errors e" for e by (simp add: exact_def demo_errors_def)
  then show ?thesis
    using watch_slots_outcome [where es = demo_errors and backend = "\<lambda>e. e" and p = demo_secret and f = demo_config and w = demo_store
        and sk = demo_key and bad = "''?''" and e = "''unexpected text''" and err = "[]" and r = "''vault:x''" and ctx = 9 and s = 4
        and s' = 5 and h = 9 and a = "\<lparr>sk_role = ''r'', sk_key = ''k''\<rparr>"]
      watch_slots_outcome [where es = demo_errors and backend = "\<lambda>e. e" and p = demo_secret and f = demo_config and w = demo_store
        and sk = demo_key and bad = "''?''" and e = "''unexpected text''" and err = "[]" and r = "''env:x''" and ctx = 9 and s = 4
        and s' = 5 and h = 9 and a = "\<lparr>sk_role = ''r'', sk_key = ''k''\<rparr>"]
    by (simp add: demo_secret_def demo_config_def demo_key_def table_serde_def)
qed

end
