(* ===== verification/Backend_Slots.thy ===== *)
theory Backend_Slots
  imports Data_Slots
begin

text \<open>
  Backends, watch strategies and the four sinks (audit, log, metrics, telemetry), in the same form as the
  other kinds. A backend's streaming slot gives the plugin an emitter: the host's callback, a parameter,
  is applied to the plugin's state, which stands for everything a call can reach. A \<^verbatim>\<open>usize\<close> has 64 bits.
\<close>

section \<open>Backends\<close>

type_synonym ('s, 'e, 'ch) emitter = "('e, 'ch) result \<Rightarrow> 's \<Rightarrow> 's"

record ('s, 'm, 'req, 'resp, 'ch, 'pg, 'cap, 'e) sync_backend =
  sb_manifest :: "('s, 'm) body"
  sb_kind :: "('s, string) body"
  sb_register_profile :: "string \<Rightarrow> json \<Rightarrow> ('s, ('e, unit) result) body"
  sb_execute :: "string \<Rightarrow> 'req \<Rightarrow> ('s, ('e, 'resp) result) body"
  sb_execute_streaming :: "string \<Rightarrow> 'req \<Rightarrow> ('s, 'e, 'ch) emitter \<Rightarrow> ('s, ('e, 64 word) result) body"
  sb_cancel_stream :: "64 word \<Rightarrow> ('s, unit) body"
  sb_execute_transaction :: "string \<Rightarrow> json \<Rightarrow> ('s, ('e, json) result) body"
  sb_audit_metadata :: "string \<Rightarrow> ('s, (string, json) btree_map) body"
  sb_input_schema :: "string \<Rightarrow> ('s, json option) body"
  sb_output_schema :: "string \<Rightarrow> ('s, json option) body"
  sb_list_resources :: "string \<Rightarrow> string option \<Rightarrow> ('s, ('e, 'pg) result) body"
  sb_expand_capabilities :: "('s, ('e, 'cap) result) body"
  sb_complete_template_variable :: "string \<Rightarrow> string \<Rightarrow> string \<Rightarrow> json \<Rightarrow> (string, string) btree_map \<Rightarrow> ('s, ('e, string list) result) body"
  sb_shutdown :: "('s, unit) body"

definition STREAM_NO_CANCEL_SENTINEL :: "64 word" where
  "STREAM_NO_CANCEL_SENTINEL = - 1"

text \<open>The methods an author may leave out; \<open>chunk_done\<close> is the protocol's last chunk.\<close>

definition backend_default_execute_streaming :: "('resp \<Rightarrow> 'ch) \<Rightarrow> ('s, 'm, 'req, 'resp, 'ch, 'pg, 'cap, 'e) sync_backend \<Rightarrow>
    string \<Rightarrow> 'req \<Rightarrow> ('s, 'e, 'ch) emitter \<Rightarrow> ('s, ('e, 64 word) result) body" where
  "backend_default_execute_streaming chunk_done p profile request emit s =
     (case sb_execute p profile request s of
        (None, s') \<Rightarrow> (None, s')
      | (Some (Inl e), s') \<Rightarrow> (Some (Inl e), s')
      | (Some (Inr resp), s') \<Rightarrow> (Some (Inr 0), emit (Inr (chunk_done resp)) s'))"

definition backend_default_cancel_stream :: "64 word \<Rightarrow> ('s, unit) body" where
  "backend_default_cancel_stream token = yields ()"

definition backend_default_execute_transaction :: "(string \<Rightarrow> 'e) \<Rightarrow> string \<Rightarrow> json \<Rightarrow> ('s, ('e, json) result) body" where
  "backend_default_execute_transaction transport profile tx_group =
     yields (Inl (transport ''execute_transaction is not supported by this backend''))"

definition backend_default_audit_metadata :: "string \<Rightarrow> ('s, (string, json) btree_map) body" where
  "backend_default_audit_metadata profile = yields []"

definition backend_default_schema :: "string \<Rightarrow> ('s, json option) body" where
  "backend_default_schema profile = yields None"

definition backend_default_list_resources :: "'pg \<Rightarrow> string \<Rightarrow> string option \<Rightarrow> ('s, ('e, 'pg) result) body" where
  "backend_default_list_resources empty_page profile cursor = yields (Inr empty_page)"

definition backend_default_expand_capabilities :: "'cap \<Rightarrow> ('s, ('e, 'cap) result) body" where
  "backend_default_expand_capabilities no_capabilities = yields (Inr no_capabilities)"

definition backend_default_complete_template_variable :: "string \<Rightarrow> string \<Rightarrow> string \<Rightarrow> json \<Rightarrow> (string, string) btree_map \<Rightarrow>
    ('s, ('e, string list) result) body" where
  "backend_default_complete_template_variable profile variable prefix cfg context = yields (Inr [])"

subsection \<open>Slots\<close>

definition binding_kind :: "('s, string) guard \<Rightarrow> ('s, 'm, 'req, 'resp, 'ch, 'pg, 'cap, 'e) sync_backend \<Rightarrow> 's \<Rightarrow> string \<times> 's" where
  "binding_kind quiet p = quiet (sb_kind p)"

definition binding_register_profile :: "('s, string) guard \<Rightarrow> json serde \<Rightarrow> ('e, unit) responder \<Rightarrow>
    ('s, 'm, 'req, 'resp, 'ch, 'pg, 'cap, 'e) sync_backend \<Rightarrow> string \<Rightarrow> string \<Rightarrow> 's \<Rightarrow> string \<times> 's" where
  "binding_register_profile quiet v en p backend_name spec_json =
     quiet (answer (respond_result en) (sb_register_profile p backend_name (parse_or JNull v spec_json)))"

definition invalid_request :: "(string \<Rightarrow> 'e) \<Rightarrow> string \<Rightarrow> 'e" where
  "invalid_request transport e = transport (''invalid request JSON: '' @ e)"

definition binding_execute :: "('s, string) guard \<Rightarrow> 'req serde \<Rightarrow> ('e, 'resp) responder \<Rightarrow> (string \<Rightarrow> 'e) \<Rightarrow>
    ('s, 'm, 'req, 'resp, 'ch, 'pg, 'cap, 'e) sync_backend \<Rightarrow> string \<Rightarrow> string \<Rightarrow> 's \<Rightarrow> string \<times> 's" where
  "binding_execute quiet rq en transport p backend_name request_json =
     quiet (with_args rq request_json (\<lambda>e. respond_err en (invalid_request transport e))
       (\<lambda>request. answer (respond_result en) (sb_execute p backend_name request)))"

text \<open>A token of 0 means that there is nothing to cancel; a handle of 0 that the stream did not start.\<close>

definition handle_of_token :: "64 word \<Rightarrow> 64 word" where
  "handle_of_token token = (if token = 0 then STREAM_NO_CANCEL_SENTINEL else token)"

definition token_stream :: "'e serde \<Rightarrow> ('e, 64 word) result \<Rightarrow> ffi_stream" where
  "token_stream es r = (case r of Inr token \<Rightarrow> stream_opened (unat (handle_of_token token)) | Inl e \<Rightarrow> stream_failed (text_or [] es e))"

definition binding_execute_streaming :: "('s, ffi_stream) guard \<Rightarrow> 'req serde \<Rightarrow> 'e serde \<Rightarrow> ('e, 'ch) responder \<Rightarrow> (string \<Rightarrow> 'e) \<Rightarrow>
    (nat \<Rightarrow> string \<Rightarrow> 's \<Rightarrow> 's) \<Rightarrow> ('s, 'm, 'req, 'resp, 'ch, 'pg, 'cap, 'e) sync_backend \<Rightarrow> string \<Rightarrow> string \<Rightarrow> nat \<Rightarrow> 's \<Rightarrow> ffi_stream \<times> 's" where
  "binding_execute_streaming failure rq es en transport callback p backend_name request_json ctx =
     failure (with_args rq request_json (\<lambda>e. stream_failed (text_or [] es (invalid_request transport e)))
       (\<lambda>request. answer (token_stream es)
          (sb_execute_streaming p backend_name request (\<lambda>chunk. callback ctx (respond_result en chunk)))))"

definition binding_cancel_stream :: "('s, unit) guard \<Rightarrow> ('s, 'm, 'req, 'resp, 'ch, 'pg, 'cap, 'e) sync_backend \<Rightarrow> 64 word \<Rightarrow> 's \<Rightarrow> unit \<times> 's" where
  "binding_cancel_stream silent p stream_token =
     silent (sb_cancel_stream p (if stream_token = STREAM_NO_CANCEL_SENTINEL then 0 else stream_token))"

definition binding_execute_transaction :: "('s, string) guard \<Rightarrow> json serde \<Rightarrow> ('e, json) responder \<Rightarrow>
    ('s, 'm, 'req, 'resp, 'ch, 'pg, 'cap, 'e) sync_backend \<Rightarrow> string \<Rightarrow> string \<Rightarrow> 's \<Rightarrow> string \<times> 's" where
  "binding_execute_transaction quiet v en p backend_name tx_group_json =
     quiet (answer (respond_result en) (sb_execute_transaction p backend_name (parse_or JNull v tx_group_json)))"

definition binding_schema_json :: "json serde \<Rightarrow> ('s, json option) body \<Rightarrow> 's \<Rightarrow> string option \<times> 's" where
  "binding_schema_json v schema = catch_unwind None (answer (map_option (text_or [] v)) schema)"

definition binding_input_schema_json :: "json serde \<Rightarrow> ('s, 'm, 'req, 'resp, 'ch, 'pg, 'cap, 'e) sync_backend \<Rightarrow> string \<Rightarrow> 's \<Rightarrow> string option \<times> 's" where
  "binding_input_schema_json v p backend_name = binding_schema_json v (sb_input_schema p backend_name)"

definition binding_output_schema_json :: "json serde \<Rightarrow> ('s, 'm, 'req, 'resp, 'ch, 'pg, 'cap, 'e) sync_backend \<Rightarrow> string \<Rightarrow> 's \<Rightarrow> string option \<times> 's" where
  "binding_output_schema_json v p backend_name = binding_schema_json v (sb_output_schema p backend_name)"

definition binding_list_resources :: "('s, string) guard \<Rightarrow> ('e, 'pg) responder \<Rightarrow>
    ('s, 'm, 'req, 'resp, 'ch, 'pg, 'cap, 'e) sync_backend \<Rightarrow> string \<Rightarrow> string option \<Rightarrow> 's \<Rightarrow> string \<times> 's" where
  "binding_list_resources quiet en p backend_name cursor = quiet (answer (respond_result en) (sb_list_resources p backend_name cursor))"

definition binding_audit_metadata :: "('s, string) guard \<Rightarrow> json serde \<Rightarrow>
    ('s, 'm, 'req, 'resp, 'ch, 'pg, 'cap, 'e) sync_backend \<Rightarrow> string \<Rightarrow> 's \<Rightarrow> string \<times> 's" where
  "binding_audit_metadata quiet v p backend_name = quiet (answer (\<lambda>m. text_or ''{}'' v (JObj m)) (sb_audit_metadata p backend_name))"

definition binding_expand_capabilities :: "('s, string) guard \<Rightarrow> ('e, 'cap) responder \<Rightarrow>
    ('s, 'm, 'req, 'resp, 'ch, 'pg, 'cap, 'e) sync_backend \<Rightarrow> 's \<Rightarrow> string \<times> 's" where
  "binding_expand_capabilities quiet en p = quiet (answer (respond_result en) (sb_expand_capabilities p))"

definition str_field :: "json \<Rightarrow> string \<Rightarrow> string" where
  "str_field args k = (case Option.bind (json_get args k) as_str of Some s \<Rightarrow> s | None \<Rightarrow> [])"

fun context_of :: "json option \<Rightarrow> (string, string) btree_map" where
  "context_of (Some (JObj fs)) = bt_collect (List.map_filter (\<lambda>(k, v). map_option (Pair k) (as_str v)) fs)"
| "context_of _ = []"

definition binding_complete_template_variable :: "('s, string) guard \<Rightarrow> json serde \<Rightarrow> ('e, string list) responder \<Rightarrow>
    ('s, 'm, 'req, 'resp, 'ch, 'pg, 'cap, 'e) sync_backend \<Rightarrow> string \<Rightarrow> 's \<Rightarrow> string \<times> 's" where
  "binding_complete_template_variable quiet v en p args_json =
     quiet (let args = parse_or JNull v args_json
            in answer (respond_result en) (sb_complete_template_variable p (str_field args ''profile_name'')
                 (str_field args ''variable_name'') (str_field args ''prefix'')
                 (case json_get args ''config'' of Some c \<Rightarrow> c | None \<Rightarrow> JNull) (context_of (json_get args ''context''))))"

subsection \<open>The adapter\<close>

text \<open>The host's trait; what the adapter does not set keeps the trait's default.\<close>

record ('s, 'm, 'req, 'resp, 'str, 'pg, 'cap, 'e) backend_trait =
  hb_manifest :: "('s, 'm) body"
  hb_kind :: "('s, string) body"
  hb_register_profile :: "string \<Rightarrow> json \<Rightarrow> ('s, ('e, unit) result) body"
  hb_execute :: "string \<Rightarrow> 'req \<Rightarrow> ('s, ('e, 'resp) result) body"
  hb_execute_streaming :: "string \<Rightarrow> 'req \<Rightarrow> ('s, ('e, 'str) result) body"
  hb_execute_transaction :: "string \<Rightarrow> json \<Rightarrow> ('s, ('e, json) result) body"
  hb_audit_metadata :: "string \<Rightarrow> ('s, (string, json) btree_map) body"
  hb_input_schema :: "string \<Rightarrow> ('s, json option) body"
  hb_output_schema :: "string \<Rightarrow> ('s, json option) body"
  hb_list_resources :: "string \<Rightarrow> string option \<Rightarrow> ('s, ('e, 'pg) result) body"
  hb_expand_capabilities :: "('s, ('e, 'cap) result) body"
  hb_complete_template_variable :: "string \<Rightarrow> string \<Rightarrow> string \<Rightarrow> json \<Rightarrow> (string, string) btree_map \<Rightarrow> ('s, ('e, string list) result) body"
  hb_shutdown :: "('s, unit) body"

definition SyncBackendPluginAdapter :: "('s, 'm, 'req, 'resp, 'str, 'pg, 'cap, 'e) backend_trait \<Rightarrow>
    ('s, 'm, 'req, 'resp, 'ch, 'pg, 'cap, 'e) sync_backend \<Rightarrow> ('s, 'm, 'req, 'resp, 'str, 'pg, 'cap, 'e) backend_trait" where
  "SyncBackendPluginAdapter defaults inner =
     defaults\<lparr>hb_manifest := sb_manifest inner, hb_kind := sb_kind inner, hb_register_profile := sb_register_profile inner,
       hb_execute := sb_execute inner, hb_input_schema := sb_input_schema inner, hb_output_schema := sb_output_schema inner,
       hb_list_resources := sb_list_resources inner, hb_complete_template_variable := sb_complete_template_variable inner,
       hb_shutdown := sb_shutdown inner\<rparr>"

interpretation b_execute: wire_slot quiet rq "envelope_reply en" "\<lambda>e. respond_err en (invalid_request transport e)"
  "sb_execute p name" "binding_execute quiet rq en transport p name"
  by unfold_locales (simp add: binding_execute_def)

interpretation b_resources: report_slot quiet "envelope_reply en" "sb_list_resources p name cursor" "binding_list_resources quiet en p name cursor"
  by unfold_locales (simp add: binding_list_resources_def)

interpretation b_capabilities: report_slot quiet "envelope_reply en" "sb_expand_capabilities p" "binding_expand_capabilities quiet en p"
  by unfold_locales (simp add: binding_expand_capabilities_def)

section \<open>Watch strategies\<close>

record ('s, 'm, 'e) sync_watch =
  ws_manifest :: "('s, 'm) body"
  ws_kind :: "('s, string) body"
  ws_watch :: "string \<Rightarrow> json \<Rightarrow> (string \<Rightarrow> nat \<times> string) \<Rightarrow> ('s, ('e, nat) result) body"
  ws_cancel :: "nat \<Rightarrow> ('s, unit) body"
  ws_acknowledge :: "nat \<Rightarrow> json \<Rightarrow> ('s, unit) body"
  ws_shutdown :: "('s, unit) body"

definition watch_default_acknowledge :: "nat \<Rightarrow> json \<Rightarrow> ('s, unit) body" where
  "watch_default_acknowledge h position = yields ()"

definition watch_kind :: "('s, string) guard \<Rightarrow> ('s, 'm, 'e) sync_watch \<Rightarrow> 's \<Rightarrow> string \<times> 's" where
  "watch_kind quiet p = quiet (ws_kind p)"

definition watch_watch :: "('s, ffi_stream) guard \<Rightarrow> json serde \<Rightarrow> 'e serde \<Rightarrow> ('s, 'm, 'e) sync_watch \<Rightarrow> string \<Rightarrow> string \<Rightarrow> nat \<Rightarrow> 's \<Rightarrow> ffi_stream \<times> 's" where
  "watch_watch failure v es p uri spec_json ctx =
     failure (answer (stream_of_result es) (ws_watch p uri (parse_or JNull v spec_json) (sink_emit ctx)))"

definition watch_cancel :: "('s, unit) guard \<Rightarrow> ('s, 'm, 'e) sync_watch \<Rightarrow> nat \<Rightarrow> 's \<Rightarrow> unit \<times> 's" where
  "watch_cancel silent p cancel_token = silent (ws_cancel p cancel_token)"

definition watch_acknowledge :: "('s, unit) guard \<Rightarrow> json serde \<Rightarrow> ('s, 'm, 'e) sync_watch \<Rightarrow> nat \<Rightarrow> string \<Rightarrow> 's \<Rightarrow> unit \<times> 's" where
  "watch_acknowledge silent v p cancel_token position_json =
     silent (with_args v position_json (\<lambda>_. ()) (ws_acknowledge p cancel_token))"

record ('s, 'm, 'e) watch_trait =
  hw_manifest :: "('s, 'm) body"
  hw_kind :: "('s, string) body"
  hw_watch :: "string \<Rightarrow> json \<Rightarrow> ('s, ('e, unit) result) body"
  hw_shutdown :: "('s, unit) body"

definition SyncWatchStrategyAdapter :: "(string \<Rightarrow> 'e) \<Rightarrow> ('s, 'm, 'e) sync_watch \<Rightarrow> ('s, 'm, 'e) watch_trait" where
  "SyncWatchStrategyAdapter subscribe_error inner =
     \<lparr>hw_manifest = ws_manifest inner, hw_kind = ws_kind inner,
      hw_watch = (\<lambda>uri spec. yields (Inl (subscribe_error (''SyncWatchStrategyAdapter does not bridge `watch` across the '' @
        ''sync push-callback / async typed-sink gap; impl the async trait directly'')))),
      hw_shutdown = ws_shutdown inner\<rparr>"

section \<open>Sinks\<close>

record ('s, 'm, 'ev, 'rc, 'e) sync_audit_sink =
  as_manifest :: "('s, 'm) body"
  as_emit :: "'ev \<Rightarrow> ('s, ('e, 'rc) result) body"
  as_flush :: "64 word \<Rightarrow> ('s, ('e, unit) result) body"
  as_shutdown :: "('s, unit) body"

text \<open>The default \<^verbatim>\<open>flush\<close> of the four sinks.\<close>

definition sink_default_flush :: "64 word \<Rightarrow> ('s, ('e, unit) result) body" where
  "sink_default_flush timeout_ms = yields (Inr ())"

definition audit_sink_emit :: "('s, string) guard \<Rightarrow> 'ev serde \<Rightarrow> ('e, 'rc) responder \<Rightarrow> (string \<Rightarrow> 'e) \<Rightarrow>
    ('s, 'm, 'ev, 'rc, 'e) sync_audit_sink \<Rightarrow> string \<Rightarrow> 's \<Rightarrow> string \<times> 's" where
  "audit_sink_emit quiet ae en write_failed p event_json =
     quiet (with_args ae event_json (\<lambda>e. respond_err en (write_failed (''invalid event JSON: '' @ e)))
       (\<lambda>event. answer (respond_result en) (as_emit p event)))"

definition audit_sink_flush :: "('s, string) guard \<Rightarrow> ('e, unit) responder \<Rightarrow> ('s, 'm, 'ev, 'rc, 'e) sync_audit_sink \<Rightarrow> 64 word \<Rightarrow> 's \<Rightarrow> string \<times> 's" where
  "audit_sink_flush quiet en p timeout_ms = quiet (answer (respond_result en) (as_flush p timeout_ms))"

record ('s, 'm, 'ev, 'rc, 'e) audit_trait =
  ha_manifest :: "('s, 'm) body"
  ha_emit :: "'ev \<Rightarrow> ('s, ('e, 'rc) result) body"
  ha_flush :: "64 word \<Rightarrow> ('s, ('e, unit) result) body"
  ha_shutdown :: "('s, unit) body"

definition SyncAuditSinkAdapter :: "('s, 'm, 'ev, 'rc, 'e) sync_audit_sink \<Rightarrow> ('s, 'm, 'ev, 'rc, 'e) audit_trait" where
  "SyncAuditSinkAdapter inner = \<lparr>ha_manifest = as_manifest inner, ha_emit = as_emit inner, ha_flush = as_flush inner, ha_shutdown = as_shutdown inner\<rparr>"

record ('s, 'm, 'rec, 'e) sync_log_sink =
  ls_manifest :: "('s, 'm) body"
  ls_emit :: "'rec \<Rightarrow> ('s, unit) body"
  ls_flush :: "64 word \<Rightarrow> ('s, ('e, unit) result) body"
  ls_shutdown :: "('s, unit) body"

definition log_sink_emit :: "('s, unit) guard \<Rightarrow> 'rec serde \<Rightarrow> ('s, 'm, 'rec, 'e) sync_log_sink \<Rightarrow> string \<Rightarrow> 's \<Rightarrow> unit \<times> 's" where
  "log_sink_emit silent lr p record_json = silent (with_args lr record_json (\<lambda>_. ()) (ls_emit p))"

definition log_sink_flush :: "('s, string) guard \<Rightarrow> ('e, unit) responder \<Rightarrow> ('s, 'm, 'rec, 'e) sync_log_sink \<Rightarrow> 64 word \<Rightarrow> 's \<Rightarrow> string \<times> 's" where
  "log_sink_flush quiet en p timeout_ms = quiet (answer (respond_result en) (ls_flush p timeout_ms))"

record ('s, 'm, 'rec, 'e) log_trait =
  hl_manifest :: "('s, 'm) body"
  hl_emit :: "'rec \<Rightarrow> ('s, unit) body"
  hl_flush :: "duration \<Rightarrow> ('s, ('e, unit) result) body"
  hl_shutdown :: "('s, unit) body"

definition SyncLogSinkAdapter :: "('s, 'm, 'rec, 'e) sync_log_sink \<Rightarrow> ('s, 'm, 'rec, 'e) log_trait" where
  "SyncLogSinkAdapter inner = \<lparr>hl_manifest = ls_manifest inner, hl_emit = ls_emit inner,
     hl_flush = (\<lambda>timeout. ls_flush inner (as_millis_u64 timeout)), hl_shutdown = ls_shutdown inner\<rparr>"

record ('s, 'm, 'pt, 'e) sync_metrics_sink =
  ms_manifest :: "('s, 'm) body"
  ms_emit :: "'pt \<Rightarrow> ('s, unit) body"
  ms_flush :: "64 word \<Rightarrow> ('s, ('e, unit) result) body"
  ms_render_text_exposition :: "('s, string option) body"
  ms_shutdown :: "('s, unit) body"

definition metrics_default_render :: "('s, string option) body" where
  "metrics_default_render = yields None"

definition metrics_sink_emit :: "('s, unit) guard \<Rightarrow> 'pt serde \<Rightarrow> ('s, 'm, 'pt, 'e) sync_metrics_sink \<Rightarrow> string \<Rightarrow> 's \<Rightarrow> unit \<times> 's" where
  "metrics_sink_emit silent mp p metric_json = silent (with_args mp metric_json (\<lambda>_. ()) (ms_emit p))"

definition metrics_sink_flush :: "('s, string) guard \<Rightarrow> ('e, unit) responder \<Rightarrow> ('s, 'm, 'pt, 'e) sync_metrics_sink \<Rightarrow> 64 word \<Rightarrow> 's \<Rightarrow> string \<times> 's" where
  "metrics_sink_flush quiet en p timeout_ms = quiet (answer (respond_result en) (ms_flush p timeout_ms))"

definition metrics_sink_render_text_exposition :: "('s, string) guard \<Rightarrow> ('s, 'm, 'pt, 'e) sync_metrics_sink \<Rightarrow> 's \<Rightarrow> string \<times> 's" where
  "metrics_sink_render_text_exposition quiet p =
     quiet (answer (\<lambda>r. case r of Some t \<Rightarrow> t | None \<Rightarrow> []) (ms_render_text_exposition p))"

record ('s, 'm, 'pt, 'e) metrics_trait =
  hm_manifest :: "('s, 'm) body"
  hm_emit :: "'pt \<Rightarrow> ('s, unit) body"
  hm_flush :: "duration \<Rightarrow> ('s, ('e, unit) result) body"
  hm_render_text_exposition :: "('s, string option) body"
  hm_shutdown :: "('s, unit) body"

definition SyncMetricsSinkAdapter :: "('s, 'm, 'pt, 'e) sync_metrics_sink \<Rightarrow> ('s, 'm, 'pt, 'e) metrics_trait" where
  "SyncMetricsSinkAdapter inner = \<lparr>hm_manifest = ms_manifest inner, hm_emit = ms_emit inner,
     hm_flush = (\<lambda>timeout. ms_flush inner (as_millis_u64 timeout)),
     hm_render_text_exposition = ms_render_text_exposition inner, hm_shutdown = ms_shutdown inner\<rparr>"

record ('s, 'm, 'st, 'en, 'pt, 'rec, 'e) sync_telemetry_sink =
  ts_manifest :: "('s, 'm) body"
  ts_span_started :: "'st \<Rightarrow> ('s, unit) body"
  ts_span_ended :: "'en \<Rightarrow> ('s, unit) body"
  ts_metric_recorded :: "'pt \<Rightarrow> ('s, unit) body"
  ts_log_recorded :: "'rec \<Rightarrow> ('s, unit) body"
  ts_flush :: "64 word \<Rightarrow> ('s, ('e, unit) result) body"
  ts_shutdown :: "('s, unit) body"

definition telemetry_sink_span_started :: "('s, unit) guard \<Rightarrow> 'st serde \<Rightarrow> ('s, 'm, 'st, 'en, 'pt, 'rec, 'e) sync_telemetry_sink \<Rightarrow> string \<Rightarrow> 's \<Rightarrow> unit \<times> 's" where
  "telemetry_sink_span_started silent c p span_json = silent (with_args c span_json (\<lambda>_. ()) (ts_span_started p))"

definition telemetry_sink_span_ended :: "('s, unit) guard \<Rightarrow> 'en serde \<Rightarrow> ('s, 'm, 'st, 'en, 'pt, 'rec, 'e) sync_telemetry_sink \<Rightarrow> string \<Rightarrow> 's \<Rightarrow> unit \<times> 's" where
  "telemetry_sink_span_ended silent c p span_json = silent (with_args c span_json (\<lambda>_. ()) (ts_span_ended p))"

definition telemetry_sink_metric_recorded :: "('s, unit) guard \<Rightarrow> 'pt serde \<Rightarrow> ('s, 'm, 'st, 'en, 'pt, 'rec, 'e) sync_telemetry_sink \<Rightarrow> string \<Rightarrow> 's \<Rightarrow> unit \<times> 's" where
  "telemetry_sink_metric_recorded silent c p metric_json = silent (with_args c metric_json (\<lambda>_. ()) (ts_metric_recorded p))"

definition telemetry_sink_log_recorded :: "('s, unit) guard \<Rightarrow> 'rec serde \<Rightarrow> ('s, 'm, 'st, 'en, 'pt, 'rec, 'e) sync_telemetry_sink \<Rightarrow> string \<Rightarrow> 's \<Rightarrow> unit \<times> 's" where
  "telemetry_sink_log_recorded silent c p record_json = silent (with_args c record_json (\<lambda>_. ()) (ts_log_recorded p))"

definition telemetry_sink_flush :: "('s, string) guard \<Rightarrow> ('e, unit) responder \<Rightarrow> ('s, 'm, 'st, 'en, 'pt, 'rec, 'e) sync_telemetry_sink \<Rightarrow> 64 word \<Rightarrow> 's \<Rightarrow> string \<times> 's" where
  "telemetry_sink_flush quiet en p timeout_ms = quiet (answer (respond_result en) (ts_flush p timeout_ms))"

record ('s, 'm, 'st, 'en, 'pt, 'rec, 'e) telemetry_trait =
  hy_manifest :: "('s, 'm) body"
  hy_span_started :: "'st \<Rightarrow> ('s, unit) body"
  hy_span_ended :: "'en \<Rightarrow> ('s, unit) body"
  hy_metric_recorded :: "'pt \<Rightarrow> ('s, unit) body"
  hy_log_recorded :: "'rec \<Rightarrow> ('s, unit) body"
  hy_flush :: "duration \<Rightarrow> ('s, ('e, unit) result) body"
  hy_shutdown :: "('s, unit) body"

definition SyncTelemetrySinkAdapter :: "('s, 'm, 'st, 'en, 'pt, 'rec, 'e) sync_telemetry_sink \<Rightarrow> ('s, 'm, 'st, 'en, 'pt, 'rec, 'e) telemetry_trait" where
  "SyncTelemetrySinkAdapter inner = \<lparr>hy_manifest = ts_manifest inner, hy_span_started = ts_span_started inner,
     hy_span_ended = ts_span_ended inner, hy_metric_recorded = ts_metric_recorded inner, hy_log_recorded = ts_log_recorded inner,
     hy_flush = (\<lambda>timeout. ts_flush inner (as_millis_u64 timeout)), hy_shutdown = ts_shutdown inner\<rparr>"

interpretation a_emit: wire_slot quiet ae "envelope_reply en" "\<lambda>e. respond_err en (write_failed (''invalid event JSON: '' @ e))"
  "as_emit p" "audit_sink_emit quiet ae en write_failed p"
  by unfold_locales (simp add: audit_sink_emit_def)

interpretation a_flush: report_slot quiet "envelope_reply en" "as_flush p ms" "audit_sink_flush quiet en p ms"
  by unfold_locales (simp add: audit_sink_flush_def)

interpretation l_flush: report_slot quiet "envelope_reply en" "ls_flush p ms" "log_sink_flush quiet en p ms"
  by unfold_locales (simp add: log_sink_flush_def)

interpretation m_flush: report_slot quiet "envelope_reply en" "ms_flush p ms" "metrics_sink_flush quiet en p ms"
  by unfold_locales (simp add: metrics_sink_flush_def)

interpretation t_flush: report_slot quiet "envelope_reply en" "ts_flush p ms" "telemetry_sink_flush quiet en p ms"
  by unfold_locales (simp add: telemetry_sink_flush_def)

interpretation l_emit: drop_slot silent lr "ls_emit p" "log_sink_emit silent lr p"
  by unfold_locales (simp add: log_sink_emit_def)

interpretation m_emit: drop_slot silent mp "ms_emit p" "metrics_sink_emit silent mp p"
  by unfold_locales (simp add: metrics_sink_emit_def)

interpretation t_started: drop_slot silent c "ts_span_started p" "telemetry_sink_span_started silent c p"
  by unfold_locales (simp add: telemetry_sink_span_started_def)

interpretation t_ended: drop_slot silent c "ts_span_ended p" "telemetry_sink_span_ended silent c p"
  by unfold_locales (simp add: telemetry_sink_span_ended_def)

interpretation t_metric: drop_slot silent c "ts_metric_recorded p" "telemetry_sink_metric_recorded silent c p"
  by unfold_locales (simp add: telemetry_sink_metric_recorded_def)

interpretation t_log: drop_slot silent c "ts_log_recorded p" "telemetry_sink_log_recorded silent c p"
  by unfold_locales (simp add: telemetry_sink_log_recorded_def)

interpretation w_ack: drop_slot silent v "ws_acknowledge p h" "watch_acknowledge silent v p h"
  by unfold_locales (simp add: watch_acknowledge_def)

section \<open>Streams and their tokens\<close>

text \<open>C22. A backend's stream: whatever token a plugin returns, the host sees a handle that is not 0 and no error, so
  the stream counts as started; cancelling that handle cancels the plugin's token, 0 included. The one token that
  does not survive is the largest \<^verbatim>\<open>usize\<close>, which the plugin sees cancelled as 0. A plugin's error is a handle of
  0 with the error, and a request that does not parse is a transport error that never reaches the plugin.\<close>

theorem stream_token_roundtrip:
  assumes "guard_law failure" "guard_law silent" "exact rq req" "exact es (invalid_request transport e)" "sd_from rq bad = Inl e"
    and "exact es err"
  shows "(sb_execute_streaming p name req (\<lambda>chunk. callback ctx (respond_result en chunk)) s = (Some (Inr token), s') \<longrightarrow>
      (\<exists>h. binding_execute_streaming failure rq es en transport callback p name (text_or [] rq req) ctx s =
          (\<lparr>fs_handle = unat h, fs_error_json = [], fs_metadata_json = []\<rparr>, s') \<and> h \<noteq> 0 \<and>
        binding_cancel_stream silent p h = silent (sb_cancel_stream p (if token = - 1 then 0 else token)))) \<and>
    (sb_execute_streaming p name req (\<lambda>chunk. callback ctx (respond_result en chunk)) s = (Some (Inl err), s') \<longrightarrow>
      (\<exists>st. binding_execute_streaming failure rq es en transport callback p name (text_or [] rq req) ctx s = (st, s') \<and>
        fs_handle st = 0 \<and> sd_from es (fs_error_json st) = Inr err)) \<and>
    (\<exists>st. binding_execute_streaming failure rq es en transport callback p name bad ctx s = (st, s) \<and>
      fs_handle st = 0 \<and> sd_from es (fs_error_json st) = Inr (invalid_request transport e))"
proof (intro conjI impI)
  have run: "binding_execute_streaming failure rq es en transport callback p name (text_or [] rq req) ctx s = (token_stream es r, s')"
    if "sb_execute_streaming p name req (\<lambda>chunk. callback ctx (respond_result en chunk)) s = (Some r, s')" for r
    using that assms(1) by (simp add: binding_execute_streaming_def with_args_def serde_text [OF assms(3)] guard_answer)
  show "\<exists>h. binding_execute_streaming failure rq es en transport callback p name (text_or [] rq req) ctx s =
          (\<lparr>fs_handle = unat h, fs_error_json = [], fs_metadata_json = []\<rparr>, s') \<and> h \<noteq> 0 \<and>
        binding_cancel_stream silent p h = silent (sb_cancel_stream p (if token = - 1 then 0 else token))"
    if "sb_execute_streaming p name req (\<lambda>chunk. callback ctx (respond_result en chunk)) s = (Some (Inr token), s')"
    using run [OF that]
    by (intro exI [where x = "handle_of_token token"])
      (auto simp: token_stream_def stream_opened_def handle_of_token_def binding_cancel_stream_def STREAM_NO_CANCEL_SENTINEL_def)
  show "\<exists>st. binding_execute_streaming failure rq es en transport callback p name (text_or [] rq req) ctx s = (st, s') \<and>
        fs_handle st = 0 \<and> sd_from es (fs_error_json st) = Inr err"
    if "sb_execute_streaming p name req (\<lambda>chunk. callback ctx (respond_result en chunk)) s = (Some (Inl err), s')"
    using run [OF that] by (simp add: token_stream_def stream_failed_def serde_text [OF assms(6)])
  show "\<exists>st. binding_execute_streaming failure rq es en transport callback p name bad ctx s = (st, s) \<and>
      fs_handle st = 0 \<and> sd_from es (fs_error_json st) = Inr (invalid_request transport e)"
    using assms(1,5) by (simp add: binding_execute_streaming_def with_args_def stream_failed_def serde_text [OF assms(4)])
qed

text \<open>A backend that keeps a log of what its callback was given, and echoes.\<close>

definition demo_backend :: "((nat \<times> string) list, unit, string, string, string, unit, string, string) sync_backend" where
  "demo_backend = \<lparr>sb_manifest = yields (), sb_kind = yields ''sql'', sb_register_profile = (\<lambda>n sp. yields (Inr ())),
     sb_execute = (\<lambda>n r. yields (Inr (n @ r))),
     sb_execute_streaming = (\<lambda>n r emit s. (Some (Inr (if r = ''q'' then 0 else - 1)), emit (Inr (n @ r)) s)),
     sb_cancel_stream = (\<lambda>t s. (Some (), s @ [(unat t, ''cancelled'')])),
     sb_execute_transaction = (\<lambda>n g. yields (Inr g)), sb_audit_metadata = (\<lambda>n. yields [(''db.driver'', JStr n)]),
     sb_input_schema = backend_default_schema, sb_output_schema = backend_default_schema,
     sb_list_resources = backend_default_list_resources (), sb_expand_capabilities = yields (Inr ''tables''),
     sb_complete_template_variable = backend_default_complete_template_variable, sb_shutdown = yields ()\<rparr>"

definition demo_chunks :: "(string, string) responder" where
  "demo_chunks = \<lparr>respond_result = (\<lambda>r. case r of Inr v \<Rightarrow> ''S'' @ v | Inl e \<Rightarrow> ''E'' @ e), respond_ok = (\<lambda>v. ''S'' @ v),
     respond_err = (\<lambda>e. ''E'' @ e), read_envelope = (\<lambda>t. if t = [] then Inl ''empty'' else if hd t = CHR ''S'' then Inr (Inr (tl t)) else Inr (Inl (tl t)))\<rparr>"

theorem stream_token_roundtrip_witness:
  "\<exists>h. binding_execute_streaming (catch_unwind (stream_failed [])) (table_serde [(''t'', ''q'')]) demo_errors demo_chunks (\<lambda>m. m)
       (\<lambda>ctx payload s. s @ [(ctx, payload)]) demo_backend ''db'' ''t'' 3 [] =
       (\<lparr>fs_handle = unat h, fs_error_json = [], fs_metadata_json = []\<rparr>, [(3, ''Sdbq'')]) \<and> h \<noteq> 0 \<and>
     binding_cancel_stream (catch_unwind ()) demo_backend h = catch_unwind () (sb_cancel_stream demo_backend 0)"
proof -
  have ex: "exact demo_errors m" "exact (table_serde [(''t'', ''q'')]) ''q''" "text_or [] (table_serde [(''t'', ''q'')]) ''q'' = ''t''"
      "sd_from (table_serde [(''t'', ''q'')]) ''?'' = Inl ''unexpected text''" for m
    by (simp_all add: exact_def demo_errors_def table_serde_def text_or_def)
  have "sb_execute_streaming demo_backend ''db'' ''q'' (\<lambda>chunk s. s @ [(3, respond_result demo_chunks chunk)]) [] = (Some (Inr 0), [(3, ''Sdbq'')])"
    by (simp add: demo_backend_def demo_chunks_def)
  then show ?thesis
    using stream_token_roundtrip [where failure = "catch_unwind (stream_failed [])" and silent = "catch_unwind ()" and rq = "table_serde [(''t'', ''q'')]"
        and req = "''q''" and es = demo_errors and transport = "\<lambda>m. m" and e = "''unexpected text''" and bad = "''?''" and err = "[]"
        and p = demo_backend and name = "''db''" and callback = "\<lambda>ctx payload s. s @ [(ctx, payload)]" and ctx = 3 and en = demo_chunks
        and s = "[]" and token = 0 and s' = "[(3, ''Sdbq'')]"] ex
    by simp
qed

lemma unat_max: "unat (- 1 :: 64 word) = 2 ^ 64 - 1"
  by (simp add: unsigned_minus_1_eq_mask mask_eq_exp_minus_1)

text \<open>A backend that only implements \<^verbatim>\<open>execute\<close> streams its buffered response: one last chunk with the response is
  pushed to the host's sink, in an envelope, before the slot returns a started stream, and an error pushes nothing
  and is the slot's error.\<close>

theorem buffered_stream:
  assumes "guard_law failure" "exact rq req" "exact es err"
    and "sb_execute_streaming p = backend_default_execute_streaming chunk_done p"
  shows "(sb_execute p name req s = (Some (Inr resp), s') \<longrightarrow>
      (\<exists>st. binding_execute_streaming failure rq es en transport callback p name (text_or [] rq req) ctx s =
          (st, callback ctx (respond_result en (Inr (chunk_done resp))) s') \<and> fs_handle st = 2 ^ 64 - 1 \<and> fs_error_json st = [])) \<and>
    (sb_execute p name req s = (Some (Inl err), s') \<longrightarrow>
      (\<exists>st. binding_execute_streaming failure rq es en transport callback p name (text_or [] rq req) ctx s = (st, s') \<and>
        fs_handle st = 0 \<and> sd_from es (fs_error_json st) = Inr err))"
  using assms(1)
  by (auto simp: binding_execute_streaming_def with_args_def serde_text [OF assms(2)] serde_text [OF assms(3)] assms(4) guard_answer
      backend_default_execute_streaming_def token_stream_def handle_of_token_def STREAM_NO_CANCEL_SENTINEL_def stream_opened_def
      stream_failed_def unat_max)

definition demo_buffered :: "((nat \<times> string) list, unit, string, string, string, unit, string, string) sync_backend" where
  "demo_buffered = demo_backend\<lparr>sb_execute_streaming := backend_default_execute_streaming (\<lambda>r. ''done '' @ r) demo_backend\<rparr>"

lemma demo_buffered_default: "sb_execute_streaming demo_buffered = backend_default_execute_streaming (\<lambda>r. ''done '' @ r) demo_buffered"
  by (intro ext) (simp add: demo_buffered_def backend_default_execute_streaming_def)

theorem buffered_stream_witness:
  "\<exists>st. binding_execute_streaming (catch_unwind (stream_failed [])) (table_serde [(''t'', ''q'')]) demo_errors demo_chunks (\<lambda>m. m)
       (\<lambda>ctx payload s. s @ [(ctx, payload)]) demo_buffered ''db'' ''t'' 3 [] = (st, [(3, ''Sdone dbq'')]) \<and>
     fs_handle st = 2 ^ 64 - 1 \<and> fs_error_json st = []"
proof -
  have ex: "exact demo_errors m" "exact (table_serde [(''t'', ''q'')]) ''q''" "text_or [] (table_serde [(''t'', ''q'')]) ''q'' = ''t''"
      "respond_result demo_chunks (Inr ''done dbq'') = ''Sdone dbq''" for m
    by (simp_all add: exact_def demo_errors_def table_serde_def text_or_def demo_chunks_def)
  have "sb_execute demo_buffered ''db'' ''q'' [] = (Some (Inr ''dbq''), [])"
    by (simp add: demo_buffered_def demo_backend_def yields_def)
  then show ?thesis
    using buffered_stream [where failure = "catch_unwind (stream_failed [])" and rq = "table_serde [(''t'', ''q'')]" and req = "''q''"
        and es = demo_errors and err = "[]" and p = demo_buffered and chunk_done = "\<lambda>r. ''done '' @ r" and name = "''db''" and s = "[]"
        and resp = "''dbq''" and s' = "[]" and en = demo_chunks and transport = "\<lambda>m. m"
        and callback = "\<lambda>ctx payload s. s @ [(ctx, payload)]" and ctx = 3, OF _ _ _ demo_buffered_default] ex
    by simp
qed

section \<open>What the static build leaves out\<close>

text \<open>In the static build a backend's own streaming, transactions, audit fields and capabilities are never reached:
  the adapter answers with the host trait's defaults whatever the plugin implements, while every operation it does
  forward is the plugin's. In the same way a store's, a secret's, a config value's and a watch strategy's watches are
  refused or left to the default. The dynamic build forwards all of them.\<close>

theorem static_build_drops_operations:
  "hb_execute_streaming (SyncBackendPluginAdapter d p) = hb_execute_streaming d \<and>
   hb_execute_transaction (SyncBackendPluginAdapter d p) = hb_execute_transaction d \<and>
   hb_audit_metadata (SyncBackendPluginAdapter d p) = hb_audit_metadata d \<and>
   hb_expand_capabilities (SyncBackendPluginAdapter d p) = hb_expand_capabilities d \<and>
   hb_execute (SyncBackendPluginAdapter d p) = sb_execute p \<and> hb_list_resources (SyncBackendPluginAdapter d p) = sb_list_resources p \<and>
   hb_complete_template_variable (SyncBackendPluginAdapter d p) = sb_complete_template_variable p \<and>
   ht_watch (SyncStorePluginAdapter unsupported vf vi pf st) role key s = (Some (Inl (unsupported ''watch'')), s) \<and>
   hs_watch (SyncSecretProviderAdapter sd sf se) = hs_watch sd \<and> hf_watch (SyncConfigProviderAdapter cd cf) = hf_watch cd \<and>
   (\<exists>m. hw_watch (SyncWatchStrategyAdapter subscribe_error w) uri spec s = (Some (Inl (subscribe_error m)), s)) \<and>
   binding_execute_transaction (catch_unwind []) v en p name tx = catch_unwind [] (answer (respond_result en) (sb_execute_transaction p name (parse_or JNull v tx))) \<and>
   binding_expand_capabilities (catch_unwind []) ec p = catch_unwind [] (answer (respond_result ec) (sb_expand_capabilities p))"
  by (auto simp: SyncBackendPluginAdapter_def SyncStorePluginAdapter_def SyncSecretProviderAdapter_def SyncConfigProviderAdapter_def
      SyncWatchStrategyAdapter_def yields_def binding_execute_transaction_def binding_expand_capabilities_def)

section \<open>Sinks and backends, the two builds\<close>

text \<open>An audit event is never lost in silence: the host reads the receipt or the error of the plugin, and an event
  that does not parse is an error of the sink. Log records, metrics, spans and acknowledged positions are best
  effort: one that parses leaves the plugin as the static build's adapter would, one that does not leaves it as it
  was. A backend's requests and its pages of resources are served as by the adapter.\<close>

theorem sink_slots_record:
  assumes "guard_law quiet" "guard_law silent"
  shows "serves (audit_sink_emit quiet ae ea write_failed a) ae (envelope_reply ea) (ha_emit (SyncAuditSinkAdapter a)) \<and>
    (sd_from ae bad = Inl e \<longrightarrow> audit_sink_emit quiet ae ea write_failed a bad s = (respond_err ea (write_failed (''invalid event JSON: '' @ e)), s)) \<and>
    (exact lr x \<longrightarrow> snd (log_sink_emit silent lr l (text_or [] lr x) s) = snd (hl_emit (SyncLogSinkAdapter l) x s)) \<and>
    (sd_from lr bad = Inl e \<longrightarrow> snd (log_sink_emit silent lr l bad s) = s) \<and>
    (exact mp y \<longrightarrow> snd (metrics_sink_emit silent mp k (text_or [] mp y) s) = snd (hm_emit (SyncMetricsSinkAdapter k) y s)) \<and>
    (exact ss z \<longrightarrow> snd (telemetry_sink_span_started silent ss t (text_or [] ss z) s) = snd (hy_span_started (SyncTelemetrySinkAdapter t) z s)) \<and>
    (exact se u \<longrightarrow> snd (telemetry_sink_span_ended silent se t (text_or [] se u) s) = snd (hy_span_ended (SyncTelemetrySinkAdapter t) u s)) \<and>
    (sd_from v bad = Inl e \<longrightarrow> snd (watch_acknowledge silent v w h bad s) = s) \<and>
    reports (log_sink_flush quiet el l (as_millis_u64 d)) (envelope_reply el) (hl_flush (SyncLogSinkAdapter l) d) \<and>
    serves (binding_execute quiet rq er transport b name) rq (envelope_reply er) (hb_execute (SyncBackendPluginAdapter df b) name) \<and>
    reports (binding_list_resources quiet ep b name cur) (envelope_reply ep) (hb_list_resources (SyncBackendPluginAdapter df b) name cur)"
  using assms
  by (simp add: SyncAuditSinkAdapter_def SyncLogSinkAdapter_def SyncMetricsSinkAdapter_def SyncTelemetrySinkAdapter_def SyncBackendPluginAdapter_def
      a_emit.run_serves a_emit.run_malformed l_emit.run_recorded l_emit.run_dropped m_emit.run_recorded t_started.run_recorded
      t_ended.run_recorded w_ack.run_dropped l_flush.run_reports b_execute.run_serves b_resources.run_reports)

definition demo_audit :: "(nat, unit, string, nat, string) sync_audit_sink" where
  "demo_audit = \<lparr>as_manifest = yields (), as_emit = (\<lambda>ev s. (Some (Inr s), s + 1)), as_flush = sink_default_flush, as_shutdown = yields ()\<rparr>"

definition demo_receipts :: "(string, nat) responder" where
  "demo_receipts = \<lparr>respond_result = (\<lambda>r. case r of Inl e \<Rightarrow> e | Inr n \<Rightarrow> []), respond_ok = (\<lambda>v. []), respond_err = (\<lambda>e. e),
     read_envelope = (\<lambda>t. if t = [] then Inr (Inr 0) else Inr (Inl t))\<rparr>"

theorem sink_slots_record_witness:
  "audit_sink_emit (catch_unwind []) (table_serde []) demo_receipts (\<lambda>e. e) demo_audit ''?'' 4 = (''invalid event JSON: unexpected text'', 4)"
proof -
  have "sd_from (table_serde [] :: string serde) ''?'' = Inl ''unexpected text'' \<longrightarrow>
      audit_sink_emit (catch_unwind []) (table_serde []) demo_receipts (\<lambda>e. e) demo_audit ''?'' 4 =
        (respond_err demo_receipts (''invalid event JSON: '' @ ''unexpected text''), 4)"
    using sink_slots_record [where write_failed = "\<lambda>e. e" and ae = "table_serde []" and ea = demo_receipts and a = demo_audit and bad = "''?''" and e = "''unexpected text''"
        and s = 4 and quiet = "catch_unwind []" and silent = "catch_unwind ()", OF catch_unwind_law catch_unwind_law, THEN conjunct2, THEN conjunct1] .
  then show ?thesis by (simp add: demo_receipts_def)
qed

end
