(* ===== verification/Cluster_Slots.thy ===== *)
theory Cluster_Slots
  imports Data_Slots Cluster_Client "HOL-Library.Monad_Syntax"
begin

text \<open>
  The coordinator's side of a cluster: the trait \<^verbatim>\<open>SyncClusterBackend\<close> with its defaults and \<^verbatim>\<open>collect_pages\<close>
  (\<^verbatim>\<open>src/src/ffi.rs\<close>), and the slots the SDK builds for it (\<^verbatim>\<open>src/src/macros.rs\<close>). They are the functions behind
  the table that \<open>Cluster_Client\<close> calls, so the two sides are composed here: what a client makes of the
  answer of a slot.

  The paging loop may not end, so it is a partial function: no value is a loop that runs for ever. The
  page size of the cluster API and its wire types are parameters.
\<close>

section \<open>The coordinator's trait\<close>

record 'en kv_page =
  kp_entries :: "(string \<times> 'en) list"
  kp_next :: "string option"

text \<open>A call that may never return.\<close>

type_synonym ('s, 'a) looping = "'s \<Rightarrow> ('a option \<times> 's) option"

type_synonym lease_triple = "nat \<times> 64 word \<times> string"

record ('s, 'm, 'n, 'p, 'en, 'e) sync_cluster =
  kb_manifest :: "('s, 'm) body"
  kb_node_info :: "('s, 'n) body"
  kb_list_peers :: "('s, 'p list) body"
  kb_publish :: "string \<Rightarrow> string option \<Rightarrow> bytes \<Rightarrow> ('s, ('e, unit) result) body"
  kb_subscribe :: "string \<Rightarrow> string option \<Rightarrow> string option \<Rightarrow> (string \<Rightarrow> nat \<times> string) \<Rightarrow> ('s, ('e, nat) result) body"
  kb_watch_peers :: "(string \<Rightarrow> nat \<times> string) \<Rightarrow> ('s, ('e, nat) result) body"
  kb_cancel_stream :: "nat \<Rightarrow> ('s, unit) body"
  kb_acquire_leadership :: "string \<Rightarrow> 64 word \<Rightarrow> ('s, ('e, lease_triple) result) body"
  kb_acquire_lock :: "string \<Rightarrow> 64 word \<Rightarrow> ('s, ('e, lease_triple) result) body"
  kb_try_acquire_leadership :: "string \<Rightarrow> 64 word \<Rightarrow> ('s, ('e, lease_triple option) result) body"
  kb_try_acquire_lock :: "string \<Rightarrow> 64 word \<Rightarrow> ('s, ('e, lease_triple option) result) body"
  kb_lease_renew :: "nat \<Rightarrow> ('s, ('e, string) result) body"
  kb_lease_release :: "nat \<Rightarrow> ('s, ('e, unit) result) body"
  kb_lease_drop :: "nat \<Rightarrow> ('s, unit) body"
  kb_kv_get :: "string \<Rightarrow> ('s, ('e, 'en option) result) body"
  kb_kv_put :: "string \<Rightarrow> bytes \<Rightarrow> 64 word option \<Rightarrow> ('s, ('e, unit) result) body"
  kb_kv_put_if_absent :: "string \<Rightarrow> bytes \<Rightarrow> 64 word option \<Rightarrow> ('s, ('e, bool) result) body"
  kb_kv_delete :: "string \<Rightarrow> ('s, ('e, bool) result) body"
  kb_kv_list_page :: "string \<Rightarrow> string option \<Rightarrow> nat \<Rightarrow> ('s, ('e, 'en kv_page) result) body"
  kb_kv_expire :: "string \<Rightarrow> 64 word option \<Rightarrow> ('s, ('e, bool) result) body"
  kb_kv_incr :: "string \<Rightarrow> 64 word \<Rightarrow> 64 word option \<Rightarrow> ('s, ('e, 64 word) result) body"
  kb_declares_kv_incr_floor :: "('s, bool) body"
  kb_kv_incr_floor :: "string \<Rightarrow> 64 word \<Rightarrow> 64 word \<Rightarrow> 64 word option \<Rightarrow> ('s, ('e, 64 word) result) body"
  kb_kv_get_in :: "string option \<Rightarrow> string \<Rightarrow> ('s, ('e, 'en option) result) body"
  kb_kv_put_in :: "string option \<Rightarrow> string \<Rightarrow> bytes \<Rightarrow> 64 word option \<Rightarrow> ('s, ('e, unit) result) body"
  kb_kv_put_if_absent_in :: "string option \<Rightarrow> string \<Rightarrow> bytes \<Rightarrow> 64 word option \<Rightarrow> ('s, ('e, bool) result) body"
  kb_kv_delete_in :: "string option \<Rightarrow> string \<Rightarrow> ('s, ('e, bool) result) body"
  kb_kv_list_page_in :: "string option \<Rightarrow> string \<Rightarrow> string option \<Rightarrow> nat \<Rightarrow> ('s, ('e, 'en kv_page) result) body"
  kb_kv_list_prefix_in :: "string option \<Rightarrow> string \<Rightarrow> nat \<Rightarrow> ('s, ('e, (string \<times> 'en) list) result) looping"
  kb_kv_expire_in :: "string option \<Rightarrow> string \<Rightarrow> 64 word option \<Rightarrow> ('s, ('e, bool) result) body"
  kb_kv_incr_in :: "string option \<Rightarrow> string \<Rightarrow> 64 word \<Rightarrow> 64 word option \<Rightarrow> ('s, ('e, 64 word) result) body"
  kb_kv_incr_floor_in :: "string option \<Rightarrow> string \<Rightarrow> 64 word \<Rightarrow> 64 word \<Rightarrow> 64 word option \<Rightarrow> ('s, ('e, 64 word) result) body"
  kb_shutdown :: "('s, unit) body"

section \<open>Paging\<close>

partial_function (option) collect_loop :: "(string option \<Rightarrow> nat \<Rightarrow> ('s, ('e, 'en kv_page) result) body) \<Rightarrow> nat \<Rightarrow> nat \<Rightarrow>
    (string \<times> 'en) list \<Rightarrow> string option \<Rightarrow> 's \<Rightarrow> (('e, (string \<times> 'en) list) result option \<times> 's) option" where
  "collect_loop next_page page_size limit out cursor s =
     (if length out < limit then
        (case next_page cursor (min (limit - length out) page_size) s of
           (None, s') \<Rightarrow> Some (None, s')
         | (Some (Inl e), s') \<Rightarrow> Some (Some (Inl e), s')
         | (Some (Inr page), s') \<Rightarrow>
             (case kp_next page of
                None \<Rightarrow> Some (Some (Inr (out @ take (limit - length out) (kp_entries page))), s')
              | Some next \<Rightarrow>
                  (if cursor \<noteq> Some next
                   then collect_loop next_page page_size limit (out @ take (limit - length out) (kp_entries page)) (Some next) s'
                   else Some (Some (Inr (out @ take (limit - length out) (kp_entries page))), s'))))
      else Some (Some (Inr out), s))"

definition collect_pages :: "nat \<Rightarrow> nat \<Rightarrow> (string option \<Rightarrow> nat \<Rightarrow> ('s, ('e, 'en kv_page) result) body) \<Rightarrow>
    ('s, ('e, (string \<times> 'en) list) result) looping" where
  "collect_pages page_size limit next_page s = collect_loop next_page page_size limit [] None s"

text \<open>
  A store that keeps its promise: the page after a cursor is a prefix of what remains there, and the next
  cursor, which is not the one it was given, stands for the rest and is closer to the end of the pass. The
  entries that remain, and the distance to the end, are the store's.
\<close>

definition honest_pager :: "(string option \<Rightarrow> nat \<Rightarrow> ('s, ('e, 'en kv_page) result) body) \<Rightarrow> (string option \<Rightarrow> (string \<times> 'en) list) \<Rightarrow>
    (string option \<Rightarrow> nat) \<Rightarrow> bool" where
  "honest_pager next_page remaining dist \<longleftrightarrow> (\<forall>cursor want s. 0 < want \<longrightarrow> (\<exists>k page.
     next_page cursor want s = (Some (Inr page), s) \<and> kp_entries page = take k (remaining cursor) \<and>
     (case kp_next page of
        None \<Rightarrow> length (remaining cursor) \<le> k
      | Some c \<Rightarrow> remaining (Some c) = drop k (remaining cursor) \<and> dist (Some c) < dist cursor)))"

lemma take_page: "take n (take k xs) @ take (n - length (take n (take k xs))) (drop k xs) = take n xs"
proof (cases "n \<le> k")
  case True
  then show ?thesis by (cases "n \<le> length xs") auto
next
  case False
  then have "take n xs = take k xs @ take (n - k) (drop k xs)" by (metis le_add_diff_inverse nle_le take_add)
  then show ?thesis using False by (cases "k \<le> length xs") auto
qed

lemma collect_loop_complete:
  assumes "honest_pager next_page remaining dist" "0 < page_size" "length out \<le> limit"
  shows "collect_loop next_page page_size limit out cursor s = Some (Some (Inr (out @ take (limit - length out) (remaining cursor))), s)"
  using assms(3)
proof (induction "dist cursor" arbitrary: cursor out rule: less_induct)
  case less
  show ?case
  proof (cases "length out < limit")
    case False
    then show ?thesis using less.prems by (simp add: collect_loop.simps)
  next
    case True
    then have "0 < min (limit - length out) page_size" using assms(2) by simp
    then obtain k page where page: "next_page cursor (min (limit - length out) page_size) s = (Some (Inr page), s)"
        "kp_entries page = take k (remaining cursor)"
      and after: "case kp_next page of None \<Rightarrow> length (remaining cursor) \<le> k
        | Some c \<Rightarrow> remaining (Some c) = drop k (remaining cursor) \<and> dist (Some c) < dist cursor"
      using assms(1) unfolding honest_pager_def by blast
    let ?out = "out @ take (limit - length out) (kp_entries page)"
    show ?thesis
    proof (cases "kp_next page")
      case None
      then have "take (limit - length out) (kp_entries page) = take (limit - length out) (remaining cursor)"
        using page(2) after by simp
      then show ?thesis using True page(1) None by (simp add: collect_loop.simps)
    next
      case (Some c)
      then have c: "remaining (Some c) = drop k (remaining cursor)" "dist (Some c) < dist cursor" using after by simp_all
      then have "cursor \<noteq> Some c" by blast
      then have "collect_loop next_page page_size limit out cursor s = collect_loop next_page page_size limit ?out (Some c) s"
        using True page(1) Some by (subst collect_loop.simps) simp
      also have "\<dots> = Some (Some (Inr (?out @ take (limit - length ?out) (remaining (Some c)))), s)"
        using less.hyps [of "Some c" ?out] c(2) True by auto
      also have "?out @ take (limit - length ?out) (remaining (Some c)) = out @ take (limit - length out) (remaining cursor)"
        using take_page [of "limit - length out" k "remaining cursor"] c(1) page(2) by simp
      finally show ?thesis .
    qed
  qed
qed

text \<open>A store whose cursors alternate, with nothing on its pages.\<close>

definition alternating_pager :: "string \<Rightarrow> string \<Rightarrow> string option \<Rightarrow> nat \<Rightarrow> ('s, ('e, 'en kv_page) result) body" where
  "alternating_pager a b cursor want = yields (Inr \<lparr>kp_entries = [], kp_next = Some (if cursor = Some a then b else a)\<rparr>)"

lemma collect_loop_alternates:
  fixes s :: 's and out :: "(string \<times> 'en) list"
  assumes "a \<noteq> b" "length out < limit"
  shows "collect_loop (alternating_pager a b) page_size limit out cursor s = (None :: (('e, (string \<times> 'en) list) result option \<times> 's) option)"
proof (cases "collect_loop (alternating_pager a b :: string option \<Rightarrow> nat \<Rightarrow> ('s, ('e, 'en kv_page) result) body) page_size limit out cursor s")
  case (Some r)
  then have "(alternating_pager a b :: string option \<Rightarrow> nat \<Rightarrow> ('s, ('e, 'en kv_page) result) body) = alternating_pager a b \<longrightarrow> \<not> length out < limit"
  proof (rule collect_loop.raw_induct [where P = "\<lambda>np ps limit out cursor s r. np = alternating_pager a b \<longrightarrow> \<not> length out < limit", rotated], intro impI notI)
    fix f :: "(string option \<Rightarrow> nat \<Rightarrow> ('s, ('e, 'en kv_page) result) body) \<Rightarrow> nat \<Rightarrow> nat \<Rightarrow> (string \<times> 'en) list \<Rightarrow> string option \<Rightarrow> 's \<Rightarrow>
      (('e, (string \<times> 'en) list) result option \<times> 's) option" and np ps limit out cursor s r
    assume ih: "\<And>np ps limit out cursor s r. f np ps limit out cursor s = Some r \<Longrightarrow> np = alternating_pager a b \<longrightarrow> \<not> length out < limit"
      and np: "np = alternating_pager a b" and room: "length out < limit"
      and run: "(if length out < limit then
        (case np cursor (min (limit - length out) ps) s of
           (None, s') \<Rightarrow> Some (None, s')
         | (Some (Inl e), s') \<Rightarrow> Some (Some (Inl e), s')
         | (Some (Inr page), s') \<Rightarrow>
             (case kp_next page of
                None \<Rightarrow> Some (Some (Inr (out @ take (limit - length out) (kp_entries page))), s')
              | Some next \<Rightarrow>
                  (if cursor \<noteq> Some next then f np ps limit (out @ take (limit - length out) (kp_entries page)) (Some next) s'
                   else Some (Some (Inr (out @ take (limit - length out) (kp_entries page))), s'))))
      else Some (Some (Inr out), s)) = Some r"
    have "f np ps limit out (Some (if cursor = Some a then b else a)) s = Some r"
      using run room np \<open>a \<noteq> b\<close> by (simp add: alternating_pager_def yields_def split: if_splits)
    with ih [OF this] np room show False by simp
  qed
  with assms(2) show ?thesis by simp
qed

section \<open>Defaults\<close>

definition kv_unsupported :: "(string \<Rightarrow> 'e) \<Rightarrow> 'e" where
  "kv_unsupported unsupported = unsupported ''coordinator does not provide a key_value_store''"

definition cluster_default_subscribe :: "(string \<Rightarrow> 'e) \<Rightarrow> string \<Rightarrow> string option \<Rightarrow> string option \<Rightarrow> (string \<Rightarrow> nat \<times> string) \<Rightarrow> ('s, ('e, nat) result) body" where
  "cluster_default_subscribe internal topic grp routing_key emit = yields (Inl (internal ''subscribe not implemented''))"

definition cluster_default_watch_peers :: "(string \<Rightarrow> 'e) \<Rightarrow> (string \<Rightarrow> nat \<times> string) \<Rightarrow> ('s, ('e, nat) result) body" where
  "cluster_default_watch_peers internal emit = yields (Inl (internal ''watch_peers not implemented''))"

definition cluster_default_cancel_stream :: "nat \<Rightarrow> ('s, unit) body" where
  "cluster_default_cancel_stream h = yields ()"

definition cluster_default_acquire_leadership :: "(string \<Rightarrow> 'e) \<Rightarrow> string \<Rightarrow> 64 word \<Rightarrow> ('s, ('e, lease_triple) result) body" where
  "cluster_default_acquire_leadership internal role ttl = yields (Inl (internal ''acquire_leadership not implemented''))"

definition cluster_default_acquire_lock :: "(string \<Rightarrow> 'e) \<Rightarrow> string \<Rightarrow> 64 word \<Rightarrow> ('s, ('e, lease_triple) result) body" where
  "cluster_default_acquire_lock internal key ttl = yields (Inl (internal ''acquire_lock not implemented''))"

definition cluster_default_try_acquire_leadership :: "('s, 'm, 'n, 'p, 'en, 'e) sync_cluster \<Rightarrow> string \<Rightarrow> 64 word \<Rightarrow> ('s, ('e, lease_triple option) result) body" where
  "cluster_default_try_acquire_leadership p role ttl = answer (map_sum id Some) (kb_acquire_leadership p role ttl)"

definition cluster_default_try_acquire_lock :: "('s, 'm, 'n, 'p, 'en, 'e) sync_cluster \<Rightarrow> string \<Rightarrow> 64 word \<Rightarrow> ('s, ('e, lease_triple option) result) body" where
  "cluster_default_try_acquire_lock p key ttl = answer (map_sum id Some) (kb_acquire_lock p key ttl)"

definition cluster_default_lease_renew :: "'e \<Rightarrow> nat \<Rightarrow> ('s, ('e, string) result) body" where
  "cluster_default_lease_renew lease_expired h = yields (Inl lease_expired)"

definition cluster_default_lease_release :: "nat \<Rightarrow> ('s, ('e, unit) result) body" where
  "cluster_default_lease_release h = yields (Inr ())"

definition cluster_default_lease_drop :: "nat \<Rightarrow> ('s, unit) body" where
  "cluster_default_lease_drop h = yields ()"

text \<open>Every operation of a key-value store that a coordinator does not have.\<close>

definition cluster_default_kv :: "(string \<Rightarrow> 'e) \<Rightarrow> ('s, ('e, 'a) result) body" where
  "cluster_default_kv unsupported = yields (Inl (kv_unsupported unsupported))"

definition cluster_default_declares_kv_incr_floor :: "('s, bool) body" where
  "cluster_default_declares_kv_incr_floor = yields False"

definition cluster_default_kv_get_in :: "('s, 'm, 'n, 'p, 'en, 'e) sync_cluster \<Rightarrow> string option \<Rightarrow> string \<Rightarrow> ('s, ('e, 'en option) result) body" where
  "cluster_default_kv_get_in p store key = kb_kv_get p key"

definition cluster_default_kv_put_in :: "('s, 'm, 'n, 'p, 'en, 'e) sync_cluster \<Rightarrow> string option \<Rightarrow> string \<Rightarrow> bytes \<Rightarrow> 64 word option \<Rightarrow> ('s, ('e, unit) result) body" where
  "cluster_default_kv_put_in p store key val ttl = kb_kv_put p key val ttl"

definition cluster_default_kv_put_if_absent_in :: "('s, 'm, 'n, 'p, 'en, 'e) sync_cluster \<Rightarrow> string option \<Rightarrow> string \<Rightarrow> bytes \<Rightarrow> 64 word option \<Rightarrow> ('s, ('e, bool) result) body" where
  "cluster_default_kv_put_if_absent_in p store key val ttl = kb_kv_put_if_absent p key val ttl"

definition cluster_default_kv_delete_in :: "('s, 'm, 'n, 'p, 'en, 'e) sync_cluster \<Rightarrow> string option \<Rightarrow> string \<Rightarrow> ('s, ('e, bool) result) body" where
  "cluster_default_kv_delete_in p store key = kb_kv_delete p key"

definition cluster_default_kv_list_page_in :: "('s, 'm, 'n, 'p, 'en, 'e) sync_cluster \<Rightarrow> string option \<Rightarrow> string \<Rightarrow> string option \<Rightarrow> nat \<Rightarrow> ('s, ('e, 'en kv_page) result) body" where
  "cluster_default_kv_list_page_in p store prefix cursor limit = kb_kv_list_page p prefix cursor limit"

definition cluster_default_kv_list_prefix :: "nat \<Rightarrow> ('s, 'm, 'n, 'p, 'en, 'e) sync_cluster \<Rightarrow> string \<Rightarrow> nat \<Rightarrow> ('s, ('e, (string \<times> 'en) list) result) looping" where
  "cluster_default_kv_list_prefix page_size p prefix limit = collect_pages page_size limit (kb_kv_list_page p prefix)"

definition cluster_default_kv_list_prefix_in :: "nat \<Rightarrow> ('s, 'm, 'n, 'p, 'en, 'e) sync_cluster \<Rightarrow> string option \<Rightarrow> string \<Rightarrow> nat \<Rightarrow> ('s, ('e, (string \<times> 'en) list) result) looping" where
  "cluster_default_kv_list_prefix_in page_size p store prefix limit = collect_pages page_size limit (kb_kv_list_page_in p store prefix)"

definition cluster_default_kv_expire_in :: "('s, 'm, 'n, 'p, 'en, 'e) sync_cluster \<Rightarrow> string option \<Rightarrow> string \<Rightarrow> 64 word option \<Rightarrow> ('s, ('e, bool) result) body" where
  "cluster_default_kv_expire_in p store key ttl = kb_kv_expire p key ttl"

definition cluster_default_kv_incr_in :: "('s, 'm, 'n, 'p, 'en, 'e) sync_cluster \<Rightarrow> string option \<Rightarrow> string \<Rightarrow> 64 word \<Rightarrow> 64 word option \<Rightarrow> ('s, ('e, 64 word) result) body" where
  "cluster_default_kv_incr_in p store key delta ttl = kb_kv_incr p key delta ttl"

definition cluster_default_kv_incr_floor_in :: "('s, 'm, 'n, 'p, 'en, 'e) sync_cluster \<Rightarrow> string option \<Rightarrow> string \<Rightarrow> 64 word \<Rightarrow> 64 word \<Rightarrow> 64 word option \<Rightarrow> ('s, ('e, 64 word) result) body" where
  "cluster_default_kv_incr_floor_in p store key delta lowest ttl = kb_kv_incr_floor p key delta lowest ttl"

section \<open>Slots\<close>

text \<open>The manifest says which features of the wire the slots have; \<open>to_value\<close> and \<open>value_text\<close> are serde's.\<close>

definition cluster_features :: "string \<Rightarrow> string \<Rightarrow> bool \<Rightarrow> json" where
  "cluster_features base64_feature floor_feature declares =
     JArr (map JStr ([base64_feature] @ (if declares then [floor_feature] else [])))"

definition cluster_manifest :: "('s, string) guard \<Rightarrow> ('m \<Rightarrow> json option) \<Rightarrow> (json \<Rightarrow> string) \<Rightarrow> string \<Rightarrow> string \<Rightarrow>
    ('s, 'm, 'n, 'p, 'en, 'e) sync_cluster \<Rightarrow> 's \<Rightarrow> string \<times> 's" where
  "cluster_manifest quiet to_value value_text base64_feature floor_feature p =
     quiet (and_then (kb_manifest p) (\<lambda>manifest. answer (\<lambda>declares.
       (case to_value manifest of
          Some (JObj fs) \<Rightarrow> value_text (JObj (bt_insert ''wire_features'' (cluster_features base64_feature floor_feature declares) fs))
        | _ \<Rightarrow> [])) (kb_declares_kv_incr_floor p)))"

definition cluster_node_info :: "('s, string) guard \<Rightarrow> 'n serde \<Rightarrow> ('s, 'm, 'n, 'p, 'en, 'e) sync_cluster \<Rightarrow> 's \<Rightarrow> string \<times> 's" where
  "cluster_node_info quiet ni p = quiet (answer (text_or [] ni) (kb_node_info p))"

definition cluster_list_peers :: "('s, string) guard \<Rightarrow> 'p list serde \<Rightarrow> ('s, 'm, 'n, 'p, 'en, 'e) sync_cluster \<Rightarrow> 's \<Rightarrow> string \<times> 's" where
  "cluster_list_peers quiet ps p = quiet (answer (text_or ''[]'' ps) (kb_list_peers p))"

record publish_args =
  pb_topic :: string
  pb_routing_key :: "string option"
  pb_payload :: bytes

record subscribe_args =
  sa_topic :: string
  sa_group :: "string option"
  sa_routing_key :: "string option"

record acquire_args =
  aq_name :: string
  aq_ttl :: "64 word"

definition cluster_publish :: "('s, string) guard \<Rightarrow> publish_args serde \<Rightarrow> ('e, unit) responder \<Rightarrow> (string \<Rightarrow> 'e) \<Rightarrow>
    ('s, 'm, 'n, 'p, 'en, 'e) sync_cluster \<Rightarrow> string \<Rightarrow> 's \<Rightarrow> string \<times> 's" where
  "cluster_publish quiet pb en invalid_reference p args_text =
     quiet (with_args pb args_text (\<lambda>e. respond_err en (invalid_reference (''malformed publish args: '' @ e)))
       (\<lambda>a. answer (respond_result en) (kb_publish p (pb_topic a) (pb_routing_key a) (pb_payload a))))"

definition cluster_subscribe_body :: "subscribe_args serde \<Rightarrow> (string \<Rightarrow> 'e) \<Rightarrow> ('s, 'm, 'n, 'p, 'en, 'e) sync_cluster \<Rightarrow>
    string \<Rightarrow> nat \<Rightarrow> ('s, ('e, nat) result) body" where
  "cluster_subscribe_body sa invalid_reference p args_text ctx =
     with_args sa args_text (\<lambda>e. Inl (invalid_reference (''malformed subscribe args: '' @ e)))
       (\<lambda>a. kb_subscribe p (sa_topic a) (sa_group a) (sa_routing_key a) (sink_emit ctx))"

definition cluster_subscribe :: "subscribe_args serde \<Rightarrow> 'e serde \<Rightarrow> (string \<Rightarrow> 'e) \<Rightarrow> (string \<Rightarrow> 'e) \<Rightarrow> ('s, 'm, 'n, 'p, 'en, 'e) sync_cluster \<Rightarrow>
    string \<Rightarrow> nat \<Rightarrow> 's \<Rightarrow> ffi_stream \<times> 's" where
  "cluster_subscribe sa es invalid_reference internal p args_text ctx =
     catch_unwind (stream_failed (text_or [] es (internal ''plugin panicked during subscribe'')))
       (answer (stream_of_result es) (cluster_subscribe_body sa invalid_reference p args_text ctx))"

definition cluster_watch_peers :: "'e serde \<Rightarrow> (string \<Rightarrow> 'e) \<Rightarrow> ('s, 'm, 'n, 'p, 'en, 'e) sync_cluster \<Rightarrow> nat \<Rightarrow> 's \<Rightarrow> ffi_stream \<times> 's" where
  "cluster_watch_peers es internal p ctx =
     catch_unwind (stream_failed (text_or [] es (internal ''plugin panicked during watch_peers'')))
       (answer (stream_of_result es) (kb_watch_peers p (sink_emit ctx)))"

definition cluster_cancel_stream :: "('s, unit) guard \<Rightarrow> ('s, 'm, 'n, 'p, 'en, 'e) sync_cluster \<Rightarrow> nat \<Rightarrow> 's \<Rightarrow> unit \<times> 's" where
  "cluster_cancel_stream silent p h = silent (kb_cancel_stream p h)"

definition cluster_lease_acquire_err :: "'e serde \<Rightarrow> 'e \<Rightarrow> lease_handle" where
  "cluster_lease_acquire_err es e = \<lparr>lh_handle = 0, lh_fencing_token = 0, lh_expires_at = [], lh_error_json = text_or [] es e\<rparr>"

definition lease_granted :: "lease_triple \<Rightarrow> lease_handle" where
  "lease_granted l = (case l of (h, token, expires) \<Rightarrow>
     \<lparr>lh_handle = h, lh_fencing_token = unat token, lh_expires_at = expires, lh_error_json = []\<rparr>)"

definition lease_declined :: lease_handle where
  "lease_declined = \<lparr>lh_handle = 0, lh_fencing_token = 0, lh_expires_at = [], lh_error_json = []\<rparr>"

definition cluster_acquire :: "acquire_args serde \<Rightarrow> 'e serde \<Rightarrow> (string \<Rightarrow> 'e) \<Rightarrow> (string \<Rightarrow> 'e) \<Rightarrow> string \<Rightarrow>
    (string \<Rightarrow> 64 word \<Rightarrow> ('s, ('e, lease_triple) result) body) \<Rightarrow> string \<Rightarrow> 's \<Rightarrow> lease_handle \<times> 's" where
  "cluster_acquire aq es invalid_reference internal op method args_text =
     catch_unwind (cluster_lease_acquire_err es (internal (''plugin panicked during '' @ op)))
       (with_args aq args_text (\<lambda>e. cluster_lease_acquire_err es (invalid_reference (''malformed acquire args: '' @ e)))
          (\<lambda>a. answer (\<lambda>r. case r of Inr l \<Rightarrow> lease_granted l | Inl e \<Rightarrow> cluster_lease_acquire_err es e) (method (aq_name a) (aq_ttl a))))"

definition cluster_acquire_leadership :: "acquire_args serde \<Rightarrow> 'e serde \<Rightarrow> (string \<Rightarrow> 'e) \<Rightarrow> (string \<Rightarrow> 'e) \<Rightarrow> ('s, 'm, 'n, 'p, 'en, 'e) sync_cluster \<Rightarrow>
    string \<Rightarrow> 's \<Rightarrow> lease_handle \<times> 's" where
  "cluster_acquire_leadership aq es invalid_reference internal p =
     cluster_acquire aq es invalid_reference internal ''acquire_leadership'' (kb_acquire_leadership p)"

definition cluster_acquire_lock :: "acquire_args serde \<Rightarrow> 'e serde \<Rightarrow> (string \<Rightarrow> 'e) \<Rightarrow> (string \<Rightarrow> 'e) \<Rightarrow> ('s, 'm, 'n, 'p, 'en, 'e) sync_cluster \<Rightarrow>
    string \<Rightarrow> 's \<Rightarrow> lease_handle \<times> 's" where
  "cluster_acquire_lock aq es invalid_reference internal p =
     cluster_acquire aq es invalid_reference internal ''acquire_lock'' (kb_acquire_lock p)"

definition cluster_try_acquire :: "acquire_args serde \<Rightarrow> 'e serde \<Rightarrow> (string \<Rightarrow> 'e) \<Rightarrow> (string \<Rightarrow> 'e) \<Rightarrow> string \<Rightarrow>
    (string \<Rightarrow> 64 word \<Rightarrow> ('s, ('e, lease_triple option) result) body) \<Rightarrow> string \<Rightarrow> 's \<Rightarrow> lease_handle \<times> 's" where
  "cluster_try_acquire aq es invalid_reference internal op method args_text =
     catch_unwind (cluster_lease_acquire_err es (internal (''plugin panicked during '' @ op)))
       (with_args aq args_text (\<lambda>e. cluster_lease_acquire_err es (invalid_reference (''malformed acquire args: '' @ e)))
          (\<lambda>a. answer (\<lambda>r. case r of Inr (Some l) \<Rightarrow> lease_granted l | Inr None \<Rightarrow> lease_declined | Inl e \<Rightarrow> cluster_lease_acquire_err es e)
             (method (aq_name a) (aq_ttl a))))"

definition cluster_try_acquire_leadership :: "acquire_args serde \<Rightarrow> 'e serde \<Rightarrow> (string \<Rightarrow> 'e) \<Rightarrow> (string \<Rightarrow> 'e) \<Rightarrow> ('s, 'm, 'n, 'p, 'en, 'e) sync_cluster \<Rightarrow>
    string \<Rightarrow> 's \<Rightarrow> lease_handle \<times> 's" where
  "cluster_try_acquire_leadership aq es invalid_reference internal p =
     cluster_try_acquire aq es invalid_reference internal ''try_acquire_leadership'' (kb_try_acquire_leadership p)"

definition cluster_try_acquire_lock :: "acquire_args serde \<Rightarrow> 'e serde \<Rightarrow> (string \<Rightarrow> 'e) \<Rightarrow> (string \<Rightarrow> 'e) \<Rightarrow> ('s, 'm, 'n, 'p, 'en, 'e) sync_cluster \<Rightarrow>
    string \<Rightarrow> 's \<Rightarrow> lease_handle \<times> 's" where
  "cluster_try_acquire_lock aq es invalid_reference internal p =
     cluster_try_acquire aq es invalid_reference internal ''try_acquire_lock'' (kb_try_acquire_lock p)"

definition cluster_lease_renew :: "('s, string) guard \<Rightarrow> ('e, string) responder \<Rightarrow> ('s, 'm, 'n, 'p, 'en, 'e) sync_cluster \<Rightarrow> nat \<Rightarrow> 's \<Rightarrow> string \<times> 's" where
  "cluster_lease_renew quiet en p h = quiet (answer (respond_result en) (kb_lease_renew p h))"

definition cluster_lease_release :: "('s, string) guard \<Rightarrow> ('e, unit) responder \<Rightarrow> ('s, 'm, 'n, 'p, 'en, 'e) sync_cluster \<Rightarrow> nat \<Rightarrow> 's \<Rightarrow> string \<times> 's" where
  "cluster_lease_release quiet en p h = quiet (answer (respond_result en) (kb_lease_release p h))"

definition cluster_lease_drop :: "('s, unit) guard \<Rightarrow> ('s, 'm, 'n, 'p, 'en, 'e) sync_cluster \<Rightarrow> nat \<Rightarrow> 's \<Rightarrow> unit \<times> 's" where
  "cluster_lease_drop silent p h = silent (kb_lease_drop p h)"

subsection \<open>The key-value store\<close>

record kv_key_args =
  kk_store :: "string option"
  kk_key :: string
  kk_base64 :: bool

record kv_put_args =
  ku_store :: "string option"
  ku_key :: string
  ku_value :: bytes
  ku_ttl :: "64 word option"

record kv_list_args =
  kl_store :: "string option"
  kl_prefix :: string
  kl_limit :: "64 word"
  kl_page :: bool
  kl_cursor :: "string option"
  kl_base64 :: bool

record kv_expire_args =
  kx_store :: "string option"
  kx_key :: string
  kx_ttl :: "64 word option"

record kv_incr_args =
  kn_store :: "string option"
  kn_key :: string
  kn_delta :: "64 word"
  kn_floor :: "64 word option"
  kn_ttl :: "64 word option"

definition malformed_kv :: "(string \<Rightarrow> 'e) \<Rightarrow> ('e, 'a) responder \<Rightarrow> string \<Rightarrow> string \<Rightarrow> string" where
  "malformed_kv invalid_reference en op e = respond_err en (invalid_reference (''malformed '' @ op @ '' args: '' @ e))"

definition cluster_kv_get :: "('s, string) guard \<Rightarrow> kv_key_args serde \<Rightarrow> ('e, 'w option) responder \<Rightarrow> (string \<Rightarrow> 'e) \<Rightarrow> ('en \<Rightarrow> bool \<Rightarrow> 'w) \<Rightarrow>
    ('s, 'm, 'n, 'p, 'en, 'e) sync_cluster \<Rightarrow> string \<Rightarrow> 's \<Rightarrow> string \<times> 's" where
  "cluster_kv_get quiet kk en invalid_reference from_entry p args_text =
     quiet (with_args kk args_text (malformed_kv invalid_reference en ''kv_get'')
       (\<lambda>a. answer (\<lambda>r. respond_result en (map_sum id (map_option (\<lambda>entry. from_entry entry (kk_base64 a))) r))
          (kb_kv_get_in p (kk_store a) (kk_key a))))"

definition cluster_kv_put :: "('s, string) guard \<Rightarrow> kv_put_args serde \<Rightarrow> ('e, unit) responder \<Rightarrow> (string \<Rightarrow> 'e) \<Rightarrow>
    ('s, 'm, 'n, 'p, 'en, 'e) sync_cluster \<Rightarrow> string \<Rightarrow> 's \<Rightarrow> string \<times> 's" where
  "cluster_kv_put quiet ku en invalid_reference p args_text =
     quiet (with_args ku args_text (malformed_kv invalid_reference en ''kv_put'')
       (\<lambda>a. answer (respond_result en) (kb_kv_put_in p (ku_store a) (ku_key a) (ku_value a) (ku_ttl a))))"

definition cluster_kv_put_if_absent :: "('s, string) guard \<Rightarrow> kv_put_args serde \<Rightarrow> ('e, bool) responder \<Rightarrow> (string \<Rightarrow> 'e) \<Rightarrow>
    ('s, 'm, 'n, 'p, 'en, 'e) sync_cluster \<Rightarrow> string \<Rightarrow> 's \<Rightarrow> string \<times> 's" where
  "cluster_kv_put_if_absent quiet ku en invalid_reference p args_text =
     quiet (with_args ku args_text (malformed_kv invalid_reference en ''kv_put_if_absent'')
       (\<lambda>a. answer (respond_result en) (kb_kv_put_if_absent_in p (ku_store a) (ku_key a) (ku_value a) (ku_ttl a))))"

definition cluster_kv_delete :: "('s, string) guard \<Rightarrow> kv_key_args serde \<Rightarrow> ('e, bool) responder \<Rightarrow> (string \<Rightarrow> 'e) \<Rightarrow>
    ('s, 'm, 'n, 'p, 'en, 'e) sync_cluster \<Rightarrow> string \<Rightarrow> 's \<Rightarrow> string \<times> 's" where
  "cluster_kv_delete quiet kk en invalid_reference p args_text =
     quiet (with_args kk args_text (malformed_kv invalid_reference en ''kv_delete'')
       (\<lambda>a. answer (respond_result en) (kb_kv_delete_in p (kk_store a) (kk_key a))))"

text \<open>The whole listing may be a loop that does not end; a guard around it does not end either.\<close>

definition cluster_kv_list_prefix :: "('s, string) guard \<Rightarrow> kv_list_args serde \<Rightarrow> ('e, 'pw) responder \<Rightarrow> ('e, (string \<times> 'w) list) responder \<Rightarrow> (string \<Rightarrow> 'e) \<Rightarrow>
    ('en \<Rightarrow> bool \<Rightarrow> 'w) \<Rightarrow> ('en kv_page \<Rightarrow> bool \<Rightarrow> 'pw) \<Rightarrow> ('s, 'm, 'n, 'p, 'en, 'e) sync_cluster \<Rightarrow> string \<Rightarrow> 's \<Rightarrow> (string \<times> 's) option" where
  "cluster_kv_list_prefix quiet kl ep el invalid_reference from_entry from_page p args_text s =
     (case sd_from kl args_text of
        Inl e \<Rightarrow> Some (quiet (yields (malformed_kv invalid_reference el ''kv_list_prefix'' e)) s)
      | Inr a \<Rightarrow>
          if kl_page a
          then Some (quiet (answer (\<lambda>r. respond_result ep (map_sum id (\<lambda>page. from_page page (kl_base64 a)) r))
                 (kb_kv_list_page_in p (kl_store a) (kl_prefix a) (kl_cursor a) (unat (kl_limit a)))) s)
          else map_option (\<lambda>outcome. quiet (answer (\<lambda>r. respond_result el
                 (map_sum id (map (\<lambda>(key, entry). (key, from_entry entry (kl_base64 a)))) r)) (\<lambda>_. outcome)) s)
               (kb_kv_list_prefix_in p (kl_store a) (kl_prefix a) (unat (kl_limit a)) s))"

definition cluster_kv_expire :: "('s, string) guard \<Rightarrow> kv_expire_args serde \<Rightarrow> ('e, bool) responder \<Rightarrow> (string \<Rightarrow> 'e) \<Rightarrow>
    ('s, 'm, 'n, 'p, 'en, 'e) sync_cluster \<Rightarrow> string \<Rightarrow> 's \<Rightarrow> string \<times> 's" where
  "cluster_kv_expire quiet kx en invalid_reference p args_text =
     quiet (with_args kx args_text (malformed_kv invalid_reference en ''kv_expire'')
       (\<lambda>a. answer (respond_result en) (kb_kv_expire_in p (kx_store a) (kx_key a) (kx_ttl a))))"

definition cluster_kv_incr :: "('s, string) guard \<Rightarrow> kv_incr_args serde \<Rightarrow> ('e, 64 word) responder \<Rightarrow> (string \<Rightarrow> 'e) \<Rightarrow>
    ('s, 'm, 'n, 'p, 'en, 'e) sync_cluster \<Rightarrow> string \<Rightarrow> 's \<Rightarrow> string \<times> 's" where
  "cluster_kv_incr quiet kn en invalid_reference p args_text =
     quiet (with_args kn args_text (malformed_kv invalid_reference en ''kv_incr'')
       (\<lambda>a. answer (respond_result en) (case kn_floor a of
          Some lowest \<Rightarrow> kb_kv_incr_floor_in p (kn_store a) (kn_key a) (kn_delta a) lowest (kn_ttl a)
        | None \<Rightarrow> kb_kv_incr_in p (kn_store a) (kn_key a) (kn_delta a) (kn_ttl a))))"

interpretation k_publish: wire_slot quiet pb "envelope_reply en" "\<lambda>e. respond_err en (invalid_reference (''malformed publish args: '' @ e))"
  "\<lambda>a. kb_publish p (pb_topic a) (pb_routing_key a) (pb_payload a)" "cluster_publish quiet pb en invalid_reference p"
  by unfold_locales (simp add: cluster_publish_def)

interpretation k_subscribe: stream_slot es "internal ''plugin panicked during subscribe''" "cluster_subscribe_body sa invalid_reference p t ctx"
  "cluster_subscribe sa es invalid_reference internal p t ctx"
  by unfold_locales (simp add: cluster_subscribe_def)

interpretation k_watch: stream_slot es "internal ''plugin panicked during watch_peers''" "kb_watch_peers p (sink_emit ctx)"
  "cluster_watch_peers es internal p ctx"
  by unfold_locales (simp add: cluster_watch_peers_def)

interpretation k_put: wire_slot quiet ku "envelope_reply en" "malformed_kv invalid_reference en ''kv_put''"
  "\<lambda>a. kb_kv_put_in p (ku_store a) (ku_key a) (ku_value a) (ku_ttl a)" "cluster_kv_put quiet ku en invalid_reference p"
  by unfold_locales (simp add: cluster_kv_put_def)

interpretation k_claim: wire_slot quiet ku "envelope_reply en" "malformed_kv invalid_reference en ''kv_put_if_absent''"
  "\<lambda>a. kb_kv_put_if_absent_in p (ku_store a) (ku_key a) (ku_value a) (ku_ttl a)" "cluster_kv_put_if_absent quiet ku en invalid_reference p"
  by unfold_locales (simp add: cluster_kv_put_if_absent_def)

interpretation k_delete: wire_slot quiet kk "envelope_reply en" "malformed_kv invalid_reference en ''kv_delete''"
  "\<lambda>a. kb_kv_delete_in p (kk_store a) (kk_key a)" "cluster_kv_delete quiet kk en invalid_reference p"
  by unfold_locales (simp add: cluster_kv_delete_def)

interpretation k_expire: wire_slot quiet kx "envelope_reply en" "malformed_kv invalid_reference en ''kv_expire''"
  "\<lambda>a. kb_kv_expire_in p (kx_store a) (kx_key a) (kx_ttl a)" "cluster_kv_expire quiet kx en invalid_reference p"
  by unfold_locales (simp add: cluster_kv_expire_def)

interpretation k_incr: wire_slot quiet kn "envelope_reply en" "malformed_kv invalid_reference en ''kv_incr''"
  "\<lambda>a. case kn_floor a of Some lowest \<Rightarrow> kb_kv_incr_floor_in p (kn_store a) (kn_key a) (kn_delta a) lowest (kn_ttl a)
      | None \<Rightarrow> kb_kv_incr_in p (kn_store a) (kn_key a) (kn_delta a) (kn_ttl a)" "cluster_kv_incr quiet kn en invalid_reference p"
  by unfold_locales (simp add: cluster_kv_incr_def)

section \<open>The client behind the slots\<close>

definition stream_view :: "ffi_stream \<Rightarrow> stream_handle" where
  "stream_view st = \<lparr>sh_handle = fs_handle st, sh_error_json = fs_error_json st\<rparr>"

definition reads_errors :: "('e, 'n, 'p, 'ev) codec \<Rightarrow> 'e serde \<Rightarrow> bool" where
  "reads_errors cc es \<longleftrightarrow> (\<forall>t e. sd_from es t = Inr e \<longrightarrow> cc_error_of_str cc t = Some e)"

lemma decode_error_exact: "reads_errors cc es \<Longrightarrow> exact es e \<Longrightarrow> decode_error cc (text_or [] es e) op = e"
  by (simp add: reads_errors_def decode_error_def serde_text)

text \<open>The text with which the client asks for leadership, and what the coordinator reads from it.\<close>

abbreviation leadership_text :: "('e, 'n, 'p, 'ev) codec \<Rightarrow> string \<Rightarrow> duration \<Rightarrow> string" where
  "leadership_text cc role ttl \<equiv> args_json cc (jobj [(''role'', JStr role), (''ttl_ms'', JNum (PosInt (ttl_ms ttl)))])"

text \<open>C24. A lease crosses the coordinator's slot unchanged: what the coordinator grants is the lease the client holds, with
  its handle, fencing token and expiry; a declined attempt is no lease and no error; and an error of the coordinator
  is the client's error. A panic of the coordinator is an internal error that names the operation. A renewed expiry
  is the one the coordinator answered.\<close>

theorem lease_wire_roundtrip:
  assumes "sd_from aq (leadership_text cc role ttl) = Inr \<lparr>aq_name = role, aq_ttl = of_nat (ttl_ms ttl)\<rparr>"
    and "reads_errors cc es" "h \<noteq> 0" "exact es e" "exact es (internal ''plugin panicked during acquire_leadership'')"
    and "guard_law quiet" "cc_value_of_str cc (respond_result en (Inr expires)) = Some (jobj [(''ok'', JStr expires)])"
  shows "(kb_acquire_leadership p role (of_nat (ttl_ms ttl)) s = (Some (Inr (h, token, expires)), s') \<longrightarrow>
      fst (acquire_leadership cc (fst (cluster_acquire_leadership aq es invalid internal p (leadership_text cc role ttl) s)) role ttl w) =
        Inr \<lparr>cl_lease_handle = h, cl_fencing_token = unat token, cl_expires_at = expires, cl_released = False\<rparr>) \<and>
    (kb_acquire_leadership p role (of_nat (ttl_ms ttl)) s = (Some (Inl e), s') \<longrightarrow>
      fst (acquire_leadership cc (fst (cluster_acquire_leadership aq es invalid internal p (leadership_text cc role ttl) s)) role ttl w) = Inl e) \<and>
    (kb_acquire_leadership p role (of_nat (ttl_ms ttl)) s = (None, s') \<longrightarrow>
      fst (acquire_leadership cc (fst (cluster_acquire_leadership aq es invalid internal p (leadership_text cc role ttl) s)) role ttl w) =
        Inl (internal ''plugin panicked during acquire_leadership'')) \<and>
    (kb_try_acquire_leadership p role (of_nat (ttl_ms ttl)) s = (Some (Inr (Some (h, token, expires))), s') \<longrightarrow>
      fst (try_acquire_leadership cc (fst (cluster_try_acquire_leadership aq es invalid internal p (leadership_text cc role ttl) s)) role ttl w) =
        Inr (Some \<lparr>cl_lease_handle = h, cl_fencing_token = unat token, cl_expires_at = expires, cl_released = False\<rparr>)) \<and>
    (kb_try_acquire_leadership p role (of_nat (ttl_ms ttl)) s = (Some (Inr None), s') \<longrightarrow>
      fst (try_acquire_leadership cc (fst (cluster_try_acquire_leadership aq es invalid internal p (leadership_text cc role ttl) s)) role ttl w) = Inr None) \<and>
    (kb_try_acquire_leadership p role (of_nat (ttl_ms ttl)) s = (Some (Inl e), s') \<longrightarrow>
      fst (try_acquire_leadership cc (fst (cluster_try_acquire_leadership aq es invalid internal p (leadership_text cc role ttl) s)) role ttl w) = Inl e) \<and>
    (kb_lease_renew p (cl_lease_handle l) s = (Some (Inr expires), s') \<longrightarrow>
      renew cc (fst (cluster_lease_renew quiet en p (cl_lease_handle l) s)) l =
        (Inr (), l\<lparr>cl_expires_at := expires\<rparr>, [CallLeaseRenew (cl_lease_handle l)]))"
proof -
  note errors = decode_error_exact [OF assms(2,4)] decode_error_exact [OF assms(2,5)]
  have nonempty: "text_or [] es e \<noteq> []" using assms(4) by (rule serde_text_nonempty)
  note slots = cluster_acquire_leadership_def cluster_acquire_def cluster_try_acquire_leadership_def cluster_try_acquire_def with_args_def
    assms(1) catch_unwind_def lease_granted_def lease_declined_def cluster_lease_acquire_err_def
  note client = acquire_leadership_def acquire_common_def lease_of_def try_acquire_leadership_def try_acquire_common_def decode_try_acquire_def
  show ?thesis
  proof (intro conjI impI)
    show "renew cc (fst (cluster_lease_renew quiet en p (cl_lease_handle l) s)) l =
        (Inr (), l\<lparr>cl_expires_at := expires\<rparr>, [CallLeaseRenew (cl_lease_handle l)])"
      if "kb_lease_renew p (cl_lease_handle l) s = (Some (Inr expires), s')"
      using that assms(6,7) by (simp add: cluster_lease_renew_def guard_answer renew_def json_get_jobj)
  qed (simp_all add: slots client errors nonempty assms(3))
qed

text \<open>C36. The client does not understand the slot when it succeeds: \<^verbatim>\<open>publish\<close> and \<^verbatim>\<open>lease_release\<close> answer with the result
  envelope, while the client takes only an empty text for a success. With an envelope that writes something for a
  unit, every publish and every release the coordinator carried out is an error to the plugin that asked for it.\<close>

theorem success_read_as_error:
  assumes "guard_law quiet" "respond_result en (Inr ()) \<noteq> []"
    and "sd_from pb t = Inr a" "kb_publish p (pb_topic a) (pb_routing_key a) (pb_payload a) s = (Some (Inr ()), s')"
    and "kb_lease_release p (cl_lease_handle l) s = (Some (Inr ()), s')" "\<not> cl_released l"
  shows "(\<exists>e w'. publish cc (fst (cluster_publish quiet pb en invalid p t s)) topic rk payload w = (Inl e, w')) \<and>
    (\<exists>e. release cc (fst (cluster_lease_release quiet en p (cl_lease_handle l) s)) l =
      (Inl e, l\<lparr>cl_released := True\<rparr>, [CallLeaseRelease (cl_lease_handle l)]))"
  using assms by (simp add: cluster_publish_def cluster_lease_release_def with_args_def guard_answer publish_def release_def Let_def)

text \<open>A coordinator with one role, which is granted at most once, and three keys.\<close>

definition demo_pager :: "string option \<Rightarrow> nat \<Rightarrow> (nat, (string, nat kv_page) result) body" where
  "demo_pager cursor want = yields (Inr
     (if cursor = None then \<lparr>kp_entries = take 1 [(''a'', 1), (''b'', 2), (''c'', 3)], kp_next = Some ''a''\<rparr>
      else if cursor = Some ''a'' then \<lparr>kp_entries = [], kp_next = Some ''b''\<rparr>
      else \<lparr>kp_entries = [(''b'', 2), (''c'', 3)], kp_next = None\<rparr>))"

definition demo_cluster :: "(nat, unit, unit, unit, nat, string) sync_cluster" where
  "demo_cluster = \<lparr>kb_manifest = yields (), kb_node_info = yields (), kb_list_peers = yields [], kb_publish = (\<lambda>t r b s. (Some (Inr ()), s + 1)),
     kb_subscribe = cluster_default_subscribe (\<lambda>m. m), kb_watch_peers = cluster_default_watch_peers (\<lambda>m. m),
     kb_cancel_stream = cluster_default_cancel_stream,
     kb_acquire_leadership = (\<lambda>role ttl s. (Some (if s = 0 then Inr (9, 4, ''noon'') else Inl ''held''), s + 1)),
     kb_acquire_lock = cluster_default_acquire_lock (\<lambda>m. m), kb_try_acquire_leadership = (\<lambda>role ttl. yields (Inr None)),
     kb_try_acquire_lock = (\<lambda>key ttl. yields (Inr None)), kb_lease_renew = (\<lambda>h. yields (Inr ''noon'')),
     kb_lease_release = (\<lambda>h s. (Some (Inr ()), s + 1)), kb_lease_drop = cluster_default_lease_drop,
     kb_kv_get = (\<lambda>k. cluster_default_kv (\<lambda>m. m)), kb_kv_put = (\<lambda>k b t. cluster_default_kv (\<lambda>m. m)),
     kb_kv_put_if_absent = (\<lambda>k b t. cluster_default_kv (\<lambda>m. m)), kb_kv_delete = (\<lambda>k. cluster_default_kv (\<lambda>m. m)),
     kb_kv_list_page = (\<lambda>pre. demo_pager), kb_kv_expire = (\<lambda>k t. cluster_default_kv (\<lambda>m. m)),
     kb_kv_incr = (\<lambda>k d t. cluster_default_kv (\<lambda>m. m)), kb_declares_kv_incr_floor = cluster_default_declares_kv_incr_floor,
     kb_kv_incr_floor = (\<lambda>k d f t. cluster_default_kv (\<lambda>m. m)), kb_kv_get_in = (\<lambda>st k. cluster_default_kv (\<lambda>m. m)),
     kb_kv_put_in = (\<lambda>st k b t. cluster_default_kv (\<lambda>m. m)), kb_kv_put_if_absent_in = (\<lambda>st k b t. cluster_default_kv (\<lambda>m. m)),
     kb_kv_delete_in = (\<lambda>st k. cluster_default_kv (\<lambda>m. m)), kb_kv_list_page_in = (\<lambda>st pre. demo_pager),
     kb_kv_list_prefix_in = (\<lambda>st pre limit. collect_pages 100 limit demo_pager),
     kb_kv_expire_in = (\<lambda>st k t. cluster_default_kv (\<lambda>m. m)), kb_kv_incr_in = (\<lambda>st k d t. cluster_default_kv (\<lambda>m. m)),
     kb_kv_incr_floor_in = (\<lambda>st k d f t. cluster_default_kv (\<lambda>m. m)), kb_shutdown = yields ()\<rparr>"

definition demo_client :: "(string, unit, unit, string) codec" where
  "demo_client = demo_codec\<lparr>cc_error_of_str := (\<lambda>t. Some (tl t)), cc_to_string := (\<lambda>j. Some ''args'')\<rparr>"

definition demo_acquire :: "acquire_args serde" where
  "demo_acquire = table_serde [(''args'', \<lparr>aq_name = ''r'', aq_ttl = of_nat 5\<rparr>)]"

definition demo_expiry :: "(string, string) responder" where
  "demo_expiry = \<lparr>respond_result = (\<lambda>r. case r of Inr v \<Rightarrow> v | Inl e \<Rightarrow> e), respond_ok = (\<lambda>v. v), respond_err = (\<lambda>e. e), read_envelope = (\<lambda>t. Inr (Inr t))\<rparr>"

definition demo_unit :: "(string, unit) responder" where
  "demo_unit = \<lparr>respond_result = (\<lambda>r. case r of Inr v \<Rightarrow> ''{ok:null}'' | Inl e \<Rightarrow> e), respond_ok = (\<lambda>v. ''{ok:null}''), respond_err = (\<lambda>e. e),
     read_envelope = (\<lambda>t. if t = ''{ok:null}'' then Inr (Inr ()) else Inr (Inl t))\<rparr>"

lemma demo_reads: "reads_errors demo_client demo_errors" "exact demo_errors m"
  by (simp_all add: reads_errors_def demo_client_def demo_errors_def exact_def)

theorem lease_wire_roundtrip_witness:
  "fst (acquire_leadership demo_client (fst (cluster_acquire_leadership demo_acquire demo_errors (\<lambda>m. m) (\<lambda>m. m) demo_cluster ''args'' 0))
      ''r'' 5000000 demo_world) = Inr \<lparr>cl_lease_handle = 9, cl_fencing_token = unat (4 :: 64 word), cl_expires_at = ''noon'', cl_released = False\<rparr>"
proof -
  have args: "leadership_text demo_client ''r'' 5000000 = ''args''" "ttl_ms 5000000 = 5"
    by (simp_all add: args_json_def demo_client_def ttl_ms_def)
  have "sd_from demo_acquire ''args'' = Inr \<lparr>aq_name = ''r'', aq_ttl = of_nat (ttl_ms 5000000)\<rparr>"
    by (simp add: demo_acquire_def table_serde_def ttl_ms_def)
  moreover have "cc_value_of_str demo_client (respond_result demo_expiry (Inr ''noon'')) = Some (jobj [(''ok'', JStr ''noon'')])"
    by (simp add: demo_client_def demo_codec_def demo_expiry_def)
  moreover have "kb_acquire_leadership demo_cluster ''r'' (of_nat (ttl_ms 5000000)) 0 = (Some (Inr (9, 4, ''noon'')), 1)"
    by (simp add: demo_cluster_def)
  ultimately show ?thesis
    using lease_wire_roundtrip [where cc = demo_client and aq = demo_acquire and es = demo_errors and role = "''r''" and ttl = 5000000 and h = 9
        and e = "''held''" and internal = "\<lambda>m. m" and quiet = "catch_unwind []" and en = demo_expiry and expires = "''noon''" and p = demo_cluster
        and s = 0 and s' = 1 and token = 4 and invalid = "\<lambda>m. m" and w = demo_world
        and l = "\<lparr>cl_lease_handle = 9, cl_fencing_token = 4, cl_expires_at = [], cl_released = False\<rparr>"]
    unfolding args(1) by (simp add: demo_reads)
qed

definition demo_publish :: "publish_args serde" where
  "demo_publish = table_serde [(''args'', \<lparr>pb_topic = ''t'', pb_routing_key = None, pb_payload = []\<rparr>)]"

theorem success_read_as_error_witness:
  "\<exists>e w'. publish demo_client (fst (cluster_publish (catch_unwind []) demo_publish demo_unit (\<lambda>m. m) demo_cluster ''args'' 0)) ''t'' None [] demo_world = (Inl e, w')"
  using success_read_as_error [where quiet = "catch_unwind []" and en = demo_unit and pb = demo_publish and t = "''args''" and p = demo_cluster
      and a = "\<lparr>pb_topic = ''t'', pb_routing_key = None, pb_payload = []\<rparr>" and s = 0 and s' = 1 and cc = demo_client and invalid = "\<lambda>m. m"
      and l = "\<lparr>cl_lease_handle = 9, cl_fencing_token = 4, cl_expires_at = [], cl_released = False\<rparr>" and topic = "''t''" and rk = None
      and payload = "[]" and w = demo_world]
  by (simp add: demo_unit_def demo_publish_def table_serde_def demo_cluster_def)

text \<open>C16. The whole listing built from pages ends and is complete: with a store that keeps the contract of its pages, whose
  passes come to an end, it answers with the first \<open>limit\<close> entries of the pass in their order, however small or empty
  the pages are.\<close>

theorem collect_pages_complete:
  assumes "honest_pager (kb_kv_list_page_in p store prefix) remaining dist" "0 < page_size"
  shows "cluster_default_kv_list_prefix_in page_size p store prefix limit s = Some (Some (Inr (take limit (remaining None))), s)"
  using collect_loop_complete [OF assms, of "[]"] by (simp add: cluster_default_kv_list_prefix_in_def collect_pages_def)

definition demo_remaining :: "string option \<Rightarrow> (string \<times> nat) list" where
  "demo_remaining cursor = (if cursor = None then [(''a'', 1), (''b'', 2), (''c'', 3)] else [(''b'', 2), (''c'', 3)])"

definition demo_dist :: "string option \<Rightarrow> nat" where
  "demo_dist cursor = (if cursor = None then 2 else if cursor = Some ''a'' then 1 else 0)"

lemma demo_honest: "honest_pager demo_pager demo_remaining demo_dist"
  unfolding honest_pager_def
proof (intro allI impI)
  fix cursor :: "string option" and want s :: nat
  consider "cursor = None" | "cursor = Some ''a''" | "cursor \<noteq> None \<and> cursor \<noteq> Some ''a''" by blast
  then show "\<exists>k page. demo_pager cursor want s = (Some (Inr page), s) \<and> kp_entries page = take k (demo_remaining cursor) \<and>
     (case kp_next page of None \<Rightarrow> length (demo_remaining cursor) \<le> k
      | Some c \<Rightarrow> demo_remaining (Some c) = drop k (demo_remaining cursor) \<and> demo_dist (Some c) < demo_dist cursor)"
  proof cases
    case 1
    then show ?thesis by (intro exI [of _ 1]) (simp add: demo_pager_def demo_remaining_def demo_dist_def yields_def)
  next
    case 2
    then show ?thesis by (intro exI [of _ 0]) (simp add: demo_pager_def demo_remaining_def demo_dist_def yields_def)
  next
    case 3
    then show ?thesis by (intro exI [of _ 2]) (simp add: demo_pager_def demo_remaining_def demo_dist_def yields_def)
  qed
qed

theorem collect_pages_complete_witness:
  "cluster_default_kv_list_prefix_in 100 demo_cluster None [] 2 7 = Some (Some (Inr [(''a'', 1), (''b'', 2)]), 7)"
proof -
  have "honest_pager (kb_kv_list_page_in demo_cluster None []) demo_remaining demo_dist"
    using demo_honest by (simp add: demo_cluster_def)
  from collect_pages_complete [OF this, of 100 2 7] show ?thesis by (simp add: demo_remaining_def numeral_2_eq_2)
qed

text \<open>C37. The guard against a store that repeats its cursor is not enough: a store that alternates between two cursors,
  with nothing on its pages, keeps the listing, and the slot of the coordinator that serves it, in the loop for ever.\<close>

theorem collect_pages_can_loop:
  assumes "a \<noteq> b" "0 < limit" "kb_kv_list_page_in p store prefix = alternating_pager a b"
    and "kb_kv_list_prefix_in p = cluster_default_kv_list_prefix_in page_size p"
    and "sd_from kl t = Inr \<lparr>kl_store = store, kl_prefix = prefix, kl_limit = limit, kl_page = False, kl_cursor = None, kl_base64 = wide\<rparr>"
  shows "cluster_default_kv_list_prefix_in page_size p store prefix (unat limit) s = None \<and>
    cluster_kv_list_prefix quiet kl ep el invalid from_entry from_page p t s = None"
proof -
  have "cluster_default_kv_list_prefix_in page_size p store prefix (unat limit) s = None"
    using collect_loop_alternates [OF assms(1), of "[]" "unat limit"] assms(2,3)
    by (simp add: cluster_default_kv_list_prefix_in_def collect_pages_def word_greater_zero_iff unat_gt_0)
  with assms(4,5) show ?thesis by (simp add: cluster_kv_list_prefix_def)
qed

definition demo_looping :: "(nat, unit, unit, unit, nat, string) sync_cluster" where
  "demo_looping = demo_cluster\<lparr>kb_kv_list_page_in := (\<lambda>st pre. alternating_pager ''x'' ''y''),
     kb_kv_list_prefix_in := (\<lambda>st pre limit. collect_pages 100 limit (alternating_pager ''x'' ''y''))\<rparr>"

theorem collect_pages_can_loop_witness:
  "cluster_default_kv_list_prefix_in 100 demo_looping None [] (unat (10 :: 64 word)) 7 = None"
proof -
  have "kb_kv_list_prefix_in demo_looping = cluster_default_kv_list_prefix_in 100 demo_looping"
    by (intro ext) (simp add: demo_looping_def cluster_default_kv_list_prefix_in_def)
  then show ?thesis
    using collect_pages_can_loop [where a = "''x''" and b = "''y''" and limit = 10 and p = demo_looping and store = None and prefix = "[]" and page_size = 100
        and kl = "table_serde [(''t'', \<lparr>kl_store = None, kl_prefix = [], kl_limit = 10, kl_page = False, kl_cursor = None, kl_base64 = True\<rparr>)]"
        and t = "''t''" and wide = True and s = 7 and quiet = "catch_unwind []" and ep = demo_expiry and invalid = "\<lambda>m. m"
        and el = "\<lparr>respond_result = (\<lambda>r. []), respond_ok = (\<lambda>v. []), respond_err = (\<lambda>e. e), read_envelope = (\<lambda>t. Inl t)\<rparr>"
        and from_entry = "\<lambda>e b. e" and from_page = "\<lambda>pg b. []"]
    by (simp add: demo_looping_def table_serde_def)
qed

end
