(* ===== verification/Stream_Forward.thy ===== *)
theory Stream_Forward
  imports Data_Slots
begin

text \<open>
  HTTP routes, transports and the tasks that forward a plugin's stream into a sink of the host
  (\<^verbatim>\<open>src/src/ffi.rs\<close>, with the slots of \<^verbatim>\<open>src/src/macros.rs\<close>).

  A forwarding task is a state machine. It runs on a runtime that polls it: between polls it is parked,
  and an abort only takes effect there. Inside a poll it takes items off the stream and calls the host's
  callback, which uses the host's bridge from its start to its return. Its end, by whatever way, sends
  the signal a cancel waits for, at most five seconds; after the cancel the host frees its bridge.
\<close>

section \<open>HTTP responses\<close>

record response_wire =
  rw_status :: nat
  rw_headers :: "(string \<times> string) list"
  rw_body :: string

datatype 'st http_body = Bytes string | Stream 'st

record 'st http_response =
  hr_status :: nat
  hr_headers :: "(string \<times> string) list"
  hr_body :: "'st http_body"

record http_handle_result =
  hh_handle :: nat
  hh_head_json :: string

record stream_head =
  hd_status :: nat
  hd_headers :: "(string \<times> string) list"

text \<open>An error response with a JSON body.\<close>

definition error_wire :: "json serde \<Rightarrow> nat \<Rightarrow> string \<Rightarrow> response_wire" where
  "error_wire v status reason = \<lparr>rw_status = status, rw_headers = [(''Content-Type'', ''application/json'')],
     rw_body = text_or [] v (jobj [(''error'', JStr reason)])\<rparr>"

definition fallback_error :: "json serde \<Rightarrow> response_wire serde \<Rightarrow> string \<Rightarrow> http_handle_result" where
  "fallback_error v rw reason = \<lparr>hh_handle = 0, hh_head_json = text_or [] rw (error_wire v 500 reason)\<rparr>"

record ('s, 'm, 'rt, 'q, 'st) sync_http_route =
  sh_manifest :: "('s, 'm) body"
  sh_routes :: "('s, 'rt list) body"
  sh_handle :: "'q \<Rightarrow> ('s, 'st http_response) body"
  sh_shutdown :: "('s, unit) body"

record ('s, 'm, 'rt, 'q, 'st) http_route_trait =
  hq_manifest :: "('s, 'm) body"
  hq_routes :: "('s, 'rt list) body"
  hq_handle :: "'q \<Rightarrow> ('s, 'st http_response) body"
  hq_shutdown :: "('s, unit) body"

definition SyncHttpRouteAdapter :: "('s, 'm, 'rt, 'q, 'st) sync_http_route \<Rightarrow> ('s, 'm, 'rt, 'q, 'st) http_route_trait" where
  "SyncHttpRouteAdapter inner = \<lparr>hq_manifest = sh_manifest inner, hq_routes = sh_routes inner, hq_handle = sh_handle inner,
     hq_shutdown = sh_shutdown inner\<rparr>"

definition http_route_routes_json :: "('s, string) guard \<Rightarrow> 'rt list serde \<Rightarrow> ('s, 'm, 'rt, 'q, 'st) sync_http_route \<Rightarrow> 's \<Rightarrow> string \<times> 's" where
  "http_route_routes_json quiet rs p = quiet (answer (text_or ''[]'' rs) (sh_routes p))"

text \<open>
  \<open>req_from\<close> and \<open>try_wire\<close> are the protocol's conversions; the slot relies on the second to give the
  wire form of a response whose body is bytes, and nothing for a stream.
\<close>

definition http_route_handle :: "('s, string) guard \<Rightarrow> 'qw serde \<Rightarrow> json serde \<Rightarrow> response_wire serde \<Rightarrow> ('qw \<Rightarrow> 'q) \<Rightarrow>
    ('st http_response \<Rightarrow> response_wire option) \<Rightarrow> ('s, 'm, 'rt, 'q, 'st) sync_http_route \<Rightarrow> string \<Rightarrow> 's \<Rightarrow> string \<times> 's" where
  "http_route_handle quiet qw v rw req_from try_wire p request_json =
     quiet (with_args qw request_json (\<lambda>e. text_or [] rw (error_wire v 400 (''invalid request JSON: '' @ e)))
       (\<lambda>w. answer (\<lambda>resp. text_or [] rw (case try_wire resp of
            Some x \<Rightarrow> x
          | None \<Rightarrow> error_wire v 500 ''streaming response bodies are not supported across the FFI boundary''))
          (sh_handle p (req_from w))))"

definition http_route_handle_streaming :: "'qw serde \<Rightarrow> json serde \<Rightarrow> response_wire serde \<Rightarrow> ('qw \<Rightarrow> 'q) \<Rightarrow>
    ('st http_response \<Rightarrow> http_handle_result) \<Rightarrow> ('s, 'm, 'rt, 'q, 'st) sync_http_route \<Rightarrow> string \<Rightarrow> 's \<Rightarrow> http_handle_result \<times> 's" where
  "http_route_handle_streaming qw v rw req_from drain p request_json =
     catch_unwind \<lparr>hh_handle = 0, hh_head_json = text_or [] rw (error_wire v 500 ''plugin panicked during handle_streaming'')\<rparr>
       (with_args qw request_json
          (\<lambda>e. \<lparr>hh_handle = 0, hh_head_json = text_or [] rw (error_wire v 400 (''invalid request JSON: '' @ e))\<rparr>)
          (\<lambda>w. answer (\<lambda>resp. case hr_body resp of
               Bytes b \<Rightarrow> \<lparr>hh_handle = 0, hh_head_json = text_or [] rw \<lparr>rw_status = hr_status resp, rw_headers = hr_headers resp, rw_body = b\<rparr>\<rparr>
             | Stream _ \<Rightarrow> drain resp) (sh_handle p (req_from w))))"

section \<open>The forwarding task\<close>

datatype task = Parked | Polling | Calling string | CallingEnd string | Gone

datatype cancelling = NotCancelled | AwaitingDone | CancelReturned | CancelTimedOut

record 'c forwarder =
  fw_task :: task
  fw_aborted :: bool
  fw_done_sent :: bool
  fw_lost :: bool
  fw_cancel :: cancelling
  fw_yielded :: "'c list"
  fw_emitted :: "string list"
  fw_bridge :: bool
  fw_ub :: bool

definition new_forwarder :: "'c forwarder" where
  "new_forwarder = \<lparr>fw_task = Parked, fw_aborted = False, fw_done_sent = False, fw_lost = False, fw_cancel = NotCancelled, fw_yielded = [],
     fw_emitted = [], fw_bridge = True, fw_ub = False\<rparr>"

text \<open>The future is dropped, and with it the guard that sends the signal.\<close>

definition drop_future :: "'c forwarder \<Rightarrow> 'c forwarder" where
  "drop_future w = w\<lparr>fw_task := Gone, fw_done_sent := True\<rparr>"

definition poll_task :: "'c forwarder \<Rightarrow> 'c forwarder" where
  "poll_task w = (if fw_aborted w then drop_future w else w\<lparr>fw_task := Polling\<rparr>)"

definition use_bridge :: "'c forwarder \<Rightarrow> 'c forwarder" where
  "use_bridge w = (if fw_bridge w then w else w\<lparr>fw_ub := True\<rparr>)"

text \<open>The stream yields an item: a text for it is handed to the callback, an item without one is dropped.\<close>

definition take_item :: "('c \<Rightarrow> string option) \<Rightarrow> 'c \<Rightarrow> 'c forwarder \<Rightarrow> 'c forwarder" where
  "take_item enc c w =
     (case enc c of
        Some t \<Rightarrow> (use_bridge w)\<lparr>fw_yielded := fw_yielded w @ [c], fw_task := Calling t\<rparr>
      | None \<Rightarrow> w\<lparr>fw_yielded := fw_yielded w @ [c]\<rparr>)"

definition callback_returns :: "string \<Rightarrow> 'c forwarder \<Rightarrow> 'c forwarder" where
  "callback_returns t w = (use_bridge w)\<lparr>fw_emitted := fw_emitted w @ [t], fw_task := Polling\<rparr>"

text \<open>The stream ends; an HTTP drain then sends its last chunk, a cluster forwarder nothing.\<close>

definition stream_ends :: "string option \<Rightarrow> 'c forwarder \<Rightarrow> 'c forwarder" where
  "stream_ends last_chunk w = (case last_chunk of Some t \<Rightarrow> (use_bridge w)\<lparr>fw_task := CallingEnd t\<rparr> | None \<Rightarrow> drop_future w)"

definition end_returns :: "string \<Rightarrow> 'c forwarder \<Rightarrow> 'c forwarder" where
  "end_returns t w = drop_future ((use_bridge w)\<lparr>fw_emitted := fw_emitted w @ [t]\<rparr>)"

text \<open>The runtime drops the task, because the stream panicked or the runtime shuts down.\<close>

definition runtime_drops :: "'c forwarder \<Rightarrow> 'c forwarder" where
  "runtime_drops w = (drop_future w)\<lparr>fw_lost := True\<rparr>"

definition cancel_http_stream :: "nat \<Rightarrow> 'c forwarder \<Rightarrow> 'c forwarder" where
  "cancel_http_stream h w = (if h = 0 then w else w\<lparr>fw_aborted := True, fw_cancel := AwaitingDone\<rparr>)"

definition cancel_receives :: "'c forwarder \<Rightarrow> 'c forwarder" where
  "cancel_receives w = w\<lparr>fw_cancel := CancelReturned\<rparr>"

definition cancel_gives_up :: "'c forwarder \<Rightarrow> 'c forwarder" where
  "cancel_gives_up w = w\<lparr>fw_cancel := CancelTimedOut\<rparr>"

definition host_frees_bridge :: "'c forwarder \<Rightarrow> 'c forwarder" where
  "host_frees_bridge w = w\<lparr>fw_bridge := False\<rparr>"

inductive forward_step :: "('c \<Rightarrow> string option) \<Rightarrow> string option \<Rightarrow> 'c forwarder \<Rightarrow> 'c forwarder \<Rightarrow> bool" for enc last_chunk where
  f_poll: "fw_task w = Parked \<Longrightarrow> forward_step enc last_chunk w (poll_task w)"
| f_pending: "fw_task w = Polling \<Longrightarrow> forward_step enc last_chunk w (w\<lparr>fw_task := Parked\<rparr>)"
| f_item: "fw_task w = Polling \<Longrightarrow> forward_step enc last_chunk w (take_item enc c w)"
| f_return: "fw_task w = Calling t \<Longrightarrow> forward_step enc last_chunk w (callback_returns t w)"
| f_end: "fw_task w = Polling \<Longrightarrow> forward_step enc last_chunk w (stream_ends last_chunk w)"
| f_end_return: "fw_task w = CallingEnd t \<Longrightarrow> forward_step enc last_chunk w (end_returns t w)"
| f_drop: "fw_task w = Parked \<or> fw_task w = Polling \<Longrightarrow> forward_step enc last_chunk w (runtime_drops w)"
| f_cancel: "fw_cancel w = NotCancelled \<Longrightarrow> forward_step enc last_chunk w (cancel_http_stream h w)"
| f_done: "fw_cancel w = AwaitingDone \<Longrightarrow> fw_done_sent w \<Longrightarrow> forward_step enc last_chunk w (cancel_receives w)"
| f_timeout: "fw_cancel w = AwaitingDone \<Longrightarrow> forward_step enc last_chunk w (cancel_gives_up w)"
| f_free: "fw_cancel w = CancelReturned \<or> fw_cancel w = CancelTimedOut \<Longrightarrow> forward_step enc last_chunk w (host_frees_bridge w)"

lemmas forward_ops = drop_future_def poll_task_def use_bridge_def take_item_def callback_returns_def stream_ends_def end_returns_def runtime_drops_def
  cancel_http_stream_def cancel_receives_def cancel_gives_up_def host_frees_bridge_def

text \<open>What has been handed to the callback: everything yielded so far that has a text, and the last chunk when the task is past it.\<close>

fun in_callback :: "task \<Rightarrow> string list" where
  "in_callback (Calling t) = [t]"
| "in_callback _ = []"

definition forwarder_wf :: "('c \<Rightarrow> string option) \<Rightarrow> string option \<Rightarrow> 'c forwarder \<Rightarrow> bool" where
  "forwarder_wf enc last_chunk w \<longleftrightarrow> (fw_done_sent w \<longleftrightarrow> fw_task w = Gone) \<and>
     (fw_aborted w \<longleftrightarrow> fw_cancel w \<noteq> NotCancelled) \<and>
     (fw_cancel w = CancelReturned \<longrightarrow> fw_task w = Gone) \<and>
     (\<not> fw_bridge w \<longrightarrow> fw_cancel w = CancelReturned \<or> fw_cancel w = CancelTimedOut) \<and>
     (fw_ub w \<longrightarrow> fw_cancel w = CancelTimedOut) \<and>
     (\<forall>t. fw_task w = CallingEnd t \<longrightarrow> last_chunk = Some t) \<and>
     (fw_task w \<noteq> Gone \<longrightarrow> fw_emitted w @ in_callback (fw_task w) = List.map_filter enc (fw_yielded w)) \<and>
     (fw_task w = Gone \<longrightarrow> fw_emitted w = List.map_filter enc (fw_yielded w) \<and> (fw_aborted w \<or> fw_lost w) \<or>
        fw_emitted w = List.map_filter enc (fw_yielded w) @ (case last_chunk of Some t \<Rightarrow> [t] | None \<Rightarrow> []))"

lemma map_filter_snoc: "List.map_filter f (xs @ [x]) = List.map_filter f xs @ (case f x of Some y \<Rightarrow> [y] | None \<Rightarrow> [])"
  by (induction xs) (auto simp: map_filter_simps split: option.splits)

lemma forwarder_wf_step: "forward_step enc last_chunk w w' \<Longrightarrow> forwarder_wf enc last_chunk w \<Longrightarrow> forwarder_wf enc last_chunk w'"
  by (erule forward_step.cases) (auto simp: forwarder_wf_def forward_ops map_filter_snoc split: option.splits)

interpretation forwarding: step_invariant "\<lambda>w. w = new_forwarder" "forward_step enc last_chunk" "forwarder_wf enc last_chunk"
proof
  show "forwarder_wf enc last_chunk w" if "w = new_forwarder" for w
    using that by (simp add: new_forwarder_def forwarder_wf_def map_filter_simps)
qed (rule forwarder_wf_step)

text \<open>
  The two tasks. A drain of an HTTP stream writes every chunk, an unwritable one as the empty text, and
  ends with the protocol's end chunk; it is spawned only for a stream and inside a runtime. A forwarder
  of a cluster stream drops what it cannot write.
\<close>

definition drain_enc :: "'cw serde \<Rightarrow> ('c \<Rightarrow> 'cw) \<Rightarrow> 'c \<Rightarrow> string option" where
  "drain_enc cw chunk_into c = Some (text_or [] cw (chunk_into c))"

definition drain_end :: "'cw serde \<Rightarrow> 'cw \<Rightarrow> string option" where
  "drain_end cw end_chunk = Some (text_or [] cw end_chunk)"

definition spawn_http_stream_drain :: "bool \<Rightarrow> bool \<Rightarrow> json serde \<Rightarrow> response_wire serde \<Rightarrow> stream_head serde \<Rightarrow> nat \<Rightarrow>
    'st http_response \<Rightarrow> http_handle_result \<times> 'c forwarder option" where
  "spawn_http_stream_drain streaming in_runtime v rw sh ptr resp =
     (if \<not> streaming then (fallback_error v rw ''streaming responses require mcpg-plugin-sdk/streaming feature'', None)
      else (case hr_body resp of
              Bytes _ \<Rightarrow> (fallback_error v rw (''spawn_http_stream_drain called on Bytes body '' @ [CHR 0xE2, CHR 0x80, CHR 0x94] @ '' caller bug''), None)
            | Stream _ \<Rightarrow>
                if \<not> in_runtime then (fallback_error v rw ''streaming requires the plugin to run in a tokio runtime'', None)
                else (\<lparr>hh_handle = ptr, hh_head_json = text_or [] sh \<lparr>hd_status = hr_status resp, hd_headers = hr_headers resp\<rparr>\<rparr>,
                      Some new_forwarder)))"

definition forward_enc :: "'c serde \<Rightarrow> 'c \<Rightarrow> string option" where
  "forward_enc cw item = sd_to cw item"

text \<open>\<^verbatim>\<open>forward_cluster_stream\<close> spawns the task and returns the address of the box with its state.\<close>

definition forward_cluster_stream :: "nat \<Rightarrow> nat \<times> 'c forwarder" where
  "forward_cluster_stream ptr = (ptr, new_forwarder)"

definition cancel_cluster_stream :: "nat \<Rightarrow> 'c forwarder \<Rightarrow> 'c forwarder" where
  "cancel_cluster_stream h w = (if h = 0 then w else w\<lparr>fw_aborted := True, fw_cancel := AwaitingDone\<rparr>)"

text \<open>The slot of an HTTP route; the helper cannot panic, so its guard has nothing to catch.\<close>

definition http_route_cancel_stream :: "nat \<Rightarrow> 'c forwarder \<Rightarrow> 'c forwarder" where
  "http_route_cancel_stream stream_handle w = cancel_http_stream stream_handle w"

lemma cancels_agree: "cancel_cluster_stream = cancel_http_stream"
  by (simp add: cancel_cluster_stream_def cancel_http_stream_def fun_eq_iff)

text \<open>C12. A cancelled stream is quiet: unless the cancel gave up waiting after its five seconds, no callback ever runs on the
  host's bridge after the host freed it, and once the cancel has returned the task is gone, with every callback it
  made returned. Both the drain of an HTTP stream and the forwarder of a cluster stream are such tasks.\<close>

theorem cancel_quiesces:
  assumes "reach (\<lambda>w. w = new_forwarder) (forward_step enc last_chunk) w" "fw_cancel w \<noteq> CancelTimedOut"
  shows "\<not> fw_ub w \<and> (fw_cancel w = CancelReturned \<longrightarrow> fw_task w = Gone) \<and> (\<not> fw_bridge w \<longrightarrow> fw_task w = Gone)"
  using forwarding.reach_inv [OF assms(1)] assms(2) by (auto simp: forwarder_wf_def)

text \<open>C28. A drain forwards its stream: what the host's callback has been given is, in order and once each, what the stream
  yielded. When the task ends by itself, everything has been given and the end chunk is the one last call; a task
  that was aborted or dropped has given all it took off the stream.\<close>

theorem drain_forwards_in_order:
  assumes "reach (\<lambda>w. w = new_forwarder) (forward_step (drain_enc cw chunk_into) (drain_end cw end_chunk)) w"
  shows "(fw_task w \<noteq> Gone \<longrightarrow> fw_emitted w @ in_callback (fw_task w) = map (\<lambda>c. text_or [] cw (chunk_into c)) (fw_yielded w)) \<and>
    (fw_task w = Gone \<and> \<not> fw_aborted w \<and> \<not> fw_lost w \<longrightarrow>
      fw_emitted w = map (\<lambda>c. text_or [] cw (chunk_into c)) (fw_yielded w) @ [text_or [] cw end_chunk]) \<and>
    (fw_task w = Gone \<longrightarrow> (\<exists>rest. fw_emitted w = map (\<lambda>c. text_or [] cw (chunk_into c)) (fw_yielded w) @ rest \<and> length rest \<le> 1))"
proof -
  have enc: "List.map_filter (drain_enc cw chunk_into) cs = map (\<lambda>c. text_or [] cw (chunk_into c)) cs" for cs
    by (induction cs) (simp_all add: map_filter_simps drain_enc_def)
  show ?thesis
    using forwarding.reach_inv [OF assms] unfolding forwarder_wf_def enc by (auto simp: drain_end_def)
qed

section \<open>Reaching these states\<close>

lemma reach_run: "reach (\<lambda>w. w = new_forwarder) step w \<Longrightarrow> step w w' \<Longrightarrow> reach (\<lambda>w. w = new_forwarder) step w'"
  by (rule reach.intros(2))

definition demo_drained :: "string forwarder" where
  "demo_drained = \<lparr>fw_task = Gone, fw_aborted = False, fw_done_sent = True, fw_lost = False, fw_cancel = NotCancelled, fw_yielded = [''x''],
     fw_emitted = [''x'', ''end''], fw_bridge = True, fw_ub = False\<rparr>"

definition demo_wire_chunks :: "string serde" where
  "demo_wire_chunks = \<lparr>sd_from = Inr, sd_to = Some\<rparr>"

abbreviation demo_reach :: "string forwarder \<Rightarrow> bool" where
  "demo_reach \<equiv> reach (\<lambda>w. w = new_forwarder) (forward_step (drain_enc demo_wire_chunks (\<lambda>c. c)) (drain_end demo_wire_chunks ''end''))"

lemma demo_calling: "demo_reach (new_forwarder\<lparr>fw_task := Calling ''x'', fw_yielded := [''x'']\<rparr>)"
proof -
  have "demo_reach new_forwarder" by (rule reach.intros(1)) simp
  then have "demo_reach (poll_task new_forwarder)" by (rule reach_run) (rule f_poll, simp add: new_forwarder_def)
  then have "demo_reach (take_item (drain_enc demo_wire_chunks (\<lambda>c. c)) ''x'' (poll_task new_forwarder))"
    by (rule reach_run) (rule f_item, simp add: new_forwarder_def poll_task_def)
  then show ?thesis
    by (simp add: take_item_def drain_enc_def demo_wire_chunks_def text_or_def poll_task_def use_bridge_def new_forwarder_def)
qed

lemma demo_drained_reached: "demo_reach demo_drained"
proof -
  let ?w = "callback_returns ''x'' (new_forwarder\<lparr>fw_task := Calling ''x'', fw_yielded := [''x'']\<rparr>)"
  have "demo_reach ?w" by (rule reach_run [OF demo_calling]) (rule f_return, simp)
  then have "demo_reach (stream_ends (drain_end demo_wire_chunks ''end'') ?w)"
    by (rule reach_run) (rule f_end, simp add: callback_returns_def)
  then have "demo_reach (end_returns ''end'' (stream_ends (drain_end demo_wire_chunks ''end'') ?w))"
    by (rule reach_run) (rule f_end_return, simp add: stream_ends_def drain_end_def demo_wire_chunks_def text_or_def)
  then show ?thesis
    by (simp add: forward_ops drain_end_def demo_wire_chunks_def text_or_def new_forwarder_def demo_drained_def)
qed

theorem drain_forwards_in_order_witness: "fw_emitted demo_drained = map (\<lambda>c. text_or [] demo_wire_chunks c) [''x''] @ [text_or [] demo_wire_chunks ''end'']"
  using drain_forwards_in_order [OF demo_drained_reached] by (simp add: demo_drained_def)

definition demo_cancelled :: "string forwarder" where
  "demo_cancelled = demo_drained\<lparr>fw_aborted := True, fw_cancel := CancelReturned, fw_bridge := False\<rparr>"

lemma demo_cancelled_reached: "demo_reach demo_cancelled"
proof -
  have "demo_reach (cancel_http_stream 8 demo_drained)" by (rule reach_run [OF demo_drained_reached]) (rule f_cancel, simp add: demo_drained_def)
  then have "demo_reach (cancel_receives (cancel_http_stream 8 demo_drained))"
    by (rule reach_run) (rule f_done, simp_all add: cancel_http_stream_def demo_drained_def)
  then have "demo_reach (host_frees_bridge (cancel_receives (cancel_http_stream 8 demo_drained)))"
    by (rule reach_run) (rule f_free, simp add: cancel_receives_def)
  then show ?thesis by (simp add: forward_ops demo_cancelled_def)
qed

theorem cancel_quiesces_witness: "\<not> fw_ub demo_cancelled \<and> fw_task demo_cancelled = Gone \<and> \<not> fw_bridge demo_cancelled"
  using cancel_quiesces [OF demo_cancelled_reached] by (simp add: demo_cancelled_def demo_drained_def)

text \<open>The bound on the wait is a hole in that: a callback that is still running when the cancel gives up returns into a
  bridge the host has freed.\<close>

theorem cancel_timeout_uses_freed_bridge:
  "\<exists>w. demo_reach w \<and> fw_cancel w = CancelTimedOut \<and> \<not> fw_bridge w \<and> fw_ub w"
proof -
  let ?w = "new_forwarder\<lparr>fw_task := Calling ''x'', fw_yielded := [''x'']\<rparr> :: string forwarder"
  let ?freed = "host_frees_bridge (cancel_gives_up (cancel_http_stream 8 ?w))"
  have "demo_reach (cancel_http_stream 8 ?w)" by (rule reach_run [OF demo_calling]) (rule f_cancel, simp add: new_forwarder_def)
  then have "demo_reach (cancel_gives_up (cancel_http_stream 8 ?w))" by (rule reach_run) (rule f_timeout, simp add: cancel_http_stream_def)
  then have "demo_reach ?freed" by (rule reach_run) (rule f_free, simp add: cancel_gives_up_def)
  then have "demo_reach (callback_returns ''x'' ?freed)" by (rule reach_run) (rule f_return, simp add: forward_ops)
  then show ?thesis by (intro exI conjI) (assumption, simp_all add: forward_ops new_forwarder_def)
qed

section \<open>Routes, the two builds\<close>

definition reads_wire :: "response_wire serde \<Rightarrow> string \<Rightarrow> nat \<Rightarrow> bool" where
  "reads_wire rw t status \<longleftrightarrow> (\<exists>x. sd_from rw t = Inr x \<and> rw_status x = status)"

lemma reads_error_wire: "exact rw (error_wire v status reason) \<Longrightarrow> reads_wire rw (text_or [] rw (error_wire v status reason)) status"
  by (auto simp: reads_wire_def serde_text) (simp add: error_wire_def)

text \<open>What a host reads from a route's slots: the plugin's own status, headers and body for a response in bytes, from
  either slot; 400 for a request that does not parse, which never reaches the plugin; 500 for a stream through the
  slot that cannot stream and for a panic; and for a stream through the streaming slot the head of the drain that was
  spawned, or, without the feature or a runtime, a 500 and no task.\<close>

theorem http_route_outcome:
  assumes "guard_law quiet" "exact qw q" "sd_from qw bad = Inl e" "exact rw (error_wire v 400 (''invalid request JSON: '' @ e))" "\<And>reason. exact rw (error_wire v 500 reason)"
    and "\<And>resp. try_wire resp = (case hr_body resp of
      Bytes b \<Rightarrow> Some \<lparr>rw_status = hr_status resp, rw_headers = hr_headers resp, rw_body = b\<rparr> | Stream _ \<Rightarrow> None)"
    and "exact rw \<lparr>rw_status = hr_status resp, rw_headers = hr_headers resp, rw_body = b\<rparr>"
  shows "(hq_handle (SyncHttpRouteAdapter p) (req_from q) s = (Some resp, s') \<and> hr_body resp = Bytes b \<longrightarrow>
      (\<exists>t. http_route_handle quiet qw v rw req_from try_wire p (text_or [] qw q) s = (t, s') \<and>
        http_route_handle_streaming qw v rw req_from drain p (text_or [] qw q) s = (\<lparr>hh_handle = 0, hh_head_json = t\<rparr>, s') \<and>
        sd_from rw t = Inr \<lparr>rw_status = hr_status resp, rw_headers = hr_headers resp, rw_body = b\<rparr>)) \<and>
    (\<exists>t. http_route_handle quiet qw v rw req_from try_wire p bad s = (t, s) \<and> reads_wire rw t 400 \<and>
      http_route_handle_streaming qw v rw req_from drain p bad s = (\<lparr>hh_handle = 0, hh_head_json = t\<rparr>, s)) \<and>
    (sh_handle p (req_from q) s = (Some resp, s') \<and> hr_body resp = Stream st \<longrightarrow>
      (\<exists>t. http_route_handle quiet qw v rw req_from try_wire p (text_or [] qw q) s = (t, s') \<and> reads_wire rw t 500) \<and>
      http_route_handle_streaming qw v rw req_from drain p (text_or [] qw q) s = (drain resp, s')) \<and>
    (sh_handle p (req_from q) s = (None, s') \<longrightarrow>
      (\<exists>t. http_route_handle_streaming qw v rw req_from drain p (text_or [] qw q) s = (\<lparr>hh_handle = 0, hh_head_json = t\<rparr>, s') \<and> reads_wire rw t 500)) \<and>
    (\<not> streaming \<or> \<not> in_runtime \<longrightarrow> hr_body resp = Stream st \<longrightarrow>
      (\<exists>t. spawn_http_stream_drain streaming in_runtime v rw sh ptr resp = (\<lparr>hh_handle = 0, hh_head_json = t\<rparr>, None :: 'c forwarder option) \<and> reads_wire rw t 500))"
proof -
  note slots = http_route_handle_def http_route_handle_streaming_def with_args_def serde_text [OF assms(2)] assms(3) guard_answer [OF assms(1)]
    catch_unwind_def SyncHttpRouteAdapter_def guard_yields [OF assms(1)]
  note read = reads_error_wire [OF assms(4)] reads_error_wire [OF assms(5)]
  show ?thesis
  proof (intro conjI impI)
    show "\<exists>t. http_route_handle quiet qw v rw req_from try_wire p bad s = (t, s) \<and> reads_wire rw t 400 \<and>
      http_route_handle_streaming qw v rw req_from drain p bad s = (\<lparr>hh_handle = 0, hh_head_json = t\<rparr>, s)"
      using read(1) by (simp add: slots yields_def)
  qed (auto simp: slots read assms(6) serde_text [OF assms(7)] spawn_http_stream_drain_def fallback_error_def)
qed

section \<open>The binary sink\<close>

text \<open>The payloads the host's binary callback is given; it takes an empty one for the end of the stream.\<close>

definition bytes_emit :: "bytes \<Rightarrow> bytes list" where
  "bytes_emit b = (if b = [] then [] else [b])"

definition bytes_end :: "bytes list" where
  "bytes_end = [[]]"

lemma bytes_sink_stream: "takeWhile (\<lambda>b. b \<noteq> []) (concat (map bytes_emit bs) @ bytes_end) = filter (\<lambda>b. b \<noteq> []) bs"
  by (induction bs) (auto simp: bytes_emit_def bytes_end_def)

lemma bytes_sink_content: "concat (takeWhile (\<lambda>b. b \<noteq> []) (concat (map bytes_emit bs) @ bytes_end)) = concat bs"
  unfolding bytes_sink_stream by (induction bs) auto

section \<open>Transports\<close>

record transport_handle =
  th_handle :: nat
  th_listen_address :: "string option"

record ('s, 'm, 'dp, 'e) sync_transport =
  tr_manifest :: "('s, 'm) body"
  tr_name :: "('s, string) body"
  tr_start :: "json \<Rightarrow> 'dp \<Rightarrow> ('s, ('e, transport_handle) result) body"
  tr_handle_close :: "nat \<Rightarrow> ('s, unit) body"
  tr_handle_drop :: "nat \<Rightarrow> ('s, unit) body"
  tr_handle_listen_address :: "nat \<Rightarrow> ('s, string option) body"
  tr_shutdown :: "('s, unit) body"

definition transport_default_listen_address :: "nat \<Rightarrow> ('s, string option) body" where
  "transport_default_listen_address h = yields None"

definition transport_name :: "('s, string) guard \<Rightarrow> ('s, 'm, 'dp, 'e) sync_transport \<Rightarrow> 's \<Rightarrow> string \<times> 's" where
  "transport_name quiet p = quiet (tr_name p)"

definition transport_start_err :: "'e serde \<Rightarrow> 'e \<Rightarrow> ffi_stream" where
  "transport_start_err es e = \<lparr>fs_handle = 0, fs_error_json = text_or [] es e, fs_metadata_json = []\<rparr>"

definition transport_started :: "json serde \<Rightarrow> transport_handle \<Rightarrow> ffi_stream" where
  "transport_started v h =
     \<lparr>fs_handle = th_handle h, fs_error_json = [],
      fs_metadata_json = (case th_listen_address h of
          Some addr \<Rightarrow> if addr = [] then [] else text_or [] v (jobj [(''listen_address'', JStr addr)])
        | None \<Rightarrow> [])\<rparr>"

definition transport_start :: "json serde \<Rightarrow> 'e serde \<Rightarrow> (string \<Rightarrow> 'e) \<Rightarrow> (string \<Rightarrow> 'e) \<Rightarrow> ('cb \<Rightarrow> 'dp) \<Rightarrow>
    ('s, 'm, 'dp, 'e) sync_transport \<Rightarrow> string \<Rightarrow> 'cb \<Rightarrow> 's \<Rightarrow> ffi_stream \<times> 's" where
  "transport_start v es invalid_config io dispatcher_from_cb p listener_config_json cb =
     catch_unwind (transport_start_err es (io ''plugin panicked during start''))
       (with_args v listener_config_json (\<lambda>e. transport_start_err es (invalid_config (''listener_config not JSON: '' @ e)))
          (\<lambda>cfg. answer (\<lambda>r. case r of Inr h \<Rightarrow> transport_started v h | Inl e \<Rightarrow> transport_start_err es e)
             (tr_start p cfg (dispatcher_from_cb cb))))"

definition transport_handle_close :: "('s, unit) guard \<Rightarrow> ('s, 'm, 'dp, 'e) sync_transport \<Rightarrow> nat \<Rightarrow> 's \<Rightarrow> unit \<times> 's" where
  "transport_handle_close silent p h = silent (tr_handle_close p h)"

definition transport_handle_drop :: "('s, unit) guard \<Rightarrow> ('s, 'm, 'dp, 'e) sync_transport \<Rightarrow> nat \<Rightarrow> 's \<Rightarrow> unit \<times> 's" where
  "transport_handle_drop silent p h = silent (tr_handle_drop p h)"

definition transport_handle_listen_address :: "('s, string) guard \<Rightarrow> ('s, 'm, 'dp, 'e) sync_transport \<Rightarrow> nat \<Rightarrow> 's \<Rightarrow> string \<times> 's" where
  "transport_handle_listen_address quiet p h =
     quiet (answer (\<lambda>a. case a of Some t \<Rightarrow> t | None \<Rightarrow> []) (tr_handle_listen_address p h))"

text \<open>
  The dispatcher a transport calls: \<open>callback\<close> is the host's, with its context; a reply is read as the
  untagged sum of an answer and an error, whose codec is \<open>wire\<close>.
\<close>

definition ffi_dispatch :: "json serde \<Rightarrow> (bytes + 'e) serde \<Rightarrow> (string \<Rightarrow> 'e) \<Rightarrow> string \<Rightarrow> (string \<Rightarrow> string \<Rightarrow> ('s, string) body) \<Rightarrow>
    string \<Rightarrow> bytes \<Rightarrow> ('s, ('e, bytes) result) body" where
  "ffi_dispatch v wire internal encode_error callback session_id message =
     (case sd_to v (jobj [(''bytes'', JArr (map (\<lambda>b. JNum (PosInt (unat b))) message))]) of
        None \<Rightarrow> yields (Inl (internal (''dispatcher message encode failed: '' @ encode_error)))
      | Some msg_json \<Rightarrow> answer (\<lambda>raw. case sd_from wire raw of
            Inr (Inl b) \<Rightarrow> Inr b
          | Inr (Inr e) \<Rightarrow> Inl e
          | Inl e \<Rightarrow> Inl (internal (''dispatcher reply decode failed: '' @ e))) (callback session_id msg_json))"

definition SyncMessageDispatcherAdapter :: "(bytes \<Rightarrow> 'resp) \<Rightarrow> (string \<Rightarrow> bytes \<Rightarrow> ('s, ('e, bytes) result) body) \<Rightarrow>
    string \<Rightarrow> bytes \<Rightarrow> ('s, ('e, 'resp) result) body" where
  "SyncMessageDispatcherAdapter unary dispatch session_id message = answer (map_sum id unary) (dispatch session_id message)"

lemma transport_start_outcome:
  assumes "exact v cfg" "exact es e"
  shows "tr_start p cfg (from_cb cb) s = (Some (Inr \<lparr>th_handle = h, th_listen_address = addr\<rparr>), s') \<Longrightarrow> h \<noteq> 0 \<Longrightarrow>
      \<exists>st. transport_start v es ic io from_cb p (text_or [] v cfg) cb s = (st, s') \<and> read_stream es st = Inr (Inr h)"
    and "tr_start p cfg (from_cb cb) s = (Some (Inl e), s') \<Longrightarrow>
      \<exists>st. transport_start v es ic io from_cb p (text_or [] v cfg) cb s = (st, s') \<and> read_stream es st = Inr (Inl e)"
  using assms
  by (simp_all add: transport_start_def with_args_def serde_text catch_unwind_def transport_started_def transport_start_err_def read_stream_def)

lemma ffi_dispatch_answers:
  assumes "sd_to v (jobj [(''bytes'', JArr (map (\<lambda>b. JNum (PosInt (unat b))) message))]) = Some t"
    and "callback session t s = (Some raw, s')"
  shows "sd_from wire raw = Inr (Inl reply) \<Longrightarrow> ffi_dispatch v wire internal ee callback session message s = (Some (Inr reply), s')"
    and "sd_from wire raw = Inr (Inr e) \<Longrightarrow> ffi_dispatch v wire internal ee callback session message s = (Some (Inl e), s')"
  using assms by (simp_all add: ffi_dispatch_def)

definition demo_route :: "(nat, unit, unit, string, unit) sync_http_route" where
  "demo_route = \<lparr>sh_manifest = yields (), sh_routes = yields [],
     sh_handle = (\<lambda>q s. (Some \<lparr>hr_status = 200, hr_headers = [], hr_body = (if q = ''live'' then Stream () else Bytes q)\<rparr>, s + 1)), sh_shutdown = yields ()\<rparr>"

definition demo_wires :: "response_wire serde" where
  "demo_wires = table_serde [(''200'', \<lparr>rw_status = 200, rw_headers = [], rw_body = ''hi''\<rparr>),
     (''400'', error_wire (table_serde []) 400 ''''), (''500'', error_wire (table_serde []) 500 '''')]"

lemma error_wire_mute: "error_wire (table_serde []) status reason = \<lparr>rw_status = status, rw_headers = [(''Content-Type'', ''application/json'')], rw_body = []\<rparr>"
  by (simp add: error_wire_def text_or_def table_serde_def)

theorem http_route_outcome_witness:
  "\<exists>t. http_route_handle (catch_unwind []) (table_serde [(''q'', ''hi'')]) (table_serde []) demo_wires (\<lambda>q. q)
      (\<lambda>resp. case hr_body resp of Bytes b \<Rightarrow> Some \<lparr>rw_status = hr_status resp, rw_headers = hr_headers resp, rw_body = b\<rparr> | Stream _ \<Rightarrow> None)
      demo_route ''q'' 4 = (t, 5) \<and> sd_from demo_wires t = Inr \<lparr>rw_status = 200, rw_headers = [], rw_body = ''hi''\<rparr>"
proof -
  let ?wire = "\<lambda>resp :: unit http_response. case hr_body resp of Bytes b \<Rightarrow> Some \<lparr>rw_status = hr_status resp, rw_headers = hr_headers resp, rw_body = b\<rparr> | Stream _ \<Rightarrow> None"
  have ex: "exact demo_wires (error_wire (table_serde []) 400 reason)" "exact demo_wires (error_wire (table_serde []) 500 reason)"
      "exact demo_wires \<lparr>rw_status = 200, rw_headers = [], rw_body = ''hi''\<rparr>" "exact (table_serde [(''q'', ''hi'')]) ''hi''"
      "sd_from (table_serde [(''q'', ''hi'')]) ''?'' = Inl ''unexpected text''" "text_or [] (table_serde [(''q'', ''hi'')]) ''hi'' = ''q''" for reason
    by (simp_all add: exact_def demo_wires_def error_wire_mute text_or_def) (simp_all add: table_serde_def)
  have "sh_handle demo_route ''hi'' 4 = (Some \<lparr>hr_status = 200, hr_headers = [], hr_body = Bytes ''hi''\<rparr>, 5)"
    by (simp add: demo_route_def)
  then show ?thesis
    using http_route_outcome [where quiet = "catch_unwind []" and qw = "table_serde [(''q'', ''hi'')]" and q = "''hi''" and bad = "''?''"
        and e = "''unexpected text''" and rw = demo_wires and v = "table_serde []" and try_wire = ?wire and p = demo_route and req_from = "\<lambda>q. q"
        and resp = "\<lparr>hr_status = 200, hr_headers = [], hr_body = Bytes ''hi''\<rparr>" and b = "''hi''" and s = 4 and s' = 5
        and drain = "\<lambda>r. \<lparr>hh_handle = 0, hh_head_json = []\<rparr>" and streaming = False and in_runtime = True and st = "()" and ptr = 1
        and sh = "table_serde []"] ex
    by (auto simp: SyncHttpRouteAdapter_def)
qed

end
