(* ===== verification/Plugin_Process.thy ===== *)
theory Plugin_Process
  imports Slot_Shims
begin

text \<open>
  A process with a loaded plugin library: the instances of one entity, each a box behind the handle
  that \<^verbatim>\<open>make\<close> returned, the registry of host handles and the forwards of the log under way
  (\<open>instance_world\<close>), and what is in the boxes. \<^verbatim>\<open>make\<close> and \<^verbatim>\<open>drop_instance\<close> are those of
  \<^verbatim>\<open>src/src/macros.rs\<close> over \<^verbatim>\<open>boxed_make_with_host\<close> and \<^verbatim>\<open>boxed_drop\<close> of \<^verbatim>\<open>src/src/ffi.rs\<close>, the same for
  every kind; every other slot reaches the instance through \<^verbatim>\<open>typed_handle\<close>. The plugin type has data
  (instances of a type without data share one address and have nothing in their boxes), and the calls on
  an instance come one after the other: a plugin synchronises its own state.

  The locale \<open>entity_session\<close> is the contract between the host's requests to an entity and the methods
  of the static build. Under it every session of the host with a process, whatever instances it makes,
  calls and drops in which order, gives each instance the answers and the state that the object of the
  static build has after the same requests.
\<close>

section \<open>Processes\<close>

record 's process =
  px_world :: instance_world
  px_heap :: "nat \<Rightarrow> 's option"

text \<open>A factory is given the configuration and the host; \<open>None\<close> is a panic. The box lands at \<open>p\<close>.\<close>

type_synonym 's factory = "string \<Rightarrow> nat \<Rightarrow> 's option"

definition entity_make :: "('s process, nat) guard \<Rightarrow> 's factory \<Rightarrow> nat \<Rightarrow> string \<Rightarrow> nat \<Rightarrow> 's process \<Rightarrow> nat \<times> 's process" where
  "entity_make null_on_panic factory p config host =
     null_on_panic (\<lambda>w. case factory config host of
         None \<Rightarrow> (None, w)
       | Some s \<Rightarrow> (Some p, w\<lparr>px_world := boxed_make_with_host p host (px_world w), px_heap := (px_heap w)(p \<mapsto> s)\<rparr>))"

text \<open>
  \<^verbatim>\<open>drop_instance\<close> frees the box and then takes the handle out of the log registry, for which it waits for
  the forwards that read it.
\<close>

definition free_box :: "nat \<times> nat \<Rightarrow> 's process \<Rightarrow> 's process" where
  "free_box i w = w\<lparr>px_world := drop_box i (px_world w), px_heap := (px_heap w)(fst i := None)\<rparr>"

definition entity_drop :: "('s process, unit) guard \<Rightarrow> nat \<times> nat \<Rightarrow> 's process \<Rightarrow> unit \<times> 's process" where
  "entity_drop silent i =
     silent (\<lambda>w. (Some (), (free_box i w)\<lparr>px_world := drop_detach i (px_world (free_box i w))\<rparr>))"

text \<open>A slot at a handle: no box there is undefined behaviour, raised by \<open>typed_handle\<close>, and no answer.\<close>

definition on_instance :: "('s \<Rightarrow> 'a \<times> 's) \<Rightarrow> nat \<Rightarrow> 's process \<Rightarrow> 'a option \<times> 's process" where
  "on_instance slot h w =
     (case px_heap w h of
        None \<Rightarrow> (None, w\<lparr>px_world := typed_handle h (px_world w)\<rparr>)
      | Some s \<Rightarrow> (case slot s of (a, s') \<Rightarrow>
          (Some a, w\<lparr>px_world := typed_handle h (px_world w), px_heap := (px_heap w)(h \<mapsto> s')\<rparr>)))"

text \<open>
  The slots that the table of every kind begins and ends with; the table of a kind extends them by its own.
  A slot of a table takes its arguments and then the handle.
\<close>

type_synonym ('s, 'a) slot = "nat \<Rightarrow> 's process \<Rightarrow> 'a option \<times> 's process"

record 's life_slots =
  lv_make :: "nat \<Rightarrow> string \<Rightarrow> nat \<Rightarrow> 's process \<Rightarrow> nat \<times> 's process"
  lv_manifest_json :: "('s, string) slot"
  lv_shutdown :: "('s, unit) slot"
  lv_drop_instance :: "nat \<times> nat \<Rightarrow> 's process \<Rightarrow> unit \<times> 's process"

text \<open>The object of a static build: the methods of the host's trait and the state behind them.\<close>

definition build_static :: "'t \<Rightarrow> 's factory \<Rightarrow> string \<Rightarrow> nat \<Rightarrow> ('t \<times> 's) option" where
  "build_static adapter factory config host = map_option (Pair adapter) (factory config host)"

definition process_wf :: "'s process \<Rightarrow> bool" where
  "process_wf w \<longleftrightarrow> instances_wf (px_world w) \<and> \<not> iw_zero_sized (px_world w) \<and> dom (px_heap w) = set (iw_boxes (px_world w))"

lemma process_made: "process_wf w \<Longrightarrow> i \<in> set (iw_made (px_world w)) \<Longrightarrow> \<exists>s. px_heap w (fst i) = Some s"
  using wf_boxes [of "px_world w"] unfolding process_wf_def by blast

lemma process_wf_make:
  assumes "process_wf w" "guard_law null_on_panic" "iw_readers (px_world w) = []" "host \<notin> set (iw_bridges (px_world w))" "p \<notin> set (iw_boxes (px_world w))"
  shows "process_wf (snd (entity_make null_on_panic factory p config host w))"
  using assms wf_make [of "px_world w" host p]
  by (auto simp: process_wf_def entity_make_def guard_state boxed_make_with_host_def attach_def split: option.splits)

lemma process_wf_free_box:
  assumes "process_wf w" "i \<in> set (iw_made (px_world w))"
  shows "process_wf (free_box i w)"
proof -
  have wf: "instances_wf (px_world w)" "\<not> iw_zero_sized (px_world w)" "dom (px_heap w) = set (iw_boxes (px_world w))"
    using assms(1) by (simp_all add: process_wf_def)
  have "iw_boxes (drop_box i (px_world w)) = remove1 (fst i) (iw_boxes (px_world w))"
    using wf wf_call [OF wf(1) assms(2)] by (simp add: drop_box_def)
  moreover have "distinct (iw_boxes (px_world w))" using wf by (simp add: instances_wf_def)
  ultimately show ?thesis
    using wf wf_drop [OF wf(1) assms(2)] wf_call [OF wf(1) assms(2)]
    by (simp add: process_wf_def free_box_def) (auto simp: drop_box_def)
qed

lemma process_wf_on_instance:
  assumes "process_wf w" "i \<in> set (iw_made (px_world w))"
  shows "process_wf (snd (on_instance slot (fst i) w))"
proof -
  obtain s where s: "px_heap w (fst i) = Some s" using process_made [OF assms] by blast
  then have "insert (fst i) (dom (px_heap w)) = dom (px_heap w)" by auto
  then show ?thesis
    using assms s wf_call [of "px_world w" i]
    by (simp add: process_wf_def on_instance_def split: prod.splits)
qed

lemma on_instance_other: "h \<noteq> h' \<Longrightarrow> px_heap (snd (on_instance slot h w)) h' = px_heap w h'"
  by (auto simp: on_instance_def split: option.splits prod.splits)

section \<open>The object of the static build under a list of requests\<close>

text \<open>The answers, with \<open>None\<close> where a method panicked, and the state in the end.\<close>

fun static_session :: "('q \<Rightarrow> ('s, 'b) body) \<Rightarrow> 's \<Rightarrow> 'q list \<Rightarrow> 'b option list \<times> 's" where
  "static_session m s [] = ([], s)"
| "static_session m s (q # qs) =
     (case m q s of (r, s') \<Rightarrow> (case static_session m s' qs of (rs, t) \<Rightarrow> (r # rs, t)))"

lemma static_session_snoc:
  "static_session m s (qs @ [q]) =
     (case static_session m s qs of (rs, t) \<Rightarrow> (case m q t of (r, t') \<Rightarrow> (rs @ [r], t')))"
  by (induction qs arbitrary: s) (auto split: prod.splits)

section \<open>Sessions of the host with a process\<close>

text \<open>
  For every handle with a box, \<open>se_hist\<close> has the configuration and the host that \<^verbatim>\<open>make\<close> was given and the
  requests to that instance with the answers the host read.
\<close>

record ('s, 'q, 'r) session =
  se_process :: "'s process"
  se_hist :: "nat \<Rightarrow> ((string \<times> nat) \<times> ('q \<times> 'r) list) option"

definition host_make :: "('s, 'z) life_slots_scheme \<Rightarrow> 's factory \<Rightarrow> nat \<Rightarrow> string \<Rightarrow> nat \<Rightarrow> ('s, 'q, 'r) session \<Rightarrow> ('s, 'q, 'r) session" where
  "host_make table factory p config host w =
     w\<lparr>se_process := snd (lv_make table p config host (se_process w)),
       se_hist := (case factory config host of Some _ \<Rightarrow> (se_hist w)(p \<mapsto> ((config, host), [])) | None \<Rightarrow> se_hist w)\<rparr>"

definition host_call :: "('q \<Rightarrow> ('s, 'r) slot) \<Rightarrow> 'q \<Rightarrow> nat \<Rightarrow> ('s, 'q, 'r) session \<Rightarrow> ('s, 'q, 'r) session" where
  "host_call call q h w =
     (case call q h (se_process w) of
        (None, px) \<Rightarrow> w\<lparr>se_process := px\<rparr>
      | (Some r, px) \<Rightarrow> w\<lparr>se_process := px,
          se_hist := (se_hist w)(h := map_option (map_prod id (\<lambda>qs. qs @ [(q, r)])) (se_hist w h))\<rparr>)"

definition host_drop :: "nat \<times> nat \<Rightarrow> ('s, 'q, 'r) session \<Rightarrow> ('s, 'q, 'r) session" where
  "host_drop i w = w\<lparr>se_process := free_box i (se_process w), se_hist := (se_hist w)(fst i := None)\<rparr>"

definition in_world :: "(instance_world \<Rightarrow> instance_world) \<Rightarrow> ('s, 'q, 'r) session \<Rightarrow> ('s, 'q, 'r) session" where
  "in_world f w = w\<lparr>se_process := (se_process w)\<lparr>px_world := f (px_world (se_process w))\<rparr>\<rparr>"

text \<open>The steps and their conditions are those of \<open>instance_step\<close>; \<open>writable\<close> are the requests that the host can write.\<close>

inductive session_step :: "(log_record \<Rightarrow> string option) \<Rightarrow> ('s, 'z) life_slots_scheme \<Rightarrow> 's factory \<Rightarrow> ('q \<Rightarrow> bool) \<Rightarrow> ('q \<Rightarrow> ('s, 'r) slot) \<Rightarrow>
    ('s, 'q, 'r) session \<Rightarrow> ('s, 'q, 'r) session \<Rightarrow> bool" for to_string table factory writable call where
  s_make: "iw_readers (px_world (se_process w)) = [] \<Longrightarrow> host \<notin> set (iw_bridges (px_world (se_process w))) \<Longrightarrow>
    p \<notin> set (iw_boxes (px_world (se_process w))) \<Longrightarrow>
    session_step to_string table factory writable call w (host_make table factory p config host w)"
| s_call: "i \<in> set (iw_made (px_world (se_process w))) \<Longrightarrow> writable q \<Longrightarrow>
    session_step to_string table factory writable call w (host_call call q (fst i) w)"
| s_drop: "i \<in> set (iw_made (px_world (se_process w))) \<Longrightarrow>
    session_step to_string table factory writable call w (host_drop i w)"
| s_detach: "i \<in> set (iw_freed (px_world (se_process w))) \<Longrightarrow> iw_readers (px_world (se_process w)) = [] \<Longrightarrow>
    session_step to_string table factory writable call w (in_world (drop_detach i) w)"
| s_free: "i \<in> set (iw_detached (px_world (se_process w))) \<Longrightarrow>
    session_step to_string table factory writable call w (in_world (host_frees i) w)"
| s_forward: "session_step to_string table factory writable call w (in_world (forward to_string r) w)"
| s_deliver: "rd \<in> set (iw_readers (px_world (se_process w))) \<Longrightarrow>
    session_step to_string table factory writable call w (in_world (deliver rd) w)"

definition new_session :: "('s, 'q, 'r) session \<Rightarrow> bool" where
  "new_session w \<longleftrightarrow> no_instances (px_world (se_process w)) \<and> \<not> iw_zero_sized (px_world (se_process w)) \<and>
     px_heap (se_process w) = Map.empty \<and> se_hist w = Map.empty"

text \<open>What the host reads of an answer: the value of a method that did not panic, when it can be read at all.\<close>

definition reads_as :: "('b \<Rightarrow> bool) \<Rightarrow> ('b \<Rightarrow> 'r) \<Rightarrow> 'r \<Rightarrow> 'b option \<Rightarrow> bool" where
  "reads_as readable shown r a = (case a of Some b \<Rightarrow> readable b \<longrightarrow> r = shown b | None \<Rightarrow> True)"

definition as_static :: "'s factory \<Rightarrow> ('q \<Rightarrow> ('s, 'b) body) \<Rightarrow> ('b \<Rightarrow> bool) \<Rightarrow> ('b \<Rightarrow> 'r) \<Rightarrow> ('s, 'q, 'r) session \<Rightarrow> nat \<Rightarrow> bool" where
  "as_static factory m readable shown w h =
     (case se_hist w h of
        None \<Rightarrow> px_heap (se_process w) h = None
      | Some ((config, host), qs) \<Rightarrow>
          (case factory config host of
             None \<Rightarrow> False
           | Some s \<Rightarrow> px_heap (se_process w) h = Some (snd (static_session m s (map fst qs))) \<and>
               list_all2 (reads_as readable shown) (map snd qs) (fst (static_session m s (map fst qs)))))"

text \<open>
  A request serves a method: it is a slot at the instance's handle that leaves the state the method leaves
  and gives an answer in which the host reads the answer of the method.
\<close>

definition answers_as :: "('b \<Rightarrow> bool) \<Rightarrow> ('b \<Rightarrow> 'r) \<Rightarrow> ('s, 'r) slot \<Rightarrow> ('s, 'b) body \<Rightarrow> bool" where
  "answers_as readable shown ask m \<longleftrightarrow>
     (\<exists>slot. ask = on_instance slot \<and> (\<forall>s. snd (slot s) = snd (m s) \<and> reads_as readable shown (fst (slot s)) (fst (m s))))"

text \<open>What the host reads of a slot's answer.\<close>

definition reading :: "('a \<Rightarrow> 'r) \<Rightarrow> ('s, 'a) slot \<Rightarrow> ('s, 'r) slot" where
  "reading f ask h w = (case ask h w of (a, w') \<Rightarrow> (map_option f a, w'))"

lemma reading_on_instance: "reading f (on_instance slot) = on_instance (\<lambda>s. map_prod f id (slot s))"
  by (auto simp: reading_def on_instance_def fun_eq_iff split: option.splits prod.splits)

lemma answers_guarded:
  assumes "guard_law g" "\<And>x. readable (f x) \<Longrightarrow> decode (enc x) = shown (f x)"
  shows "answers_as readable shown (reading decode (on_instance (g (answer enc b)))) (answer f b)"
  unfolding answers_as_def
proof (intro exI conjI allI)
  show "reading decode (on_instance (g (answer enc b))) = on_instance (\<lambda>s. map_prod decode id (g (answer enc b) s))"
    by (rule reading_on_instance)
  show "snd (map_prod decode id (g (answer enc b) s)) = snd (answer f b s)" for s
    using assms(1) by (simp add: guard_state answer_def split: prod.splits)
  show "reads_as readable shown (fst (map_prod decode id (g (answer enc b) s))) (fst (answer f b s))" for s
    using guard_answer [OF assms(1), of "answer enc b" s] assms(2)
    by (auto simp: reads_as_def answer_def split: prod.splits option.splits)
qed

lemma answer_ident: "answer (\<lambda>x. x) b = b"
  by (simp add: answer_def fun_eq_iff option.map_ident split: prod.splits)

text \<open>The same of a slot whose guard runs the method as it is.\<close>

lemma answers_plain:
  "guard_law g \<Longrightarrow> (\<And>x. readable (f x) \<Longrightarrow> decode x = shown (f x)) \<Longrightarrow> answers_as readable shown (reading decode (on_instance (g b))) (answer f b)"
  using answers_guarded [of g readable f decode "\<lambda>x. x" shown b] by (simp add: answer_ident)

text \<open>
  The contract of an entity: its table's \<^verbatim>\<open>make\<close> boxes what the factory makes, and under the laws of the
  guards every request that the host can write serves the method it stands for.
\<close>

locale entity_session =
  fixes table :: "('s, 'z) life_slots_scheme"
    and lawful :: bool
    and null_on_panic :: "('s process, nat) guard"
    and factory :: "'s factory"
    and writable :: "'q \<Rightarrow> bool"
    and readable :: "'b \<Rightarrow> bool"
    and shown :: "'b \<Rightarrow> 'r"
    and call :: "'q \<Rightarrow> ('s, 'r) slot"
    and m :: "'q \<Rightarrow> ('s, 'b) body"
  assumes make: "lv_make table = entity_make null_on_panic factory"
    and null_law: "lawful \<Longrightarrow> guard_law null_on_panic"
    and call: "lawful \<Longrightarrow> writable q \<Longrightarrow> answers_as readable shown (call q) (m q)"

section \<open>The simulation\<close>

definition session_wf :: "'s factory \<Rightarrow> ('q \<Rightarrow> ('s, 'b) body) \<Rightarrow> ('b \<Rightarrow> bool) \<Rightarrow> ('b \<Rightarrow> 'r) \<Rightarrow> ('s, 'q, 'r) session \<Rightarrow> bool" where
  "session_wf factory m readable shown w \<longleftrightarrow> process_wf (se_process w) \<and> (\<forall>h. as_static factory m readable shown w h)"

lemma as_static_cong:
  "se_hist w' h = se_hist w h \<Longrightarrow> px_heap (se_process w') h = px_heap (se_process w) h \<Longrightarrow>
     as_static factory m readable shown w' h = as_static factory m readable shown w h"
  unfolding as_static_def by (cases "se_hist w h") (auto split: option.splits)

lemma as_static_none: "se_hist w h = None \<Longrightarrow> px_heap (se_process w) h = None \<Longrightarrow> as_static factory m readable shown w h"
  by (simp add: as_static_def)

lemma session_wfD: "session_wf factory m readable shown w \<Longrightarrow> as_static factory m readable shown w h"
  by (simp add: session_wf_def)

lemma session_world_safe: "session_wf factory m readable shown w \<Longrightarrow> \<not> iw_ub (px_world (se_process w))"
  by (simp add: session_wf_def process_wf_def instances_wf_def)

lemma entity_make_heap:
  "guard_law g \<Longrightarrow> px_heap (snd (entity_make g factory p config host w)) =
     (case factory config host of Some s \<Rightarrow> (px_heap w)(p \<mapsto> s) | None \<Rightarrow> px_heap w)"
  by (simp add: entity_make_def guard_state split: option.splits)

lemma session_wf_make:
  assumes "session_wf factory m readable shown w" "guard_law g" "lv_make table = entity_make g factory"
    and "iw_readers (px_world (se_process w)) = []" "host \<notin> set (iw_bridges (px_world (se_process w)))" "p \<notin> set (iw_boxes (px_world (se_process w)))"
  shows "session_wf factory m readable shown (host_make table factory p config host w)"
  unfolding session_wf_def
proof (intro conjI allI)
  show "process_wf (se_process (host_make table factory p config host w))"
    using assms process_wf_make [of "se_process w" g host p factory config] by (simp add: session_wf_def host_make_def)
  show "as_static factory m readable shown (host_make table factory p config host w) h" for h
  proof (cases "h = p \<and> factory config host \<noteq> None")
    case True
    then show ?thesis using assms(2) by (auto simp: as_static_def host_make_def entity_make_heap assms(3))
  next
    case False
    then show ?thesis using session_wfD [OF assms(1), of h]
      by (subst as_static_cong [of _ h w]) (auto simp: host_make_def entity_make_heap assms(2,3) split: option.splits)
  qed
qed

lemma session_wf_drop:
  assumes "session_wf factory m readable shown w" "i \<in> set (iw_made (px_world (se_process w)))"
  shows "session_wf factory m readable shown (host_drop i w)"
  unfolding session_wf_def
proof (intro conjI allI)
  show "process_wf (se_process (host_drop i w))"
    using assms process_wf_free_box [of "se_process w" i] by (simp add: session_wf_def host_drop_def)
  show "as_static factory m readable shown (host_drop i w) h" for h
  proof (cases "h = fst i")
    case True
    then show ?thesis by (simp add: as_static_none host_drop_def free_box_def)
  next
    case False
    then show ?thesis using session_wfD [OF assms(1), of h]
      by (subst as_static_cong [of "host_drop i w" h w]) (simp_all add: host_drop_def free_box_def)
  qed
qed

lemma session_wf_in_world:
  assumes "session_wf factory m readable shown w" "instances_wf (f (px_world (se_process w)))"
    and "iw_zero_sized (f (px_world (se_process w))) = iw_zero_sized (px_world (se_process w))"
    and "iw_boxes (f (px_world (se_process w))) = iw_boxes (px_world (se_process w))"
  shows "session_wf factory m readable shown (in_world f w)"
  unfolding session_wf_def
proof (intro conjI allI)
  show "process_wf (se_process (in_world f w))"
    using assms by (simp add: session_wf_def in_world_def process_wf_def)
  show "as_static factory m readable shown (in_world f w) h" for h
    using session_wfD [OF assms(1), of h] by (rule as_static_cong [THEN iffD2, rotated 2]) (simp_all add: in_world_def)
qed

lemma world_steps_keep_boxes:
  "iw_zero_sized (drop_detach i v) = iw_zero_sized v" "iw_boxes (drop_detach i v) = iw_boxes v"
  "iw_zero_sized (host_frees i v) = iw_zero_sized v" "iw_boxes (host_frees i v) = iw_boxes v"
  "iw_zero_sized (forward to_string r v) = iw_zero_sized v" "iw_boxes (forward to_string r v) = iw_boxes v"
  "iw_zero_sized (deliver rd v) = iw_zero_sized v" "iw_boxes (deliver rd v) = iw_boxes v"
  by (simp_all add: drop_detach_def detach_def host_frees_def forward_def deliver_def call_bridge_def split: option.splits)

context entity_session
begin

lemma session_wf_call:
  assumes "session_wf factory m readable shown w" "i \<in> set (iw_made (px_world (se_process w)))" "writable q" lawful
  shows "session_wf factory m readable shown (host_call call q (fst i) w)"
proof -
  have pw: "process_wf (se_process w)" and st: "\<And>h. as_static factory m readable shown w h"
    using assms(1) by (simp_all add: session_wf_def)
  obtain t where t: "px_heap (se_process w) (fst i) = Some t" using process_made [OF pw assms(2)] by blast
  then obtain config host qs where hist: "se_hist w (fst i) = Some ((config, host), qs)"
    using st [of "fst i"] by (auto simp: as_static_def split: option.splits)
  then obtain s where s: "factory config host = Some s"
    using st [of "fst i"] by (auto simp: as_static_def split: option.splits)
  obtain slot where slot: "call q = on_instance slot" "\<And>s. snd (slot s) = snd (m q s)" "\<And>s. reads_as readable shown (fst (slot s)) (fst (m q s))"
    using call [OF assms(4,3)] unfolding answers_as_def by blast
  obtain px where run: "on_instance slot (fst i) (se_process w) = (Some (fst (slot t)), px)"
    using t by (cases "slot t") (simp add: on_instance_def)
  have heap: "px_heap px = (px_heap (se_process w))(fst i \<mapsto> snd (m q t))"
    using t run slot(2) [of t] by (auto simp: on_instance_def split: prod.splits)
  have "as_static factory m readable shown (host_call call q (fst i) w) h" for h
  proof (cases "h = fst i")
    case True
    have "t = snd (static_session m s (map fst qs))" "list_all2 (reads_as readable shown) (map snd qs) (fst (static_session m s (map fst qs)))"
      using st [of "fst i"] hist t s by (simp_all add: as_static_def)
    then show ?thesis
      using True hist s heap run slot(3) [of t]
      by (cases "static_session m s (map fst qs)"; cases "m q t")
        (auto simp: host_call_def slot(1) as_static_def static_session_snoc intro!: list_all2_appendI)
  next
    case False
    then show ?thesis using st [of h] heap run by (subst as_static_cong [of _ h w]) (simp_all add: host_call_def slot(1))
  qed
  moreover have "process_wf (se_process (host_call call q (fst i) w))"
    using process_wf_on_instance [OF pw assms(2), of slot] run by (simp add: host_call_def slot(1))
  ultimately show ?thesis by (simp add: session_wf_def)
qed

lemma session_wf_step:
  assumes "session_step to_string table factory writable call w w'" lawful "session_wf factory m readable shown w"
  shows "session_wf factory m readable shown w'"
proof -
  have iw: "instances_wf (px_world (se_process w))" using assms(3) by (simp add: session_wf_def process_wf_def)
  show ?thesis using assms(1)
  proof cases
    case (s_detach i)
    then show ?thesis using session_wf_in_world [OF assms(3)] wf_detach [OF iw] by (simp add: world_steps_keep_boxes)
  next
    case (s_free i)
    then show ?thesis using session_wf_in_world [OF assms(3)] wf_free [OF iw] by (simp add: world_steps_keep_boxes)
  next
    case (s_forward r)
    then show ?thesis using session_wf_in_world [OF assms(3)] wf_forward [OF iw] by (simp add: world_steps_keep_boxes)
  next
    case (s_deliver rd)
    then show ?thesis using session_wf_in_world [OF assms(3)] wf_deliver [OF iw] by (simp add: world_steps_keep_boxes)
  qed (use assms(2,3) in \<open>auto intro: session_wf_make [OF _ null_law make] session_wf_call session_wf_drop\<close>)
qed

lemma session_wf_new: "new_session w \<Longrightarrow> session_wf factory m readable shown w"
  by (simp add: new_session_def session_wf_def process_wf_def as_static_def instances_wf_def no_instances_def all_instances_def)

lemma session_simulates:
  "reach new_session (session_step to_string table factory writable call) w \<Longrightarrow> lawful \<Longrightarrow> session_wf factory m readable shown w"
  by (induction rule: reach.induct) (auto intro: session_wf_new session_wf_step)

text \<open>Every live instance has had the session of the object that \<^verbatim>\<open>build_static\<close> makes of its configuration and host.\<close>

lemma instance_as_static:
  assumes "reach new_session (session_step to_string table factory writable call) w" lawful
    and "i \<in> set (iw_made (px_world (se_process w)))"
  shows "\<not> iw_ub (px_world (se_process w)) \<and>
    (\<exists>config host qs s. se_hist w (fst i) = Some ((config, host), qs) \<and> build_static adapter factory config host = Some (adapter, s) \<and>
      px_heap (se_process w) (fst i) = Some (snd (static_session m s (map fst qs))) \<and>
      list_all2 (reads_as readable shown) (map snd qs) (fst (static_session m s (map fst qs))))"
proof
  have wf: "session_wf factory m readable shown w" by (rule session_simulates [OF assms(1,2)])
  then show "\<not> iw_ub (px_world (se_process w))" by (rule session_world_safe)
  obtain t where "px_heap (se_process w) (fst i) = Some t"
    using wf process_made [OF _ assms(3)] by (auto simp: session_wf_def)
  then show "\<exists>config host qs s. se_hist w (fst i) = Some ((config, host), qs) \<and> build_static adapter factory config host = Some (adapter, s) \<and>
      px_heap (se_process w) (fst i) = Some (snd (static_session m s (map fst qs))) \<and>
      list_all2 (reads_as readable shown) (map snd qs) (fst (static_session m s (map fst qs)))"
    using session_wfD [OF wf, of "fst i"] unfolding as_static_def by (auto simp: build_static_def split: option.splits)
qed

end

text \<open>The \<^verbatim>\<open>drop_instance\<close> of a table is the two steps of a drop, one after the other.\<close>

lemma entity_drop_steps:
  "guard_law silent \<Longrightarrow> w'\<lparr>se_process := snd (entity_drop silent i (se_process w))\<rparr> =
     w'\<lparr>se_process := se_process (in_world (drop_detach i) (host_drop i w))\<rparr>"
  by (simp add: entity_drop_def guard_state in_world_def host_drop_def)

end
