(* ===== verification/Entity_Tables.thy ===== *)
theory Entity_Tables
  imports Plugin_Process Gate_Slots Data_Slots Backend_Slots Cluster_Slots Stream_Forward
begin

text \<open>
  The tables of the kinds of entity, as \<^verbatim>\<open>make_vtable\<close> of every kind in \<^verbatim>\<open>src/src/macros.rs\<close> builds them:
  one field per slot of the protocol's table, typed by what crosses the boundary, each filled with the
  slot of the kind at the handle's instance. A table extends \<open>life_slots\<close> by the slots of its kind.
  \<^verbatim>\<open>build_static\<close> of a kind is the adapter over what the factory makes; the cluster backend and the
  transport have none. The guards of the protocol crate and the codecs are parameters, as for the slots.
\<close>

section \<open>Guards of an entity\<close>

record 's guards =
  gd_null :: "('s process, nat) guard"
  gd_string :: "('s, string) guard"
  gd_unit :: "('s, unit) guard"
  gd_drop :: "('s process, unit) guard"

definition guards_law :: "'s guards \<Rightarrow> bool" where
  "guards_law gd \<longleftrightarrow> guard_law (gd_null gd) \<and> guard_law (gd_string gd) \<and> guard_law (gd_unit gd) \<and> guard_law (gd_drop gd)"

definition catching :: "'s guards" where
  "catching = \<lparr>gd_null = catch_unwind 0, gd_string = catch_unwind [], gd_unit = catch_unwind (), gd_drop = catch_unwind ()\<rparr>"

lemma catching_law [simp]: "guards_law catching"
  by (simp add: guards_law_def catching_def)

text \<open>A slot that may not return, at a handle; \<open>None\<close> is that it does not.\<close>

definition on_instance_looping :: "('s \<Rightarrow> ('a \<times> 's) option) \<Rightarrow> nat \<Rightarrow> 's process \<Rightarrow> ('a option \<times> 's process) option" where
  "on_instance_looping slot h w =
     (case px_heap w h of
        None \<Rightarrow> Some (None, w\<lparr>px_world := typed_handle h (px_world w)\<rparr>)
      | Some s \<Rightarrow> map_option (\<lambda>r. on_instance (\<lambda>_. r) h w) (slot s))"

section \<open>Decisions on a call\<close>

definition tool_gate_make where
  "tool_gate_make gd = entity_make (gd_null gd)"

definition tool_gate_drop where
  "tool_gate_drop gd = entity_drop (gd_drop gd)"

definition tool_gate_manifest_json where
  "tool_gate_manifest_json gd mf p = on_instance (slot_manifest_json (gd_string gd) mf (tg_manifest p))"

definition tool_gate_shutdown where
  "tool_gate_shutdown gd p = on_instance (slot_shutdown (gd_unit gd) (tg_shutdown p))"

record ('s, 'rc, 'rd) tool_gate_vtable = "'s life_slots" +
  gv_evaluate_pre_dispatch :: "'rc \<Rightarrow> string \<Rightarrow> string option \<Rightarrow> string \<Rightarrow> ('s, 'rd) slot"
  gv_evaluate_post_dispatch :: "'rc \<Rightarrow> string \<Rightarrow> string \<Rightarrow> 64 word \<Rightarrow> string \<Rightarrow> ('s, 'rd) slot"

definition tool_gate_make_vtable where
  "tool_gate_make_vtable gd mf factory p deny v ctx_in dec_out =
     \<lparr>lv_make = tool_gate_make gd factory,
      lv_manifest_json = tool_gate_manifest_json gd mf p,
      lv_shutdown = tool_gate_shutdown gd p,
      lv_drop_instance = tool_gate_drop gd,
      gv_evaluate_pre_dispatch = (\<lambda>ctx args meta cfg. on_instance (tool_gate_evaluate_pre deny v ctx_in dec_out p ctx args meta cfg)),
      gv_evaluate_post_dispatch = (\<lambda>ctx args res ms cfg. on_instance (tool_gate_evaluate_post deny v ctx_in dec_out p ctx args res ms cfg))\<rparr>"

definition tool_gate_build_static where
  "tool_gate_build_static p = build_static (SyncToolGateAdapter p)"

definition transform_make where
  "transform_make gd = entity_make (gd_null gd)"

definition transform_drop where
  "transform_drop gd = entity_drop (gd_drop gd)"

definition transform_manifest_json where
  "transform_manifest_json gd mf p = on_instance (slot_manifest_json (gd_string gd) mf (tf_manifest p))"

definition transform_shutdown where
  "transform_shutdown gd p = on_instance (slot_shutdown (gd_unit gd) (tf_shutdown p))"

record ('s, 'rc, 'rt) transform_vtable = "'s life_slots" +
  xv_transform_arguments :: "'rc \<Rightarrow> string \<Rightarrow> string \<Rightarrow> ('s, 'rt) slot"
  xv_transform_result :: "'rc \<Rightarrow> string \<Rightarrow> string \<Rightarrow> ('s, 'rt) slot"

definition transform_make_vtable where
  "transform_make_vtable gd mf factory p fail v ctx_in res_out =
     \<lparr>lv_make = transform_make gd factory,
      lv_manifest_json = transform_manifest_json gd mf p,
      lv_shutdown = transform_shutdown gd p,
      lv_drop_instance = transform_drop gd,
      xv_transform_arguments = (\<lambda>ctx args cfg. on_instance (transform_arguments fail v ctx_in res_out p ctx args cfg)),
      xv_transform_result = (\<lambda>ctx res cfg. on_instance (transform_result fail v ctx_in res_out p ctx res cfg))\<rparr>"

definition transform_build_static where
  "transform_build_static p = build_static (SyncTransformAdapter p)"

definition identity_make where
  "identity_make gd = entity_make (gd_null gd)"

definition identity_drop where
  "identity_drop gd = entity_drop (gd_drop gd)"

definition identity_manifest_json where
  "identity_manifest_json gd mf p = on_instance (slot_manifest_json (gd_string gd) mf (id_manifest p))"

definition identity_shutdown where
  "identity_shutdown gd p = on_instance (slot_shutdown (gd_unit gd) (id_shutdown p))"

record ('s, 'ri) identity_vtable = "'s life_slots" +
  iv_resolve_identity :: "string \<Rightarrow> string \<Rightarrow> string \<Rightarrow> ('s, 'ri) slot"

definition identity_make_vtable where
  "identity_make_vtable gd mf factory p invalid v md md_default res_out =
     \<lparr>lv_make = identity_make gd factory,
      lv_manifest_json = identity_manifest_json gd mf p,
      lv_shutdown = identity_shutdown gd p,
      lv_drop_instance = identity_drop gd,
      iv_resolve_identity = (\<lambda>hs meta cfg. on_instance (identity_resolve invalid v md md_default res_out p hs meta cfg))\<rparr>"

definition identity_build_static where
  "identity_build_static p = build_static (SyncIdentityAdapter p)"

definition policy_make where
  "policy_make gd = entity_make (gd_null gd)"

definition policy_drop where
  "policy_drop gd = entity_drop (gd_drop gd)"

definition policy_manifest_json where
  "policy_manifest_json gd mf p = on_instance (slot_manifest_json (gd_string gd) mf (po_manifest p))"

definition policy_shutdown where
  "policy_shutdown gd p = on_instance (slot_shutdown (gd_unit gd) (po_shutdown p))"

record 's policy_vtable = "'s life_slots" +
  pv_name :: "('s, string) slot"
  pv_evaluate :: "string \<Rightarrow> ('s, string) slot"
  pv_policy_version :: "('s, string) slot"

definition policy_make_vtable where
  "policy_make_vtable gd mf factory p pa pd pver deny =
     \<lparr>lv_make = policy_make gd factory,
      lv_manifest_json = policy_manifest_json gd mf p,
      lv_shutdown = policy_shutdown gd p,
      lv_drop_instance = policy_drop gd,
      pv_name = on_instance (policy_name (gd_string gd) p),
      pv_evaluate = (\<lambda>args. on_instance (policy_evaluate (gd_string gd) pa pd deny p args)),
      pv_policy_version = on_instance (policy_version (gd_string gd) pver p)\<rparr>"

definition policy_build_static where
  "policy_build_static p = build_static (SyncPolicyEngineAdapter p)"

definition approval_make where
  "approval_make gd = entity_make (gd_null gd)"

definition approval_drop where
  "approval_drop gd = entity_drop (gd_drop gd)"

definition approval_manifest_json where
  "approval_manifest_json gd mf p = on_instance (slot_manifest_json (gd_string gd) mf (ap_manifest p))"

definition approval_shutdown where
  "approval_shutdown gd p = on_instance (slot_shutdown (gd_unit gd) (ap_shutdown p))"

record 's approval_vtable = "'s life_slots" +
  nv_notify :: "string \<Rightarrow> ('s, string) slot"

definition approval_make_vtable where
  "approval_make_vtable gd mf factory p nq nr internal =
     \<lparr>lv_make = approval_make gd factory,
      lv_manifest_json = approval_manifest_json gd mf p,
      lv_shutdown = approval_shutdown gd p,
      lv_drop_instance = approval_drop gd,
      nv_notify = (\<lambda>request. on_instance (appr_notify (gd_string gd) nq nr internal p request))\<rparr>"

definition approval_build_static where
  "approval_build_static p = build_static (SyncApprovalNotifierAdapter p)"

definition credential_make where
  "credential_make gd = entity_make (gd_null gd)"

definition credential_drop where
  "credential_drop gd = entity_drop (gd_drop gd)"

definition credential_manifest_json where
  "credential_manifest_json gd mf p = on_instance (slot_manifest_json (gd_string gd) mf (cr_manifest p))"

definition credential_shutdown where
  "credential_shutdown gd p = on_instance (slot_shutdown (gd_unit gd) (cr_shutdown p))"

record 's credential_vtable = "'s life_slots" +
  rv_issue :: "string \<Rightarrow> ('s, string) slot"
  rv_revoke :: "string \<Rightarrow> ('s, string) slot"

definition credential_make_vtable where
  "credential_make_vtable gd mf factory p ca cc en_unit backend =
     \<lparr>lv_make = credential_make gd factory,
      lv_manifest_json = credential_manifest_json gd mf p,
      lv_shutdown = credential_shutdown gd p,
      lv_drop_instance = credential_drop gd,
      rv_issue = (\<lambda>args. on_instance (credential_issue (gd_string gd) ca cc backend p args)),
      rv_revoke = (\<lambda>lease. on_instance (credential_revoke (gd_string gd) en_unit p lease))\<rparr>"

definition credential_build_static where
  "credential_build_static p = build_static (SyncCredentialIssuerAdapter p)"

definition catalog_make where
  "catalog_make gd = entity_make (gd_null gd)"

definition catalog_drop where
  "catalog_drop gd = entity_drop (gd_drop gd)"

definition catalog_manifest_json where
  "catalog_manifest_json gd mf p = on_instance (slot_manifest_json (gd_string gd) mf (ct_manifest p))"

definition catalog_shutdown where
  "catalog_shutdown gd p = on_instance (slot_shutdown (gd_unit gd) (ct_shutdown p))"

record 's catalog_vtable = "'s life_slots" +
  qv_filter_and_enrich :: "string \<Rightarrow> ('s, string) slot"
  qv_describe :: "string \<Rightarrow> ('s, string) slot"
  qv_list_catalog :: "('s, string) slot"

definition catalog_make_vtable where
  "catalog_make_vtable gd mf factory p cx ds eo el =
     \<lparr>lv_make = catalog_make gd factory,
      lv_manifest_json = catalog_manifest_json gd mf p,
      lv_shutdown = catalog_shutdown gd p,
      lv_drop_instance = catalog_drop gd,
      qv_filter_and_enrich = (\<lambda>args. on_instance (catalog_filter_and_enrich (gd_string gd) cx ds p args)),
      qv_describe = (\<lambda>tool. on_instance (catalog_describe (gd_string gd) eo p tool)),
      qv_list_catalog = on_instance (catalog_list_catalog (gd_string gd) el p)\<rparr>"

definition catalog_build_static where
  "catalog_build_static p = build_static (SyncCatalogProviderAdapter p)"

section \<open>Backends, watch strategies and routes\<close>

definition binding_make where
  "binding_make gd = entity_make (gd_null gd)"

definition binding_drop where
  "binding_drop gd = entity_drop (gd_drop gd)"

definition binding_manifest_json where
  "binding_manifest_json gd mf p = on_instance (slot_manifest_json (gd_string gd) mf (sb_manifest p))"

definition binding_shutdown where
  "binding_shutdown gd p = on_instance (slot_shutdown (gd_unit gd) (sb_shutdown p))"

record 's binding_vtable = "'s life_slots" +
  bv_kind :: "('s, string) slot"
  bv_register_profile :: "string \<Rightarrow> string \<Rightarrow> ('s, string) slot"
  bv_execute :: "string \<Rightarrow> string \<Rightarrow> ('s, string) slot"
  bv_execute_streaming :: "string \<Rightarrow> string \<Rightarrow> nat \<Rightarrow> ('s, ffi_stream) slot"
  bv_cancel_stream :: "64 word \<Rightarrow> ('s, unit) slot"
  bv_execute_transaction :: "string \<Rightarrow> string \<Rightarrow> ('s, string) slot"
  bv_input_schema_json :: "string \<Rightarrow> ('s, string option) slot"
  bv_output_schema_json :: "string \<Rightarrow> ('s, string option) slot"
  bv_complete_template_variable :: "string \<Rightarrow> ('s, string) slot"
  bv_list_resources :: "string \<Rightarrow> string option \<Rightarrow> ('s, string) slot"
  bv_audit_metadata :: "string \<Rightarrow> ('s, string) slot"
  bv_expand_capabilities :: "('s, string) slot"

definition binding_make_vtable where
  "binding_make_vtable gd mf factory p failure v rq es en_unit en_resp en_chunk en_json en_vars en_page en_cap transport callback =
     \<lparr>lv_make = binding_make gd factory,
      lv_manifest_json = binding_manifest_json gd mf p,
      lv_shutdown = binding_shutdown gd p,
      lv_drop_instance = binding_drop gd,
      bv_kind = on_instance (binding_kind (gd_string gd) p),
      bv_register_profile = (\<lambda>backend spec. on_instance (binding_register_profile (gd_string gd) v en_unit p backend spec)),
      bv_execute = (\<lambda>backend request. on_instance (binding_execute (gd_string gd) rq en_resp transport p backend request)),
      bv_execute_streaming = (\<lambda>backend request ctx. on_instance (binding_execute_streaming failure rq es en_chunk transport callback p backend request ctx)),
      bv_cancel_stream = (\<lambda>token. on_instance (binding_cancel_stream (gd_unit gd) p token)),
      bv_execute_transaction = (\<lambda>backend tx. on_instance (binding_execute_transaction (gd_string gd) v en_json p backend tx)),
      bv_input_schema_json = (\<lambda>backend. on_instance (binding_input_schema_json v p backend)),
      bv_output_schema_json = (\<lambda>backend. on_instance (binding_output_schema_json v p backend)),
      bv_complete_template_variable = (\<lambda>args. on_instance (binding_complete_template_variable (gd_string gd) v en_vars p args)),
      bv_list_resources = (\<lambda>backend cursor. on_instance (binding_list_resources (gd_string gd) en_page p backend cursor)),
      bv_audit_metadata = (\<lambda>backend. on_instance (binding_audit_metadata (gd_string gd) v p backend)),
      bv_expand_capabilities = on_instance (binding_expand_capabilities (gd_string gd) en_cap p)\<rparr>"

definition binding_build_static where
  "binding_build_static defaults p = build_static (SyncBackendPluginAdapter defaults p)"

definition watch_make where
  "watch_make gd = entity_make (gd_null gd)"

definition watch_drop where
  "watch_drop gd = entity_drop (gd_drop gd)"

definition watch_manifest_json where
  "watch_manifest_json gd mf p = on_instance (slot_manifest_json (gd_string gd) mf (ws_manifest p))"

definition watch_shutdown where
  "watch_shutdown gd p = on_instance (slot_shutdown (gd_unit gd) (ws_shutdown p))"

record 's watch_vtable = "'s life_slots" +
  wv_kind :: "('s, string) slot"
  wv_watch :: "string \<Rightarrow> string \<Rightarrow> nat \<Rightarrow> ('s, ffi_stream) slot"
  wv_cancel :: "nat \<Rightarrow> ('s, unit) slot"
  wv_acknowledge :: "nat \<Rightarrow> string \<Rightarrow> ('s, unit) slot"

definition watch_make_vtable where
  "watch_make_vtable gd mf factory p failure v es =
     \<lparr>lv_make = watch_make gd factory,
      lv_manifest_json = watch_manifest_json gd mf p,
      lv_shutdown = watch_shutdown gd p,
      lv_drop_instance = watch_drop gd,
      wv_kind = on_instance (watch_kind (gd_string gd) p),
      wv_watch = (\<lambda>uri spec ctx. on_instance (watch_watch failure v es p uri spec ctx)),
      wv_cancel = (\<lambda>token. on_instance (watch_cancel (gd_unit gd) p token)),
      wv_acknowledge = (\<lambda>token position. on_instance (watch_acknowledge (gd_unit gd) v p token position))\<rparr>"

definition watch_build_static where
  "watch_build_static subscribe_error p = build_static (SyncWatchStrategyAdapter subscribe_error p)"

definition http_route_make where
  "http_route_make gd = entity_make (gd_null gd)"

definition http_route_drop where
  "http_route_drop gd = entity_drop (gd_drop gd)"

definition http_route_manifest_json where
  "http_route_manifest_json gd mf p = on_instance (slot_manifest_json (gd_string gd) mf (sh_manifest p))"

definition http_route_shutdown where
  "http_route_shutdown gd p = on_instance (slot_shutdown (gd_unit gd) (sh_shutdown p))"

record ('s, 'c) http_route_vtable = "'s life_slots" +
  hv_routes_json :: "('s, string) slot"
  hv_handle :: "string \<Rightarrow> ('s, string) slot"
  hv_handle_streaming :: "string \<Rightarrow> ('s, http_handle_result) slot"
  hv_cancel_stream :: "nat \<Rightarrow> 'c forwarder \<Rightarrow> 'c forwarder"

definition http_route_make_vtable where
  "http_route_make_vtable gd mf factory p rs qw v rw req_from try_wire drain =
     \<lparr>lv_make = http_route_make gd factory,
      lv_manifest_json = http_route_manifest_json gd mf p,
      lv_shutdown = http_route_shutdown gd p,
      lv_drop_instance = http_route_drop gd,
      hv_routes_json = on_instance (http_route_routes_json (gd_string gd) rs p),
      hv_handle = (\<lambda>request. on_instance (http_route_handle (gd_string gd) qw v rw req_from try_wire p request)),
      hv_handle_streaming = (\<lambda>request. on_instance (http_route_handle_streaming qw v rw req_from drain p request)),
      hv_cancel_stream = http_route_cancel_stream\<rparr>"

definition http_route_build_static where
  "http_route_build_static p = build_static (SyncHttpRouteAdapter p)"

definition transport_make where
  "transport_make gd = entity_make (gd_null gd)"

definition transport_drop where
  "transport_drop gd = entity_drop (gd_drop gd)"

definition transport_manifest_json where
  "transport_manifest_json gd mf p = on_instance (slot_manifest_json (gd_string gd) mf (tr_manifest p))"

definition transport_shutdown where
  "transport_shutdown gd p = on_instance (slot_shutdown (gd_unit gd) (tr_shutdown p))"

record ('s, 'cb) transport_vtable = "'s life_slots" +
  tv_name :: "('s, string) slot"
  tv_start :: "string \<Rightarrow> 'cb \<Rightarrow> ('s, ffi_stream) slot"
  tv_transport_handle_close :: "nat \<Rightarrow> ('s, unit) slot"
  tv_transport_handle_drop :: "nat \<Rightarrow> ('s, unit) slot"
  tv_transport_handle_listen_address :: "nat \<Rightarrow> ('s, string) slot"

definition transport_make_vtable where
  "transport_make_vtable gd mf factory p v es invalid_config io dispatcher_from_cb =
     \<lparr>lv_make = transport_make gd factory,
      lv_manifest_json = transport_manifest_json gd mf p,
      lv_shutdown = transport_shutdown gd p,
      lv_drop_instance = transport_drop gd,
      tv_name = on_instance (transport_name (gd_string gd) p),
      tv_start = (\<lambda>cfg cb. on_instance (transport_start v es invalid_config io dispatcher_from_cb p cfg cb)),
      tv_transport_handle_close = (\<lambda>handle. on_instance (transport_handle_close (gd_unit gd) p handle)),
      tv_transport_handle_drop = (\<lambda>handle. on_instance (transport_handle_drop (gd_unit gd) p handle)),
      tv_transport_handle_listen_address = (\<lambda>handle. on_instance (transport_handle_listen_address (gd_string gd) p handle))\<rparr>"

section \<open>Sinks\<close>

definition audit_sink_make where
  "audit_sink_make gd = entity_make (gd_null gd)"

definition audit_sink_drop where
  "audit_sink_drop gd = entity_drop (gd_drop gd)"

definition audit_sink_manifest_json where
  "audit_sink_manifest_json gd mf p = on_instance (slot_manifest_json (gd_string gd) mf (as_manifest p))"

definition audit_sink_shutdown where
  "audit_sink_shutdown gd p = on_instance (slot_shutdown (gd_unit gd) (as_shutdown p))"

record 's audit_sink_vtable = "'s life_slots" +
  av_emit :: "string \<Rightarrow> ('s, string) slot"
  av_flush :: "64 word \<Rightarrow> ('s, string) slot"

definition audit_sink_make_vtable where
  "audit_sink_make_vtable gd mf factory p ae en_receipt en_unit write_failed =
     \<lparr>lv_make = audit_sink_make gd factory,
      lv_manifest_json = audit_sink_manifest_json gd mf p,
      lv_shutdown = audit_sink_shutdown gd p,
      lv_drop_instance = audit_sink_drop gd,
      av_emit = (\<lambda>event. on_instance (audit_sink_emit (gd_string gd) ae en_receipt write_failed p event)),
      av_flush = (\<lambda>ms. on_instance (audit_sink_flush (gd_string gd) en_unit p ms))\<rparr>"

definition audit_sink_build_static where
  "audit_sink_build_static p = build_static (SyncAuditSinkAdapter p)"

definition log_sink_make where
  "log_sink_make gd = entity_make (gd_null gd)"

definition log_sink_drop where
  "log_sink_drop gd = entity_drop (gd_drop gd)"

definition log_sink_manifest_json where
  "log_sink_manifest_json gd mf p = on_instance (slot_manifest_json (gd_string gd) mf (ls_manifest p))"

definition log_sink_shutdown where
  "log_sink_shutdown gd p = on_instance (slot_shutdown (gd_unit gd) (ls_shutdown p))"

record 's log_sink_vtable = "'s life_slots" +
  lv_log_emit :: "string \<Rightarrow> ('s, unit) slot"
  lv_log_flush :: "64 word \<Rightarrow> ('s, string) slot"

definition log_sink_make_vtable where
  "log_sink_make_vtable gd mf factory p lr en_unit =
     \<lparr>lv_make = log_sink_make gd factory,
      lv_manifest_json = log_sink_manifest_json gd mf p,
      lv_shutdown = log_sink_shutdown gd p,
      lv_drop_instance = log_sink_drop gd,
      lv_log_emit = (\<lambda>event. on_instance (log_sink_emit (gd_unit gd) lr p event)),
      lv_log_flush = (\<lambda>ms. on_instance (log_sink_flush (gd_string gd) en_unit p ms))\<rparr>"

definition log_sink_build_static where
  "log_sink_build_static p = build_static (SyncLogSinkAdapter p)"

definition metrics_sink_make where
  "metrics_sink_make gd = entity_make (gd_null gd)"

definition metrics_sink_drop where
  "metrics_sink_drop gd = entity_drop (gd_drop gd)"

definition metrics_sink_manifest_json where
  "metrics_sink_manifest_json gd mf p = on_instance (slot_manifest_json (gd_string gd) mf (ms_manifest p))"

definition metrics_sink_shutdown where
  "metrics_sink_shutdown gd p = on_instance (slot_shutdown (gd_unit gd) (ms_shutdown p))"

record 's metrics_sink_vtable = "'s life_slots" +
  mv_emit :: "string \<Rightarrow> ('s, unit) slot"
  mv_flush :: "64 word \<Rightarrow> ('s, string) slot"
  mv_render_text_exposition :: "('s, string) slot"

definition metrics_sink_make_vtable where
  "metrics_sink_make_vtable gd mf factory p mp en_unit =
     \<lparr>lv_make = metrics_sink_make gd factory,
      lv_manifest_json = metrics_sink_manifest_json gd mf p,
      lv_shutdown = metrics_sink_shutdown gd p,
      lv_drop_instance = metrics_sink_drop gd,
      mv_emit = (\<lambda>metric. on_instance (metrics_sink_emit (gd_unit gd) mp p metric)),
      mv_flush = (\<lambda>ms. on_instance (metrics_sink_flush (gd_string gd) en_unit p ms)),
      mv_render_text_exposition = on_instance (metrics_sink_render_text_exposition (gd_string gd) p)\<rparr>"

definition metrics_sink_build_static where
  "metrics_sink_build_static p = build_static (SyncMetricsSinkAdapter p)"

definition telemetry_sink_make where
  "telemetry_sink_make gd = entity_make (gd_null gd)"

definition telemetry_sink_drop where
  "telemetry_sink_drop gd = entity_drop (gd_drop gd)"

definition telemetry_sink_manifest_json where
  "telemetry_sink_manifest_json gd mf p = on_instance (slot_manifest_json (gd_string gd) mf (ts_manifest p))"

definition telemetry_sink_shutdown where
  "telemetry_sink_shutdown gd p = on_instance (slot_shutdown (gd_unit gd) (ts_shutdown p))"

record 's telemetry_sink_vtable = "'s life_slots" +
  yv_span_started :: "string \<Rightarrow> ('s, unit) slot"
  yv_span_ended :: "string \<Rightarrow> ('s, unit) slot"
  yv_metric_recorded :: "string \<Rightarrow> ('s, unit) slot"
  yv_log_recorded :: "string \<Rightarrow> ('s, unit) slot"
  yv_flush :: "64 word \<Rightarrow> ('s, string) slot"

definition telemetry_sink_make_vtable where
  "telemetry_sink_make_vtable gd mf factory p sc ec mp lr en_unit =
     \<lparr>lv_make = telemetry_sink_make gd factory,
      lv_manifest_json = telemetry_sink_manifest_json gd mf p,
      lv_shutdown = telemetry_sink_shutdown gd p,
      lv_drop_instance = telemetry_sink_drop gd,
      yv_span_started = (\<lambda>span. on_instance (telemetry_sink_span_started (gd_unit gd) sc p span)),
      yv_span_ended = (\<lambda>span. on_instance (telemetry_sink_span_ended (gd_unit gd) ec p span)),
      yv_metric_recorded = (\<lambda>metric. on_instance (telemetry_sink_metric_recorded (gd_unit gd) mp p metric)),
      yv_log_recorded = (\<lambda>event. on_instance (telemetry_sink_log_recorded (gd_unit gd) lr p event)),
      yv_flush = (\<lambda>ms. on_instance (telemetry_sink_flush (gd_string gd) en_unit p ms))\<rparr>"

definition telemetry_sink_build_static where
  "telemetry_sink_build_static p = build_static (SyncTelemetrySinkAdapter p)"

section \<open>Stores and providers\<close>

definition store_make where
  "store_make gd = entity_make (gd_null gd)"

definition store_drop where
  "store_drop gd = entity_drop (gd_drop gd)"

definition store_manifest_json where
  "store_manifest_json gd mf p = on_instance (slot_manifest_json (gd_string gd) mf (st_manifest p))"

definition store_shutdown where
  "store_shutdown gd p = on_instance (slot_shutdown (gd_unit gd) (st_shutdown p))"

record 's store_vtable = "'s life_slots" +
  sv_supported_roles_json :: "('s, string) slot"
  sv_get :: "string \<Rightarrow> ('s, string) slot"
  sv_put :: "string \<Rightarrow> ('s, string) slot"
  sv_delete :: "string \<Rightarrow> ('s, string) slot"
  sv_list :: "string \<Rightarrow> ('s, string) slot"
  sv_compare_and_swap :: "string \<Rightarrow> ('s, string) slot"
  sv_append :: "string \<Rightarrow> ('s, string) slot"
  sv_watch :: "string \<Rightarrow> nat \<Rightarrow> ('s, ffi_stream) slot"
  sv_cancel_watch :: "nat \<Rightarrow> ('s, unit) slot"

definition store_make_vtable where
  "store_make_vtable gd mf factory p rs sk sn sg sw es en_opt en_unit en_page en_bool en_app backend =
     \<lparr>lv_make = store_make gd factory,
      lv_manifest_json = store_manifest_json gd mf p,
      lv_shutdown = store_shutdown gd p,
      lv_drop_instance = store_drop gd,
      sv_supported_roles_json = on_instance (store_supported_roles (gd_string gd) rs p),
      sv_get = (\<lambda>args. on_instance (store_get (gd_string gd) sk en_opt backend p args)),
      sv_put = (\<lambda>args. on_instance (store_put (gd_string gd) sn en_unit backend p args)),
      sv_delete = (\<lambda>args. on_instance (store_delete (gd_string gd) sk en_unit backend p args)),
      sv_list = (\<lambda>args. on_instance (store_list (gd_string gd) sg en_page backend p args)),
      sv_compare_and_swap = (\<lambda>args. on_instance (store_cas (gd_string gd) sw en_bool backend p args)),
      sv_append = (\<lambda>args. on_instance (store_append (gd_string gd) sn en_app backend p args)),
      sv_watch = (\<lambda>args ctx. on_instance (store_watch sk es backend p args ctx)),
      sv_cancel_watch = (\<lambda>token. on_instance (store_cancel_watch (gd_unit gd) p token))\<rparr>"

definition store_build_static where
  "store_build_static unsupported val_from val_into page_from p = build_static (SyncStorePluginAdapter unsupported val_from val_into page_from p)"

definition cache_make where
  "cache_make gd = entity_make (gd_null gd)"

definition cache_drop where
  "cache_drop gd = entity_drop (gd_drop gd)"

definition cache_manifest_json where
  "cache_manifest_json gd mf p = on_instance (slot_manifest_json (gd_string gd) mf (ch_manifest p))"

definition cache_shutdown where
  "cache_shutdown gd p = on_instance (slot_shutdown (gd_unit gd) (ch_shutdown p))"

record 's cache_vtable = "'s life_slots" +
  cv_supported_namespaces_json :: "('s, string) slot"
  cv_serves_any_namespace :: "('s, 8 word) slot"
  cv_get :: "string \<Rightarrow> ('s, string) slot"
  cv_put :: "string \<Rightarrow> ('s, string) slot"
  cv_delete :: "string \<Rightarrow> ('s, unit) slot"
  cv_clear :: "string \<Rightarrow> ('s, string) slot"
  cv_incr :: "string \<Rightarrow> ('s, string) slot"

definition cache_make_vtable where
  "cache_make_vtable gd mf factory p ns ck bo cn cl cu v err_value en_unit en_count backend =
     \<lparr>lv_make = cache_make gd factory,
      lv_manifest_json = cache_manifest_json gd mf p,
      lv_shutdown = cache_shutdown gd p,
      lv_drop_instance = cache_drop gd,
      cv_supported_namespaces_json = on_instance (cache_supported_namespaces (gd_string gd) ns p),
      cv_serves_any_namespace = on_instance (cache_serves_any p),
      cv_get = (\<lambda>args. on_instance (cache_slot_get (gd_string gd) ck bo p args)),
      cv_put = (\<lambda>args. on_instance (cache_slot_put (gd_string gd) cn en_unit backend p args)),
      cv_delete = (\<lambda>args. on_instance (cache_delete (gd_unit gd) ck p args)),
      cv_clear = (\<lambda>args. on_instance (cache_clear (gd_string gd) cl en_unit backend p args)),
      cv_incr = (\<lambda>args. on_instance (cache_incr (gd_string gd) cu en_count v err_value backend p args))\<rparr>"

definition cache_build_static where
  "cache_build_static p = build_static (SyncCachePluginAdapter p)"

definition secret_make where
  "secret_make gd = entity_make (gd_null gd)"

definition secret_drop where
  "secret_drop gd = entity_drop (gd_drop gd)"

definition secret_manifest_json where
  "secret_manifest_json gd mf p = on_instance (slot_manifest_json (gd_string gd) mf (sp_manifest p))"

definition secret_shutdown where
  "secret_shutdown gd p = on_instance (slot_shutdown (gd_unit gd) (sp_shutdown p))"

record 's secret_vtable = "'s life_slots" +
  ev_supported_schemes_json :: "('s, string) slot"
  ev_get :: "string \<Rightarrow> ('s, string) slot"
  ev_watch :: "string \<Rightarrow> nat \<Rightarrow> ('s, ffi_stream) slot"
  ev_cancel_watch :: "nat \<Rightarrow> ('s, unit) slot"

definition secret_make_vtable where
  "secret_make_vtable gd mf factory p ss en es backend =
     \<lparr>lv_make = secret_make gd factory,
      lv_manifest_json = secret_manifest_json gd mf p,
      lv_shutdown = secret_shutdown gd p,
      lv_drop_instance = secret_drop gd,
      ev_supported_schemes_json = on_instance (secret_supported (gd_string gd) ss p),
      ev_get = (\<lambda>ref. on_instance (secret_get (gd_string gd) en p ref)),
      ev_watch = (\<lambda>ref ctx. on_instance (secret_watch es backend p ref ctx)),
      ev_cancel_watch = (\<lambda>token. on_instance (secret_cancel_watch (gd_unit gd) p token))\<rparr>"

definition secret_build_static where
  "secret_build_static defaults val_from p = build_static (SyncSecretProviderAdapter defaults val_from p)"

definition config_make where
  "config_make gd = entity_make (gd_null gd)"

definition config_drop where
  "config_drop gd = entity_drop (gd_drop gd)"

definition config_manifest_json where
  "config_manifest_json gd mf p = on_instance (slot_manifest_json (gd_string gd) mf (cf_manifest p))"

definition config_shutdown where
  "config_shutdown gd p = on_instance (slot_shutdown (gd_unit gd) (cf_shutdown p))"

record 's config_vtable = "'s life_slots" +
  fv_supported_schemes_json :: "('s, string) slot"
  fv_snapshot :: "string \<Rightarrow> ('s, string) slot"
  fv_watch :: "string \<Rightarrow> nat \<Rightarrow> ('s, ffi_stream) slot"
  fv_cancel_watch :: "nat \<Rightarrow> ('s, unit) slot"

definition config_make_vtable where
  "config_make_vtable gd mf factory p ss en es backend =
     \<lparr>lv_make = config_make gd factory,
      lv_manifest_json = config_manifest_json gd mf p,
      lv_shutdown = config_shutdown gd p,
      lv_drop_instance = config_drop gd,
      fv_supported_schemes_json = on_instance (config_supported (gd_string gd) ss p),
      fv_snapshot = (\<lambda>ref. on_instance (config_snapshot (gd_string gd) en p ref)),
      fv_watch = (\<lambda>ref ctx. on_instance (config_watch es backend p ref ctx)),
      fv_cancel_watch = (\<lambda>token. on_instance (config_cancel_watch (gd_unit gd) p token))\<rparr>"

definition config_build_static where
  "config_build_static defaults p = build_static (SyncConfigProviderAdapter defaults p)"

definition content_store_make where
  "content_store_make gd = entity_make (gd_null gd)"

definition content_store_drop where
  "content_store_drop gd = entity_drop (gd_drop gd)"

definition content_store_manifest_json where
  "content_store_manifest_json gd mf p = on_instance (slot_manifest_json (gd_string gd) mf (co_manifest p))"

definition content_store_shutdown where
  "content_store_shutdown gd p = on_instance (slot_shutdown (gd_unit gd) (co_shutdown p))"

record 's content_store_vtable = "'s life_slots" +
  dv_kind :: "('s, string) slot"
  dv_register_profile :: "string \<Rightarrow> ('s, string) slot"
  dv_put :: "string \<Rightarrow> ('s, string) slot"
  dv_get :: "string \<Rightarrow> ('s, string) slot"
  dv_delete :: "string \<Rightarrow> ('s, string) slot"
  dv_signed_url :: "string \<Rightarrow> ('s, string) slot"
  dv_stats :: "string \<Rightarrow> ('s, string) slot"
  dv_sweep_expired :: "string \<Rightarrow> ('s, string) slot"

definition content_store_make_vtable where
  "content_store_make_vtable gd mf factory p xp xu xi xl xn stc zero ct en_unit en_handle en_content en_url storage =
     \<lparr>lv_make = content_store_make gd factory,
      lv_manifest_json = content_store_manifest_json gd mf p,
      lv_shutdown = content_store_shutdown gd p,
      lv_drop_instance = content_store_drop gd,
      dv_kind = on_instance (content_store_kind (gd_string gd) p),
      dv_register_profile = (\<lambda>args. on_instance (content_store_register_profile (gd_string gd) xp en_unit storage p args)),
      dv_put = (\<lambda>args. on_instance (content_store_put (gd_string gd) xu en_handle storage p args)),
      dv_get = (\<lambda>args. on_instance (content_store_get (gd_string gd) xi en_content storage p args)),
      dv_delete = (\<lambda>args. on_instance (content_store_delete (gd_string gd) xi en_unit storage p args)),
      dv_signed_url = (\<lambda>args. on_instance (content_store_signed_url (gd_string gd) xl en_url storage p args)),
      dv_stats = (\<lambda>args. on_instance (content_store_stats (gd_string gd) xn stc zero p args)),
      dv_sweep_expired = (\<lambda>args. on_instance (content_store_sweep_expired (gd_string gd) xn ct p args))\<rparr>"

definition content_store_build_static where
  "content_store_build_static p = build_static (SyncContentStoreAdapter p)"

section \<open>The cluster backend\<close>

definition cluster_make where
  "cluster_make gd = entity_make (gd_null gd)"

definition cluster_drop where
  "cluster_drop gd = entity_drop (gd_drop gd)"

definition cluster_shutdown where
  "cluster_shutdown gd p = on_instance (slot_shutdown (gd_unit gd) (kb_shutdown p))"

record 's cluster_vtable = "'s life_slots" +
  clv_node_info :: "('s, string) slot"
  clv_list_peers :: "('s, string) slot"
  clv_publish :: "string \<Rightarrow> ('s, string) slot"
  clv_subscribe :: "string \<Rightarrow> nat \<Rightarrow> ('s, ffi_stream) slot"
  clv_watch_peers :: "nat \<Rightarrow> ('s, ffi_stream) slot"
  clv_cancel_stream :: "nat \<Rightarrow> ('s, unit) slot"
  clv_acquire_leadership :: "string \<Rightarrow> ('s, lease_handle) slot"
  clv_acquire_lock :: "string \<Rightarrow> ('s, lease_handle) slot"
  clv_try_acquire_leadership :: "string \<Rightarrow> ('s, lease_handle) slot"
  clv_try_acquire_lock :: "string \<Rightarrow> ('s, lease_handle) slot"
  clv_lease_renew :: "nat \<Rightarrow> ('s, string) slot"
  clv_lease_release :: "nat \<Rightarrow> ('s, string) slot"
  clv_lease_drop :: "nat \<Rightarrow> ('s, unit) slot"
  clv_kv_get :: "string \<Rightarrow> ('s, string) slot"
  clv_kv_put :: "string \<Rightarrow> ('s, string) slot"
  clv_kv_put_if_absent :: "string \<Rightarrow> ('s, string) slot"
  clv_kv_delete :: "string \<Rightarrow> ('s, string) slot"
  clv_kv_list_prefix :: "string \<Rightarrow> nat \<Rightarrow> 's process \<Rightarrow> (string option \<times> 's process) option"
  clv_kv_expire :: "string \<Rightarrow> ('s, string) slot"
  clv_kv_incr :: "string \<Rightarrow> ('s, string) slot"

definition cluster_make_vtable where
  "cluster_make_vtable gd factory p to_value value_text base64_feature floor_feature ni ps pb sa aq kk ku kl kx kn es en_unit en_expiry en_entry en_bool en_listing en_page en_count from_entry from_page invalid_reference internal =
     \<lparr>lv_make = cluster_make gd factory,
      lv_manifest_json = on_instance (cluster_manifest (gd_string gd) to_value value_text base64_feature floor_feature p),
      lv_shutdown = cluster_shutdown gd p,
      lv_drop_instance = cluster_drop gd,
      clv_node_info = on_instance (cluster_node_info (gd_string gd) ni p),
      clv_list_peers = on_instance (cluster_list_peers (gd_string gd) ps p),
      clv_publish = (\<lambda>args. on_instance (cluster_publish (gd_string gd) pb en_unit invalid_reference p args)),
      clv_subscribe = (\<lambda>args ctx. on_instance (cluster_subscribe sa es invalid_reference internal p args ctx)),
      clv_watch_peers = (\<lambda>ctx. on_instance (cluster_watch_peers es internal p ctx)),
      clv_cancel_stream = (\<lambda>token. on_instance (cluster_cancel_stream (gd_unit gd) p token)),
      clv_acquire_leadership = (\<lambda>args. on_instance (cluster_acquire_leadership aq es invalid_reference internal p args)),
      clv_acquire_lock = (\<lambda>args. on_instance (cluster_acquire_lock aq es invalid_reference internal p args)),
      clv_try_acquire_leadership = (\<lambda>args. on_instance (cluster_try_acquire_leadership aq es invalid_reference internal p args)),
      clv_try_acquire_lock = (\<lambda>args. on_instance (cluster_try_acquire_lock aq es invalid_reference internal p args)),
      clv_lease_renew = (\<lambda>lease. on_instance (cluster_lease_renew (gd_string gd) en_expiry p lease)),
      clv_lease_release = (\<lambda>lease. on_instance (cluster_lease_release (gd_string gd) en_unit p lease)),
      clv_lease_drop = (\<lambda>lease. on_instance (cluster_lease_drop (gd_unit gd) p lease)),
      clv_kv_get = (\<lambda>args. on_instance (cluster_kv_get (gd_string gd) kk en_entry invalid_reference from_entry p args)),
      clv_kv_put = (\<lambda>args. on_instance (cluster_kv_put (gd_string gd) ku en_unit invalid_reference p args)),
      clv_kv_put_if_absent = (\<lambda>args. on_instance (cluster_kv_put_if_absent (gd_string gd) ku en_bool invalid_reference p args)),
      clv_kv_delete = (\<lambda>args. on_instance (cluster_kv_delete (gd_string gd) kk en_bool invalid_reference p args)),
      clv_kv_list_prefix = (\<lambda>args. on_instance_looping (cluster_kv_list_prefix (gd_string gd) kl en_page en_listing invalid_reference from_entry from_page p args)),
      clv_kv_expire = (\<lambda>args. on_instance (cluster_kv_expire (gd_string gd) kx en_bool invalid_reference p args)),
      clv_kv_incr = (\<lambda>args. on_instance (cluster_kv_incr (gd_string gd) kn en_count invalid_reference p args))\<rparr>"

end
