(* ===== verification/Plugin_Sessions.thy ===== *)
theory Plugin_Sessions
  imports Entity_Tables
begin

text \<open>
  Sessions of a host with the instances of an entity, through the table that \<^verbatim>\<open>make_vtable\<close> builds. For a
  tool gate, a policy engine and a store the requests of the host are a datatype, with the text that the
  host writes for each and what it reads in the answer; the host's conversions are parameters. Each kind is
  an interpretation of \<open>entity_session\<close>: a host that talks to instances over the table sees, instance by
  instance, what it sees of the object that \<^verbatim>\<open>build_static\<close> makes.
\<close>

section \<open>Steps of the host\<close>

lemma reached_make:
  "reach new_session (session_step ts table factory writable ask) w \<Longrightarrow> iw_readers (px_world (se_process w)) = [] \<Longrightarrow>
     host \<notin> set (iw_bridges (px_world (se_process w))) \<Longrightarrow> p \<notin> set (iw_boxes (px_world (se_process w))) \<Longrightarrow>
     reach new_session (session_step ts table factory writable ask) (host_make table factory p config host w)"
  by (rule reach_step) (auto intro: s_make)

lemma reached_call:
  "reach new_session (session_step ts table factory writable ask) w \<Longrightarrow> writable q \<Longrightarrow> h \<in> fst ` set (iw_made (px_world (se_process w))) \<Longrightarrow>
     reach new_session (session_step ts table factory writable ask) (host_call ask q h w)"
  by (rule reach_step) (auto intro: s_call)

lemma reached_drop:
  "reach new_session (session_step ts table factory writable ask) w \<Longrightarrow> i \<in> set (iw_made (px_world (se_process w))) \<Longrightarrow>
     reach new_session (session_step ts table factory writable ask) (host_drop i w)"
  by (rule reach_step) (auto intro: s_drop)

lemma guards_null: "guards_law gd \<Longrightarrow> guard_law (gd_null gd)"
  by (simp add: guards_law_def)

lemma answer_answer: "answer f (answer g b) = answer (\<lambda>x. f (g x)) b"
  by (auto simp: answer_def fun_eq_iff option.map_comp comp_def split: prod.splits)

lemma envelope_read:
  "legible (match_reply en) r \<Longrightarrow> read_envelope en (respond_match en r) = Inr r"
  "legible (envelope_reply en) r \<Longrightarrow> read_envelope en (respond_result en r) = Inr r"
  by (simp_all add: legible_def match_reply_def envelope_reply_def)

section \<open>Tool gates\<close>

datatype 'ctx gate_request =
    GateManifest
  | PreDispatch 'ctx json "json option" json
  | PostDispatch 'ctx json json "64 word" json
  | GateShutdown

datatype ('m, 'd) gate_answer = GateManifestRead "(string, 'm) result" | Decided 'd | GateDone

fun gate_call :: "('s, 'rc, 'rd) tool_gate_vtable \<Rightarrow> 'm serde \<Rightarrow> json serde \<Rightarrow> ('ctx \<Rightarrow> 'rc) \<Rightarrow> ('rd \<Rightarrow> 'd) \<Rightarrow>
    'ctx gate_request \<Rightarrow> ('s, ('m, 'd) gate_answer) slot" where
  "gate_call table mf v ctx_out dec_in GateManifest = reading (\<lambda>t. GateManifestRead (sd_from mf t)) (lv_manifest_json table)"
| "gate_call table mf v ctx_out dec_in (PreDispatch ctx args meta cfg) = reading (\<lambda>d. Decided (dec_in d))
     (gv_evaluate_pre_dispatch table (ctx_out ctx) (text_or [] v args) (map_option (text_or [] v) meta) (text_or [] v cfg))"
| "gate_call table mf v ctx_out dec_in (PostDispatch ctx args res ms cfg) = reading (\<lambda>d. Decided (dec_in d))
     (gv_evaluate_post_dispatch table (ctx_out ctx) (text_or [] v args) (text_or [] v res) ms (text_or [] v cfg))"
| "gate_call table mf v ctx_out dec_in GateShutdown = reading (\<lambda>_. GateDone) (lv_shutdown table)"

text \<open>The same request to the object of the static build.\<close>

fun gate_method :: "('s, 'm, 'ctx, 'd) tool_gate_plugin \<Rightarrow> 'ctx gate_request \<Rightarrow> ('s, ('m, 'd) gate_answer) body" where
  "gate_method tp GateManifest = answer (\<lambda>x. GateManifestRead (Inr x)) (tp_manifest tp)"
| "gate_method tp (PreDispatch ctx args meta cfg) = answer Decided (tp_pre_dispatch tp ctx args meta cfg)"
| "gate_method tp (PostDispatch ctx args res ms cfg) = answer Decided (tp_post_dispatch tp ctx args res ms cfg)"
| "gate_method tp GateShutdown = answer (\<lambda>_. GateDone) (tp_shutdown tp)"

fun gate_writable :: "json serde \<Rightarrow> ('rc \<Rightarrow> 'ctx) \<Rightarrow> ('ctx \<Rightarrow> 'rc) \<Rightarrow> 'ctx gate_request \<Rightarrow> bool" where
  "gate_writable v ctx_in ctx_out (PreDispatch ctx args meta cfg) \<longleftrightarrow> ctx_in (ctx_out ctx) = ctx \<and> exact v args \<and>
     (case meta of Some x \<Rightarrow> exact v x | None \<Rightarrow> True) \<and> exact v cfg"
| "gate_writable v ctx_in ctx_out (PostDispatch ctx args res ms cfg) \<longleftrightarrow> ctx_in (ctx_out ctx) = ctx \<and> exact v args \<and> exact v res \<and> exact v cfg"
| "gate_writable v ctx_in ctx_out _ \<longleftrightarrow> True"

fun gate_readable :: "'m serde \<Rightarrow> ('d \<Rightarrow> 'rd) \<Rightarrow> ('rd \<Rightarrow> 'd) \<Rightarrow> ('m, 'd) gate_answer \<Rightarrow> bool" where
  "gate_readable mf dec_out dec_in (GateManifestRead (Inr x)) \<longleftrightarrow> exact mf x"
| "gate_readable mf dec_out dec_in (Decided d) \<longleftrightarrow> dec_in (dec_out d) = d"
| "gate_readable mf dec_out dec_in _ \<longleftrightarrow> True"

lemma gate_meta: "(case meta of Some x \<Rightarrow> exact v x | None \<Rightarrow> True) \<Longrightarrow> Option.bind (map_option (text_or [] v) meta) (parse_opt v) = meta"
  by (cases meta) simp_all

lemma gate_answers:
  assumes "guards_law gd" "guard_law deny" "gate_writable v ctx_in ctx_out q"
  shows "answers_as (gate_readable mf dec_out dec_in) (\<lambda>b. b)
    (gate_call (tool_gate_make_vtable gd mf factory p deny v ctx_in dec_out) mf v ctx_out dec_in q) (gate_method (SyncToolGateAdapter p) q)"
  using assms
  by (cases q) (auto simp: tool_gate_make_vtable_def tool_gate_manifest_json_def tool_gate_shutdown_def SyncToolGateAdapter_def slot_manifest_json_def slot_shutdown_def tool_gate_evaluate_pre_def
    tool_gate_evaluate_post_def guards_law_def gate_meta serde_text intro!: answers_guarded answers_plain)

lemma gate_makes: "lv_make (tool_gate_make_vtable gd mf factory p deny v ctx_in dec_out) = entity_make (gd_null gd) factory"
  by (simp add: tool_gate_make_vtable_def tool_gate_make_def)

interpretation gate_session: entity_session "tool_gate_make_vtable gd mf factory p deny v ctx_in dec_out" "guards_law gd \<and> guard_law deny"
  "gd_null gd" factory "gate_writable v ctx_in ctx_out" "gate_readable mf dec_out dec_in" "\<lambda>b. b"
  "gate_call (tool_gate_make_vtable gd mf factory p deny v ctx_in dec_out) mf v ctx_out dec_in" "gate_method (SyncToolGateAdapter p)"
  by unfold_locales (simp_all add: gate_answers guards_null gate_makes)


definition demo_gate_factory :: "nat factory" where
  "demo_gate_factory config host = (if config = ''bad'' then None else Some (length config))"

definition demo_gate_table :: "(nat, string, bool) tool_gate_vtable" where
  "demo_gate_table = tool_gate_make_vtable catching (table_serde [(''m'', ())]) demo_gate_factory demo_gate (catch_unwind False) demo_values (\<lambda>c. c) (\<lambda>d. d)"

definition demo_ask :: "string gate_request \<Rightarrow> (nat, (unit, bool) gate_answer) slot" where
  "demo_ask = gate_call demo_gate_table (table_serde [(''m'', ())]) demo_values (\<lambda>c. c) (\<lambda>d. d)"

definition demo_pre :: "string gate_request" where
  "demo_pre = PreDispatch [] JNull (Some JNull) (JObj [])"

definition demo_post :: "string gate_request" where
  "demo_post = PostDispatch [] JNull JNull 7 (JObj [])"

text \<open>Two instances; the requests to them alternate and the first is dropped.\<close>

definition demo_empty :: "('s, 'q, 'r) session" where
  "demo_empty = \<lparr>se_process = \<lparr>px_world = demo_instances False, px_heap = Map.empty\<rparr>, se_hist = Map.empty\<rparr>"

definition demo_gate_session :: "(nat, string gate_request, (unit, bool) gate_answer) session" where
  "demo_gate_session = host_drop (16, 1) (host_call demo_ask demo_post 32 (host_call demo_ask demo_pre 16 (host_call demo_ask demo_pre 32
     (host_make demo_gate_table demo_gate_factory 32 ''{}'' 2 (host_make demo_gate_table demo_gate_factory 16 ''bad!'' 1 demo_empty)))))"

lemmas demo_session_evals = demo_evals demo_empty_def demo_gate_table_def tool_gate_make_vtable_def tool_gate_make_def entity_make_def
  catching_def catch_unwind_def demo_gate_factory_def host_make_def host_call_def host_drop_def free_box_def demo_ask_def demo_pre_def demo_post_def
  reading_def on_instance_def tool_gate_evaluate_pre_def tool_gate_evaluate_post_def demo_gate_def answer_def

lemma demo_writable: "gate_writable demo_values (\<lambda>c. c) (\<lambda>c. c) demo_pre" "gate_writable demo_values (\<lambda>c. c) (\<lambda>c. c) demo_post"
  by (simp_all add: demo_pre_def demo_post_def exact_def demo_values_def table_serde_def)

lemma demo_gate_reached:
  "reach new_session (session_step (\<lambda>_. None) demo_gate_table demo_gate_factory (gate_writable demo_values (\<lambda>c. c) (\<lambda>c. c)) demo_ask) demo_gate_session"
  unfolding demo_gate_session_def
proof (intro reached_drop reached_call reached_make demo_writable reach_init)
  show "new_session demo_empty" by (simp add: demo_session_evals new_session_def no_instances_def)
qed (simp_all add: demo_session_evals)

lemma demo_gate_history:
  "se_hist demo_gate_session 32 = Some ((''{}'', 2), [(demo_pre, Decided True), (demo_post, Decided True)])"
  "(32, 2) \<in> set (iw_made (px_world (se_process demo_gate_session)))"
  by (simp_all add: demo_gate_session_def demo_session_evals demo_values_def table_serde_def text_or_def parse_or_def parse_opt_def)



section \<open>Stores\<close>

text \<open>
  The host's values are of type \<open>'v\<close>; it converts them to what the wire carries, as the adapter does. A
  watch is not among the requests: the adapter refuses it.
\<close>

datatype ('role, 'v) store_request =
    StoreGet 'role string
  | StorePut 'role string 'v
  | StoreDelete 'role string
  | StoreList 'role string "string option"
  | StoreSwap 'role string "'v option" 'v
  | StoreAppend 'role string 'v
  | StoreShutdown

datatype ('e, 'v, 'pg) store_answer =
    ValueRead "(string, ('e, 'v option) result) result"
  | UnitRead "(string, ('e, unit) result) result"
  | PageRead "(string, ('e, 'pg) result) result"
  | SwapRead "(string, ('e, bool) result) result"
  | AppendRead "(string, ('e, append_result) result) result"
  | StoreDone

text \<open>The codecs of a store's arguments and answers.\<close>

record ('role, 'w, 'pw, 'e) store_wire =
  wr_key :: "'role store_key serde"
  wr_entry :: "('role, 'w) store_entry serde"
  wr_range :: "'role store_range serde"
  wr_swap :: "('role, 'w) store_swap serde"
  wr_value :: "('e, 'w option) responder"
  wr_unit :: "('e, unit) responder"
  wr_page :: "('e, 'pw) responder"
  wr_bool :: "('e, bool) responder"
  wr_append :: "('e, append_result) responder"

definition store_table where
  "store_table gd mf factory p rs es backend wr =
     store_make_vtable gd mf factory p rs (wr_key wr) (wr_entry wr) (wr_range wr) (wr_swap wr) es (wr_value wr) (wr_unit wr) (wr_page wr)
       (wr_bool wr) (wr_append wr) backend"

fun store_call :: "'s store_vtable \<Rightarrow> ('role, 'w, 'pw, 'e) store_wire \<Rightarrow> ('w \<Rightarrow> 'v) \<Rightarrow> ('v \<Rightarrow> 'w) \<Rightarrow> ('pw \<Rightarrow> 'pg) \<Rightarrow>
    ('role, 'v) store_request \<Rightarrow> ('s, ('e, 'v, 'pg) store_answer) slot" where
  "store_call table wr val_from val_into page_from (StoreGet role key) =
     reading (\<lambda>t. ValueRead (map_sum id (map_sum id (map_option val_from)) (read_envelope (wr_value wr) t)))
       (sv_get table (text_or [] (wr_key wr) \<lparr>sk_role = role, sk_key = key\<rparr>))"
| "store_call table wr val_from val_into page_from (StorePut role key x) =
     reading (\<lambda>t. UnitRead (read_envelope (wr_unit wr) t))
       (sv_put table (text_or [] (wr_entry wr) \<lparr>sn_role = role, sn_key = key, sn_value = val_into x\<rparr>))"
| "store_call table wr val_from val_into page_from (StoreDelete role key) =
     reading (\<lambda>t. UnitRead (read_envelope (wr_unit wr) t))
       (sv_delete table (text_or [] (wr_key wr) \<lparr>sk_role = role, sk_key = key\<rparr>))"
| "store_call table wr val_from val_into page_from (StoreList role prefix cursor) =
     reading (\<lambda>t. PageRead (map_sum id (map_sum id page_from) (read_envelope (wr_page wr) t)))
       (sv_list table (text_or [] (wr_range wr) \<lparr>sg_role = role, sg_prefix = prefix, sg_cursor = cursor\<rparr>))"
| "store_call table wr val_from val_into page_from (StoreSwap role key expected new) =
     reading (\<lambda>t. SwapRead (read_envelope (wr_bool wr) t))
       (sv_compare_and_swap table (text_or [] (wr_swap wr)
          \<lparr>sw_role = role, sw_key = key, sw_expected = map_option val_into expected, sw_new = val_into new\<rparr>))"
| "store_call table wr val_from val_into page_from (StoreAppend role key x) =
     reading (\<lambda>t. AppendRead (read_envelope (wr_append wr) t))
       (sv_append table (text_or [] (wr_entry wr) \<lparr>sn_role = role, sn_key = key, sn_value = val_into x\<rparr>))"
| "store_call table wr val_from val_into page_from StoreShutdown = reading (\<lambda>_. StoreDone) (lv_shutdown table)"

fun store_method :: "('s, 'm, 'role, 'v, 'pg, 'e) store_trait \<Rightarrow> ('role, 'v) store_request \<Rightarrow> ('s, ('e, 'v, 'pg) store_answer) body" where
  "store_method ht (StoreGet role key) = answer (\<lambda>r. ValueRead (Inr r)) (ht_get ht role key)"
| "store_method ht (StorePut role key x) = answer (\<lambda>r. UnitRead (Inr r)) (ht_put ht role key x)"
| "store_method ht (StoreDelete role key) = answer (\<lambda>r. UnitRead (Inr r)) (ht_delete ht role key)"
| "store_method ht (StoreList role prefix cursor) = answer (\<lambda>r. PageRead (Inr r)) (ht_list ht role prefix cursor)"
| "store_method ht (StoreSwap role key expected new) = answer (\<lambda>r. SwapRead (Inr r)) (ht_compare_and_swap ht role key expected new)"
| "store_method ht (StoreAppend role key x) = answer (\<lambda>r. AppendRead (Inr r)) (ht_append ht role key x)"
| "store_method ht StoreShutdown = answer (\<lambda>_. StoreDone) (ht_shutdown ht)"

fun store_writable :: "('role, 'w, 'pw, 'e) store_wire \<Rightarrow> ('v \<Rightarrow> 'w) \<Rightarrow> ('role, 'v) store_request \<Rightarrow> bool" where
  "store_writable wr val_into (StoreGet role key) \<longleftrightarrow> exact (wr_key wr) \<lparr>sk_role = role, sk_key = key\<rparr>"
| "store_writable wr val_into (StorePut role key x) \<longleftrightarrow> exact (wr_entry wr) \<lparr>sn_role = role, sn_key = key, sn_value = val_into x\<rparr>"
| "store_writable wr val_into (StoreDelete role key) \<longleftrightarrow> exact (wr_key wr) \<lparr>sk_role = role, sk_key = key\<rparr>"
| "store_writable wr val_into (StoreList role prefix cursor) \<longleftrightarrow> exact (wr_range wr) \<lparr>sg_role = role, sg_prefix = prefix, sg_cursor = cursor\<rparr>"
| "store_writable wr val_into (StoreSwap role key expected new) \<longleftrightarrow> exact (wr_swap wr)
     \<lparr>sw_role = role, sw_key = key, sw_expected = map_option val_into expected, sw_new = val_into new\<rparr>"
| "store_writable wr val_into (StoreAppend role key x) \<longleftrightarrow> exact (wr_entry wr) \<lparr>sn_role = role, sn_key = key, sn_value = val_into x\<rparr>"
| "store_writable wr val_into StoreShutdown \<longleftrightarrow> True"

text \<open>An answer can be read when the envelope carries what the plugin wrote for it.\<close>

fun store_readable :: "('role, 'w, 'pw, 'e) store_wire \<Rightarrow> ('w \<Rightarrow> 'v) \<Rightarrow> ('pw \<Rightarrow> 'pg) \<Rightarrow> ('e, 'v, 'pg) store_answer \<Rightarrow> bool" where
  "store_readable wr val_from page_from (ValueRead (Inr r)) \<longleftrightarrow>
     (\<forall>x. map_sum id (map_option val_from) x = r \<longrightarrow> legible (match_reply (wr_value wr)) x)"
| "store_readable wr val_from page_from (UnitRead (Inr r)) \<longleftrightarrow> legible (envelope_reply (wr_unit wr)) r"
| "store_readable wr val_from page_from (PageRead (Inr r)) \<longleftrightarrow> (\<forall>x. map_sum id page_from x = r \<longrightarrow> legible (match_reply (wr_page wr)) x)"
| "store_readable wr val_from page_from (SwapRead (Inr r)) \<longleftrightarrow> legible (match_reply (wr_bool wr)) r"
| "store_readable wr val_from page_from (AppendRead (Inr r)) \<longleftrightarrow> legible (match_reply (wr_append wr)) r"
| "store_readable wr val_from page_from _ \<longleftrightarrow> True"


lemma store_answers:
  assumes "guards_law gd" "store_writable wr val_into q"
  shows "answers_as (store_readable wr val_from page_from) (\<lambda>b. b)
    (store_call (store_table gd mf factory p rs es backend wr) wr val_from val_into page_from q)
    (store_method (SyncStorePluginAdapter unsupported val_from val_into page_from p) q)"
  using assms
  by (cases q) (auto simp: store_table_def store_make_vtable_def store_shutdown_def SyncStorePluginAdapter_def slot_shutdown_def store_get_def store_put_def store_delete_def
    store_list_def store_cas_def store_append_def with_args_def guards_law_def serde_text envelope_read answer_answer id_def intro!: answers_guarded answers_plain)

lemma store_makes: "lv_make (store_table gd mf factory p rs es backend wr) = entity_make (gd_null gd) factory"
  by (simp add: store_table_def store_make_vtable_def store_make_def)

interpretation store_session: entity_session "store_table gd mf factory p rs es backend wr" "guards_law gd" "gd_null gd" factory
  "store_writable wr val_into" "store_readable wr val_from page_from" "\<lambda>b. b"
  "store_call (store_table gd mf factory p rs es backend wr) wr val_from val_into page_from"
  "store_method (SyncStorePluginAdapter unsupported val_from val_into page_from p)"
  by unfold_locales (simp_all add: store_answers guards_null store_makes)


definition plain_responder :: "('e, 'a) responder" where
  "plain_responder = \<lparr>respond_result = (\<lambda>_. []), respond_ok = (\<lambda>_. []), respond_err = (\<lambda>_. []), read_envelope = (\<lambda>_. Inl ''unexpected text'')\<rparr>"

definition demo_done :: "(string, unit) responder" where
  "demo_done = \<lparr>respond_result = (\<lambda>r. case r of Inr _ \<Rightarrow> ''O'' | Inl e \<Rightarrow> CHR ''E'' # e), respond_ok = (\<lambda>_. ''O''), respond_err = (\<lambda>e. CHR ''E'' # e),
     read_envelope = (\<lambda>t. if t = ''O'' then Inr (Inr ()) else Inr (Inl (tl t)))\<rparr>"

definition demo_wire :: "(string, string, string list, string) store_wire" where
  "demo_wire = \<lparr>wr_key = demo_key, wr_entry = table_serde [(''rkv'', \<lparr>sn_role = ''r'', sn_key = ''k'', sn_value = ''vw''\<rparr>)], wr_range = table_serde [],
     wr_swap = table_serde [], wr_value = demo_envelope, wr_unit = demo_done, wr_page = plain_responder, wr_bool = plain_responder,
     wr_append = plain_responder\<rparr>"

definition demo_store_table :: "nat store_vtable" where
  "demo_store_table = store_table catching (table_serde [(''m'', ())]) demo_gate_factory demo_store (table_serde []) demo_errors (\<lambda>e. e) demo_wire"

definition demo_store_ask :: "(string, string) store_request \<Rightarrow> (nat, (string, string, string list) store_answer) slot" where
  "demo_store_ask = store_call demo_store_table demo_wire rev rev (\<lambda>x. x)"

definition demo_put :: "(string, string) store_request" where
  "demo_put = StorePut ''r'' ''k'' ''wv''"

definition demo_got :: "(string, string) store_request" where
  "demo_got = StoreGet ''r'' ''k''"

definition demo_store_session :: "(nat, (string, string) store_request, (string, string, string list) store_answer) session" where
  "demo_store_session = host_call demo_store_ask demo_got 16 (host_call demo_store_ask demo_put 16
     (host_make demo_store_table demo_gate_factory 16 ''{}'' 1 demo_empty))"

lemmas demo_store_evals = demo_session_evals demo_store_table_def store_table_def store_make_vtable_def store_make_def demo_store_ask_def demo_put_def demo_got_def
  store_put_def store_get_def with_args_def demo_store_def demo_wire_def demo_key_def table_serde_def text_or_def respond_match_def demo_envelope_def demo_done_def

lemma demo_store_reached:
  "reach new_session (session_step (\<lambda>_. None) demo_store_table demo_gate_factory (store_writable demo_wire rev) demo_store_ask) demo_store_session"
  unfolding demo_store_session_def
proof (intro reached_call reached_make reach_init)
  show "new_session demo_empty" by (simp add: demo_session_evals new_session_def no_instances_def)
  show "store_writable demo_wire rev demo_put" "store_writable demo_wire rev demo_got"
    by (simp_all add: demo_put_def demo_got_def exact_def demo_wire_def demo_key_def table_serde_def)
qed (simp_all add: demo_store_evals)

lemma demo_store_history:
  "se_hist demo_store_session 16 = Some ((''{}'', 1), [(demo_put, UnitRead (Inr (Inr ()))), (demo_got, ValueRead (Inr (Inr (Some ''kr''))))])"
  "(16, 1) \<in> set (iw_made (px_world (se_process demo_store_session)))"
  by (simp_all add: demo_store_session_def demo_store_evals)



end
