(* ===== verification/Backend_Sessions.thy ===== *)
theory Backend_Sessions
  imports Plugin_Sessions
begin

text \<open>
  Sessions of a host with the instances of a backend, through the table of \<^verbatim>\<open>make_vtable\<close>, for the
  operations that the adapter of the static build hands on: kind, profiles, execution, schemas, resources
  and completion. Streams, transactions, audit metadata and capability expansion stay with the defaults
  of the host's trait in a static build, and are not among the requests.
\<close>

section \<open>The arguments of a completion\<close>

text \<open>The object the host writes, and that the slot reads it back.\<close>

definition completion_args :: "string \<Rightarrow> string \<Rightarrow> string \<Rightarrow> json \<Rightarrow> (string, string) btree_map \<Rightarrow> json" where
  "completion_args profile variable prefix cfg context =
     jobj [(''profile_name'', JStr profile), (''variable_name'', JStr variable), (''prefix'', JStr prefix), (''config'', cfg),
       (''context'', JObj (map (\<lambda>(k, x). (k, JStr x)) context))]"

lemma context_written: "bt_wf context \<Longrightarrow> context_of (Some (JObj (map (\<lambda>(k, x). (k, JStr x)) context))) = context"
  by (simp add: List.map_filter_def comp_def case_prod_beta bt_collect_id)

lemma completion_args_read:
  "str_field (completion_args profile variable prefix cfg context) ''profile_name'' = profile"
  "str_field (completion_args profile variable prefix cfg context) ''variable_name'' = variable"
  "str_field (completion_args profile variable prefix cfg context) ''prefix'' = prefix"
  "json_get (completion_args profile variable prefix cfg context) ''config'' = Some cfg"
  "json_get (completion_args profile variable prefix cfg context) ''context'' = Some (JObj (map (\<lambda>(k, x). (k, JStr x)) context))"
  by (simp_all add: completion_args_def json_get_jobj str_field_def)

section \<open>Requests\<close>

datatype 'req backend_request =
    BackendKind
  | RegisterProfile string json
  | Execute string 'req
  | InputSchema string
  | OutputSchema string
  | ListResources string "string option"
  | CompleteVariable string string string json "(string, string) btree_map"
  | BackendShutdown

datatype ('e, 'resp, 'pg) backend_answer =
    KindRead string
  | ProfileRead "(string, ('e, unit) result) result"
  | ResponseRead "(string, ('e, 'resp) result) result"
  | SchemaRead "(string, json) result option"
  | ResourcesRead "(string, ('e, 'pg) result) result"
  | CompletionsRead "(string, ('e, string list) result) result"
  | BackendDone

record ('req, 'resp, 'ch, 'pg, 'cap, 'e) backend_wire =
  wb_value :: "json serde"
  wb_request :: "'req serde"
  wb_error :: "'e serde"
  wb_unit :: "('e, unit) responder"
  wb_response :: "('e, 'resp) responder"
  wb_chunk :: "('e, 'ch) responder"
  wb_json :: "('e, json) responder"
  wb_names :: "('e, string list) responder"
  wb_page :: "('e, 'pg) responder"
  wb_capabilities :: "('e, 'cap) responder"

definition backend_table where
  "backend_table gd mf factory p failure transport callback wb =
     binding_make_vtable gd mf factory p failure (wb_value wb) (wb_request wb) (wb_error wb) (wb_unit wb) (wb_response wb) (wb_chunk wb)
       (wb_json wb) (wb_names wb) (wb_page wb) (wb_capabilities wb) transport callback"

fun backend_call :: "'s binding_vtable \<Rightarrow> ('req, 'resp, 'ch, 'pg, 'cap, 'e) backend_wire \<Rightarrow> 'req backend_request \<Rightarrow>
    ('s, ('e, 'resp, 'pg) backend_answer) slot" where
  "backend_call table wb BackendKind = reading KindRead (bv_kind table)"
| "backend_call table wb (RegisterProfile name spec) =
     reading (\<lambda>t. ProfileRead (read_envelope (wb_unit wb) t)) (bv_register_profile table name (text_or [] (wb_value wb) spec))"
| "backend_call table wb (Execute name request) =
     reading (\<lambda>t. ResponseRead (read_envelope (wb_response wb) t)) (bv_execute table name (text_or [] (wb_request wb) request))"
| "backend_call table wb (InputSchema name) =
     reading (\<lambda>t. SchemaRead (map_option (sd_from (wb_value wb)) t)) (bv_input_schema_json table name)"
| "backend_call table wb (OutputSchema name) =
     reading (\<lambda>t. SchemaRead (map_option (sd_from (wb_value wb)) t)) (bv_output_schema_json table name)"
| "backend_call table wb (ListResources name cursor) =
     reading (\<lambda>t. ResourcesRead (read_envelope (wb_page wb) t)) (bv_list_resources table name cursor)"
| "backend_call table wb (CompleteVariable name variable prefix cfg context) =
     reading (\<lambda>t. CompletionsRead (read_envelope (wb_names wb) t))
       (bv_complete_template_variable table (text_or [] (wb_value wb) (completion_args name variable prefix cfg context)))"
| "backend_call table wb BackendShutdown = reading (\<lambda>_. BackendDone) (lv_shutdown table)"

fun backend_method :: "('s, 'm, 'req, 'resp, 'str, 'pg, 'cap, 'e) backend_trait \<Rightarrow> 'req backend_request \<Rightarrow>
    ('s, ('e, 'resp, 'pg) backend_answer) body" where
  "backend_method hb BackendKind = answer KindRead (hb_kind hb)"
| "backend_method hb (RegisterProfile name spec) = answer (\<lambda>r. ProfileRead (Inr r)) (hb_register_profile hb name spec)"
| "backend_method hb (Execute name request) = answer (\<lambda>r. ResponseRead (Inr r)) (hb_execute hb name request)"
| "backend_method hb (InputSchema name) = answer (\<lambda>r. SchemaRead (map_option Inr r)) (hb_input_schema hb name)"
| "backend_method hb (OutputSchema name) = answer (\<lambda>r. SchemaRead (map_option Inr r)) (hb_output_schema hb name)"
| "backend_method hb (ListResources name cursor) = answer (\<lambda>r. ResourcesRead (Inr r)) (hb_list_resources hb name cursor)"
| "backend_method hb (CompleteVariable name variable prefix cfg context) =
     answer (\<lambda>r. CompletionsRead (Inr r)) (hb_complete_template_variable hb name variable prefix cfg context)"
| "backend_method hb BackendShutdown = answer (\<lambda>_. BackendDone) (hb_shutdown hb)"

fun backend_writable :: "('req, 'resp, 'ch, 'pg, 'cap, 'e) backend_wire \<Rightarrow> 'req backend_request \<Rightarrow> bool" where
  "backend_writable wb (RegisterProfile name spec) \<longleftrightarrow> exact (wb_value wb) spec"
| "backend_writable wb (Execute name request) \<longleftrightarrow> exact (wb_request wb) request"
| "backend_writable wb (CompleteVariable name variable prefix cfg context) \<longleftrightarrow>
     bt_wf context \<and> exact (wb_value wb) (completion_args name variable prefix cfg context)"
| "backend_writable wb _ \<longleftrightarrow> True"

fun backend_readable :: "('req, 'resp, 'ch, 'pg, 'cap, 'e) backend_wire \<Rightarrow> ('e, 'resp, 'pg) backend_answer \<Rightarrow> bool" where
  "backend_readable wb (ProfileRead (Inr r)) \<longleftrightarrow> legible (envelope_reply (wb_unit wb)) r"
| "backend_readable wb (ResponseRead (Inr r)) \<longleftrightarrow> legible (envelope_reply (wb_response wb)) r"
| "backend_readable wb (SchemaRead (Some (Inr j))) \<longleftrightarrow> exact (wb_value wb) j"
| "backend_readable wb (ResourcesRead (Inr r)) \<longleftrightarrow> legible (envelope_reply (wb_page wb)) r"
| "backend_readable wb (CompletionsRead (Inr r)) \<longleftrightarrow> legible (envelope_reply (wb_names wb)) r"
| "backend_readable wb _ \<longleftrightarrow> True"

lemma backend_answers:
  assumes "guards_law gd" "backend_writable wb q"
  shows "answers_as (backend_readable wb) (\<lambda>b. b) (backend_call (backend_table gd mf factory p failure transport callback wb) wb q)
    (backend_method (SyncBackendPluginAdapter defaults p) q)"
  using assms
  by (cases q) (auto simp: backend_table_def binding_make_vtable_def binding_shutdown_def SyncBackendPluginAdapter_def slot_shutdown_def binding_kind_def
    binding_register_profile_def binding_execute_def binding_input_schema_json_def binding_output_schema_json_def binding_schema_json_def
    binding_list_resources_def binding_complete_template_variable_def Let_def completion_args_read context_written
    with_args_def guards_law_def serde_text envelope_read map_option_case simp del: context_of.simps split: option.splits intro!: answers_guarded answers_plain)


lemma backend_makes: "lv_make (backend_table gd mf factory p failure transport callback wb) = entity_make (gd_null gd) factory"
  by (simp add: backend_table_def binding_make_vtable_def binding_make_def)

interpretation backend_session: entity_session "backend_table gd mf factory p failure transport callback wb" "guards_law gd" "gd_null gd" factory
  "backend_writable wb" "backend_readable wb" "\<lambda>b. b" "backend_call (backend_table gd mf factory p failure transport callback wb) wb"
  "backend_method (SyncBackendPluginAdapter defaults p)"
  by unfold_locales (simp_all add: backend_answers guards_null backend_makes)


definition demo_querier :: "((nat \<times> string) list, unit, string, string, string, unit, string, string) sync_backend" where
  "demo_querier = demo_backend\<lparr>sb_execute := (\<lambda>n r s. (Some (Inr (n @ r)), s @ [(length s, r)])), sb_input_schema := (\<lambda>n. yields (Some JNull))\<rparr>"

definition demo_querier_factory :: "(nat \<times> string) list factory" where
  "demo_querier_factory config host = Some [(host, config)]"

definition demo_backend_wire :: "(string, string, string, unit, string, string) backend_wire" where
  "demo_backend_wire = \<lparr>wb_value = table_serde [(''null'', JNull)], wb_request = table_serde [(''Q'', ''q'')], wb_error = table_serde [],
     wb_unit = plain_responder, wb_response = plain_responder\<lparr>respond_result := (\<lambda>r. case r of Inr x \<Rightarrow> x | Inl e \<Rightarrow> []), read_envelope := (\<lambda>t. Inr (Inr t))\<rparr>,
     wb_chunk = plain_responder, wb_json = plain_responder, wb_names = plain_responder, wb_page = plain_responder, wb_capabilities = plain_responder\<rparr>"

definition demo_backend_table :: "(nat \<times> string) list binding_vtable" where
  "demo_backend_table = backend_table catching (table_serde []) demo_querier_factory demo_querier (catch_unwind (stream_failed [])) (\<lambda>e. e) (\<lambda>ctx t s. s) demo_backend_wire"

definition demo_backend_session :: "((nat \<times> string) list, string backend_request, (string, string, unit) backend_answer) session" where
  "demo_backend_session = host_call (backend_call demo_backend_table demo_backend_wire) (OutputSchema ''db'') 16
     (host_call (backend_call demo_backend_table demo_backend_wire) (InputSchema ''db'') 16
     (host_call (backend_call demo_backend_table demo_backend_wire) (Execute ''db'' ''q'') 16
     (host_make demo_backend_table demo_querier_factory 16 ''{}'' 1 demo_empty)))"

lemmas demo_backend_evals = demo_session_evals demo_backend_table_def backend_table_def binding_make_vtable_def binding_make_def binding_execute_def
  binding_input_schema_json_def binding_output_schema_json_def binding_schema_json_def demo_querier_factory_def demo_querier_def demo_backend_def
  demo_backend_wire_def with_args_def table_serde_def text_or_def plain_responder_def backend_default_schema_def yields_def

lemma demo_backend_reached:
  "reach new_session (session_step (\<lambda>_. None) demo_backend_table demo_querier_factory (backend_writable demo_backend_wire)
     (backend_call demo_backend_table demo_backend_wire)) demo_backend_session"
  unfolding demo_backend_session_def
proof (intro reached_call reached_make reach_init)
  show "new_session demo_empty" by (simp add: demo_session_evals new_session_def no_instances_def)
  show "backend_writable demo_backend_wire (Execute ''db'' ''q'')" by (simp add: exact_def demo_backend_wire_def table_serde_def)
qed (simp_all add: demo_backend_evals)

lemma demo_backend_history:
  "se_hist demo_backend_session 16 = Some ((''{}'', 1), [(Execute ''db'' ''q'', ResponseRead (Inr (Inr ''dbq''))),
     (InputSchema ''db'', SchemaRead (Some (Inr JNull))), (OutputSchema ''db'', SchemaRead None)])"
  "(16, 1) \<in> set (iw_made (px_world (se_process demo_backend_session)))"
  by (simp_all add: demo_backend_session_def demo_backend_evals)

definition demo_backend_defaults :: "((nat \<times> string) list, unit, string, string, unit, unit, string, string) backend_trait" where
  "demo_backend_defaults = \<lparr>hb_manifest = yields (), hb_kind = yields [], hb_register_profile = (\<lambda>n sp. yields (Inr ())), hb_execute = (\<lambda>n r. yields (Inl [])),
     hb_execute_streaming = (\<lambda>n r. yields (Inl [])), hb_execute_transaction = (\<lambda>n g. yields (Inl [])), hb_audit_metadata = (\<lambda>n. yields []),
     hb_input_schema = (\<lambda>n. yields None), hb_output_schema = (\<lambda>n. yields None), hb_list_resources = (\<lambda>n c. yields (Inr ())),
     hb_expand_capabilities = yields (Inr []), hb_complete_template_variable = (\<lambda>n a b c d. yields (Inr [])), hb_shutdown = yields ()\<rparr>"


end
