(* ===== verification/Plugin_Registration.thy ===== *)
theory Plugin_Registration
  imports Slot_Shims
begin

text \<open>
  What \<^verbatim>\<open>declare_plugin!\<close> (\<^verbatim>\<open>src/src/declare_plugin.rs\<close>) expands to, through the three dispatch macros of
  \<^verbatim>\<open>src/src/macros.rs\<close>: the entity module of each declared entity, the registration the dynamic
  library exports and the registration of a static build. The arms of a dispatch macro are an
  association list from kind keywords, tried in order; an expansion that reaches \<^verbatim>\<open>compile_error!\<close> is
  the \<open>Inl\<close> of a sum. The host's registry, its panic guard and the protocol's constants are parameters.

  The two builds are compared (\<open>builds_agree\<close>) and the aliases of a static build are shown never to
  collide (\<open>static_registration_succeeds\<close>).
\<close>

section \<open>Kinds of entities\<close>

datatype entity_kind =
    RToolGate | RTransform | RIdentityProvider | RBackend | RWatchStrategy | RHttpRoute
  | RAuditSink | RLogSink | RMetricsSink | RTelemetrySink | RStore | RCache | RSecretProvider
  | RConfigProvider | RPolicyEngine | RApprovalNotifier | RCredentialIssuer | RCatalogProvider
  | RContentStore | RCluster | RTransport

datatype compile_error = UnknownKind string | NoStaticSlot string

text \<open>One entity of the list: the factory gets the configuration and the host, and may panic.\<close>

record 'p entity_decl =
  ed_kind :: string
  ed_mod :: string
  ed_inner :: string
  ed_factory :: "string \<Rightarrow> nat \<Rightarrow> 'p option"

definition dispatch :: "(string \<times> 'a) list \<Rightarrow> string \<Rightarrow> (compile_error, 'a) result" where
  "dispatch arms kw = (case map_of arms kw of Some a \<Rightarrow> Inr a | None \<Rightarrow> Inl (UnknownKind kw))"

fun expand_all :: "('a \<Rightarrow> ('e, 'b) result) \<Rightarrow> 'a list \<Rightarrow> ('e, 'b list) result" where
  "expand_all f [] = Inr []"
| "expand_all f (x # xs) =
     (case f x of Inl e \<Rightarrow> Inl e
      | Inr y \<Rightarrow> (case expand_all f xs of Inl e \<Rightarrow> Inl e | Inr ys \<Rightarrow> Inr (y # ys)))"

text \<open>The entity macro that a kind keyword selects, by the kind whose wrappers it emits.\<close>

definition module_arms :: "(string \<times> entity_kind) list" where
  "module_arms =
     [(''tool_gate'', RToolGate), (''transform'', RTransform), (''identity'', RIdentityProvider),
      (''backend'', RBackend), (''watch_strategy'', RWatchStrategy), (''http_route'', RHttpRoute),
      (''audit_sink'', RAuditSink), (''log_sink'', RLogSink), (''metrics_sink'', RMetricsSink),
      (''telemetry_sink'', RTelemetrySink), (''store'', RStore), (''cache'', RCache),
      (''secret_provider'', RSecretProvider), (''config_provider'', RConfigProvider),
      (''policy_engine'', RPolicyEngine), (''approval_notifier'', RApprovalNotifier),
      (''credential_issuer'', RCredentialIssuer), (''catalog_provider'', RCatalogProvider),
      (''content_store'', RContentStore), (''cluster_backend'', RCluster), (''transport'', RTransport)]"

definition dispatch_entity_module :: "'p entity_decl \<Rightarrow> (compile_error, entity_kind) result" where
  "dispatch_entity_module d = dispatch module_arms (ed_kind d)"

section \<open>The dynamic library\<close>

text \<open>An \<^verbatim>\<open>EntityRegistration\<close>: its variant, its inner name and the module whose table it carries.\<close>

record entity_registration =
  er_kind :: entity_kind
  er_inner :: string
  er_vtable :: string

definition registers :: "entity_kind \<Rightarrow> string \<Rightarrow> string \<Rightarrow> entity_registration" where
  "registers k m inner = \<lparr>er_kind = k, er_inner = inner, er_vtable = m\<rparr>"

definition registration_arms :: "(string \<times> (string \<Rightarrow> string \<Rightarrow> entity_registration)) list" where
  "registration_arms =
     [(''tool_gate'', registers RToolGate), (''transform'', registers RTransform),
      (''identity'', registers RIdentityProvider), (''backend'', registers RBackend),
      (''watch_strategy'', registers RWatchStrategy), (''http_route'', registers RHttpRoute),
      (''audit_sink'', registers RAuditSink), (''log_sink'', registers RLogSink),
      (''metrics_sink'', registers RMetricsSink), (''telemetry_sink'', registers RTelemetrySink),
      (''store'', registers RStore), (''cache'', registers RCache),
      (''secret_provider'', registers RSecretProvider), (''config_provider'', registers RConfigProvider),
      (''policy_engine'', registers RPolicyEngine), (''approval_notifier'', registers RApprovalNotifier),
      (''credential_issuer'', registers RCredentialIssuer), (''catalog_provider'', registers RCatalogProvider),
      (''content_store'', registers RContentStore), (''cluster_backend'', registers RCluster),
      (''transport'', registers RTransport)]"

definition dispatch_entity_registration :: "'p entity_decl \<Rightarrow> (compile_error, entity_registration) result" where
  "dispatch_entity_registration d =
     (case dispatch registration_arms (ed_kind d) of Inl e \<Rightarrow> Inl e | Inr a \<Rightarrow> Inr (a (ed_mod d) (ed_inner d)))"

text \<open>The library compiles when the module of every entity does and every registration does.\<close>

definition expand_cdylib :: "'p entity_decl list \<Rightarrow> (compile_error, entity_registration list) result" where
  "expand_cdylib ds =
     (case expand_all dispatch_entity_module ds of Inl e \<Rightarrow> Inl e
      | Inr _ \<Rightarrow> expand_all dispatch_entity_registration ds)"

text \<open>\<^verbatim>\<open>install\<close>: the library's tracing state is whether it ran and the default subscriber, if any.\<close>

record tracing_state =
  ts_installed :: bool
  ts_default :: "string option"

definition install :: "tracing_state \<Rightarrow> tracing_state" where
  "install w =
     (if ts_installed w then w
      else w\<lparr>ts_installed := True,
             ts_default := (case ts_default w of None \<Rightarrow> Some ''Forwarder'' | Some sub \<Rightarrow> Some sub)\<rparr>)"

record ('c, 'b) plugin_decl =
  pd_id :: string
  pd_version :: string
  pd_descriptor :: string
  pd_capabilities :: "'c list option"
  pd_backend_profile :: "'b option"

record 't plugin_registration =
  pr_abi_version :: nat
  pr_id :: string
  pr_version :: string
  pr_module_path :: string
  pr_entities :: "entity_registration list"
  pr_capabilities :: "'t list"
  pr_backend_profile :: "string option"
  pr_descriptor :: string

definition registration_of :: "nat \<Rightarrow> string \<Rightarrow> ('c \<Rightarrow> 't) \<Rightarrow> 'b serde \<Rightarrow> ('c, 'b) plugin_decl \<Rightarrow> entity_registration list \<Rightarrow> 't plugin_registration" where
  "registration_of abi_version module_path from_capability profile d es =
     \<lparr>pr_abi_version = abi_version, pr_id = pd_id d, pr_version = pd_version d,
      pr_module_path = module_path, pr_entities = es,
      pr_capabilities = (case pd_capabilities d of None \<Rightarrow> [] | Some cs \<Rightarrow> map from_capability cs),
      pr_backend_profile = map_option (text_or [] profile) (pd_backend_profile d),
      pr_descriptor = pd_descriptor d\<rparr>"

definition mcpg_plugin_register :: "(tracing_state, 't plugin_registration) guard \<Rightarrow> 't plugin_registration \<Rightarrow> tracing_state \<Rightarrow> 't plugin_registration \<times> tracing_state" where
  "mcpg_plugin_register g r = g (\<lambda>w. (Some r, install w))"

section \<open>The static build\<close>

text \<open>What a \<^verbatim>\<open>register_<kind>_with_alias\<close> gets beside the alias, the plugin and the native tier.\<close>

datatype static_args = Plain | WithConfig json | WithConfigEnabled json bool | Mounted string

definition static_alias :: "string \<Rightarrow> string \<Rightarrow> string option" where
  "static_alias pid inner = (if inner = [] then None else Some (pid @ '':'' @ inner))"

definition route_name :: "string \<Rightarrow> string \<Rightarrow> string" where
  "route_name pid inner = (if inner = [] then pid else inner)"

text \<open>An arm takes the plugin id and the inner name, and gives the registrar's slot and its arguments.\<close>

type_synonym static_arm = "string \<Rightarrow> string \<Rightarrow> (compile_error, entity_kind \<times> static_args) result"

definition slot_for :: "entity_kind \<Rightarrow> static_args \<Rightarrow> static_arm" where
  "slot_for k a pid inner = Inr (k, a)"

definition unsupported :: "string \<Rightarrow> static_arm" where
  "unsupported kw pid inner = Inl (NoStaticSlot kw)"

definition static_pipeline_arms :: "(string \<times> static_arm) list" where
  "static_pipeline_arms =
     [(''tool_gate'', slot_for RToolGate (WithConfigEnabled (jobj []) True)),
      (''transform'', slot_for RTransform (WithConfig (jobj []))),
      (''identity'', slot_for RIdentityProvider (WithConfig (jobj []))),
      (''backend'', slot_for RBackend Plain),
      (''watch_strategy'', slot_for RWatchStrategy Plain)]"

definition static_route_arms :: "(string \<times> static_arm) list" where
  "static_route_arms = [(''http_route'', (\<lambda>pid inner. Inr (RHttpRoute, Mounted (route_name pid inner))))]"

definition static_sink_arms :: "(string \<times> static_arm) list" where
  "static_sink_arms =
     [(''audit_sink'', slot_for RAuditSink Plain), (''log_sink'', slot_for RLogSink Plain),
      (''metrics_sink'', slot_for RMetricsSink Plain), (''telemetry_sink'', slot_for RTelemetrySink Plain)]"

definition static_data_arms :: "(string \<times> static_arm) list" where
  "static_data_arms =
     [(''store'', slot_for RStore Plain), (''cache'', slot_for RCache Plain),
      (''secret_provider'', slot_for RSecretProvider Plain), (''config_provider'', slot_for RConfigProvider Plain)]"

definition static_decision_arms :: "(string \<times> static_arm) list" where
  "static_decision_arms =
     [(''policy_engine'', slot_for RPolicyEngine Plain), (''approval_notifier'', slot_for RApprovalNotifier Plain),
      (''credential_issuer'', slot_for RCredentialIssuer Plain),
      (''catalog_provider'', slot_for RCatalogProvider (WithConfig (jobj []))),
      (''content_store'', slot_for RContentStore Plain)]"

definition static_unsupported_arms :: "(string \<times> static_arm) list" where
  "static_unsupported_arms =
     [(''cluster_backend'', unsupported ''cluster_backend''), (''transport'', unsupported ''transport'')]"

definition static_arms :: "(string \<times> static_arm) list" where
  "static_arms = static_pipeline_arms @ static_route_arms @ static_sink_arms @ static_data_arms @
     static_decision_arms @ static_unsupported_arms"

definition dispatch_register_static :: "string \<Rightarrow> 'p entity_decl \<Rightarrow> (compile_error, entity_kind \<times> static_args) result" where
  "dispatch_register_static pid d =
     (case dispatch static_arms (ed_kind d) of Inl e \<Rightarrow> Inl e | Inr arm \<Rightarrow> arm pid (ed_inner d))"

definition expand_static :: "string \<Rightarrow> 'p entity_decl list \<Rightarrow> (compile_error, ('p entity_decl \<times> entity_kind \<times> static_args) list) result" where
  "expand_static pid ds =
     (case expand_all dispatch_entity_module ds of Inl e \<Rightarrow> Inl e
      | Inr _ \<Rightarrow> (case expand_all (dispatch_register_static pid) ds of Inl e \<Rightarrow> Inl e
           | Inr ss \<Rightarrow> Inr (zip ds ss)))"

record 'p static_call =
  sc_kind :: entity_kind
  sc_alias :: "string option"
  sc_plugin :: 'p
  sc_args :: static_args

text \<open>
  The closure that \<^verbatim>\<open>register_static\<close> hands to the registrar: every entity is built with an empty
  configuration and registered; the first refusal is returned, and a factory that panics unwinds (\<open>None\<close>).
\<close>

fun register_static :: "('p static_call \<Rightarrow> 'r \<Rightarrow> ('e, unit) result \<times> 'r) \<Rightarrow> string \<Rightarrow> nat \<Rightarrow>
    ('p entity_decl \<times> entity_kind \<times> static_args) list \<Rightarrow> 'r \<Rightarrow> ('e, unit) result option \<times> 'r" where
  "register_static reg pid host [] r = (Some (Inr ()), r)"
| "register_static reg pid host ((d, k, a) # ss) r =
     (case ed_factory d [] host of None \<Rightarrow> (None, r)
      | Some p \<Rightarrow>
          (case reg \<lparr>sc_kind = k, sc_alias = static_alias pid (ed_inner d), sc_plugin = p, sc_args = a\<rparr> r of
             (Inl e, r') \<Rightarrow> (Some (Inl e), r')
           | (Inr _, r') \<Rightarrow> register_static reg pid host ss r'))"

section \<open>The dispatch macros agree\<close>

text \<open>Each macro selects by the kind that the module macro selects.\<close>

definition static_arm_of :: "string \<Rightarrow> entity_kind \<Rightarrow> static_arm" where
  "static_arm_of kw k =
     (if k = RCluster \<or> k = RTransport then unsupported kw
      else if k = RHttpRoute then (\<lambda>pid inner. Inr (RHttpRoute, Mounted (route_name pid inner)))
      else slot_for k
        (if k = RToolGate then WithConfigEnabled (jobj []) True
         else if k = RTransform \<or> k = RIdentityProvider \<or> k = RCatalogProvider then WithConfig (jobj []) else Plain))"

lemma registration_arms_eq: "registration_arms = map (\<lambda>(kw, k). (kw, registers k)) module_arms"
  by (simp add: registration_arms_def module_arms_def)

lemma static_arms_eq: "static_arms = map (\<lambda>(kw, k). (kw, static_arm_of kw k)) module_arms"
  unfolding static_arms_def static_pipeline_arms_def static_route_arms_def static_sink_arms_def static_data_arms_def
    static_decision_arms_def static_unsupported_arms_def module_arms_def static_arm_of_def
  by simp

lemma map_of_keyed: "map_of (map (\<lambda>(kw, k). (kw, f kw k)) arms) kw = map_option (f kw) (map_of arms kw)"
  by (induction arms) auto

lemma registration_dispatch:
  "dispatch_entity_registration d = map_sum id (\<lambda>k. registers k (ed_mod d) (ed_inner d)) (dispatch_entity_module d)"
  by (simp add: dispatch_entity_registration_def dispatch_entity_module_def dispatch_def registration_arms_eq
      map_of_keyed split: option.splits)

lemma static_dispatch:
  "dispatch_register_static pid d =
     (case dispatch_entity_module d of Inl e \<Rightarrow> Inl e | Inr k \<Rightarrow> static_arm_of (ed_kind d) k pid (ed_inner d))"
  by (simp add: dispatch_register_static_def dispatch_entity_module_def dispatch_def static_arms_eq
      map_of_keyed split: option.splits)

lemma static_arm_kind:
  "static_arm_of kw k pid inner = Inr (k', a) \<Longrightarrow> k' = k \<and> k \<noteq> RCluster \<and> k \<noteq> RTransport"
  by (auto simp: static_arm_of_def slot_for_def unsupported_def split: if_splits)

lemma static_arm_supported:
  "k \<noteq> RCluster \<Longrightarrow> k \<noteq> RTransport \<Longrightarrow> \<exists>a. static_arm_of kw k pid inner = Inr (k, a)"
  by (auto simp: static_arm_of_def slot_for_def)

lemma expand_all_Inr: "expand_all f xs = Inr ys \<longleftrightarrow> list_all2 (\<lambda>x y. f x = Inr y) xs ys"
proof (induction xs arbitrary: ys)
  case (Cons x xs)
  have "list_all2 (\<lambda>x y. f x = Inr y) xs us \<Longrightarrow> list_all2 (\<lambda>x y. f x = Inr y) xs vs \<Longrightarrow> us = vs" for us vs
    unfolding Cons.IH [symmetric] by simp
  then show ?case
    by (auto simp: list_all2_Cons1 Cons.IH split: sum.splits) (auto simp: Cons.IH [symmetric])
qed auto

lemma expand_all_Inl: "(\<forall>ys. expand_all f xs \<noteq> Inr ys) \<longleftrightarrow> (\<exists>x\<in>set xs. \<exists>e. f x = Inl e)"
  by (induction xs) (auto split: sum.splits)

lemma expand_all_map: "expand_all (\<lambda>x. map_sum id (g x) (f x)) xs = map_sum id (\<lambda>ys. map (\<lambda>(x, y). g x y) (zip xs ys)) (expand_all f xs)"
  by (induction xs) (auto split: sum.splits)

lemma expand_cdylib_eq:
  "expand_cdylib ds =
     map_sum id (\<lambda>ks. map (\<lambda>(d, k). registers k (ed_mod d) (ed_inner d)) (zip ds ks)) (expand_all dispatch_entity_module ds)"
  unfolding expand_cdylib_def
  by (simp add: registration_dispatch [abs_def] expand_all_map split: sum.splits)

lemma expand_static_Inr:
  "expand_static pid ds = Inr ss \<longleftrightarrow>
     (\<exists>ks as. expand_all dispatch_entity_module ds = Inr ks \<and> expand_all (dispatch_register_static pid) ds = Inr as \<and> ss = zip ds as)"
  unfolding expand_static_def by (auto split: sum.splits)

definition entries_of :: "'p entity_decl list \<Rightarrow> entity_kind list \<Rightarrow> entity_registration list" where
  "entries_of ds ks = map (\<lambda>(d, k). registers k (ed_mod d) (ed_inner d)) (zip ds ks)"

lemma entries_of_columns:
  "length ds = length ks \<Longrightarrow>
     map er_inner (entries_of ds ks) = map ed_inner ds \<and> map er_vtable (entries_of ds ks) = map ed_mod ds \<and>
     map er_kind (entries_of ds ks) = ks"
  by (induction ds ks rule: list_induct2) (auto simp: entries_of_def registers_def)

definition static_kind :: "entity_kind \<Rightarrow> bool" where
  "static_kind k \<longleftrightarrow> k \<noteq> RCluster \<and> k \<noteq> RTransport"

lemma static_dispatch_supported:
  "dispatch_entity_module d = Inr k \<Longrightarrow> static_kind k \<Longrightarrow> \<exists>a. dispatch_register_static pid d = Inr (k, a)"
  using static_arm_supported by (fastforce simp: static_dispatch static_kind_def)

lemma static_dispatch_unsupported:
  "dispatch_entity_module d = Inr k \<Longrightarrow> \<not> static_kind k \<Longrightarrow> \<exists>kw. dispatch_register_static pid d = Inl (NoStaticSlot kw)"
  by (auto simp: static_dispatch static_arm_of_def unsupported_def static_kind_def)

lemma expand_static_kinds:
  "list_all2 (\<lambda>d k. dispatch_entity_module d = Inr k) ds ks \<Longrightarrow>
   (if list_all static_kind ks
    then \<exists>as. expand_all (dispatch_register_static pid) ds = Inr as \<and> map fst as = ks
    else \<exists>kw. expand_all (dispatch_register_static pid) ds = Inl (NoStaticSlot kw))"
proof (induction rule: list_all2_induct)
  case (Cons d ds k ks)
  then show ?case
    using static_dispatch_supported [of d k pid] static_dispatch_unsupported [of d k pid]
    by (cases "static_kind k"; cases "list_all static_kind ks") auto
qed simp

text \<open>
  C17. The two builds of a declaration agree. When the dynamic library does not compile, neither does
  the static build, with the same error. When it does, it registers every entity in declaration
  order under its inner name with its own module's table, and the static build compiles exactly when
  no entity is a cluster backend or a transport, registering the same entities as the same kinds in
  the same order; otherwise it stops at the missing slot.
\<close>

theorem builds_agree:
  "case expand_cdylib ds of
     Inl e \<Rightarrow> expand_static pid ds = Inl e
   | Inr es \<Rightarrow> map er_inner es = map ed_inner ds \<and> map er_vtable es = map ed_mod ds \<and>
       (if list_all (\<lambda>e. static_kind (er_kind e)) es
        then \<exists>ss. expand_static pid ds = Inr ss \<and> map fst ss = ds \<and> map (\<lambda>p. fst (snd p)) ss = map er_kind es
        else \<exists>kw. expand_static pid ds = Inl (NoStaticSlot kw))"
proof (cases "expand_all dispatch_entity_module ds")
  case (Inl e)
  then show ?thesis by (simp add: expand_cdylib_eq expand_static_def)
next
  case (Inr ks)
  then have ks: "list_all2 (\<lambda>d k. dispatch_entity_module d = Inr k) ds ks"
    by (simp add: expand_all_Inr)
  have lib: "expand_cdylib ds = Inr (entries_of ds ks)"
    using Inr by (simp add: expand_cdylib_eq entries_of_def)
  note cols = entries_of_columns [OF list_all2_lengthD [OF ks]]
  have kinds: "list_all (\<lambda>e. static_kind (er_kind e)) (entries_of ds ks) = list_all static_kind ks"
    using cols by (metis (no_types, lifting) list.pred_map comp_apply list_all_cong)
  show ?thesis
  proof (cases "list_all static_kind ks")
    case True
    then obtain as where as: "expand_all (dispatch_register_static pid) ds = Inr as" "map fst as = ks"
      using expand_static_kinds [OF ks, of pid] by auto
    then have "length ds = length as"
      using list_all2_lengthD [OF ks] by (metis length_map)
    then have "map fst (zip ds as) = ds" "map (\<lambda>p. fst (snd p)) (zip ds as) = ks"
      using as(2) by (simp, metis (no_types, lifting) comp_apply map_snd_zip map_map map_cong)
    then show ?thesis using True Inr lib cols kinds as(1) by (simp add: expand_static_def)
  next
    case False
    then show ?thesis using expand_static_kinds [OF ks, of pid] Inr lib cols kinds by (auto simp: expand_static_def)
  qed
qed

lemma builds_align: "expand_static pid ds = Inr ss \<Longrightarrow> map fst ss = ds"
  using list_all2_lengthD by (fastforce simp: expand_static_Inr expand_all_Inr)

section \<open>Aliases\<close>

text \<open>The name an entity goes by in the registry: the bare plugin id stands for an absent alias.\<close>

definition alias_of :: "string \<Rightarrow> string option \<Rightarrow> string" where
  "alias_of pid al = (case al of None \<Rightarrow> pid | Some n \<Rightarrow> n)"

lemma alias_inject: "alias_of pid (static_alias pid i) = alias_of pid (static_alias pid j) \<longleftrightarrow> i = j"
  by (auto simp: alias_of_def static_alias_def)

text \<open>
  The host's registry, as the macro's documentation has it: an alias it does not hold yet is accepted
  and then held. \<open>held\<close> reads the aliases off the registry's state.
\<close>

definition registry_law :: "('p static_call \<Rightarrow> 'r \<Rightarrow> ('e, unit) result \<times> 'r) \<Rightarrow> ('r \<Rightarrow> string list) \<Rightarrow> string \<Rightarrow> bool" where
  "registry_law reg held pid \<longleftrightarrow>
     (\<forall>c r. alias_of pid (sc_alias c) \<notin> set (held r) \<longrightarrow>
        (\<exists>r'. reg c r = (Inr (), r') \<and> held r' = held r @ [alias_of pid (sc_alias c)]))"

definition entity_alias :: "string \<Rightarrow> 'p entity_decl \<Rightarrow> string" where
  "entity_alias pid d = alias_of pid (static_alias pid (ed_inner d))"

lemma register_static_accepts:
  assumes "registry_law reg held pid"
    and "list_all (\<lambda>s. ed_factory (fst s) [] host \<noteq> None) ss"
    and "distinct (map (\<lambda>s. ed_inner (fst s)) ss)"
    and "list_all (\<lambda>s. entity_alias pid (fst s) \<notin> set (held r)) ss"
  shows "\<exists>r'. register_static reg pid host ss r = (Some (Inr ()), r') \<and>
     held r' = held r @ map (\<lambda>s. entity_alias pid (fst s)) ss"
  using assms
proof (induction ss arbitrary: r)
  case Nil
  then show ?case by simp
next
  case (Cons s ss)
  obtain d k a where s: "s = (d, k, a)" by (cases s)
  obtain p where p: "ed_factory d [] host = Some p" using Cons.prems(2) s by auto
  have "entity_alias pid d \<notin> set (held r)" using Cons.prems(4) s by simp
  then obtain r' where r': "reg \<lparr>sc_kind = k, sc_alias = static_alias pid (ed_inner d), sc_plugin = p, sc_args = a\<rparr> r = (Inr (), r')"
      "held r' = held r @ [entity_alias pid d]"
    using Cons.prems(1) unfolding registry_law_def entity_alias_def
    by (metis static_call.select_convs(2))
  have "list_all (\<lambda>s. entity_alias pid (fst s) \<notin> set (held r')) ss"
    using Cons.prems(3,4) s r'(2) by (force simp: list_all_iff entity_alias_def alias_inject)
  then obtain r'' where "register_static reg pid host ss r' = (Some (Inr ()), r'')"
      "held r'' = held r' @ map (\<lambda>s. entity_alias pid (fst s)) ss"
    using Cons by auto
  then show ?case using p r' s by simp
qed

text \<open>
  Entities with different inner names never collide: when the declaration compiles for a static
  build, its factories do not panic on the empty configuration and the registry holds none of their
  names yet, \<^verbatim>\<open>register_static\<close> registers every entity and returns no error, under the bare plugin id for
  the empty inner name and under id and inner name otherwise.
\<close>

theorem static_registration_succeeds:
  assumes "expand_static pid ds = Inr ss"
    and "registry_law reg held pid"
    and "list_all (\<lambda>d. ed_factory d [] host \<noteq> None) ds"
    and "distinct (map ed_inner ds)"
    and "held r = []"
  shows "\<exists>r'. register_static reg pid host ss r = (Some (Inr ()), r') \<and>
     held r' = map (\<lambda>d. if ed_inner d = [] then pid else pid @ '':'' @ ed_inner d) ds"
proof -
  have ds: "map fst ss = ds"
    using assms(1) by (rule builds_align)
  have al: "entity_alias pid = (\<lambda>d. if ed_inner d = [] then pid else pid @ '':'' @ ed_inner d)"
    by (simp add: entity_alias_def alias_of_def static_alias_def fun_eq_iff)
  have "list_all (\<lambda>s. ed_factory (fst s) [] host \<noteq> None) ss" "distinct (map (\<lambda>s. ed_inner (fst s)) ss)"
    using assms(3,4) unfolding ds [symmetric] by (simp_all add: list.pred_map comp_def)
  moreover have "list_all (\<lambda>s. entity_alias pid (fst s) \<notin> set (held r)) ss"
    using assms(5) by (simp add: list_all_iff)
  ultimately obtain r' where "register_static reg pid host ss r = (Some (Inr ()), r')"
      "held r' = map (\<lambda>s. entity_alias pid (fst s)) ss"
    using register_static_accepts [OF assms(2)] assms(5) by (metis append_Nil)
  then show ?thesis unfolding ds [symmetric] al by (simp add: comp_def)
qed

definition demo_entity :: "string \<Rightarrow> string \<Rightarrow> string \<Rightarrow> string entity_decl" where
  "demo_entity k m i = \<lparr>ed_kind = k, ed_mod = m, ed_inner = i, ed_factory = (\<lambda>_ _. Some m)\<rparr>"

definition demo_plugin :: "string entity_decl list" where
  "demo_plugin =
     [demo_entity ''tool_gate'' ''rate_limit_entity'' ''rate-limit'',
      demo_entity ''tool_gate'' ''circuit_breaker_entity'' ''circuit-breaker'',
      demo_entity ''audit_sink'' ''my_audit_sink'' []]"

definition demo_registry :: "string static_call \<Rightarrow> string list \<Rightarrow> (string, unit) result \<times> string list" where
  "demo_registry c r =
     (if alias_of ''p'' (sc_alias c) \<in> set r then (Inl ''duplicate alias'', r)
      else (Inr (), r @ [alias_of ''p'' (sc_alias c)]))"

theorem static_registration_succeeds_witness:
  "\<exists>ss r'. expand_static ''p'' demo_plugin = Inr ss \<and>
     register_static demo_registry ''p'' 7 ss [] = (Some (Inr ()), r') \<and>
     r' = [''p:rate-limit'', ''p:circuit-breaker'', ''p'']"
proof -
  have exp: "expand_static ''p'' demo_plugin = Inr (zip demo_plugin
      [(RToolGate, WithConfigEnabled (jobj []) True), (RToolGate, WithConfigEnabled (jobj []) True), (RAuditSink, Plain)])"
    by (simp add: expand_static_def demo_plugin_def demo_entity_def static_dispatch dispatch_entity_module_def
        dispatch_def module_arms_def static_arm_of_def slot_for_def)
  have law: "registry_law demo_registry (\<lambda>r. r) ''p''"
    by (simp add: registry_law_def demo_registry_def)
  have "list_all (\<lambda>d. ed_factory d [] 7 \<noteq> None) demo_plugin" "distinct (map ed_inner demo_plugin)"
    by (simp_all add: demo_plugin_def demo_entity_def)
  from static_registration_succeeds [OF exp law this, of "[]"] exp show ?thesis
    by (simp add: demo_plugin_def demo_entity_def)
qed

section \<open>The exported entry point\<close>

lemma register_returns: "guard_law g \<Longrightarrow> mcpg_plugin_register g r w = (r, install w)"
  by (simp add: mcpg_plugin_register_def guard_law_def)

lemma install_idempotent: "install (install w) = install w"
  by (simp add: install_def)

lemma install_keeps_default: "ts_default w = Some sub \<Longrightarrow> ts_default (install w) = Some sub"
  by (simp add: install_def)

end
