(* ===== verification/Plugin_Template.thy ===== *)
theory Plugin_Template
  imports Rust_Text "HOL-Library.Sublist"
begin

text \<open>
  The scaffolding templates of \<^verbatim>\<open>src/src/template.rs\<close>: the three constructors of \<^verbatim>\<open>PluginTemplate\<close>
  with the files they generate, written out line by line, and \<^verbatim>\<open>to_pascal_case\<close>, which turns the
  crate name into the name of the generated struct. Names are strings of ASCII characters, on which
  \<^verbatim>\<open>char::to_uppercase\<close> is \<^const>\<open>upper_char\<close>. The theory characterises the names for which the
  generated struct name is a Rust identifier, and shows that every template is consistent: the
  three files, the struct it declares and implements the trait for, the plugin id and the plugin
  class of its manifest.
\<close>

section \<open>The struct name\<close>

definition is_separator :: "char \<Rightarrow> bool" where
  "is_separator c = (c = CHR ''_'' \<or> c = CHR ''-'')"

fun capitalise :: "string \<Rightarrow> string" where
  "capitalise [] = []"
| "capitalise (first # chars) = upper_char first # chars"

definition to_pascal_case :: "string \<Rightarrow> string" where
  "to_pascal_case s = concat (map capitalise (filter (\<lambda>part. part \<noteq> []) (split_on is_separator s)))"

text \<open>\<^verbatim>\<open>str::replace\<close> of one character by another.\<close>

definition replace_char :: "char \<Rightarrow> char \<Rightarrow> string \<Rightarrow> string" where
  "replace_char a b s = map (\<lambda>c. if c = a then b else c) s"

section \<open>The generated files\<close>

definition dquote :: string where
  "dquote = [CHR 0x22]"

definition unlines :: "string list \<Rightarrow> string" where
  "unlines ls = concat (map (\<lambda>l. l @ [CHR 0x0A]) ls)"

definition cargo_toml_lines :: "string \<Rightarrow> string \<Rightarrow> string list" where
  "cargo_toml_lines name kind =
     [''[package]'',
      ''name = '' @ dquote @ name @ dquote,
      ''version = '' @ dquote @ ''0.1.0'' @ dquote,
      ''edition = '' @ dquote @ ''2024'' @ dquote,
      ''description = '' @ dquote @ kind @ '' plugin for MCPG'' @ dquote,
      [],
      ''[dependencies]'',
      ''mcpg-plugin-protocol = { version = '' @ dquote @ ''0.1'' @ dquote @ '' }'',
      ''serde = { version = '' @ dquote @ ''1.0'' @ dquote @ '', features = ['' @ dquote @ ''derive'' @ dquote @ ''] }'',
      ''serde_json = '' @ dquote @ ''1.0'' @ dquote,
      [],
      ''[dev-dependencies]'',
      ''mcpg-plugin-sdk = { version = '' @ dquote @ ''0.1'' @ dquote @ '' }'']"

definition cargo_toml :: "string \<Rightarrow> string \<Rightarrow> string" where
  "cargo_toml name kind = unlines (cargo_toml_lines name kind)"

definition tool_gate_lib_lines :: "string \<Rightarrow> string \<Rightarrow> string list" where
  "tool_gate_lib_lines struct_name plugin_id =
     [''use mcpg_plugin_protocol::{'',
      ''    GateDecision, PluginClass, PluginContext, PluginManifest,'',
      ''    ToolGatePlugin, PROTOCOL_VERSION,'',
      ''};'',
      [],
      ''pub struct '' @ struct_name @ '';'',
      [],
      ''impl ToolGatePlugin for '' @ struct_name @ '' {'',
      ''    fn manifest(&self) -> &PluginManifest {'',
      ''        &PluginManifest {'',
      ''            license: None,'',
      ''            id: '' @ dquote @ plugin_id @ dquote @ ''.into(),'',
      ''            version: env!('' @ dquote @ ''CARGO_PKG_VERSION'' @ dquote @ '').into(),'',
      ''            name: '' @ dquote @ struct_name @ dquote @ ''.into(),'',
      ''            plugin_class: PluginClass::ToolGate,'',
      ''            protocol_version: PROTOCOL_VERSION.to_owned(),'',
      ''            required_capabilities: vec![],'',
      ''            tags: Vec::new(),'',
      ''                provides: Vec::new(),'',
      ''                provides_schemes: Vec::new(),'',
      ''            module_path_prefix: ::std::module_path!().split('' @ dquote @ ''::'' @ dquote @ '').next().unwrap_or('' @ dquote @ dquote @ '').to_owned(),'',
      ''        }'',
      ''    }'',
      [],
      ''    fn evaluate_pre_dispatch('',
      ''        &self,'',
      ''        ctx: &PluginContext,'',
      ''        arguments: &serde_json::Value,'',
      ''        meta: Option<&serde_json::Value>,'',
      ''        config: &serde_json::Value,'',
      ''    ) -> GateDecision {'',
      ''        // TODO: Implement your pre-dispatch logic here.'',
      ''        //'',
      ''        // Return GateDecision::allow() to let the call proceed.'',
      ''        // Return GateDecision::Deny { .. } to block it.'',
      ''        // Return GateDecision::Challenge { .. } to require additional input.'',
      ''        GateDecision::allow()'',
      ''    }'',
      ''}'',
      [],
      ''#[cfg(test)]'',
      ''mod tests {'',
      ''    use super::*;'',
      ''    use mcpg_plugin_sdk::testing::{MockGateway, ToolCallResultAssertions};'',
      [],
      ''    #[test]'',
      ''    fn allows_by_default() {'',
      ''        let gw = MockGateway::new()'',
      ''            .with_tool_gate(Box::new('' @ struct_name @ ''));'',
      ''        let result = gw.call_tool('' @ dquote @ ''any_tool'' @ dquote @ '', serde_json::json!({}));'',
      ''        result.assert_allowed();'',
      ''    }'',
      ''}'']"

definition tool_gate_lib :: "string \<Rightarrow> string \<Rightarrow> string" where
  "tool_gate_lib crate_name plugin_id = unlines (tool_gate_lib_lines (to_pascal_case crate_name) plugin_id)"

definition transform_lib_lines :: "string \<Rightarrow> string \<Rightarrow> string list" where
  "transform_lib_lines struct_name plugin_id =
     [''use mcpg_plugin_protocol::{'',
      ''    PluginClass, PluginContext, PluginManifest,'',
      ''    TransformPlugin, TransformResult,'',
      ''};'',
      [],
      ''pub struct '' @ struct_name @ '';'',
      [],
      ''impl TransformPlugin for '' @ struct_name @ '' {'',
      ''    fn manifest(&self) -> &PluginManifest {'',
      ''        &PluginManifest {'',
      ''            license: None,'',
      ''            id: '' @ dquote @ plugin_id @ dquote @ ''.into(),'',
      ''            version: env!('' @ dquote @ ''CARGO_PKG_VERSION'' @ dquote @ '').into(),'',
      ''            name: '' @ dquote @ struct_name @ dquote @ ''.into(),'',
      ''            plugin_class: PluginClass::Transform,'',
      ''            protocol_version: PROTOCOL_VERSION.to_owned(),'',
      ''            required_capabilities: vec![],'',
      ''            tags: Vec::new(),'',
      ''                provides: Vec::new(),'',
      ''                provides_schemes: Vec::new(),'',
      ''            module_path_prefix: ::std::module_path!().split('' @ dquote @ ''::'' @ dquote @ '').next().unwrap_or('' @ dquote @ dquote @ '').to_owned(),'',
      ''        }'',
      ''    }'',
      [],
      ''    fn transform_arguments('',
      ''        &self,'',
      ''        ctx: &PluginContext,'',
      ''        arguments: &serde_json::Value,'',
      ''        config: &serde_json::Value,'',
      ''    ) -> TransformResult {'',
      ''        // TODO: Implement argument transformation here.'',
      ''        TransformResult::Unchanged'',
      ''    }'',
      [],
      ''    fn transform_result('',
      ''        &self,'',
      ''        ctx: &PluginContext,'',
      ''        result: &serde_json::Value,'',
      ''        config: &serde_json::Value,'',
      ''    ) -> TransformResult {'',
      ''        // TODO: Implement result transformation here.'',
      ''        TransformResult::Unchanged'',
      ''    }'',
      ''}'',
      [],
      ''#[cfg(test)]'',
      ''mod tests {'',
      ''    use super::*;'',
      ''    use mcpg_plugin_sdk::testing::{MockGateway, ToolCallResultAssertions};'',
      [],
      ''    #[test]'',
      ''    fn passes_through_unchanged() {'',
      ''        let gw = MockGateway::new()'',
      ''            .with_transform(Box::new('' @ struct_name @ ''));'',
      ''        let result = gw.call_tool('' @ dquote @ ''any_tool'' @ dquote @ '', serde_json::json!({'' @ dquote @ ''key'' @ dquote @ '': '' @ dquote @ ''value'' @ dquote @ ''}));'',
      ''        result.assert_allowed();'',
      ''        assert_eq!(result.arguments['' @ dquote @ ''key'' @ dquote @ ''], '' @ dquote @ ''value'' @ dquote @ '');'',
      ''    }'',
      ''}'']"

definition transform_lib :: "string \<Rightarrow> string \<Rightarrow> string" where
  "transform_lib crate_name plugin_id = unlines (transform_lib_lines (to_pascal_case crate_name) plugin_id)"

definition identity_lib_lines :: "string \<Rightarrow> string \<Rightarrow> string list" where
  "identity_lib_lines struct_name plugin_id =
     [''use mcpg_plugin_protocol::{'',
      ''    IdentityProviderPlugin, IdentityResolution, PluginClass, PluginIdentity,'',
      ''    PluginManifest,'',
      ''};'',
      [],
      ''pub struct '' @ struct_name @ '';'',
      [],
      ''impl IdentityProviderPlugin for '' @ struct_name @ '' {'',
      ''    fn manifest(&self) -> &PluginManifest {'',
      ''        &PluginManifest {'',
      ''            license: None,'',
      ''            id: '' @ dquote @ plugin_id @ dquote @ ''.into(),'',
      ''            version: env!('' @ dquote @ ''CARGO_PKG_VERSION'' @ dquote @ '').into(),'',
      ''            name: '' @ dquote @ struct_name @ dquote @ ''.into(),'',
      ''            plugin_class: PluginClass::IdentityProvider,'',
      ''            protocol_version: PROTOCOL_VERSION.to_owned(),'',
      ''            required_capabilities: vec![],'',
      ''            tags: Vec::new(),'',
      ''                provides: Vec::new(),'',
      ''                provides_schemes: Vec::new(),'',
      ''            module_path_prefix: ::std::module_path!().split('' @ dquote @ ''::'' @ dquote @ '').next().unwrap_or('' @ dquote @ dquote @ '').to_owned(),'',
      ''        }'',
      ''    }'',
      [],
      ''    fn resolve_identity('',
      ''        &self,'',
      ''        headers: &[(String, String)],'',
      ''        metadata: &mcpg_plugin_protocol::types::RequestMetadata,'',
      ''        config: &serde_json::Value,'',
      ''    ) -> IdentityResolution {'',
      ''        // TODO: Extract and verify identity from headers (and'',
      ''        // optionally `metadata`, e.g. metadata.tls for native'',
      ''        // mTLS plugins). Return IdentityResolution::Resolved(..).'',
      ''        IdentityResolution::None'',
      ''    }'',
      ''}'',
      [],
      ''#[cfg(test)]'',
      ''mod tests {'',
      ''    use super::*;'',
      [],
      ''    #[test]'',
      ''    fn returns_no_token_for_empty_headers() {'',
      ''        let plugin = '' @ struct_name @ '';'',
      ''        let result = plugin.resolve_identity('',
      ''            &[],'',
      ''            &mcpg_plugin_protocol::types::RequestMetadata::default(),'',
      ''            &serde_json::json!({}),'',
      ''        );'',
      ''        assert!(matches!(result, IdentityResolution::None));'',
      ''    }'',
      ''}'']"

definition identity_lib :: "string \<Rightarrow> string \<Rightarrow> string" where
  "identity_lib crate_name plugin_id = unlines (identity_lib_lines (to_pascal_case crate_name) plugin_id)"

definition readme_lines :: "string \<Rightarrow> string \<Rightarrow> string \<Rightarrow> string \<Rightarrow> string list" where
  "readme_lines name name_dotted name_underscored kind =
     [''# '' @ name,
      [],
      ''A '' @ kind @ '' plugin for MCPG.'',
      [],
      ''## Development'',
      [],
      ''```bash'',
      ''# Run tests'',
      ''cargo test'',
      [],
      ''# Run with mock gateway harness'',
      ''cargo test -- --nocapture'',
      ''```'',
      [],
      ''## Configuration'',
      [],
      ''```yaml'',
      ''plugins:'',
      ''  - id: com.example.'' @ name_dotted,
      ''    kind: native'',
      ''    source:'',
      ''      path: /opt/mcpg/plugins/lib'' @ name_underscored @ ''.so'',
      ''    config: {}'',
      ''```'']"

definition readme :: "string \<Rightarrow> string \<Rightarrow> string" where
  "readme name kind =
     unlines (readme_lines name (replace_char CHR ''-'' CHR ''.'' name) (replace_char CHR ''-'' CHR ''_'' name) kind)"

section \<open>The templates\<close>

record plugin_template =
  tpl_name :: string
  tpl_description :: string
  tpl_class :: string
  tpl_files :: "(string \<times> string) list"

definition template_tool_gate :: "string \<Rightarrow> string \<Rightarrow> plugin_template" where
  "template_tool_gate plugin_name plugin_id =
     (let crate_name = replace_char CHR ''-'' CHR ''_'' plugin_name in
      \<lparr> tpl_name = ''tool-gate'',
        tpl_description = ''A tool-gate plugin that can allow, deny, or challenge tool calls'',
        tpl_class = ''ToolGate'',
        tpl_files = [(''Cargo.toml'', cargo_toml plugin_name ''Tool gate''),
                     (''src/lib.rs'', tool_gate_lib crate_name plugin_id),
                     (''README.md'', readme plugin_name ''tool gate'')] \<rparr>)"

definition template_transform :: "string \<Rightarrow> string \<Rightarrow> plugin_template" where
  "template_transform plugin_name plugin_id =
     (let crate_name = replace_char CHR ''-'' CHR ''_'' plugin_name in
      \<lparr> tpl_name = ''transform'',
        tpl_description = ''A transform plugin that can rewrite tool arguments and results'',
        tpl_class = ''Transform'',
        tpl_files = [(''Cargo.toml'', cargo_toml plugin_name ''Transform''),
                     (''src/lib.rs'', transform_lib crate_name plugin_id),
                     (''README.md'', readme plugin_name ''transform'')] \<rparr>)"

definition template_identity :: "string \<Rightarrow> string \<Rightarrow> plugin_template" where
  "template_identity plugin_name plugin_id =
     (let crate_name = replace_char CHR ''-'' CHR ''_'' plugin_name in
      \<lparr> tpl_name = ''identity'',
        tpl_description = ''An identity plugin that resolves caller identity from request headers'',
        tpl_class = ''IdentityProvider'',
        tpl_files = [(''Cargo.toml'', cargo_toml plugin_name ''Identity''),
                     (''src/lib.rs'', identity_lib crate_name plugin_id),
                     (''README.md'', readme plugin_name ''identity'')] \<rparr>)"

definition template_list :: "(string \<times> string) list" where
  "template_list =
     [(''tool-gate'', ''Pre/post-dispatch gating (payment, rate-limit, approval)''),
      (''transform'', ''Argument/result rewriting (PII masking, schema migration)''),
      (''identity'', ''Identity resolution from request headers (JWT, API key)'')]"

section \<open>Identifiers\<close>

definition is_ascii_alphabetic :: "char \<Rightarrow> bool" where
  "is_ascii_alphabetic c = (is_ascii_lowercase c \<or> is_ascii_uppercase c)"

text \<open>The strict and reserved keywords of the 2024 edition, which no struct can be named by.\<close>

definition rust_keywords :: "string list" where
  "rust_keywords =
     [''as'', ''break'', ''const'', ''continue'', ''crate'', ''else'', ''enum'', ''extern'', ''false'', ''fn'',
      ''for'', ''if'', ''impl'', ''in'', ''let'', ''loop'', ''match'', ''mod'', ''move'', ''mut'', ''pub'', ''ref'',
      ''return'', ''self'', ''Self'', ''static'', ''struct'', ''super'', ''trait'', ''true'', ''type'', ''unsafe'',
      ''use'', ''where'', ''while'', ''async'', ''await'', ''dyn'', ''abstract'', ''become'', ''box'', ''do'',
      ''final'', ''macro'', ''override'', ''priv'', ''typeof'', ''unsized'', ''virtual'', ''yield'', ''try'', ''gen'']"

definition rust_identifier :: "string \<Rightarrow> bool" where
  "rust_identifier s =
     (case s of [] \<Rightarrow> False
      | c # cs \<Rightarrow> (is_ascii_alphabetic c \<or> c = CHR ''_'') \<and>
          list_all (\<lambda>d. is_ascii_alphanumeric d \<or> d = CHR ''_'') cs \<and> s \<noteq> ''_'' \<and> s \<notin> set rust_keywords)"

text \<open>A plugin name as the scaffold takes it: kebab or snake case over ASCII letters and digits.\<close>

definition plugin_name_ok :: "string \<Rightarrow> bool" where
  "plugin_name_ok s = list_all (\<lambda>c. is_ascii_alphanumeric c \<or> is_separator c) s"

definition starts_with_letter :: "string \<Rightarrow> bool" where
  "starts_with_letter s = (case dropWhile is_separator s of [] \<Rightarrow> False | c # cs \<Rightarrow> is_ascii_alphabetic c)"

section \<open>Lemmas on the struct name\<close>

lemma pascal_Nil [simp]: "to_pascal_case [] = []"
  by (simp add: to_pascal_case_def)

lemma pascal_skip [simp]: "is_separator c \<Longrightarrow> to_pascal_case (c # s) = to_pascal_case s"
  by (simp add: to_pascal_case_def)

lemma pascal_word:
  "\<not> is_separator c \<Longrightarrow> \<exists>rest. to_pascal_case (c # s) = upper_char c # rest"
  by (cases "split_on is_separator s") (simp_all add: to_pascal_case_def)

lemma pascal_dropWhile: "to_pascal_case (dropWhile is_separator s) = to_pascal_case s"
  by (induction s) auto

lemma set_capitalise: "d \<in> set (capitalise w) \<Longrightarrow> \<exists>e\<in>set w. d = e \<or> d = upper_char e"
  by (cases w) auto

lemma pascal_chars:
  assumes "d \<in> set (to_pascal_case s)"
  shows "\<exists>e\<in>set s. \<not> is_separator e \<and> (d = e \<or> d = upper_char e)"
proof -
  obtain w where w: "w \<in> set (split_on is_separator s)" and "d \<in> set (capitalise w)"
    using assms unfolding to_pascal_case_def by auto
  then obtain e where e: "e \<in> set w" "d = e \<or> d = upper_char e"
    using set_capitalise by blast
  have "e \<in> set s"
    using w e(1) unfolding split_on_iff whole_word_def by auto
  then show ?thesis using split_on_tokens [OF w e(1)] e(2) by blast
qed

lemma pascal_alphanumeric: "plugin_name_ok s \<Longrightarrow> list_all is_ascii_alphanumeric (to_pascal_case s)"
  unfolding plugin_name_ok_def list_all_iff using pascal_chars [of _ s] by fastforce

lemma alphabetic_upper: "is_ascii_alphabetic (upper_char c) \<longleftrightarrow> is_ascii_alphabetic c"
  using upper_char_cases [of c] by (auto simp: is_ascii_alphabetic_def)

lemma upper_char_not_lower: "\<not> is_ascii_lowercase (upper_char c)"
  using upper_char_upper [of c] not_lower_and_upper [of "upper_char c"]
  by (cases "is_ascii_lowercase c") (auto simp: upper_char_def)

lemma Self_keyword: "''Self'' \<in> set rust_keywords"
  by code_simp

lemma keyword_initial:
  "s \<in> set rust_keywords \<Longrightarrow> \<not> is_ascii_lowercase (hd s) \<Longrightarrow> s = ''Self''"
proof -
  have "list_all (\<lambda>k. is_ascii_lowercase (hd k) \<or> k = ''Self'') rust_keywords"
    by code_simp
  then show "s \<in> set rust_keywords \<Longrightarrow> \<not> is_ascii_lowercase (hd s) \<Longrightarrow> s = ''Self''"
    unfolding list_all_iff by blast
qed

lemma pascal_cases:
  obtains (none) "dropWhile is_separator s = []" "to_pascal_case s = []"
  | (word) c cs rest where "dropWhile is_separator s = c # cs" "\<not> is_separator c"
      "to_pascal_case s = upper_char c # rest"
proof (cases "dropWhile is_separator s")
  case Nil
  moreover from this have "to_pascal_case s = []" by (metis pascal_dropWhile pascal_Nil)
  ultimately show thesis using none by blast
next
  case (Cons c cs)
  then have "\<not> is_separator c" by (metis dropWhile_eq_Cons_conv)
  then show thesis using word pascal_word [of c cs] pascal_dropWhile [of s] Cons by metis
qed

text \<open>
  C31. For a plugin name over ASCII letters, digits, hyphens and underscores, the struct name that
  \<^verbatim>\<open>to_pascal_case\<close> derives is a Rust identifier exactly when the first character that is not a
  separator is a letter and the result is not the keyword \<^verbatim>\<open>Self\<close>: a name that starts with a digit,
  one made of separators only, and the name \<^verbatim>\<open>self\<close> give a template that does not compile.
\<close>

theorem pascal_case_identifier:
  assumes "plugin_name_ok s"
  shows "rust_identifier (to_pascal_case s) \<longleftrightarrow> starts_with_letter s \<and> to_pascal_case s \<noteq> ''Self''"
proof (cases s rule: pascal_cases)
  case none
  then show ?thesis unfolding rust_identifier_def starts_with_letter_def by (simp only: list.case simp_thms)
next
  case (word c cs rest)
  have alnum: "is_ascii_alphanumeric (upper_char c)" "list_all is_ascii_alphanumeric rest"
    using pascal_alphanumeric [OF assms] word(3) by simp_all
  have "to_pascal_case s \<in> set rust_keywords \<longleftrightarrow> to_pascal_case s = ''Self''"
    using keyword_initial [of "to_pascal_case s"] upper_char_not_lower [of c] Self_keyword
    unfolding word(3) by (metis list.sel(1))
  moreover have "list_all (\<lambda>d. is_ascii_alphanumeric d \<or> d = CHR ''_'') rest"
    using alnum(2) by (auto simp: list_all_iff)
  moreover have "upper_char c \<noteq> CHR ''_''"
    using alnum(1) by (auto simp: is_ascii_alphanumeric_def is_ascii_digit_def is_ascii_lowercase_def
        is_ascii_uppercase_def less_eq_char_def)
  ultimately show ?thesis using word
    by (simp add: rust_identifier_def starts_with_letter_def alphabetic_upper)
qed

theorem pascal_case_identifier_witness:
  "rust_identifier (to_pascal_case ''my-rate_limiter'') \<and> to_pascal_case ''my-rate_limiter'' = ''MyRateLimiter'' \<and>
   \<not> rust_identifier (to_pascal_case ''2fa-gate'') \<and> \<not> rust_identifier (to_pascal_case ''self'')"
  using pascal_case_identifier [of "''my-rate_limiter''"] pascal_case_identifier [of "''2fa-gate''"]
    pascal_case_identifier [of "''self''"] by code_simp

section \<open>Consistency of the templates\<close>

lemma split_replace:
  "split_on is_separator (replace_char CHR ''-'' CHR ''_'' s) = split_on is_separator s"
proof -
  have sep: "is_separator (if c = CHR ''-'' then CHR ''_'' else c) = is_separator c" for c
    by (simp add: is_separator_def)
  have "map (map (\<lambda>c. if c = CHR ''-'' then CHR ''_'' else c)) (split_on is_separator s) = split_on is_separator s"
  proof (rule map_idI)
    fix w assume "w \<in> set (split_on is_separator s)"
    then show "map (\<lambda>c. if c = CHR ''-'' then CHR ''_'' else c) w = w"
      using split_on_tokens [of w is_separator s] by (intro map_idI) (auto simp: is_separator_def)
  qed
  then show ?thesis unfolding replace_char_def by (simp add: split_on_map sep)
qed

lemma pascal_replace [simp]: "to_pascal_case (replace_char CHR ''-'' CHR ''_'' s) = to_pascal_case s"
  by (simp add: to_pascal_case_def split_replace)

text \<open>The lines that tie the generated files to their template.\<close>

definition struct_line :: "string \<Rightarrow> string" where
  "struct_line n = ''pub struct '' @ n @ '';''"

definition id_line :: "string \<Rightarrow> string" where
  "id_line i = ''            id: '' @ dquote @ i @ dquote @ ''.into(),''"

definition name_line :: "string \<Rightarrow> string" where
  "name_line n = ''            name: '' @ dquote @ n @ dquote @ ''.into(),''"

definition class_line :: "string \<Rightarrow> string" where
  "class_line k = ''            plugin_class: PluginClass::'' @ k @ '',''"

definition package_line :: "string \<Rightarrow> string" where
  "package_line n = ''name = '' @ dquote @ n @ dquote"

lemmas line_defs = struct_line_def id_line_def name_line_def package_line_def

lemma class_lines:
  "class_line ''ToolGate'' = ''            plugin_class: PluginClass::ToolGate,''"
  "class_line ''Transform'' = ''            plugin_class: PluginClass::Transform,''"
  "class_line ''IdentityProvider'' = ''            plugin_class: PluginClass::IdentityProvider,''"
  by (simp_all add: class_line_def)

definition lib_ties :: "string \<Rightarrow> string \<Rightarrow> string \<Rightarrow> string list \<Rightarrow> bool" where
  "lib_ties n i k ls =
     (struct_line n \<in> set ls \<and> id_line i \<in> set ls \<and> name_line n \<in> set ls \<and> class_line k \<in> set ls)"

lemma tool_gate_ties: "lib_ties n i ''ToolGate'' (tool_gate_lib_lines n i)"
  unfolding lib_ties_def class_lines line_defs tool_gate_lib_lines_def
  by (simp only: list.set insert_iff simp_thms)

lemma transform_ties: "lib_ties n i ''Transform'' (transform_lib_lines n i)"
  unfolding lib_ties_def class_lines line_defs transform_lib_lines_def
  by (simp only: list.set insert_iff simp_thms)

lemma identity_ties: "lib_ties n i ''IdentityProvider'' (identity_lib_lines n i)"
  unfolding lib_ties_def class_lines line_defs identity_lib_lines_def
  by (simp only: list.set insert_iff simp_thms)

lemma cargo_names_package: "package_line n \<in> set (cargo_toml_lines n k)"
  unfolding line_defs cargo_toml_lines_def by (simp only: list.set insert_iff simp_thms)

text \<open>
  Every template is consistent with the name and the id it was asked for: it is one of the
  listed templates, its files are \<^verbatim>\<open>Cargo.toml\<close>, \<^verbatim>\<open>src/lib.rs\<close> and \<^verbatim>\<open>README.md\<close>, the package carries the
  plugin name as given, and the library declares the struct named by \<^verbatim>\<open>to_pascal_case\<close> of that name
  (the hyphens replaced first make no difference) with a manifest that has the plugin id, the struct
  name and the class of the template.
\<close>

theorem template_consistent:
  assumes "t \<in> {template_tool_gate n i, template_transform n i, template_identity n i}"
  shows "tpl_name t \<in> fst ` set template_list \<and>
    (\<exists>cargo lib doc.
       tpl_files t = [(''Cargo.toml'', unlines cargo), (''src/lib.rs'', unlines lib), (''README.md'', doc)] \<and>
       package_line n \<in> set cargo \<and> lib_ties (to_pascal_case n) i (tpl_class t) lib)"
proof -
  have listed: "tpl_name t \<in> fst ` set template_list"
    using assms unfolding template_tool_gate_def template_transform_def template_identity_def Let_def
    by (auto simp: template_list_def)
  have files: "\<exists>k lib doc. tpl_files t =
      [(''Cargo.toml'', unlines (cargo_toml_lines n k)), (''src/lib.rs'', unlines lib), (''README.md'', doc)] \<and>
      lib_ties (to_pascal_case n) i (tpl_class t) lib"
    using assms tool_gate_ties [of "to_pascal_case n" i] transform_ties [of "to_pascal_case n" i]
      identity_ties [of "to_pascal_case n" i]
    unfolding template_tool_gate_def template_transform_def template_identity_def Let_def
      cargo_toml_def tool_gate_lib_def transform_lib_def identity_lib_def pascal_replace
    by (elim insertE emptyE) (simp only: plugin_template.simps, blast)+
  show ?thesis using files listed cargo_names_package by blast
qed

theorem template_consistent_witness:
  "tpl_name (template_transform ''pii-masker'' ''com.example.pii'') \<in> fst ` set template_list \<and>
   (\<exists>cargo lib doc.
      tpl_files (template_transform ''pii-masker'' ''com.example.pii'') =
        [(''Cargo.toml'', unlines cargo), (''src/lib.rs'', unlines lib), (''README.md'', doc)] \<and>
      package_line ''pii-masker'' \<in> set cargo \<and>
      lib_ties (to_pascal_case ''pii-masker'') ''com.example.pii''
        (tpl_class (template_transform ''pii-masker'' ''com.example.pii'')) lib)"
  by (rule template_consistent) blast

end
