(* ===== verification/Queue_Broker.thy ===== *)
theory Queue_Broker
  imports Queue_Watch "HOL-Library.Sublist"
begin

text \<open>
  The queue watch together with the broker it reads. The trait \<^verbatim>\<open>QueueSource\<close> of \<^verbatim>\<open>src/src/queue.rs\<close> is the
  locale \<open>queue_source\<close>: what its \<^verbatim>\<open>receive\<close>, \<^verbatim>\<open>ack\<close> and \<^verbatim>\<open>release\<close> promise about the messages that wait and
  the messages that are gone for good. Inside it, the watch and the broker as one system never lose a
  message. The broker in memory of \<^verbatim>\<open>src/src/queue_tests.rs\<close> satisfies the promises, and the tests of
  that file are runs of the composed system.
\<close>

section \<open>The composed system\<close>

text \<open>
  A state is the watch, the broker and all the messages ever published. A receive hands the watch what
  the broker returns; the calls a step makes reach the broker in their order; somebody else publishes.
\<close>

type_synonym 'b served = "queue_watch \<times> 'b \<times> json list"

definition calls_made :: "queue_watch \<Rightarrow> queue_watch \<Rightarrow> source_call list" where
  "calls_made q q' = drop (length (q_calls q)) (q_calls q')"

definition no_receive :: "nat \<Rightarrow> delivery list \<Rightarrow> bool" where
  "no_receive n ds = False"

inductive served_step :: "(nat \<Rightarrow> 'b \<Rightarrow> delivery list \<times> 'b) \<Rightarrow> (source_call \<Rightarrow> 'b \<Rightarrow> 'b) \<Rightarrow> (json \<Rightarrow> 'b \<Rightarrow> 'b) \<Rightarrow>
    (watch_event \<Rightarrow> string option) \<Rightarrow> nat \<Rightarrow> 'b served \<Rightarrow> 'b served \<Rightarrow> bool"
  for source_receive source_call publish_to to_string limit where
  sv_receive: "q_receiver q = Receiving n \<Longrightarrow> source_receive n b = (ds, b') \<Longrightarrow>
    served_step source_receive source_call publish_to to_string limit (q, b, ms) (received (Inr ds) q, b', ms)"
| sv_watch: "queue_step no_receive to_string limit q q' \<Longrightarrow>
    served_step source_receive source_call publish_to to_string limit (q, b, ms) (q', fold source_call (calls_made q q') b, ms)"
| sv_publish: "served_step source_receive source_call publish_to to_string limit (q, b, ms) (q, publish_to m b, m # ms)"

definition served_from :: "'b \<Rightarrow> 'b served \<Rightarrow> bool" where
  "served_from b0 s = (queue_spawned (fst s) \<and> snd s = (b0, []))"

section \<open>What a step of the watch does to its records\<close>

fun released_receipts :: "source_call list \<Rightarrow> json list" where
  "released_receipts [] = []"
| "released_receipts (SourceRelease r # cs) = r # released_receipts cs"
| "released_receipts (SourceAck r # cs) = released_receipts cs"

fun acked_receipts :: "source_call list \<Rightarrow> json list" where
  "acked_receipts [] = []"
| "acked_receipts (SourceRelease r # cs) = acked_receipts cs"
| "acked_receipts (SourceAck r # cs) = r # acked_receipts cs"

lemma receipts_append [simp]:
  "released_receipts (cs @ ds) = released_receipts cs @ released_receipts ds"
  "acked_receipts (cs @ ds) = acked_receipts cs @ acked_receipts ds"
  by (induction cs rule: released_receipts.induct) auto

lemma receipts_of_calls: "mset (map receipt_of_call cs) = mset (released_receipts cs) + mset (acked_receipts cs)"
  by (induction cs rule: released_receipts.induct) auto

lemma receiver_step_appends:
  assumes "receiver_step may_return to_string limit q q'"
  shows "\<exists>cs. q_calls q' = q_calls q @ cs"
  using assms
proof cases
  case (r_insert ds now)
  then show ?thesis by (cases ds) auto
qed (auto simp: receive_top_def wait_for_room_def received_def handle_deliveries_def offer_emit_def
  split: sum.splits option.splits if_splits)

lemma settler_step_appends:
  assumes "settler_step q q'"
  shows "\<exists>cs. q_calls q' = q_calls q @ cs"
  using assms
  by cases (auto simp: settle_expired_def settle_receive_def settle_ack_def settle_stop_def split_beta
      split: list.splits settle.splits option.splits)

lemma queue_step_appends:
  assumes "queue_step may_return to_string limit q q'"
  shows "q_calls q' = q_calls q @ calls_made q q'"
proof -
  have "\<exists>cs. q_calls q' = q_calls q @ cs"
    using assms by cases (auto dest: receiver_step_appends settler_step_appends
        simp: acknowledge_queue_watch_def cancel_stop_def cancel_send_def)
  then show ?thesis by (auto simp: calls_made_def)
qed

lemma queue_step_received:
  assumes "queue_step no_receive to_string limit q q'"
  shows "q_received q' = q_received q"
  using assms
proof cases
  case by_receiver
  then show ?thesis
  proof cases
    case (r_receive n result)
    then show ?thesis by (cases result) (auto simp: received_def no_receive_def)
  next
    case (r_insert ds now)
    then show ?thesis by (cases ds) auto
  qed (auto simp: receive_top_def wait_for_room_def handle_deliveries_def offer_emit_def
    split: sum.splits option.splits if_splits)
next
  case by_settler
  then show ?thesis
    by cases (auto simp: settle_expired_def settle_receive_def settle_stop_def split_beta
        split: list.splits settle.splits)
qed (auto simp: acknowledge_queue_watch_def cancel_stop_def cancel_send_def)

lemma queue_step_mono:
  assumes "queue_step may_return to_string limit q q'" "\<And>n ds. may_return n ds \<Longrightarrow> may_return' n ds"
  shows "queue_step may_return' to_string limit q q'"
  using assms(1)
proof cases
  case by_receiver
  then have "receiver_step may_return' to_string limit q q'"
    by cases (use assms(2) in \<open>auto intro: receiver_step.intros\<close>)
  then show ?thesis by (rule queue_step.by_receiver)
qed (auto intro: queue_step.intros)

section \<open>The contract of a source\<close>

text \<open>
  \<open>waiting\<close> are the messages the source will hand out, \<open>gone\<close> those it will never hand out again. A
  receive returns no more than it is asked for and takes what it returns from what waits; an ack makes a
  message go for good; a release makes it wait again.
\<close>

locale queue_source =
  fixes source_receive :: "nat \<Rightarrow> 'b \<Rightarrow> delivery list \<times> 'b"
    and source_call :: "source_call \<Rightarrow> 'b \<Rightarrow> 'b"
    and publish_to :: "json \<Rightarrow> 'b \<Rightarrow> 'b"
    and waiting :: "'b \<Rightarrow> json multiset"
    and gone :: "'b \<Rightarrow> json multiset"
  assumes receive_law: "source_receive n b = (ds, b') \<Longrightarrow>
      length ds \<le> n \<and> waiting b = mset (map de_receipt ds) + waiting b' \<and> gone b' = gone b"
    and ack_law: "waiting (source_call (SourceAck r) b) = waiting b"
      "gone (source_call (SourceAck r) b) = add_mset r (gone b)"
    and release_law: "waiting (source_call (SourceRelease r) b) = add_mset r (waiting b)"
      "gone (source_call (SourceRelease r) b) = gone b"
    and publish_law: "waiting (publish_to r b) = add_mset r (waiting b)" "gone (publish_to r b) = gone b"
begin

lemma calls_waiting: "waiting (fold source_call cs b) = waiting b + mset (released_receipts cs)"
  by (induction cs arbitrary: b rule: released_receipts.induct) (simp_all add: ack_law release_law)

lemma calls_gone: "gone (fold source_call cs b) = gone b + mset (acked_receipts cs)"
  by (induction cs arbitrary: b rule: acked_receipts.induct) (simp_all add: ack_law release_law)

text \<open>The watch's part of a run is a run of the watch with a broker that respects the request.\<close>

lemma watch_part:
  assumes "served_step source_receive source_call publish_to to_string limit (q, b, ms) (q', b', ms')"
  shows "q' = q \<or> queue_step (at_most (\<lambda>_ _. True)) to_string limit q q'"
  using assms
proof cases
  case (sv_receive n ds)
  then show ?thesis
    using receive_law [of n b ds b'] by (auto simp: at_most_def intro!: by_receiver receiver_step.r_receive)
next
  case sv_watch
  then show ?thesis using queue_step_mono [of no_receive to_string limit q q'] by (simp add: no_receive_def)
qed simp

lemma reach_watch:
  assumes "reach (served_from b0) (served_step source_receive source_call publish_to to_string limit) s"
  shows "reach queue_spawned (queue_step (at_most (\<lambda>_ _. True)) to_string limit) (fst s)"
  using assms
proof induction
  case (reach_init s)
  then show ?case by (auto simp: served_from_def intro: reach.intros)
next
  case (reach_step s t)
  then show ?case using watch_part [of to_string limit "fst s" "fst (snd s)" "snd (snd s)" "fst t" "fst (snd t)" "snd (snd t)"]
    by (metis reach.reach_step prod.collapse)
qed

text \<open>Where the published messages went.\<close>

definition balanced :: "'b \<Rightarrow> 'b served \<Rightarrow> bool" where
  "balanced b0 s = (case s of (q, b, ms) \<Rightarrow>
     waiting b + mset (q_received q) = waiting b0 + mset ms + mset (released_receipts (q_calls q)) \<and>
     gone b = gone b0 + mset (acked_receipts (q_calls q)))"

lemma balanced_step:
  assumes "served_step source_receive source_call publish_to to_string limit s t" "balanced b0 s"
  shows "balanced b0 t"
  using assms(1)
proof cases
  case (sv_receive q n b ds b' ms)
  then show ?thesis
    using assms(2) receive_law [of n b ds b'] by (auto simp: balanced_def received_def ac_simps)
next
  case (sv_watch q q' b ms)
  note calls = queue_step_appends [OF sv_watch(3)] and same = queue_step_received [OF sv_watch(3)]
  from sv_watch show ?thesis
    using assms(2) unfolding balanced_def by (simp add: calls same calls_waiting calls_gone ac_simps)
next
  case sv_publish
  then show ?thesis using assms(2) by (auto simp: balanced_def publish_law)
qed

lemma reach_balanced:
  assumes "reach (served_from b0) (served_step source_receive source_call publish_to to_string limit) s"
  shows "balanced b0 s"
  using assms
proof induction
  case (reach_init s)
  then show ?case by (auto simp: served_from_def balanced_def queue_spawned_def dest!: spawn_queue_watch_ok(2))
qed (rule balanced_step)

text \<open>
  No message is lost between the broker and the watch; and when every event fits, none is in two places.
\<close>

lemma nothing_lost:
  assumes "reach (served_from b0) (served_step source_receive source_call publish_to to_string limit) (q, b, ms)"
  shows "waiting b0 + gone b0 + mset ms \<subseteq>#
    waiting b + mset (receipts_of (q_window q)) + mset (map de_receipt (in_hand (q_receiver q))) + gone b"
proof -
  have wf: "queue_wf q" using queue.reach_inv [OF reach_watch [OF assms]] by simp
  have bal: "waiting b + mset (q_received q) = waiting b0 + mset ms + mset (released_receipts (q_calls q))"
    "gone b = gone b0 + mset (acked_receipts (q_calls q))"
    using reach_balanced [OF assms] by (simp_all add: balanced_def)
  have "mset (q_received q) \<subseteq># mset (receipts_of (q_window q)) + mset (map de_receipt (in_hand (q_receiver q))) +
      (mset (released_receipts (q_calls q)) + mset (acked_receipts (q_calls q)))"
    using wf unfolding queue_wf_def accounted_def receipts_of_calls by simp
  then have "waiting b0 + mset ms + mset (released_receipts (q_calls q)) \<subseteq>#
      waiting b + mset (receipts_of (q_window q)) + mset (map de_receipt (in_hand (q_receiver q))) +
      mset (acked_receipts (q_calls q)) + mset (released_receipts (q_calls q))"
    unfolding bal(1) [symmetric] by (simp add: ac_simps)
  then show ?thesis unfolding bal(2) by (simp add: ac_simps)
qed

lemma nothing_twice:
  assumes "reach (served_from b0) (served_step source_receive source_call publish_to to_string limit) (q, b, ms)"
    and "all_fit to_string limit"
  shows "waiting b0 + gone b0 + mset ms =
    waiting b + mset (receipts_of (q_window q)) + mset (map de_receipt (in_hand (q_receiver q))) + gone b"
proof -
  have "mset (q_received q) = accounted q"
    using settled.reach_inv [OF reach_watch [OF assms(1)]] assms(2) by (simp add: settled_ok_def)
  then have "waiting b + (mset (receipts_of (q_window q)) + mset (map de_receipt (in_hand (q_receiver q))) +
      mset (acked_receipts (q_calls q)) + mset (released_receipts (q_calls q))) =
      waiting b0 + mset ms + mset (released_receipts (q_calls q))"
    using reach_balanced [OF assms(1)] unfolding balanced_def accounted_def receipts_of_calls by (simp add: ac_simps)
  then have "waiting b + (mset (receipts_of (q_window q)) + mset (map de_receipt (in_hand (q_receiver q))) +
      mset (acked_receipts (q_calls q))) = waiting b0 + mset ms" by (simp add: ac_simps)
  moreover have "gone b = gone b0 + mset (acked_receipts (q_calls q))"
    using reach_balanced [OF assms(1)] by (simp add: balanced_def)
  ultimately show ?thesis by (simp add: ac_simps)
qed

lemma cancelled_returns_all:
  assumes "reach (served_from b0) (served_step source_receive source_call publish_to to_string limit) (q, b, ms)"
    and "q_receiver q = ReceiverDone" "q_settler q = SettlerDone"
  shows "waiting b0 + gone b0 + mset ms \<subseteq># waiting b + gone b"
proof -
  have "cancel_wf q" using queue.reach_inv [OF reach_watch [OF assms(1)]] by (simp add: queue_wf_def)
  then have "receipts_of (q_window q) = []" using assms(3) by (simp add: cancel_wf_def receipts_of_def)
  with nothing_lost [OF assms(1)] assms(2) show ?thesis by simp
qed

end

section \<open>The broker in memory\<close>

text \<open>
  \<^verbatim>\<open>Broker\<close> and \<^verbatim>\<open>Source\<close> of \<^verbatim>\<open>src/src/queue_tests.rs\<close>: messages wait in \<open>br_ready\<close>, a released one goes to its end, and
  calls are recorded. A message is its receipt, \<^verbatim>\<open>Value::from(body)\<close>.
\<close>

record broker =
  br_ready :: "json list"
  br_acked :: "json list"
  br_released :: "json list"
  br_receives :: "nat list"

definition broker_with :: "json list \<Rightarrow> broker" where
  "broker_with messages = \<lparr>br_ready = messages, br_acked = [], br_released = [], br_receives = []\<rparr>"

definition broker_push :: "json \<Rightarrow> broker \<Rightarrow> broker" where
  "broker_push message b = b\<lparr>br_ready := br_ready b @ [message]\<rparr>"

definition message_id :: "json \<Rightarrow> string" where
  "message_id message = ''id-'' @ (case as_str message of Some body \<Rightarrow> body | None \<Rightarrow> [])"

definition broker_delivery :: "json \<Rightarrow> delivery" where
  "broker_delivery message = \<lparr>de_event = default_event\<lparr>we_event_id := Some (message_id message), we_event_type := Some ''test.message'',
     we_data := Some (jobj [(''body'', message)])\<rparr>, de_receipt = message\<rparr>"

definition broker_receive :: "nat \<Rightarrow> broker \<Rightarrow> delivery list \<times> broker" where
  "broker_receive n b = (map broker_delivery (take n (br_ready b)),
     b\<lparr>br_ready := drop n (br_ready b), br_receives := br_receives b @ [n]\<rparr>)"

fun broker_call :: "source_call \<Rightarrow> broker \<Rightarrow> broker" where
  "broker_call (SourceAck receipt) b = b\<lparr>br_acked := br_acked b @ [receipt]\<rparr>"
| "broker_call (SourceRelease receipt) b = b\<lparr>br_released := br_released b @ [receipt], br_ready := br_ready b @ [receipt]\<rparr>"

abbreviation broker_waiting :: "broker \<Rightarrow> json multiset" where
  "broker_waiting b \<equiv> mset (br_ready b)"

abbreviation broker_gone :: "broker \<Rightarrow> json multiset" where
  "broker_gone b \<equiv> mset (br_acked b)"

interpretation mem: queue_source broker_receive broker_call broker_push broker_waiting broker_gone
proof unfold_locales
  fix n b ds b'
  assume "broker_receive n b = (ds, b')"
  then have ds: "map de_receipt ds = take n (br_ready b)" "length ds \<le> n" "br_ready b' = drop n (br_ready b)" "br_acked b' = br_acked b"
    by (auto simp: broker_receive_def broker_delivery_def comp_def)
  show "length ds \<le> n \<and> mset (br_ready b) = mset (map de_receipt ds) + mset (br_ready b') \<and> mset (br_acked b') = mset (br_acked b)"
    unfolding ds by (metis append_take_drop_id ds(2) mset_append)
qed (auto simp: broker_push_def)

section \<open>Scheduled runs\<close>

text \<open>
  A schedule says who moves next: the receiving thread (with the time it reads), a failed connect or
  receive, the settling thread, the host, or a publisher. \<open>served_turn\<close> is the move, \<^verbatim>\<open>None\<close> when that party
  cannot move; every move is a step of the composed system.
\<close>

datatype actor =
    Receiver instant
  | ConnectFails
  | ReceiveFails
  | Settler instant
  | HostAcks json
  | HostCancels
  | HostJoins
  | Publisher json

definition moved :: "queue_watch option \<Rightarrow> broker served \<Rightarrow> broker served option" where
  "moved w s = (case s of (q, b, ms) \<Rightarrow> map_option (\<lambda>q'. (q', fold broker_call (calls_made q q') b, ms)) w)"

definition receiver_move :: "(watch_event \<Rightarrow> string option) \<Rightarrow> nat \<Rightarrow> instant \<Rightarrow> queue_watch \<Rightarrow> queue_watch option" where
  "receiver_move to_string limit now q =
     (case q_receiver q of
        Top \<Rightarrow> Some (receive_top (Inr ()) q)
      | Room \<Rightarrow> wait_for_room q
      | Receiving n \<Rightarrow> None
      | Got ds \<Rightarrow> Some (handle_deliveries ds q)
      | Offering ds \<Rightarrow> Some (offer_insert now ds q)
      | Offered seq d ds \<Rightarrow> Some (offer_emit to_string limit seq d ds q)
      | ReceiverDone \<Rightarrow> None)"

definition settler_move :: "instant \<Rightarrow> queue_watch \<Rightarrow> queue_watch option" where
  "settler_move now q =
     (case q_settler q of
        SettlerLoop \<Rightarrow> Some (settle_expired now q)
      | SettlerWait \<Rightarrow> Some (settle_receive q)
      | SettlerDone \<Rightarrow> None)"

fun served_turn :: "(watch_event \<Rightarrow> string option) \<Rightarrow> nat \<Rightarrow> actor \<Rightarrow> broker served \<Rightarrow> broker served option" where
  "served_turn to_string limit (Receiver now) (q, b, ms) =
     (case q_receiver q of
        Receiving n \<Rightarrow> Some (received (Inr (fst (broker_receive n b))) q, snd (broker_receive n b), ms)
      | _ \<Rightarrow> moved (receiver_move to_string limit now q) (q, b, ms))"
| "served_turn to_string limit ConnectFails (q, b, ms) =
     (if q_receiver q = Top then moved (Some (receive_top (Inl ''broker down'') q)) (q, b, ms) else None)"
| "served_turn to_string limit ReceiveFails (q, b, ms) =
     (case q_receiver q of Receiving n \<Rightarrow> moved (Some (received (Inl ''connection reset'') q)) (q, b, ms) | _ \<Rightarrow> None)"
| "served_turn to_string limit (Settler now) (q, b, ms) = moved (settler_move now q) (q, b, ms)"
| "served_turn to_string limit (HostAcks position) (q, b, ms) =
     (if q_cancel q = Running then moved (acknowledge_queue_watch position (Some q)) (q, b, ms) else None)"
| "served_turn to_string limit HostCancels (q, b, ms) =
     (if q_cancel q = Running then moved (Some (cancel_stop q)) (q, b, ms) else None)"
| "served_turn to_string limit HostJoins (q, b, ms) =
     (if q_cancel q = Stopping \<and> q_receiver q = ReceiverDone then moved (Some (cancel_send q)) (q, b, ms) else None)"
| "served_turn to_string limit (Publisher m) (q, b, ms) = Some (q, broker_push m b, m # ms)"

fun served_run :: "(watch_event \<Rightarrow> string option) \<Rightarrow> nat \<Rightarrow> actor list \<Rightarrow> broker served \<Rightarrow> broker served option" where
  "served_run to_string limit [] s = Some s"
| "served_run to_string limit (a # as) s = Option.bind (served_turn to_string limit a s) (served_run to_string limit as)"

lemma moved_step:
  assumes "moved w (q, b, ms) = Some s'" "\<And>q'. w = Some q' \<Longrightarrow> queue_step no_receive to_string limit q q'"
  shows "served_step broker_receive broker_call broker_push to_string limit (q, b, ms) s'"
  using assms by (auto simp: moved_def intro: sv_watch)

lemma receiver_move_step:
  "receiver_move to_string limit now q = Some q' \<Longrightarrow> queue_step no_receive to_string limit q q'"
  by (auto simp: receiver_move_def intro!: by_receiver intro: receiver_step.intros split: receiver.splits)

lemma settler_move_step: "settler_move now q = Some q' \<Longrightarrow> queue_step no_receive to_string limit q q'"
  by (auto simp: settler_move_def intro!: by_settler intro: settler_step.intros split: settler.splits)

lemma served_turn_step:
  assumes "served_turn to_string limit a s = Some s'"
  shows "served_step broker_receive broker_call broker_push to_string limit s s'"
proof -
  obtain q b ms where s: "s = (q, b, ms)" by (cases s)
  note watch = moved_step [where to_string = to_string and limit = limit]
  show ?thesis unfolding s
  proof (cases a)
    case (Receiver now)
    show "served_step broker_receive broker_call broker_push to_string limit (q, b, ms) s'"
    proof (cases "\<exists>n. q_receiver q = Receiving n")
      case True
      then show ?thesis using assms Receiver by (auto simp: s intro!: sv_receive)
    next
      case False
      then have "moved (receiver_move to_string limit now q) (q, b, ms) = Some s'"
        using assms Receiver by (auto simp: s split: receiver.splits)
      then show ?thesis by (rule watch) (rule receiver_move_step)
    qed
  next
    case ReceiveFails
    then obtain n where "q_receiver q = Receiving n" "moved (Some (received (Inl ''connection reset'') q)) (q, b, ms) = Some s'"
      using assms by (auto simp: s split: receiver.splits)
    then show "served_step broker_receive broker_call broker_push to_string limit (q, b, ms) s'"
      by (auto intro!: watch by_receiver receiver_step.r_receive)
  qed (use assms s in \<open>auto split: if_splits intro!: watch sv_publish intro: by_receiver r_top settler_move_step queue_step.intros\<close>)
qed

lemma served_run_reach:
  assumes "served_run to_string limit as s = Some t"
    and "reach init (served_step broker_receive broker_call broker_push to_string limit) s"
  shows "reach init (served_step broker_receive broker_call broker_push to_string limit) t"
  using assms
proof (induction as arbitrary: s)
  case (Cons a as)
  then obtain u where "served_turn to_string limit a s = Some u" "served_run to_string limit as u = Some t"
    by (auto simp: bind_eq_Some_conv)
  then show ?case using Cons.IH reach_step [OF Cons.prems(2) served_turn_step] by blast
qed simp

section \<open>The tests of the queue watch\<close>

text \<open>
  The tests of \<^verbatim>\<open>src/src/queue_tests.rs\<close> as schedules, each with the \<^verbatim>\<open>assert\<close> lines at the points they stand.
  The text of an event is its id here, so \<open>q_emitted\<close> shows which messages were emitted, and the host's
  limit on a payload is ten bytes. A wait of a test is the time the next move of a thread reads.
\<close>

definition event_text :: "watch_event \<Rightarrow> string option" where
  "event_text e = we_event_id e"

definition TEST_LIMIT :: nat where
  "TEST_LIMIT = 10"

definition queue_options_of :: "nat \<Rightarrow> duration \<Rightarrow> queue_options" where
  "queue_options_of max_in_flight ack_timeout = \<lparr>qo_source = ''test'', qo_max_in_flight = max_in_flight, qo_ack_timeout = ack_timeout,
     qo_receive_wait = millis 20\<rparr>"

definition event_source_uri :: "string \<Rightarrow> bool" where
  "event_source_uri uri = (take 13 uri = ''mcpg-event://'')"

fun checked :: "(actor list \<times> (queue_watch \<Rightarrow> broker \<Rightarrow> bool)) list \<Rightarrow> broker served \<Rightarrow> bool" where
  "checked [] s = True"
| "checked ((as, test) # ps) s =
     (case served_run event_text TEST_LIMIT as s of
        None \<Rightarrow> False
      | Some s' \<Rightarrow> test (fst s') (fst (snd s')) \<and> checked ps s')"

definition queue_test :: "string \<Rightarrow> queue_options \<Rightarrow> json list \<Rightarrow> (actor list \<times> (queue_watch \<Rightarrow> broker \<Rightarrow> bool)) list \<Rightarrow> bool" where
  "queue_test uri opts messages phases =
     (case spawn_queue_watch event_source_uri None uri opts of
        Inl _ \<Rightarrow> False
      | Inr q \<Rightarrow> checked phases (q, broker_with messages, []))"

definition delivers :: "instant \<Rightarrow> nat \<Rightarrow> actor list" where
  "delivers now n = replicate (2 * n + 5) (Receiver now)"

definition acks_seq :: "nat \<Rightarrow> actor list" where
  "acks_seq seq = [HostAcks (position_of seq), Settler 0, Settler 0]"

definition each_message_is_an_event_settled_only_when_the_host_acknowledges_it :: bool where
  "each_message_is_an_event_settled_only_when_the_host_acknowledges_it =
     queue_test ''mcpg-event://orders'' (queue_options_of 10 (secs 60)) [JStr ''a'', JStr ''b'']
       [(delivers 0 2, \<lambda>q b. q_emitted q = [''id-a'', ''id-b''] \<and> br_acked b = []),
        (acks_seq 0, \<lambda>q b. br_acked b = [JStr ''a'']),
        (acks_seq 0 @ acks_seq 1, \<lambda>q b. br_acked b = [JStr ''a'', JStr ''b'']),
        ([HostCancels, Receiver 0, HostJoins, Settler 0, Settler 0], \<lambda>q b. q_settler q = SettlerDone \<and> br_released b = [])]"

definition the_window_holds_at_most_max_in_flight_messages :: bool where
  "the_window_holds_at_most_max_in_flight_messages =
     queue_test ''mcpg-event://orders'' (queue_options_of 2 (secs 60)) [JStr ''a'', JStr ''b'', JStr ''c'']
       [(delivers 0 2 @ [Receiver 0], \<lambda>q b. q_emitted q = [''id-a'', ''id-b''] \<and> wait_for_room q = None \<and>
          list_all (\<lambda>n. n \<le> 2) (br_receives b)),
        (acks_seq 0 @ replicate 6 (Receiver 0), \<lambda>q b. q_emitted q = [''id-a'', ''id-b'', ''id-c''])]"

definition a_message_the_host_does_not_acknowledge_in_time_is_released_and_comes_back :: bool where
  "a_message_the_host_does_not_acknowledge_in_time_is_released_and_comes_back =
     queue_test ''mcpg-event://orders'' (queue_options_of 10 (millis 300)) [JStr ''a'']
       [(delivers 0 1 @ [Settler (millis 300), Settler (millis 300)] @ delivers (millis 301) 1,
           \<lambda>q b. q_emitted q = [''id-a'', ''id-a''] \<and> br_released b = [JStr ''a''] \<and> map fst (q_offered q) = [0, 1]),
        ([HostAcks (position_of 0), Settler (millis 302), Settler (millis 302)], \<lambda>q b. br_acked b = []),
        ([HostAcks (position_of 1), Settler (millis 302), Settler (millis 302)], \<lambda>q b. br_acked b = [JStr ''a''])]"

definition a_broker_that_is_down_or_drops_the_connection_is_connected_again :: bool where
  "a_broker_that_is_down_or_drops_the_connection_is_connected_again =
     queue_test ''mcpg-event://orders'' (queue_options_of 10 (secs 60)) []
       [([Publisher (JStr ''a''), ConnectFails], \<lambda>q b. \<not> q_connected q),
        ([Receiver 0, Receiver 0], \<lambda>q b. q_connected q),
        ([ReceiveFails], \<lambda>q b. \<not> q_connected q),
        (delivers 0 1, \<lambda>q b. q_connected q \<and> q_emitted q = [''id-a''])]"

definition a_resource_watch_gets_a_bare_change_and_the_messages_are_settled :: bool where
  "a_resource_watch_gets_a_bare_change_and_the_messages_are_settled =
     queue_test ''amqp://orders'' (queue_options_of 10 (secs 60)) [JStr ''a'', JStr ''b'']
       [(replicate 4 (Receiver 0), \<lambda>q b. length (br_acked b) = 2 \<and> q_emitted q \<noteq> [] \<and> list_all (\<lambda>t. t = ''{}'') (q_emitted q))]"

definition cancel_releases_what_the_host_has_not_acknowledged :: bool where
  "cancel_releases_what_the_host_has_not_acknowledged =
     queue_test ''mcpg-event://orders'' (queue_options_of 10 (secs 60)) [JStr ''a'', JStr ''b'']
       [(delivers 0 2, \<lambda>q b. q_emitted q = [''id-a'', ''id-b'']),
        (acks_seq 0, \<lambda>q b. br_acked b = [JStr ''a'']),
        ([HostCancels, Receiver 0, HostJoins, Settler 0, Settler 0], \<lambda>q b. q_settler q = SettlerDone \<and> br_released b = [JStr ''b''])]"

definition an_event_too_large_for_the_host_is_removed_rather_than_redelivered_forever :: bool where
  "an_event_too_large_for_the_host_is_removed_rather_than_redelivered_forever =
     (let big = JStr (replicate TEST_LIMIT (CHR ''x'')) in
      queue_test ''mcpg-event://orders'' (queue_options_of 10 (secs 60)) [big, JStr ''small'']
        [(delivers 0 2, \<lambda>q b. q_emitted q = [''id-small''] \<and> br_acked b = [big])])"

definition options_are_checked :: bool where
  "options_are_checked =
     ((case spawn_queue_watch event_source_uri None ''mcpg-event://orders'' (queue_options_of 0 (secs 60)) of
         Inl (InvalidSpec message) \<Rightarrow> sublist ''max_in_flight'' message
       | _ \<Rightarrow> False) \<and>
      validate_queue (queue_options_of 10 0) \<noteq> Inr () \<and>
      validate_queue ((queue_options_of 10 (secs 1))\<lparr>qo_receive_wait := secs 21\<rparr>) \<noteq> Inr ())"

lemmas queue_run_defs = queue_test_def spawn_queue_watch_def validate_queue_def queue_options_of_def event_source_uri_def
  broker_with_def delivers_def moved_def receiver_move_def settler_move_def calls_made_def receive_top_def wait_for_room_def
  room_left_def received_def broker_receive_def broker_delivery_def handle_deliveries_def insert_delivery_def offer_emit_def
  offered_text_def event_text_def TEST_LIMIT_def take_seq_def settle_expired_def expired_def late_seqs_def elapsed_def
  settle_receive_def settle_ack_def settle_stop_def drain_window_def acknowledge_queue_watch_def cancel_stop_def cancel_send_def
  acks_seq_def broker_push_def message_id_def secs_def millis_def bt_get_def bt_remove_def Let_def

lemma replicate_numeral_Cons [simp]: "replicate (numeral k) x = x # replicate (pred_numeral k) x"
  by (simp add: numeral_eq_Suc)

lemma position_seq [simp]: "Option.bind (json_get (position_of seq) ''seq'') as_u64 = Some seq"
  by (simp add: position_of_def json_get_jobj)

lemma queue_tests:
  "each_message_is_an_event_settled_only_when_the_host_acknowledges_it"
  "the_window_holds_at_most_max_in_flight_messages"
  "a_message_the_host_does_not_acknowledge_in_time_is_released_and_comes_back"
  "a_broker_that_is_down_or_drops_the_connection_is_connected_again"
  "a_resource_watch_gets_a_bare_change_and_the_messages_are_settled"
  "cancel_releases_what_the_host_has_not_acknowledged"
  "an_event_too_large_for_the_host_is_removed_rather_than_redelivered_forever"
  by (simp_all add: queue_run_defs each_message_is_an_event_settled_only_when_the_host_acknowledges_it_def
      the_window_holds_at_most_max_in_flight_messages_def
      a_message_the_host_does_not_acknowledge_in_time_is_released_and_comes_back_def
      a_broker_that_is_down_or_drops_the_connection_is_connected_again_def
      a_resource_watch_gets_a_bare_change_and_the_messages_are_settled_def
      cancel_releases_what_the_host_has_not_acknowledged_def
      an_event_too_large_for_the_host_is_removed_rather_than_redelivered_forever_def)

lemma queue_options_test: "options_are_checked"
proof -
  have "sublist ''max_in_flight'' ''test: max_in_flight must be 1 to 1000''" by code_simp
  then show ?thesis
    by (simp add: options_are_checked_def spawn_queue_watch_def validate_queue_def queue_options_of_def secs_def)
qed

section \<open>Properties\<close>

text \<open>
  C3. The queue watch and the broker together lose no message, whatever the interleaving of the two
  threads, the host, publishers and failed connects: every message published is ready at the broker, in
  the window, in the hand of the receiving thread, or acked; when every event fits the host's limit it
  is in exactly one of these places; and once a cancel has joined both threads it is acked or ready for
  another consumer.
\<close>

theorem broker_keeps_every_message:
  assumes "reach (served_from (broker_with ready)) (served_step broker_receive broker_call broker_push to_string limit) (q, b, published)"
  shows "mset ready + mset published \<subseteq># mset (br_ready b) + mset (receipts_of (q_window q)) +
      mset (map de_receipt (in_hand (q_receiver q))) + mset (br_acked b) \<and>
    (all_fit to_string limit \<longrightarrow> mset ready + mset published = mset (br_ready b) + mset (receipts_of (q_window q)) +
      mset (map de_receipt (in_hand (q_receiver q))) + mset (br_acked b)) \<and>
    (q_receiver q = ReceiverDone \<and> q_settler q = SettlerDone \<longrightarrow> mset ready + mset published \<subseteq># mset (br_ready b) + mset (br_acked b))"
  using mem.nothing_lost [OF assms] mem.nothing_twice [OF assms] mem.cancelled_returns_all [OF assms]
  by (simp add: broker_with_def)

definition demo_served :: "broker served option" where
  "demo_served = served_run event_text TEST_LIMIT
     (delivers 0 2 @ acks_seq 0 @ [HostCancels, Receiver 0, HostJoins, Settler 0, Settler 0])
     (demo_queue, broker_with [JStr ''a'', JStr ''b''], [])"

theorem broker_keeps_every_message_witness:
  "\<exists>q b. demo_served = Some (q, b, []) \<and> q_settler q = SettlerDone \<and> br_acked b = [JStr ''a''] \<and> br_ready b = [JStr ''b''] \<and>
     mset [JStr ''a'', JStr ''b''] \<subseteq># mset (br_ready b) + mset (br_acked b)"
proof -
  obtain q b where run: "demo_served = Some (q, b, [])" and ended: "q_receiver q = ReceiverDone" "q_settler q = SettlerDone"
    and kept: "br_acked b = [JStr ''a'']" "br_ready b = [JStr ''b'']"
    by (simp add: demo_served_def demo_queue_def queue_run_defs)
  have "reach (served_from (broker_with [JStr ''a'', JStr ''b'']))
      (served_step broker_receive broker_call broker_push event_text TEST_LIMIT)
      (demo_queue, broker_with [JStr ''a'', JStr ''b''], [])"
    by (rule reach_init) (simp add: served_from_def demo_queue_spawned)
  then have "reach (served_from (broker_with [JStr ''a'', JStr ''b'']))
      (served_step broker_receive broker_call broker_push event_text TEST_LIMIT) (q, b, [])"
    using run unfolding demo_served_def by (rule served_run_reach [rotated])
  from broker_keeps_every_message [OF this] ended
  have "mset [JStr ''a'', JStr ''b''] \<subseteq># mset (br_ready b) + mset (br_acked b)" by simp
  with run ended kept show ?thesis by blast
qed

end
