(* ===== verification/Conformance_Gateway.thy ===== *)
theory Conformance_Gateway
  imports Mock_Gateway
begin

text \<open>
  The unit tests of the mock gateway, \<^verbatim>\<open>mod tests\<close> of \<^verbatim>\<open>src/src/testing.rs\<close>, run on its model: each test
  plugin is a definition, each test a \<open>bool\<close> under the test's own name, with the conjuncts of its
  \<^verbatim>\<open>assert\<close> lines. A \<^verbatim>\<open>should_panic\<close> test holds when the builder chain ends in a panic whose message
  contains the expected text. Every test is proved by evaluation.

  Three functions of the protocol crate appear as parameters: \<^verbatim>\<open>GateDecision::allow\<close>, the default of
  \<^verbatim>\<open>evaluate_post_dispatch\<close> (the test gates do not override it) and \<^verbatim>\<open>HttpRouteResponse::ok_json\<close>; their
  laws are \<open>gateway_externs_ok\<close>. A struct literal of a protocol type is the JSON object of its fields, a
  variant of an enum its name.
\<close>

record gateway_externs =
  gx_to_text :: "json \<Rightarrow> string"
  gx_allow_metadata :: json
  gx_post_dispatch :: "plugin_context \<Rightarrow> json \<Rightarrow> json \<Rightarrow> nat \<Rightarrow> json \<Rightarrow> gate_decision"
  gx_ok_json :: "json \<Rightarrow> http_response"
  gx_from_slice :: "string \<Rightarrow> json option"

definition pong :: json where
  "pong = jobj [(''pong'', JBool True)]"

definition gateway_externs_ok :: "gateway_externs \<Rightarrow> bool" where
  "gateway_externs_ok x =
     ((\<forall>ctx args res ms cfg. stops (gx_post_dispatch x ctx args res ms cfg) = None) \<and>
      (\<forall>v. hp_status (gx_ok_json x v) = 200) \<and> gx_from_slice x (hp_body (gx_ok_json x pong)) = Some pong)"

section \<open>Panics\<close>

text \<open>The message of each panic, up to the debug rendering of what the plugin supports.\<close>

fun panic_text :: "mock_panic \<Rightarrow> string" where
  "panic_text (UnsupportedRole role) = ''MockGateway::with_store: plugin does not support role '' @ role"
| "panic_text (UnsupportedNamespace n) =
     ''MockGateway::with_cache: plugin does not support namespace '' @ [CHR 39] @ n @ [CHR 39]"
| "panic_text (UnsupportedSecretScheme s) =
     ''MockGateway::with_secret_provider: provider does not support scheme '' @ [CHR 39] @ s @ [CHR 39]"
| "panic_text (UnsupportedConfigScheme s) =
     ''MockGateway::with_config_provider: provider does not support scheme '' @ [CHR 39] @ s @ [CHR 39]"
| "panic_text EmptyTransportName = ''MockGateway::with_transport: transport declared empty name()''"
| "panic_text (DuplicateTransport n) =
     ''MockGateway::with_transport: transport name '' @ [CHR 39] @ n @ [CHR 39] @ '' already registered''"
| "panic_text EmptyEngineName = ''MockGateway::with_policy_engine: engine declared empty name()''"
| "panic_text (DuplicateEngine n) =
     ''MockGateway::with_policy_engine: engine name '' @ [CHR 39] @ n @ [CHR 39] @ '' already registered''"
| "panic_text ClusterInstalled = ''MockGateway::with_cluster_backend: already installed''"

definition should_panic :: "string \<Rightarrow> (mock_panic, mock_gateway) result \<Rightarrow> bool" where
  "should_panic expected r = (case r of Inl p \<Rightarrow> sublist expected (panic_text p) | Inr _ \<Rightarrow> False)"

definition and_then :: "('e, 'a) result \<Rightarrow> ('a \<Rightarrow> ('e, 'b) result) \<Rightarrow> ('e, 'b) result" where
  "and_then r f = (case r of Inl e \<Rightarrow> Inl e | Inr a \<Rightarrow> f a)"

definition built :: "('e, 'a) result \<Rightarrow> ('a \<Rightarrow> bool) \<Rightarrow> bool" where
  "built r P = (case r of Inl _ \<Rightarrow> False | Inr a \<Rightarrow> P a)"

definition is_some :: "'a option \<Rightarrow> bool" where
  "is_some v = (case v of None \<Rightarrow> False | Some _ \<Rightarrow> True)"

section \<open>Gates and transforms\<close>

definition AlwaysAllowGate :: "gateway_externs \<Rightarrow> tool_gate" where
  "AlwaysAllowGate x = \<lparr>tg_pre = (\<lambda>_ _ _ _. Allow (gx_allow_metadata x)), tg_post = gx_post_dispatch x\<rparr>"

definition AlwaysDenyGate :: "gateway_externs \<Rightarrow> tool_gate" where
  "AlwaysDenyGate x = \<lparr>tg_pre = (\<lambda>_ _ _ _. Deny ''denied by test''
       (jobj [(''http_status'', JNum (PosInt 403)), (''code'', JNum (NegInt (-32001))), (''error_data'', JNull)])),
     tg_post = gx_post_dispatch x\<rparr>"

definition UppercaseTransform :: transform_plugin where
  "UppercaseTransform = \<lparr>
     tp_arguments = (\<lambda>_ args _.
       case Option.bind (json_get args ''name'') as_str of
         Some n \<Rightarrow> Modified (json_set ''name'' (JStr (to_ascii_uppercase n)) args)
       | None \<Rightarrow> Unchanged),
     tp_result = (\<lambda>_ _ _. Unchanged)\<rparr>"

definition mock_gateway_empty_chain_allows :: "gateway_externs \<Rightarrow> bool" where
  "mock_gateway_empty_chain_allows x =
     (let result = call_tool (gx_to_text x) new_gateway ''test_tool'' (jobj [(''x'', JNum (PosInt 1))])
      in assert_allowed result = Inr () \<and> is_some (tr_result result))"

definition mock_gateway_allow_gate_passes :: "gateway_externs \<Rightarrow> bool" where
  "mock_gateway_allow_gate_passes x =
     (let gw = with_tool_gate (AlwaysAllowGate x) new_gateway
      in assert_allowed (call_tool (gx_to_text x) gw ''test_tool'' (jobj [])) = Inr ())"

definition mock_gateway_deny_gate_blocks :: "gateway_externs \<Rightarrow> bool" where
  "mock_gateway_deny_gate_blocks x =
     (let gw = with_tool_gate (AlwaysDenyGate x) new_gateway;
          result = call_tool (gx_to_text x) gw ''test_tool'' (jobj [])
      in assert_denied result = Inr () \<and> assert_denied_with_message result ''denied by test'' = Inr () \<and>
         tr_phase result = PreDispatchGate)"

definition mock_gateway_transform_modifies_arguments :: "gateway_externs \<Rightarrow> bool" where
  "mock_gateway_transform_modifies_arguments x =
     (let gw = with_transform UppercaseTransform new_gateway;
          result = call_tool (gx_to_text x) gw ''test_tool'' (jobj [(''name'', JStr ''hello'')])
      in assert_allowed result = Inr () \<and> json_get (tr_arguments result) ''name'' = Some (JStr ''HELLO''))"

definition mock_gateway_deny_after_allow_still_denies :: "gateway_externs \<Rightarrow> bool" where
  "mock_gateway_deny_after_allow_still_denies x =
     (let gw = with_tool_gate (AlwaysDenyGate x) (with_tool_gate (AlwaysAllowGate x) new_gateway)
      in assert_denied (call_tool (gx_to_text x) gw ''test_tool'' (jobj [])) = Inr ())"

definition context_builder_verified :: bool where
  "context_builder_verified =
     (let ctx = build (transport ''https'' (verified ''user@example.com'' (new_context ''my_tool'')))
      in pc_tool_name ctx = ''my_tool'' \<and> pi_kind (pc_identity ctx) = ''verified'' \<and>
         pi_subject_id (pc_identity ctx) = Some ''user@example.com'' \<and> pc_transport ctx = ''https'')"

definition context_builder_anonymous :: bool where
  "context_builder_anonymous =
     (let ctx = build (anonymous (new_context ''tool''))
      in pi_kind (pc_identity ctx) = ''anonymous'' \<and> pi_subject_id (pc_identity ctx) = None)"

section \<open>Routes\<close>

definition EchoRoute :: "gateway_externs \<Rightarrow> http_route" where
  "EchoRoute x = \<lparr>hr_routes = [\<lparr>rs_method = ''GET'', rs_path = ''/ping''\<rparr>], hr_handle = (\<lambda>_. gx_ok_json x pong)\<rparr>"

definition http_req :: "string \<Rightarrow> string \<Rightarrow> http_request" where
  "http_req verb path = \<lparr>hq_method = verb, hq_full_path = path, hq_body = []\<rparr>"

definition http_route_happy_path :: "gateway_externs \<Rightarrow> bool" where
  "http_route_happy_path x =
     (let gw = with_http_route ''echo'' (EchoRoute x) new_gateway;
          resp = call_http_route gw ''echo'' (http_req ''GET'' ''/ping'')
      in hp_status resp = 200 \<and>
         (case gx_from_slice x (hp_body resp) of Some v \<Rightarrow> json_get v ''pong'' = Some (JBool True) | None \<Rightarrow> False))"

definition http_route_unknown_entity_is_404 :: "gateway_externs \<Rightarrow> bool" where
  "http_route_unknown_entity_is_404 x =
     (let gw = with_http_route ''echo'' (EchoRoute x) new_gateway
      in hp_status (call_http_route gw ''missing'' (http_req ''GET'' ''/ping'')) = 404)"

definition http_route_method_mismatch_is_404 :: "gateway_externs \<Rightarrow> bool" where
  "http_route_method_mismatch_is_404 x =
     (let gw = with_http_route ''echo'' (EchoRoute x) new_gateway
      in hp_status (call_http_route gw ''echo'' (http_req ''POST'' ''/ping'')) = 404)"

definition http_route_matches_with_mount_prefix :: "gateway_externs \<Rightarrow> bool" where
  "http_route_matches_with_mount_prefix x =
     (let gw = with_http_route ''echo'' (EchoRoute x) new_gateway
      in hp_status (call_http_route gw ''echo'' (http_req ''GET'' ''/plugins/dev.mcpg.test.echo/echo/ping'')) = 200)"

definition spec_matches_wildcard_method :: bool where
  "spec_matches_wildcard_method =
     (let spec = \<lparr>rs_method = ''*'', rs_path = ''/x''\<rparr>
      in spec_matches spec ''GET'' ''/x'' \<and> spec_matches spec ''POST'' ''/x'' \<and> spec_matches spec ''DELETE'' ''/x'')"

definition spec_matches_case_insensitive_method :: bool where
  "spec_matches_case_insensitive_method =
     (let spec = \<lparr>rs_method = ''get'', rs_path = ''/x''\<rparr>
      in spec_matches spec ''GET'' ''/x'' \<and> \<not> spec_matches spec ''POST'' ''/x'')"

section \<open>Sinks\<close>

text \<open>
  A sink that records: the answer of \<^verbatim>\<open>emit\<close> and the events it holds afterwards. The gateway's sink is
  the answer; it calls each sink once.
\<close>

definition recording_emit :: "string option \<Rightarrow> string \<Rightarrow> json list \<Rightarrow> json \<Rightarrow> (string, json) result \<times> json list" where
  "recording_emit fail_with sink_id events ev =
     (case fail_with of
        Some e \<Rightarrow> (Inl e, events)
      | None \<Rightarrow> (Inr (jobj [(''sink_id'', JStr sink_id), (''persisted_at'', JStr ''2026-04-24T12:00:00Z''),
                         (''durable_hash'', JStr (replicate 64 (CHR ''0'')))]), events @ [ev]))"

definition RecordingAuditSink :: "string option \<Rightarrow> string \<Rightarrow> audit_sink" where
  "RecordingAuditSink fail_with sink_id ev = fst (recording_emit fail_with sink_id [] ev)"

definition sample_event :: json where
  "sample_event = jobj [(''event_id'', JStr ''e1''), (''occurred_at'', JStr ''2026-04-24T12:00:00Z''),
     (''actor'', jobj [(''kind'', JStr ''anonymous''), (''trust_level'', JStr ''unauthenticated''), (''subject_id'', JNull),
        (''auth_provider'', JNull), (''issuer'', JNull), (''roles'', JArr []), (''groups'', JArr []), (''scopes'', JArr []),
        (''attributes'', jobj [])]),
     (''action'', JStr ''tool.call.denied''), (''resource'', JNull), (''outcome'', JStr ''Denied''), (''request_id'', JNull),
     (''upstream_request_id'', JNull), (''node_id'', JNull), (''details'', jobj []), (''prev_event_hash'', JNull)]"

definition is_ok :: "('e, 'a) result \<Rightarrow> bool" where
  "is_ok r = (case r of Inl _ \<Rightarrow> False | Inr _ \<Rightarrow> True)"

definition audit_fan_out_reaches_every_sink :: bool where
  "audit_fan_out_reaches_every_sink =
     (let gw = with_audit_sink (RecordingAuditSink None ''dev.test.b'') (with_audit_sink (RecordingAuditSink None ''dev.test.a'') new_gateway);
          results = emit_audit gw sample_event
      in length results = 2 \<and> list_all is_ok results \<and>
         map fst [recording_emit None ''dev.test.a'' [] sample_event, recording_emit None ''dev.test.b'' [] sample_event] = results \<and>
         length (snd (recording_emit None ''dev.test.a'' [] sample_event)) = 1 \<and>
         length (snd (recording_emit None ''dev.test.b'' [] sample_event)) = 1)"

definition audit_fan_out_continues_across_failure :: bool where
  "audit_fan_out_continues_across_failure =
     (let gw = with_audit_sink (RecordingAuditSink None ''dev.test.ok'')
                 (with_audit_sink (RecordingAuditSink (Some ''Throttled'') ''dev.test.fail'') new_gateway);
          results = emit_audit gw sample_event
      in length results = 2 \<and> \<not> is_ok (results ! 0) \<and> is_ok (results ! 1) \<and>
         results ! 1 = fst (recording_emit None ''dev.test.ok'' [] sample_event) \<and>
         length (snd (recording_emit None ''dev.test.ok'' [] sample_event)) = 1)"

definition audit_fan_out_empty_when_no_sinks_registered :: bool where
  "audit_fan_out_empty_when_no_sinks_registered = (emit_audit new_gateway sample_event = [])"

text \<open>The counters of a telemetry sink and of a log sink, over what the gateway delivered.\<close>

record counting_telemetry =
  ct_spans_started :: nat
  ct_spans_ended :: nat
  ct_metrics :: nat

fun telemetry_count :: "telemetry \<Rightarrow> counting_telemetry \<Rightarrow> counting_telemetry" where
  "telemetry_count (SpanStarted _) c = c\<lparr>ct_spans_started := ct_spans_started c + 1\<rparr>"
| "telemetry_count (SpanEnded _) c = c\<lparr>ct_spans_ended := ct_spans_ended c + 1\<rparr>"
| "telemetry_count (MetricRecorded _) c = c\<lparr>ct_metrics := ct_metrics c + 1\<rparr>"

definition telemetry_sink :: "nat \<Rightarrow> (nat \<times> telemetry) list \<Rightarrow> counting_telemetry" where
  "telemetry_sink sink ds = fold (\<lambda>d c. if fst d = sink then telemetry_count (snd d) c else c) ds
     \<lparr>ct_spans_started = 0, ct_spans_ended = 0, ct_metrics = 0\<rparr>"

definition log_sink :: "nat \<Rightarrow> (nat \<times> json) list \<Rightarrow> nat" where
  "log_sink sink ds = length (filter (\<lambda>d. fst d = sink) ds)"

definition sample_span_start :: json where
  "sample_span_start = jobj [(''trace_id'', JStr ''t''), (''span_id'', JStr ''s''), (''parent_id'', JNull), (''name'', JStr ''op''),
     (''kind'', JStr ''Internal''), (''start_ns'', JNum (PosInt 0)), (''attributes'', jobj [])]"

definition sample_span_end :: json where
  "sample_span_end = jobj [(''trace_id'', JStr ''t''), (''span_id'', JStr ''s''), (''end_ns'', JNum (PosInt 1)), (''status'', JStr ''Ok''),
     (''events'', JArr []), (''additional_attributes'', jobj [])]"

definition sample_metric :: json where
  "sample_metric = jobj [(''name'', JStr ''m''), (''unit'', JNull), (''kind'', JStr ''Counter''),
     (''value'', jobj [(''I64'', JNum (PosInt 1))]), (''labels'', jobj []), (''timestamp_ns'', JNum (PosInt 0))]"

definition sample_log :: json where
  "sample_log = jobj [(''timestamp_ns'', JNum (PosInt 0)), (''level'', JStr ''Info''), (''target'', JStr ''mcpg''), (''message'', JStr ''hi''),
     (''fields'', jobj []), (''span_id'', JNull), (''trace_id'', JNull), (''request_id'', JNull), (''identity'', JNull),
     (''node_id'', JNull), (''plugin_id'', JNull)]"

definition telemetry_fan_out_reaches_every_sink_in_mock :: bool where
  "telemetry_fan_out_reaches_every_sink_in_mock =
     (let gw = with_telemetry_sink 2 (with_telemetry_sink 1 new_gateway);
          ds = emit_telemetry gw (SpanStarted sample_span_start) @ emit_telemetry gw (SpanEnded sample_span_end) @
               emit_telemetry gw (MetricRecorded sample_metric)
      in list_all (\<lambda>sink. ct_spans_started (telemetry_sink sink ds) = 1 \<and> ct_spans_ended (telemetry_sink sink ds) = 1 \<and>
           ct_metrics (telemetry_sink sink ds) = 1) [1, 2])"

definition log_fan_out_reaches_every_sink_in_mock :: bool where
  "log_fan_out_reaches_every_sink_in_mock =
     (let gw = with_log_sink 2 (with_log_sink 1 new_gateway);
          ds = emit_log_record gw sample_log @ emit_log_record gw sample_log
      in list_all (\<lambda>sink. log_sink sink ds = 2) [1, 2])"

definition telemetry_and_log_fan_outs_empty_when_no_sinks_registered :: bool where
  "telemetry_and_log_fan_outs_empty_when_no_sinks_registered =
     (emit_telemetry new_gateway (SpanStarted sample_span_start) = [] \<and> emit_log_record new_gateway sample_log = [])"

section \<open>Bindings\<close>

definition test_store_plugin :: "string list \<Rightarrow> store_plugin" where
  "test_store_plugin roles = \<lparr>sp_id = 1, sp_supported_roles = roles\<rparr>"

definition store_role_binding_resolves_lookup :: bool where
  "store_role_binding_resolves_lookup =
     built (with_store ''session'' (test_store_plugin [''session'']) new_gateway)
       (\<lambda>gw. is_some (store_for_role gw ''session'') \<and> \<not> is_some (store_for_role gw ''task''))"

definition store_role_binding_panics_on_unsupported_role :: bool where
  "store_role_binding_panics_on_unsupported_role =
     should_panic ''does not support role task'' (with_store ''task'' (test_store_plugin [''session'']) new_gateway)"

definition store_role_binding_supports_multiple_roles :: bool where
  "store_role_binding_supports_multiple_roles =
     (let plugin = test_store_plugin [''session'', ''task'']
      in built (and_then (with_store ''session'' plugin new_gateway) (with_store ''task'' plugin))
           (\<lambda>gw. is_some (store_for_role gw ''session'') \<and> is_some (store_for_role gw ''task'')))"

definition test_cache_plugin :: "string list \<Rightarrow> bool \<Rightarrow> cache_plugin" where
  "test_cache_plugin supported any = \<lparr>cp_id = 1, cp_supported_namespaces = supported, cp_serves_any = any\<rparr>"

definition cache_namespace_binding_resolves_lookup :: bool where
  "cache_namespace_binding_resolves_lookup =
     built (with_cache ''jwks'' (test_cache_plugin [''jwks''] False) new_gateway)
       (\<lambda>gw. is_some (cache_for_namespace gw ''jwks'') \<and> \<not> is_some (cache_for_namespace gw ''response-cache''))"

definition cache_namespace_binding_accepts_serves_any :: bool where
  "cache_namespace_binding_accepts_serves_any =
     built (with_cache ''whatever'' (test_cache_plugin [] True) new_gateway) (\<lambda>gw. is_some (cache_for_namespace gw ''whatever''))"

definition cache_namespace_binding_panics_on_unsupported :: bool where
  "cache_namespace_binding_panics_on_unsupported =
     should_panic (''does not support namespace '' @ [CHR 39] @ ''response-cache'' @ [CHR 39])
       (with_cache ''response-cache'' (test_cache_plugin [''jwks''] False) new_gateway)"

definition test_secret_provider :: "string list \<Rightarrow> provider" where
  "test_secret_provider schemes = \<lparr>pv_id = 1, pv_supported_schemes = schemes\<rparr>"

definition secret_provider_binding_resolves_lookup :: bool where
  "secret_provider_binding_resolves_lookup =
     built (with_secret_provider ''env'' (test_secret_provider [''env'']) new_gateway)
       (\<lambda>gw. is_some (secret_provider_for_scheme gw ''env'') \<and> \<not> is_some (secret_provider_for_scheme gw ''vault''))"

definition secret_provider_binding_panics_on_unsupported_scheme :: bool where
  "secret_provider_binding_panics_on_unsupported_scheme =
     should_panic (''does not support scheme '' @ [CHR 39] @ ''vault'' @ [CHR 39])
       (with_secret_provider ''vault'' (test_secret_provider [''env'']) new_gateway)"

definition secret_provider_binding_supports_multiple_schemes_per_plugin :: bool where
  "secret_provider_binding_supports_multiple_schemes_per_plugin =
     (let plugin = test_secret_provider [''env'', ''file'']
      in built (and_then (with_secret_provider ''env'' plugin new_gateway) (with_secret_provider ''file'' plugin))
           (\<lambda>gw. is_some (secret_provider_for_scheme gw ''env'') \<and> is_some (secret_provider_for_scheme gw ''file'')))"

definition test_config_provider :: "string list \<Rightarrow> provider" where
  "test_config_provider schemes = \<lparr>pv_id = 1, pv_supported_schemes = schemes\<rparr>"

definition config_provider_binding_resolves_lookup :: bool where
  "config_provider_binding_resolves_lookup =
     built (with_config_provider ''file'' (test_config_provider [''file'']) new_gateway)
       (\<lambda>gw. is_some (config_provider_for_scheme gw ''file'') \<and> \<not> is_some (config_provider_for_scheme gw ''consul''))"

definition config_provider_binding_panics_on_unsupported_scheme :: bool where
  "config_provider_binding_panics_on_unsupported_scheme =
     should_panic (''does not support scheme '' @ [CHR 39] @ ''consul'' @ [CHR 39])
       (with_config_provider ''consul'' (test_config_provider [''file'']) new_gateway)"

definition config_provider_binding_supports_multiple_schemes_per_plugin :: bool where
  "config_provider_binding_supports_multiple_schemes_per_plugin =
     (let plugin = test_config_provider [''file'', ''consul'']
      in built (and_then (with_config_provider ''file'' plugin new_gateway) (with_config_provider ''consul'' plugin))
           (\<lambda>gw. is_some (config_provider_for_scheme gw ''file'') \<and> is_some (config_provider_for_scheme gw ''consul'')))"

definition fixed_transport :: "nat \<Rightarrow> string \<Rightarrow> named_plugin" where
  "fixed_transport i n = \<lparr>np_id = i, np_name = n\<rparr>"

definition transport_binding_resolves_lookup :: bool where
  "transport_binding_resolves_lookup =
     built (with_transport (fixed_transport 1 ''http-v1'') new_gateway)
       (\<lambda>gw. is_some (transport_by_name gw ''http-v1'') \<and> \<not> is_some (transport_by_name gw ''stdio-v1''))"

definition transport_binding_panics_on_duplicate_name :: bool where
  "transport_binding_panics_on_duplicate_name =
     should_panic (''transport name '' @ [CHR 39] @ ''http-v1'' @ [CHR 39] @ '' already registered'')
       (and_then (with_transport (fixed_transport 1 ''http-v1'') new_gateway) (with_transport (fixed_transport 2 ''http-v1'')))"

definition transport_binding_panics_on_empty_name :: bool where
  "transport_binding_panics_on_empty_name =
     should_panic ''declared empty name'' (with_transport (fixed_transport 1 []) new_gateway)"

definition fixed_policy :: "nat \<Rightarrow> string \<Rightarrow> named_plugin" where
  "fixed_policy i n = \<lparr>np_id = i, np_name = n\<rparr>"

definition policy_engine_binding_resolves_lookup :: bool where
  "policy_engine_binding_resolves_lookup =
     built (with_policy_engine (fixed_policy 1 ''opa'') new_gateway)
       (\<lambda>gw. is_some (policy_engine_by_name gw ''opa'') \<and> \<not> is_some (policy_engine_by_name gw ''cedar''))"

definition policy_engine_binding_panics_on_duplicate_name :: bool where
  "policy_engine_binding_panics_on_duplicate_name =
     should_panic (''engine name '' @ [CHR 39] @ ''opa'' @ [CHR 39] @ '' already registered'')
       (and_then (with_policy_engine (fixed_policy 1 ''opa'') new_gateway) (with_policy_engine (fixed_policy 2 ''opa'')))"

definition policy_engine_binding_panics_on_empty_name :: bool where
  "policy_engine_binding_panics_on_empty_name =
     should_panic ''declared empty name'' (with_policy_engine (fixed_policy 1 []) new_gateway)"

text \<open>A coordinator is a number; the test's coordinators and the node each names.\<close>

definition fixed_cluster :: "nat \<Rightarrow> string" where
  "fixed_cluster coordinator = (if coordinator = 1 then ''n1'' else ''n2'')"

definition cluster_backend_install_resolves_lookup :: bool where
  "cluster_backend_install_resolves_lookup =
     built (with_cluster_backend 1 new_gateway)
       (\<lambda>gw. case mg_cluster_backend gw of Some cc \<Rightarrow> fixed_cluster cc = ''n1'' | None \<Rightarrow> False)"

definition cluster_backend_install_panics_on_duplicate :: bool where
  "cluster_backend_install_panics_on_duplicate =
     should_panic ''already installed'' (and_then (with_cluster_backend 1 new_gateway) (with_cluster_backend 2))"

definition cluster_backend_default_is_none :: bool where
  "cluster_backend_default_is_none = (\<not> is_some (mg_cluster_backend new_gateway))"

section \<open>The run\<close>

text \<open>The tests by name.\<close>

definition gateway_tests :: "gateway_externs \<Rightarrow> (string \<times> bool) list" where
  "gateway_tests x =
     [(''mock_gateway_empty_chain_allows'', mock_gateway_empty_chain_allows x),
      (''mock_gateway_allow_gate_passes'', mock_gateway_allow_gate_passes x),
      (''mock_gateway_deny_gate_blocks'', mock_gateway_deny_gate_blocks x),
      (''mock_gateway_transform_modifies_arguments'', mock_gateway_transform_modifies_arguments x),
      (''mock_gateway_deny_after_allow_still_denies'', mock_gateway_deny_after_allow_still_denies x),
      (''context_builder_verified'', context_builder_verified), (''context_builder_anonymous'', context_builder_anonymous),
      (''http_route_happy_path'', http_route_happy_path x),
      (''http_route_unknown_entity_is_404'', http_route_unknown_entity_is_404 x),
      (''http_route_method_mismatch_is_404'', http_route_method_mismatch_is_404 x),
      (''http_route_matches_with_mount_prefix'', http_route_matches_with_mount_prefix x),
      (''spec_matches_wildcard_method'', spec_matches_wildcard_method),
      (''spec_matches_case_insensitive_method'', spec_matches_case_insensitive_method),
      (''audit_fan_out_reaches_every_sink'', audit_fan_out_reaches_every_sink),
      (''audit_fan_out_continues_across_failure'', audit_fan_out_continues_across_failure),
      (''audit_fan_out_empty_when_no_sinks_registered'', audit_fan_out_empty_when_no_sinks_registered),
      (''store_role_binding_resolves_lookup'', store_role_binding_resolves_lookup),
      (''store_role_binding_panics_on_unsupported_role'', store_role_binding_panics_on_unsupported_role),
      (''store_role_binding_supports_multiple_roles'', store_role_binding_supports_multiple_roles),
      (''cache_namespace_binding_resolves_lookup'', cache_namespace_binding_resolves_lookup),
      (''cache_namespace_binding_accepts_serves_any'', cache_namespace_binding_accepts_serves_any),
      (''cache_namespace_binding_panics_on_unsupported'', cache_namespace_binding_panics_on_unsupported),
      (''telemetry_fan_out_reaches_every_sink_in_mock'', telemetry_fan_out_reaches_every_sink_in_mock),
      (''log_fan_out_reaches_every_sink_in_mock'', log_fan_out_reaches_every_sink_in_mock),
      (''telemetry_and_log_fan_outs_empty_when_no_sinks_registered'', telemetry_and_log_fan_outs_empty_when_no_sinks_registered),
      (''secret_provider_binding_resolves_lookup'', secret_provider_binding_resolves_lookup),
      (''secret_provider_binding_panics_on_unsupported_scheme'', secret_provider_binding_panics_on_unsupported_scheme),
      (''secret_provider_binding_supports_multiple_schemes_per_plugin'', secret_provider_binding_supports_multiple_schemes_per_plugin),
      (''config_provider_binding_resolves_lookup'', config_provider_binding_resolves_lookup),
      (''config_provider_binding_panics_on_unsupported_scheme'', config_provider_binding_panics_on_unsupported_scheme),
      (''config_provider_binding_supports_multiple_schemes_per_plugin'', config_provider_binding_supports_multiple_schemes_per_plugin),
      (''transport_binding_resolves_lookup'', transport_binding_resolves_lookup),
      (''transport_binding_panics_on_duplicate_name'', transport_binding_panics_on_duplicate_name),
      (''transport_binding_panics_on_empty_name'', transport_binding_panics_on_empty_name),
      (''policy_engine_binding_resolves_lookup'', policy_engine_binding_resolves_lookup),
      (''policy_engine_binding_panics_on_duplicate_name'', policy_engine_binding_panics_on_duplicate_name),
      (''policy_engine_binding_panics_on_empty_name'', policy_engine_binding_panics_on_empty_name),
      (''cluster_backend_install_resolves_lookup'', cluster_backend_install_resolves_lookup),
      (''cluster_backend_install_panics_on_duplicate'', cluster_backend_install_panics_on_duplicate),
      (''cluster_backend_default_is_none'', cluster_backend_default_is_none)]"

lemma gateway_tests_closed:
  "context_builder_verified" "context_builder_anonymous" "spec_matches_wildcard_method" "spec_matches_case_insensitive_method"
  "audit_fan_out_reaches_every_sink" "audit_fan_out_continues_across_failure" "audit_fan_out_empty_when_no_sinks_registered"
  "telemetry_fan_out_reaches_every_sink_in_mock" "log_fan_out_reaches_every_sink_in_mock"
  "telemetry_and_log_fan_outs_empty_when_no_sinks_registered"
  by code_simp+

lemma gateway_tests_bindings:
  "store_role_binding_resolves_lookup" "store_role_binding_panics_on_unsupported_role"
  "store_role_binding_supports_multiple_roles" "cache_namespace_binding_resolves_lookup"
  "cache_namespace_binding_accepts_serves_any" "cache_namespace_binding_panics_on_unsupported"
  "secret_provider_binding_resolves_lookup" "secret_provider_binding_panics_on_unsupported_scheme"
  "secret_provider_binding_supports_multiple_schemes_per_plugin" "config_provider_binding_resolves_lookup"
  "config_provider_binding_panics_on_unsupported_scheme" "config_provider_binding_supports_multiple_schemes_per_plugin"
  "transport_binding_resolves_lookup" "transport_binding_panics_on_duplicate_name" "transport_binding_panics_on_empty_name"
  "policy_engine_binding_resolves_lookup" "policy_engine_binding_panics_on_duplicate_name"
  "policy_engine_binding_panics_on_empty_name" "cluster_backend_install_resolves_lookup"
  "cluster_backend_install_panics_on_duplicate" "cluster_backend_default_is_none"
  by code_simp+

lemma gateway_tests_chain:
  assumes "gateway_externs_ok x"
  shows "mock_gateway_empty_chain_allows x" "mock_gateway_allow_gate_passes x" "mock_gateway_deny_gate_blocks x"
    "mock_gateway_transform_modifies_arguments x" "mock_gateway_deny_after_allow_still_denies x"
proof -
  have post: "post_gates ctx args res [(AlwaysAllowGate x, cfg)] = None" for ctx args res cfg
    using assms unfolding post_gates_None by (simp add: gateway_externs_ok_def AlwaysAllowGate_def)
  have upper: "Option.bind (json_get (jobj [(''name'', JStr ''hello'')]) ''name'') as_str = Some ''hello''"
    "json_get (json_set ''name'' (JStr (to_ascii_uppercase ''hello'')) (jobj [(''name'', JStr ''hello'')])) ''name'' = Some (JStr ''HELLO'')"
    by code_simp+
  show "mock_gateway_empty_chain_allows x"
    by (simp add: mock_gateway_empty_chain_allows_def call_tool_unfold call_tool_def new_gateway_def is_allowed_def
        assert_allowed_def transform_arguments_def transform_results_def is_some_def)
  show "mock_gateway_allow_gate_passes x" using post
    by (simp add: mock_gateway_allow_gate_passes_def call_tool_unfold call_tool_def new_gateway_def is_allowed_def
        assert_allowed_def transform_arguments_def transform_results_def with_tool_gate_def AlwaysAllowGate_def
        del: post_gates.simps)
  have denied: "\<exists>r. call_tool (gx_to_text x) (with_tool_gate (AlwaysDenyGate x) new_gateway) ''test_tool'' (jobj []) =
      stopped_at PreDispatchGate (Some (Deny ''denied by test'' r)) (jobj []) None"
    by (simp add: call_tool_with_meta_def call_tool_def new_gateway_def with_tool_gate_def AlwaysDenyGate_def) blast
  then show "mock_gateway_deny_gate_blocks x"
    by (auto simp: mock_gateway_deny_gate_blocks_def stopped_at_def is_denied_def denial_message_def assert_denied_def
        assert_denied_with_message_def assert_that_def)
  show "mock_gateway_deny_after_allow_still_denies x"
    by (simp add: mock_gateway_deny_after_allow_still_denies_def call_tool_unfold call_tool_def new_gateway_def is_denied_def
        assert_denied_def with_tool_gate_def AlwaysDenyGate_def AlwaysAllowGate_def)
  show "mock_gateway_transform_modifies_arguments x"
    by (simp add: mock_gateway_transform_modifies_arguments_def call_tool_unfold call_tool_def new_gateway_def is_allowed_def
        assert_allowed_def transform_arguments_def transform_results_def with_transform_def UppercaseTransform_def upper)
qed

lemma echo_route_matches:
  "spec_matches \<lparr>rs_method = ''GET'', rs_path = ''/ping''\<rparr> ''GET'' ''/ping''"
  "spec_matches \<lparr>rs_method = ''GET'', rs_path = ''/ping''\<rparr> ''GET'' ''/plugins/dev.mcpg.test.echo/echo/ping''"
  "\<not> spec_matches \<lparr>rs_method = ''GET'', rs_path = ''/ping''\<rparr> ''POST'' ''/ping''"
  by code_simp+

lemma gateway_tests_routes:
  assumes "gateway_externs_ok x"
  shows "http_route_happy_path x" "http_route_unknown_entity_is_404 x" "http_route_method_mismatch_is_404 x"
    "http_route_matches_with_mount_prefix x"
proof -
  note unfold = call_http_route_def with_http_route_def new_gateway_def EchoRoute_def http_req_def echo_route_matches
    status_response_def
  have "json_get pong ''pong'' = Some (JBool True)" by code_simp
  with assms show "http_route_happy_path x" "http_route_matches_with_mount_prefix x"
    by (simp_all add: http_route_happy_path_def http_route_matches_with_mount_prefix_def gateway_externs_ok_def unfold)
  show "http_route_unknown_entity_is_404 x" "http_route_method_mismatch_is_404 x"
    by (simp_all add: http_route_unknown_entity_is_404_def http_route_method_mismatch_is_404_def unfold)
qed

text \<open>
  Run on the model, each of the forty unit tests of the mock gateway passes, for every behaviour of
  the protocol's default post-dispatch hook that lets calls through.
\<close>

theorem gateway_tests_pass:
  assumes "gateway_externs_ok x"
  shows "list_all snd (gateway_tests x) \<and> length (gateway_tests x) = 40"
  using gateway_tests_chain [OF assms] gateway_tests_routes [OF assms]
  by (simp add: gateway_tests_def gateway_tests_closed gateway_tests_bindings)

definition demo_externs :: gateway_externs where
  "demo_externs = \<lparr>gx_to_text = (\<lambda>_. []), gx_allow_metadata = JNull, gx_post_dispatch = (\<lambda>_ _ _ _ _. Allow JNull),
     gx_ok_json = (\<lambda>v. \<lparr>hp_status = 200, hp_body = (if v = pong then ''pong'' else [])\<rparr>),
     gx_from_slice = (\<lambda>b. if b = ''pong'' then Some pong else None)\<rparr>"

theorem gateway_tests_pass_witness:
  "gateway_externs_ok demo_externs \<and> list_all snd (gateway_tests demo_externs)"
proof -
  have "gateway_externs_ok demo_externs" by (simp add: gateway_externs_ok_def demo_externs_def stops_def)
  then show ?thesis using gateway_tests_pass [of demo_externs] by simp
qed

end
