(* ===== verification/Conformance_Guards.thy ===== *)
theory Conformance_Guards
  imports Sql_Guard Config_Guard Polling_Watch Plugin_Template
begin

text \<open>
  The unit tests of the guards, the polling watch and the templates, run on their models: the \<^verbatim>\<open>mod tests\<close>
  of \<^verbatim>\<open>sql_guard.rs\<close>, \<^verbatim>\<open>config.rs\<close>, \<^verbatim>\<open>watch.rs\<close> and \<^verbatim>\<open>template.rs\<close> under \<^verbatim>\<open>src/src/\<close>. Each test is a \<open>bool\<close>
  under the test's own name with the conjuncts of its \<^verbatim>\<open>assert\<close> lines, proved by evaluation. A sleep of
  a test becomes the polls that fit into it. serde and the protocol's \<^verbatim>\<open>is_event_source\<close> are
  parameters, with the laws the tests rely on.
\<close>

section \<open>The read-only guard\<close>

definition accepts :: "string \<Rightarrow> bool" where
  "accepts s = (case enforce_read_only s of Inl _ \<Rightarrow> False | Inr _ \<Rightarrow> True)"

definition tick_mark :: string where
  "tick_mark = [CHR 39]"

definition accepts_plain_reads :: bool where
  "accepts_plain_reads = list_all accepts
     [''SELECT * FROM t'', ''  select 1'', ''WITH x AS (SELECT 1) SELECT * FROM x'', ''SHOW TABLES'', ''DESCRIBE t'', ''DESC t'',
      ''EXPLAIN SELECT * FROM t'', ''SELECT * FROM t WHERE name = '' @ tick_mark @ ''DROP TABLE evil'' @ tick_mark,
      ''SELECT update_time, created_at FROM t'', ''/* c */ SELECT 1 -- trailing'', ''SELECT * FROM v$session'', ''SELECT 1;'']"

definition rejects_leading_writes :: bool where
  "rejects_leading_writes = list_all (\<lambda>s. \<not> accepts s)
     [''INSERT INTO t VALUES (1)'', ''UPDATE t SET x=1'', ''DELETE FROM t'', ''DROP TABLE t'']"

definition rejects_write_cte :: bool where
  "rejects_write_cte =
     (\<not> accepts ''WITH moved AS (INSERT INTO archive SELECT * FROM live RETURNING *) SELECT * FROM moved'')"

definition rejects_explain_analyze :: bool where
  "rejects_explain_analyze = (\<not> accepts ''EXPLAIN ANALYZE SELECT * FROM t'' \<and> \<not> accepts ''explain analyze delete from t'' \<and>
     accepts ''EXPLAIN SELECT * FROM t'')"

definition rejects_stacked_statements :: bool where
  "rejects_stacked_statements = (\<not> accepts ''SELECT 1; DROP TABLE t'' \<and> \<not> accepts ''SELECT 1 ; DELETE FROM t'' \<and>
     accepts (''SELECT '' @ tick_mark @ '';'' @ tick_mark @ '' AS sep FROM t''))"

definition rejects_select_into_and_calls :: bool where
  "rejects_select_into_and_calls = (\<not> accepts ''SELECT * INTO new_t FROM t'' \<and> \<not> accepts ''CALL do_write()'' \<and>
     \<not> accepts (''COPY t TO '' @ tick_mark @ ''s3://x'' @ tick_mark))"

definition rejects_empty :: bool where
  "rejects_empty = (\<not> accepts ''   '' \<and> \<not> accepts ''/* only a comment */'')"

section \<open>Configuration\<close>

record Cfg =
  cfg_name :: string
  cfg_count :: nat

definition default_cfg :: Cfg where
  "default_cfg = \<lparr>cfg_name = [], cfg_count = 0\<rparr>"

text \<open>What serde's derived instance of \<^verbatim>\<open>Cfg\<close> does with the blocks of the tests.\<close>

definition quoted_field :: "string \<Rightarrow> string \<Rightarrow> string" where
  "quoted_field k v = dquote @ k @ dquote @ '':'' @ v"

definition cfg_full :: string where
  "cfg_full = ''{'' @ quoted_field ''name'' (dquote @ ''x'' @ dquote) @ '','' @ quoted_field ''count'' ''3'' @ ''}''"

definition cfg_count_only :: string where
  "cfg_count_only = ''{'' @ quoted_field ''count'' ''7'' @ ''}''"

definition cfg_typo :: string where
  "cfg_typo = ''{'' @ quoted_field ''naem'' (dquote @ ''typo'' @ dquote) @ ''}''"

definition cfg_wrong_type :: string where
  "cfg_wrong_type = ''{'' @ quoted_field ''count'' (dquote @ ''not a number'' @ dquote) @ ''}''"

definition cfg_serde_ok :: "(code_points \<Rightarrow> (code_points, Cfg) result) \<Rightarrow> bool" where
  "cfg_serde_ok from_str =
     (from_str (points cfg_full) = Inr \<lparr>cfg_name = ''x'', cfg_count = 3\<rparr> \<and>
      from_str (points cfg_count_only) = Inr \<lparr>cfg_name = [], cfg_count = 7\<rparr> \<and>
      list_all (\<lambda>s. \<not> (\<exists>v. from_str (points s) = Inr v)) [''not json'', cfg_typo, cfg_wrong_type])"

definition parse_cfg :: "(code_points \<Rightarrow> (code_points, Cfg) result) \<Rightarrow> string \<Rightarrow> (code_points, Cfg) result" where
  "parse_cfg from_str s = parse_config_or_fail_closed (points ''Cfg'') from_str default_cfg (points s)"

definition empty_and_unit_blocks_use_default :: "(code_points \<Rightarrow> (code_points, Cfg) result) \<Rightarrow> bool" where
  "empty_and_unit_blocks_use_default from_str =
     list_all (\<lambda>s. parse_cfg from_str s = Inr default_cfg) ['''', ''   '', ''{}'', ''null'']"

definition valid_config_parses :: "(code_points \<Rightarrow> (code_points, Cfg) result) \<Rightarrow> bool" where
  "valid_config_parses from_str = (parse_cfg from_str cfg_full = Inr \<lparr>cfg_name = ''x'', cfg_count = 3\<rparr>)"

definition panics_with :: "string \<Rightarrow> (code_points, 'a) result \<Rightarrow> bool" where
  "panics_with expected r = (case r of Inl message \<Rightarrow> sublist (points expected) message | Inr _ \<Rightarrow> False)"

definition malformed_json_fails_closed :: "(code_points \<Rightarrow> (code_points, Cfg) result) \<Rightarrow> bool" where
  "malformed_json_fails_closed from_str = panics_with ''failing closed'' (parse_cfg from_str ''not json'')"

definition unknown_field_fails_closed :: "(code_points \<Rightarrow> (code_points, Cfg) result) \<Rightarrow> bool" where
  "unknown_field_fails_closed from_str = panics_with ''failing closed'' (parse_cfg from_str cfg_typo)"

definition wrong_type_fails_closed :: "(code_points \<Rightarrow> (code_points, Cfg) result) \<Rightarrow> bool" where
  "wrong_type_fails_closed from_str = panics_with ''failing closed'' (parse_cfg from_str cfg_wrong_type)"

text \<open>\<^verbatim>\<open>fail_closed_config!\<close> in its two forms is the function.\<close>

definition fail_closed_config :: "(code_points \<Rightarrow> (code_points, Cfg) result) \<Rightarrow> string \<Rightarrow> (code_points, Cfg) result" where
  "fail_closed_config from_str config_json = parse_cfg from_str config_json"

definition macro_infers_and_accepts_explicit_type :: "(code_points \<Rightarrow> (code_points, Cfg) result) \<Rightarrow> bool" where
  "macro_infers_and_accepts_explicit_type from_str =
     (fail_closed_config from_str ''{}'' = Inr default_cfg \<and>
      (case fail_closed_config from_str cfg_count_only of Inr b \<Rightarrow> cfg_count b = 7 | Inl _ \<Rightarrow> False))"

section \<open>The polling watch\<close>

definition event_with_id :: "string \<Rightarrow> watch_event" where
  "event_with_id i = default_event\<lparr>we_event_id := Some i\<rparr>"

definition watch_externs_ok :: "(string \<Rightarrow> bool) \<Rightarrow> (watch_event \<Rightarrow> string option) \<Rightarrow> bool" where
  "watch_externs_ok is_event_source to_string =
     (is_event_source ''mcpg-event://numbers'' \<and> \<not> is_event_source ''res://numbers'' \<and> \<not> is_event_source ''res://test'' \<and>
      to_string default_event = Some ''{}'' \<and>
      to_string (event_with_id ''1->2'') = Some (''{'' @ quoted_field ''event_id'' (dquote @ ''1->2'' @ dquote) @ ''}''))"

text \<open>A watch that polls these states and then is cancelled.\<close>

definition polled_then_cancelled :: "(watch_event \<Rightarrow> string option) \<Rightarrow> ('s \<Rightarrow> 's \<Rightarrow> watch_event list) \<Rightarrow> 's list \<Rightarrow> 's polling_watch \<Rightarrow>
    string list" where
  "polled_then_cancelled to_string diff states w =
     pw_emitted (watch_loop to_string diff (map (\<lambda>s. (False, Inr (Some s))) states @ [(True, Inr None)]) w)"

definition emits_on_cursor_advance_not_on_baseline_or_repeat :: "(string \<Rightarrow> bool) \<Rightarrow> (watch_event \<Rightarrow> string option) \<Rightarrow> bool" where
  "emits_on_cursor_advance_not_on_baseline_or_repeat is_event_source to_string =
     (length (polled_then_cancelled to_string polling_diff [''1'', ''1'', ''2'', ''2'', ''3'', ''3'', ''3'']
        (spawn_diffing_watch is_event_source to_string ''res://test'' (millis 250))) = 2)"

definition numbers_diff :: "nat \<Rightarrow> nat \<Rightarrow> watch_event list" where
  "numbers_diff prev cur = [event_with_id (dec_nat prev @ ''->'' @ dec_nat cur)]"

definition a_diffing_watch_emits_its_events_only_to_an_event_source :: "(string \<Rightarrow> bool) \<Rightarrow> (watch_event \<Rightarrow> string option) \<Rightarrow> bool" where
  "a_diffing_watch_emits_its_events_only_to_an_event_source is_event_source to_string =
     list_all (\<lambda>(uri, expected). polled_then_cancelled to_string numbers_diff [1, 2, 2, 2]
         (spawn_diffing_watch is_event_source to_string uri (millis 250)) = expected)
       [(''mcpg-event://numbers'', [''{'' @ quoted_field ''event_id'' (dquote @ ''1->2'' @ dquote) @ ''}'']),
        (''res://numbers'', [''{}''])]"

definition cancel_null_handle_is_noop :: "'s polling_run \<Rightarrow> bool" where
  "cancel_null_handle_is_noop w = (cancel_polling_watch True w = w)"

section \<open>Templates\<close>

definition to_pascal_case_works :: bool where
  "to_pascal_case_works = (to_pascal_case ''my_rate_limiter'' = ''MyRateLimiter'' \<and>
     to_pascal_case ''my-rate-limiter'' = ''MyRateLimiter'' \<and> to_pascal_case ''simple'' = ''Simple'' \<and> to_pascal_case [] = [])"

definition file_name :: "plugin_template \<Rightarrow> nat \<Rightarrow> string" where
  "file_name t i = fst (tpl_files t ! i)"

definition file_contains :: "plugin_template \<Rightarrow> nat \<Rightarrow> string \<Rightarrow> bool" where
  "file_contains t i s = sublist s (snd (tpl_files t ! i))"

definition tool_gate_template_generates_valid_files :: bool where
  "tool_gate_template_generates_valid_files =
     (let t = template_tool_gate ''my-gate'' ''com.example.gate''
      in length (tpl_files t) = 3 \<and> file_name t 0 = ''Cargo.toml'' \<and> file_contains t 0 ''my-gate'' \<and>
         file_name t 1 = ''src/lib.rs'' \<and> file_contains t 1 ''MyGate'' \<and> file_contains t 1 ''com.example.gate'')"

definition transform_template_generates_valid_files :: bool where
  "transform_template_generates_valid_files =
     (let t = template_transform ''pii-masker'' ''com.example.pii''
      in length (tpl_files t) = 3 \<and> file_contains t 1 ''PiiMasker'' \<and> file_contains t 1 ''TransformPlugin'')"

definition identity_template_generates_valid_files :: bool where
  "identity_template_generates_valid_files =
     (let t = template_identity ''jwt-verifier'' ''com.example.jwt''
      in length (tpl_files t) = 3 \<and> file_contains t 1 ''JwtVerifier'' \<and> file_contains t 1 ''IdentityProviderPlugin'')"

definition list_templates :: bool where
  "list_templates = (length template_list = 3)"

section \<open>The runs\<close>

text \<open>The scan evaluates by its recursion on the text.\<close>

lemmas sql_skeleton_code [code] = sql_skeleton_skel

lemma sql_guard_tests:
  "accepts_plain_reads" "rejects_leading_writes" "rejects_write_cte" "rejects_explain_analyze" "rejects_stacked_statements"
  "rejects_select_into_and_calls" "rejects_empty"
  by code_simp+

lemma unlines_contains: "l \<in> set ls \<Longrightarrow> sublist s l \<Longrightarrow> sublist s (unlines ls)"
  unfolding unlines_def by (auto simp: in_set_conv_decomp sublist_def) (metis append.assoc)

lemma sublist_more: "sublist xs ys \<Longrightarrow> sublist xs (ps @ ys)" "sublist xs ys \<Longrightarrow> sublist xs (ys @ ss)"
  unfolding sublist_def by (metis append.assoc)+

lemma lines_contain: "sublist n (struct_line n)" "sublist i (id_line i)" "sublist n (package_line n)"
proof -
  show "sublist n (struct_line n)" unfolding struct_line_def by (rule sublist_appendI)
  show "sublist i (id_line i)" unfolding id_line_def by (rule sublist_more(1)) (rule sublist_appendI)
  show "sublist n (package_line n)" unfolding package_line_def by (rule sublist_more(1)) (rule sublist_appendI)
qed

lemma ties_contain: "lib_ties n i k ls \<Longrightarrow> sublist n (unlines ls) \<and> sublist i (unlines ls)"
  unfolding lib_ties_def by (blast intro: unlines_contains lines_contain)

lemma trait_lines:
  "sublist ''TransformPlugin'' (unlines (transform_lib_lines n i))"
  "sublist ''IdentityProviderPlugin'' (unlines (identity_lib_lines n i))"
proof -
  have "''impl TransformPlugin for '' @ n @ '' {'' \<in> set (transform_lib_lines n i)"
    "''impl IdentityProviderPlugin for '' @ n @ '' {'' \<in> set (identity_lib_lines n i)"
    unfolding transform_lib_lines_def identity_lib_lines_def by (simp_all only: list.set insert_iff simp_thms)
  moreover have "sublist ''TransformPlugin'' (''impl TransformPlugin for '' @ n @ '' {'')"
    "sublist ''IdentityProviderPlugin'' (''impl IdentityProviderPlugin for '' @ n @ '' {'')"
    using sublist_appendI [of "''TransformPlugin''" "''impl ''" "'' for '' @ n @ '' {''"]
      sublist_appendI [of "''IdentityProviderPlugin''" "''impl ''" "'' for '' @ n @ '' {''"] by simp_all
  ultimately show "sublist ''TransformPlugin'' (unlines (transform_lib_lines n i))"
    "sublist ''IdentityProviderPlugin'' (unlines (identity_lib_lines n i))"
    by (blast intro: unlines_contains)+
qed

lemma pascal_names:
  "to_pascal_case ''my-gate'' = ''MyGate''"
  "to_pascal_case ''pii-masker'' = ''PiiMasker''"
  "to_pascal_case ''jwt-verifier'' = ''JwtVerifier''"
  by code_simp+

lemmas template_test_defs = tool_gate_template_generates_valid_files_def transform_template_generates_valid_files_def
  identity_template_generates_valid_files_def template_tool_gate_def template_transform_def template_identity_def
  tool_gate_lib_def transform_lib_def identity_lib_def file_name_def file_contains_def cargo_toml_def pascal_names

lemma template_tests:
  "to_pascal_case_works" "tool_gate_template_generates_valid_files" "transform_template_generates_valid_files"
  "identity_template_generates_valid_files" "list_templates"
proof -
  show "to_pascal_case_works" "list_templates" by code_simp+
  have "sublist n (unlines (cargo_toml_lines n k))" for n k
    using cargo_names_package [of n k] lines_contain(3) by (rule unlines_contains)
  then show "tool_gate_template_generates_valid_files" "transform_template_generates_valid_files"
    "identity_template_generates_valid_files"
    using tool_gate_ties [THEN ties_contain] transform_ties [THEN ties_contain] identity_ties [THEN ties_contain] trait_lines
    by (simp_all add: template_test_defs Let_def)
qed

text \<open>Trimming leaves a text alone that begins and ends with ASCII characters that are not white.\<close>

definition solid :: "string \<Rightarrow> bool" where
  "solid s = (s \<noteq> [] \<and> hd s \<in> set (''{n'') \<and> last s \<in> set (''}nl''))"

lemma points_eq_iff: "points s = points t \<longleftrightarrow> s = t"
  unfolding points_def by (rule inj_map_eq_map) (rule inj_of_char)

lemma solid_trim: "solid s \<Longrightarrow> str_trim (points s) = points s"
proof -
  assume "solid s"
  then have "points s \<noteq> []" "\<not> unicode_white_space (hd (points s))" "\<not> unicode_white_space (last (points s))"
    by (auto simp: solid_def points_def hd_map last_map unicode_white_space_def)
  then show ?thesis
    using trim_both_unique [of "[]" unicode_white_space "[]" "points s"] by (simp add: str_trim_def)
qed

lemma config_tests:
  assumes "cfg_serde_ok from_str"
  shows "empty_and_unit_blocks_use_default from_str" "valid_config_parses from_str" "malformed_json_fails_closed from_str"
    "unknown_field_fails_closed from_str" "wrong_type_fails_closed from_str" "macro_infers_and_accepts_explicit_type from_str"
proof -
  let ?whole = "{''not json'', cfg_full, cfg_count_only, cfg_typo, cfg_wrong_type}"
  have blank: "str_trim (points ''   '') = []" "str_trim (points []) = []" "str_trim (points ''{}'') = points ''{}''"
    "str_trim (points ''null'') = points ''null''"
    by (simp_all add: str_trim_def points_def trim_both_def trim_start_def trim_end_def unicode_white_space_def)
  have "list_all (\<lambda>s. solid s \<and> s \<noteq> ''{}'' \<and> s \<noteq> ''null'') [''not json'', cfg_full, cfg_count_only, cfg_typo, cfg_wrong_type]"
    by code_simp
  then have "\<forall>s\<in>?whole. solid s \<and> s \<noteq> ''{}'' \<and> s \<noteq> ''null''" by (simp only: list_all_iff list.set)
  then have whole: "str_trim (points s) = points s \<and> points s \<noteq> points [] \<and> points s \<noteq> points ''{}'' \<and> points s \<noteq> points ''null''"
    if "s \<in> ?whole" for s
    using that solid_trim [of s] unfolding points_eq_iff solid_def by blast
  then have parsed: "parse_cfg from_str s =
      (case from_str (points s) of Inr v \<Rightarrow> Inr v | Inl e \<Rightarrow> Inl (config_panic (points ''Cfg'') e))" if "s \<in> ?whole" for s
    using that by (simp only: parse_cfg_def parse_config_or_fail_closed_def Let_def simp_thms if_False points_def list.map)
  have closed: "panics_with ''failing closed'' (parse_cfg from_str s)" if bad: "s \<in> {''not json'', cfg_typo, cfg_wrong_type}" for s
  proof -
    obtain e where "from_str (points s) = Inl e"
      using bad assms unfolding cfg_serde_ok_def list.pred_inject insert_iff empty_iff
      by (cases "from_str (points s)") blast+
    with bad parsed [of s] have refused: "parse_cfg from_str s = Inl (config_panic (points ''Cfg'') e)" by auto
    have "sublist (points ''failing closed'') (points ''plugin config rejected (failing closed) for `'')" by code_simp
    then show ?thesis unfolding refused panics_with_def config_panic_def sum.case by (rule sublist_more(2))
  qed
  show "empty_and_unit_blocks_use_default from_str"
    by (simp only: empty_and_unit_blocks_use_default_def parse_cfg_def parse_config_or_fail_closed_def Let_def blank
        list.pred_inject simp_thms if_True)
  show "valid_config_parses from_str" using assms parsed [of cfg_full] by (simp add: valid_config_parses_def cfg_serde_ok_def)
  show "malformed_json_fails_closed from_str" "unknown_field_fails_closed from_str" "wrong_type_fails_closed from_str"
    using closed by (simp_all add: malformed_json_fails_closed_def unknown_field_fails_closed_def wrong_type_fails_closed_def)
  have "fail_closed_config from_str ''{}'' = Inr default_cfg"
    by (simp only: fail_closed_config_def parse_cfg_def parse_config_or_fail_closed_def Let_def blank simp_thms if_True)
  then show "macro_infers_and_accepts_explicit_type from_str" using assms parsed [of cfg_count_only]
    by (simp add: macro_infers_and_accepts_explicit_type_def fail_closed_config_def cfg_serde_ok_def)
qed

lemma watch_tests:
  assumes "watch_externs_ok is_event_source to_string"
  shows "emits_on_cursor_advance_not_on_baseline_or_repeat is_event_source to_string"
    "a_diffing_watch_emits_its_events_only_to_an_event_source is_event_source to_string"
    "cancel_null_handle_is_noop w"
proof -
  note run = polled_then_cancelled_def spawn_diffing_watch_def tick_def numbers_diff_def map_filter_simps
  have "dec_nat 1 @ ''->'' @ dec_nat 2 = ''1->2''" by code_simp
  with assms show "a_diffing_watch_emits_its_events_only_to_an_event_source is_event_source to_string"
    by (simp add: a_diffing_watch_emits_its_events_only_to_an_event_source_def watch_externs_ok_def run)
  from assms show "emits_on_cursor_advance_not_on_baseline_or_repeat is_event_source to_string"
    by (simp add: emits_on_cursor_advance_not_on_baseline_or_repeat_def watch_externs_ok_def run)
  show "cancel_null_handle_is_noop w" by (simp add: cancel_null_handle_is_noop_def cancel_polling_watch_def)
qed

end
