(* ===== verification/Conformance_Inventory.thy ===== *)
theory Conformance_Inventory
  imports Inventory_Watch Inventory_Walk "HOL-Library.Sublist"
begin

text \<open>
  The unit tests of the inventory watch, \<^verbatim>\<open>src/src/inventory_tests.rs\<close>, run on the models of the engine,
  of its watch thread and of the directory walk. Each test is a \<open>bool\<close> under the test's own name, with
  the conjuncts of its \<^verbatim>\<open>assert\<close> lines, proved by evaluation.

  The tests run with a stand-in for the functions of other packages (\<open>test_externs\<close>): a hash that keeps
  the printable characters of its input, which tells the objects of the tests apart, the length of the
  JSON text of a snapshot, and the one timestamp the tests read. All polls of a test are at one instant
  unless the test sleeps. The \<^verbatim>\<open>glob\<close> matcher of the walk is a table of what its two patterns match.
\<close>

section \<open>Fixtures\<close>

fun printable :: "char \<Rightarrow> bool" where
  "printable (Char b0 b1 b2 b3 b4 b5 b6 b7) = (b5 \<or> b6 \<or> b7)"

definition json_text_length :: "snap_map \<Rightarrow> nat" where
  "json_text_length m = 2 + (length m - 1) + sum_list (map (\<lambda>p. length (fst p) + length (snd p) + 5) m)"

definition test_externs :: externs where
  "test_externs = \<lparr>x_blake3 = filter printable,
     x_occurred_at = (\<lambda>ms. if ms = 12 then Some ''1970-01-01T00:00:00.012Z'' else None),
     x_json_len = (\<lambda>m. Some (json_text_length m)), x_serde_error = (\<lambda>_. ''invalid position'')\<rparr>"

definition options :: inventory_options where
  "options = \<lparr>o_store = ''file'', o_location = ''/data/in'', o_interval = millis 250, o_start = Now, o_snapshot_bytes = 64 * 1024,
     o_max_in_flight = 100, o_ack_timeout = secs 60\<rparr>"

definition entry :: "string \<Rightarrow> nat \<Rightarrow> int \<Rightarrow> object_entry" where
  "entry key size_of modified = \<lparr>oe_key = key, oe_size = Some size_of, oe_modified_at_ms = Some modified, oe_etag = None, oe_version = None\<rparr>"

definition changes :: "watch_event list \<Rightarrow> (string option \<times> string option) list" where
  "changes events = map (\<lambda>e. (event_field ''op'' e, event_field ''key'' e)) (filter (\<lambda>e. we_event_type e \<noteq> None) events)"

definition op :: "string \<Rightarrow> string \<Rightarrow> string option \<times> string option" where
  "op o_name key = (Some o_name, Some key)"

abbreviation started :: "inventory_options \<Rightarrow> json option \<Rightarrow> (inventory \<Rightarrow> bool) \<Rightarrow> bool" where
  "started opts resume test \<equiv> (case new_inventory test_externs opts resume of Inr iv \<Rightarrow> test iv | Inl _ \<Rightarrow> False)"

abbreviation polled_at :: "instant \<Rightarrow> object_entry list \<Rightarrow> inventory \<Rightarrow> (watch_event list \<Rightarrow> inventory \<Rightarrow> bool) \<Rightarrow> bool" where
  "polled_at now listing iv test \<equiv> (case poll test_externs now (\<lambda>_. now) listing iv of (events, iv') \<Rightarrow> test events iv')"

abbreviation polled :: "object_entry list \<Rightarrow> inventory \<Rightarrow> (watch_event list \<Rightarrow> inventory \<Rightarrow> bool) \<Rightarrow> bool" where
  "polled \<equiv> polled_at 0"

abbreviation ack_all :: "watch_event list \<Rightarrow> inventory \<Rightarrow> inventory" where
  "ack_all \<equiv> acknowledge_events"

definition field :: "watch_event \<Rightarrow> string \<Rightarrow> json option" where
  "field ev f = Option.bind (we_data ev) (\<lambda>d. json_get d f)"

section \<open>The engine\<close>

definition creates_changes_and_deletes_are_reported_once_each :: bool where
  "creates_changes_and_deletes_are_reported_once_each =
     started options None (\<lambda>iv.
     polled [entry ''a'' 1 10] iv (\<lambda>events iv. events = [] \<and>
     polled [entry ''a'' 2 11, entry ''b'' 1 12] iv (\<lambda>events iv.
       changes events = [op ''modified'' ''a'', op ''created'' ''b''] \<and>
       field (events ! 1) ''store'' = Some (JStr ''file'') \<and> field (events ! 1) ''location'' = Some (JStr ''/data/in'') \<and>
       field (events ! 1) ''size'' = Some (JNum (PosInt 1)) \<and>
       field (events ! 1) ''modifiedAt'' = Some (JStr ''1970-01-01T00:00:00.012Z'') \<and>
       we_event_type (events ! 1) = Some OBJECT_CHANGED_EVENT_TYPE \<and>
       map_option (take 4) (we_event_id (events ! 1)) = Some ''obj-'' \<and>
     polled [entry ''a'' 2 11, entry ''b'' 1 12] (ack_all events iv) (\<lambda>events iv. events = [] \<and>
     polled [entry ''b'' 1 12] iv (\<lambda>events iv.
       changes events = [op ''deleted'' ''a''] \<and> field (events ! 0) ''size'' = Some (JNum (PosInt 2)) \<and>
       we_occurred_at (events ! 0) = None)))))"

definition about :: describe where
  "about entries = map (\<lambda>e. if oe_key e = ''quiet'' then None
     else Some (bt_collect [(''subject'', JStr (''about '' @ oe_key e)), (''op'', JStr ''overridden'')])) entries"

text \<open>The record of what \<^verbatim>\<open>describe\<close> was asked is not part of the model: it is a function.\<close>

definition describe_adds_details_to_what_changed_and_only_to_that :: bool where
  "describe_adds_details_to_what_changed_and_only_to_that =
     started options None (\<lambda>iv.
     polled [entry ''a'' 1 1, entry ''gone'' 1 1] (with_describe about iv) (\<lambda>baseline iv. baseline = [] \<and>
     polled [entry ''a'' 2 2, entry ''b'' 1 1, entry ''quiet'' 1 1] iv (\<lambda>events iv.
       changes events = [op ''modified'' ''a'', op ''created'' ''b'', op ''created'' ''quiet'', op ''deleted'' ''gone''] \<and>
       field (events ! 0) ''subject'' = Some (JStr ''about a'') \<and> field (events ! 0) ''op'' = Some (JStr ''modified'') \<and>
       field (events ! 1) ''subject'' = Some (JStr ''about b'') \<and> field (events ! 2) ''subject'' = None \<and>
       field (events ! 3) ''subject'' = None \<and>
     polled [entry ''a'' 2 2, entry ''b'' 1 1, entry ''quiet'' 1 1] (ack_all events iv) (\<lambda>events iv. events = []))))"

definition with_quiet_removals_an_object_that_leaves_is_forgotten_without_an_event :: bool where
  "with_quiet_removals_an_object_that_leaves_is_forgotten_without_an_event =
     started (options\<lparr>o_start := Existing\<rparr>) None (\<lambda>iv.
     polled [entry ''old'' 1 1, entry ''new'' 1 1] (with_quiet_removals iv) (\<lambda>events iv.
       changes events = [op ''created'' ''new'', op ''created'' ''old''] \<and>
     polled [entry ''new'' 1 1] (ack_all events iv) (\<lambda>events iv. events = [] \<and>
     polled [entry ''new'' 1 1, entry ''old'' 1 1] iv (\<lambda>events iv. changes events = [op ''created'' ''old'']))))"

definition a_change_in_flight_is_not_reported_twice :: bool where
  "a_change_in_flight_is_not_reported_twice =
     started options None (\<lambda>iv.
     polled [] iv (\<lambda>_ iv.
     polled [entry ''a'' 1 10] iv (\<lambda>first_events iv. changes first_events = [op ''created'' ''a''] \<and>
     polled [entry ''a'' 1 10] iv (\<lambda>events iv. events = [] \<and>
     polled [entry ''a'' 1 10] (ack_all first_events iv) (\<lambda>events iv. events = [])))))"

definition a_change_the_host_passed_over_is_reported_again_with_its_id :: bool where
  "a_change_the_host_passed_over_is_reported_again_with_its_id =
     started options None (\<lambda>iv.
     polled [] iv (\<lambda>_ iv.
     polled [entry ''a'' 1 10, entry ''b'' 1 10] iv (\<lambda>events iv.
       case we_upstream_cursor (events ! 1) of None \<Rightarrow> False | Some position \<Rightarrow>
     polled [entry ''a'' 1 10, entry ''b'' 1 10] (acknowledged position iv) (\<lambda>again iv.
       changes again = [op ''created'' ''a''] \<and> we_event_id (again ! 0) = we_event_id (events ! 0)))))"

definition an_overdue_change_is_reported_again :: bool where
  "an_overdue_change_is_reported_again =
     started (options\<lparr>o_ack_timeout := millis 1\<rparr>) None (\<lambda>iv.
     polled [] iv (\<lambda>_ iv.
     polled [entry ''a'' 1 10] iv (\<lambda>first_events iv.
     polled_at (millis 5) [entry ''a'' 1 10] iv (\<lambda>again iv. changes again = changes first_events))))"

definition the_window_bounds_the_changes_in_flight :: bool where
  "the_window_bounds_the_changes_in_flight =
     (let listing = map (\<lambda>i. entry (''k'' @ dec_nat i) 1 1) [0, 1, 2, 3, 4] in
     started (options\<lparr>o_max_in_flight := 2\<rparr>) None (\<lambda>iv.
     polled [] iv (\<lambda>_ iv.
     polled listing iv (\<lambda>first_events iv. length first_events = 2 \<and> \<not> has_room iv \<and>
     polled listing (ack_all first_events iv) (\<lambda>next_events iv.
       changes next_events = [op ''created'' ''k2'', op ''created'' ''k3''])))))"

definition existing_objects_are_reported_on_a_fresh_start_when_asked :: bool where
  "existing_objects_are_reported_on_a_fresh_start_when_asked =
     started (options\<lparr>o_start := Existing\<rparr>) None (\<lambda>iv.
     polled [entry ''a'' 1 1, entry ''b'' 1 1] iv (\<lambda>events iv. changes events = [op ''created'' ''a'', op ''created'' ''b'']))"

definition a_restart_from_a_snapshot_reports_exactly_what_changed_while_stopped :: bool where
  "a_restart_from_a_snapshot_reports_exactly_what_changed_while_stopped =
     started options None (\<lambda>iv.
     polled [entry ''a'' 1 1, entry ''b'' 1 1] iv (\<lambda>_ iv.
     polled [entry ''a'' 1 1, entry ''b'' 1 1, entry ''c'' 1 1] iv (\<lambda>events iv.
       case we_upstream_cursor (last events) of None \<Rightarrow> False | Some stored \<Rightarrow>
       json_get stored ''snap'' \<noteq> None \<and>
     started options (Some stored) (\<lambda>again.
     polled [entry ''b'' 2 2, entry ''c'' 1 1, entry ''d'' 1 1] again (\<lambda>events again.
       list_all (\<lambda>e. \<not> we_gap e) events \<and>
       changes events = [op ''modified'' ''b'', op ''created'' ''d'', op ''deleted'' ''a''])))))"

definition a_change_still_in_flight_is_outside_the_snapshot :: bool where
  "a_change_still_in_flight_is_outside_the_snapshot =
     started options None (\<lambda>iv.
     polled [] iv (\<lambda>_ iv.
     polled [entry ''a'' 1 1, entry ''b'' 1 1] iv (\<lambda>events iv.
       case we_upstream_cursor (events ! 1) of None \<Rightarrow> False | Some position \<Rightarrow>
       (case json_get position ''snap'' of None \<Rightarrow> False
        | Some snap \<Rightarrow> json_get snap ''a'' = None \<and> json_get snap ''b'' \<noteq> None) \<and>
     started options (Some position) (\<lambda>again.
     polled [entry ''a'' 1 1, entry ''b'' 1 1] again (\<lambda>repeated again.
       changes repeated = [op ''created'' ''a''] \<and> we_event_id (repeated ! 0) = we_event_id (events ! 0))))))"

definition refused_for :: "string \<Rightarrow> inventory_options \<Rightarrow> bool" where
  "refused_for needle opts = (case validate_options opts of Inl message \<Rightarrow> sublist needle message | Inr _ \<Rightarrow> False)"

definition a_position_from_elsewhere_is_refused_and_options_are_checked :: bool where
  "a_position_from_elsewhere_is_refused_and_options_are_checked =
     ((case new_inventory test_externs options (Some (jobj [(''k'', JArr [JNum (PosInt 1)])])) of Inl _ \<Rightarrow> True | Inr _ \<Rightarrow> False) \<and>
      refused_for ''interval_ms'' (options\<lparr>o_interval := millis 10\<rparr>) \<and>
      refused_for ''snapshot_bytes'' (options\<lparr>o_snapshot_bytes := MAX_SNAPSHOT_BYTES + 1\<rparr>) \<and>
      refused_for ''max_in_flight'' (options\<lparr>o_max_in_flight := 0\<rparr>) \<and>
      refused_for ''ack_timeout_ms'' (options\<lparr>o_ack_timeout := 0\<rparr>))"

section \<open>The watch thread\<close>

text \<open>
  A turn of the thread lists and emits, a receive takes a wake or runs into its deadline. The text of
  an event is its operation and key here.
\<close>

definition change_text :: "watch_event \<Rightarrow> string option" where
  "change_text ev = Option.bind (event_field ''op'' ev) (\<lambda>o_name. map_option (\<lambda>key. o_name @ '' '' @ key) (event_field ''key'' ev))"

definition event_uri :: "string \<Rightarrow> bool" where
  "event_uri uri = (take 13 uri = ''mcpg-event://'')"

abbreviation spawned_watch :: "string \<Rightarrow> (inventory_watch \<Rightarrow> bool) \<Rightarrow> bool" where
  "spawned_watch uri test \<equiv> (case spawn_inventory_watch_with_waker test_externs event_uri None uri options None of Inl _ \<Rightarrow> False | Inr w \<Rightarrow> test w)"

definition lists :: "object_entry list \<Rightarrow> inventory_watch \<Rightarrow> inventory_watch" where
  "lists listing w = turn test_externs change_text 0 (\<lambda>_. 0) 0 (Inr listing) w"

abbreviation hears :: "instant \<Rightarrow> inventory_watch \<Rightarrow> (inventory_watch \<Rightarrow> bool) \<Rightarrow> bool" where
  "hears now w test \<equiv> (case iw_phase w of Waiting deadline \<Rightarrow>
     (case receive now deadline w of None \<Rightarrow> False | Some w' \<Rightarrow> test w') | _ \<Rightarrow> False)"

definition the_watch_thread_lists_emits_and_hears_acknowledgements :: bool where
  "the_watch_thread_lists_emits_and_hears_acknowledgements =
     spawned_watch ''mcpg-event://inbox'' (\<lambda>w.
     hears (millis 250) (lists [entry ''a'' 1 1] w) (\<lambda>w.
     case fst (poll test_externs 0 (\<lambda>_. 0) [entry ''a'' 1 1, entry ''b'' 1 1] (iw_inventory w)) of
       [ev] \<Rightarrow> (case we_upstream_cursor ev of None \<Rightarrow> False | Some position \<Rightarrow>
         iw_emitted (lists [entry ''a'' 1 1, entry ''b'' 1 1] w) = [''created b''] \<and>
         hears 0 (the (acknowledge_inventory_watch position (Some (lists [entry ''a'' 1 1, entry ''b'' 1 1] w)))) (\<lambda>w.
         inv_pending (iw_inventory w) = [] \<and>
         hears (millis 250) w (\<lambda>w. iw_emitted (lists [entry ''b'' 1 1] w) = [''created b'', ''deleted a'']))) 
     | _ \<Rightarrow> False))"

definition a_resource_watch_gets_one_bare_change_per_poll_that_changed :: bool where
  "a_resource_watch_gets_one_bare_change_per_poll_that_changed =
     spawned_watch ''file:///data/in'' (\<lambda>w.
     hears (millis 250) (lists [entry ''a'' 1 1] w) (\<lambda>w.
     iw_emitted (lists [entry ''a'' 1 1, entry ''b'' 1 1, entry ''c'' 1 1] w) = [''{}'']))"

section \<open>The walk\<close>

definition file_item :: "string \<Rightarrow> bool \<Rightarrow> dir_item" where
  "file_item n is_dir = \<lparr>di_name = n, di_is_dir = is_dir, di_size = Some 1, di_modified_at_ms = Some 1000\<rparr>"

definition tree :: "(string \<times> (string \<times> bool) list) list \<Rightarrow> unit \<Rightarrow> string \<Rightarrow> (string, dir_item list) result \<times> unit" where
  "tree dirs u dir = (Inr (case map_of dirs dir of None \<Rightarrow> [] | Some items \<Rightarrow> map (\<lambda>(n, is_dir). file_item n is_dir) items), u)"

definition walk_options_of :: "bool \<Rightarrow> string option \<Rightarrow> string walk_options" where
  "walk_options_of recursive pattern = \<lparr>wo_recursive = recursive, wo_pattern = pattern, wo_max_files = 100, wo_max_dirs = 100\<rparr>"

text \<open>What the \<^verbatim>\<open>glob\<close> crate's matcher says of the test's two patterns: \<^verbatim>\<open>*\<close> stays in a directory, \<^verbatim>\<open>**/\<close> crosses.\<close>

definition glob_table :: "string \<Rightarrow> bool \<Rightarrow> string \<Rightarrow> bool" where
  "glob_table pattern literal_separator key =
     (if pattern = ''*.csv'' then key = ''a.csv'' else if pattern = ''**/*.csv'' then key \<in> set [''a.csv'', ''sub/b.csv''] else False)"

abbreviation walked :: "string walk_options \<Rightarrow> (unit \<Rightarrow> string \<Rightarrow> (string, dir_item list) result \<times> unit) \<Rightarrow> (object_entry list \<Rightarrow> bool) \<Rightarrow> bool" where
  "walked opts lister test \<equiv> (case fst (walk glob_table opts lister ()) of Inl _ \<Rightarrow> False | Inr es \<Rightarrow> test es)"

definition keys :: "object_entry list \<Rightarrow> string list" where
  "keys entries = map oe_key entries"

definition walk_tree :: "(string \<times> (string \<times> bool) list) list" where
  "walk_tree = [([], [(''b.csv'', False), (''sub'', True), (''a.txt'', False), (''.'', True)]),
     (''sub'', [(''c.csv'', False), (''deep'', True)]), (''sub/deep'', [(''d.csv'', False)])]"

definition a_walk_keys_files_by_their_path_and_goes_down_only_when_recursive :: bool where
  "a_walk_keys_files_by_their_path_and_goes_down_only_when_recursive =
     (walked (walk_options_of False None) (tree walk_tree) (\<lambda>flat. keys flat = [''a.txt'', ''b.csv'']) \<and>
      walked (walk_options_of True None) (tree walk_tree) (\<lambda>found.
        keys found = [''a.txt'', ''b.csv'', ''sub/c.csv'', ''sub/deep/d.csv''] \<and>
        oe_size (found ! 0) = Some 1 \<and> oe_modified_at_ms (found ! 0) = Some 1000))"

definition csv_tree :: "(string \<times> (string \<times> bool) list) list" where
  "csv_tree = [([], [(''a.csv'', False), (''sub'', True), (''a.txt'', False)]), (''sub'', [(''b.csv'', False)])]"

definition a_walk_pattern_star_stays_in_a_directory_and_double_star_crosses :: bool where
  "a_walk_pattern_star_stays_in_a_directory_and_double_star_crosses =
     (walked (walk_options_of True (Some ''*.csv'')) (tree csv_tree) (\<lambda>top. keys top = [''a.csv'']) \<and>
      walked (walk_options_of True (Some ''**/*.csv'')) (tree csv_tree) (\<lambda>every. keys every = [''a.csv'', ''sub/b.csv'']))"

definition cut :: "string walk_options" where
  "cut = (walk_options_of True None)\<lparr>wo_max_files := 2, wo_max_dirs := 2\<rparr>"

definition forward_tree :: "(string \<times> (string \<times> bool) list) list" where
  "forward_tree = [([], [(''a'', True), (''b'', True), (''z.txt'', False), (''y.txt'', False)]), (''a'', [(''1.txt'', False)]), (''b'', [(''2.txt'', False)])]"

definition backward_tree :: "(string \<times> (string \<times> bool) list) list" where
  "backward_tree = [([], [(''y.txt'', False), (''z.txt'', False), (''b'', True), (''a'', True)]), (''a'', [(''1.txt'', False)]), (''b'', [(''2.txt'', False)])]"

definition a_cut_walk_keeps_the_same_objects_whatever_the_listing_order :: bool where
  "a_cut_walk_keeps_the_same_objects_whatever_the_listing_order =
     walked cut (tree forward_tree) (\<lambda>one. walked cut (tree backward_tree) (\<lambda>two. one = two \<and> keys one = [''a/1.txt'', ''y.txt'']))"

definition locked_tree :: "unit \<Rightarrow> string \<Rightarrow> (string, dir_item list) result \<times> unit" where
  "locked_tree u dir = (if dir = ''locked'' then (Inl ''permission denied'', u)
     else tree [([], [(''a.txt'', False), (''locked'', True)])] u dir)"

definition a_walk_that_cannot_list_a_directory_fails_rather_than_report_deletions :: bool where
  "a_walk_that_cannot_list_a_directory_fails_rather_than_report_deletions =
     (case fst (walk glob_table (walk_options_of True None) locked_tree ()) of Inl e \<Rightarrow> e = ''permission denied'' | Inr _ \<Rightarrow> False)"

section \<open>The runs\<close>

lemma entry_sel [simp]:
  "oe_key (entry k s m) = k" "oe_size (entry k s m) = Some s" "oe_modified_at_ms (entry k s m) = Some m"
  "oe_etag (entry k s m) = None" "oe_version (entry k s m) = None"
  by (simp_all add: entry_def)

lemma entry_digests [simp]:
  "digest test_externs (entry k 1 1) = ''11''" "digest test_externs (entry k 2 2) = ''22''"
  "digest test_externs (entry k 1 10) = ''110''" "digest test_externs (entry k 2 11) = ''211''"
  "digest test_externs (entry k 1 12) = ''112''"
  by code_simp+

lemmas entry_digests_Suc [simp] = entry_digests [unfolded One_nat_def]

lemma key_digits [simp]: "dec_nat 0 = ''0''" "dec_nat (Suc 0) = ''1''" "dec_nat 2 = ''2''" "dec_nat 3 = ''3''" "dec_nat 4 = ''4''"
  by code_simp+

lemma obj_id [simp]: "take 4 (event_id_of x opts o_name key d) = ''obj-''"
  by (simp add: event_id_of_def)

lemma test_externs_sel [simp]: "x_json_len test_externs m = Some (json_text_length m)"
  "x_occurred_at test_externs ms = (if ms = 12 then Some ''1970-01-01T00:00:00.012Z'' else None)"
  by (simp_all add: test_externs_def)

lemmas engine_defs = new_inventory_def poll_def drop_expired_def Let_def current_of_def bt_collect_def find_changes_def classify_def
  pending_digest_def options_def gone_keys_def bt_keys_def digests_of_def elapsed_def
  see_def bt_values_def details_def push_pending_def snapshot_if_def snapshot_def json_text_length_def event_def
  set_some_def jobj_def cursor_to_value_def default_event_def changes_def op_def gap_event_def
  event_field_def bt_get_def acknowledge_events_def acknowledged_def secs_def millis_def
  add_details_def bt_remove_def map_filter_simps OBJECT_CHANGED_EVENT_TYPE_def CURSOR_VERSION_def field_def has_room_def
  with_quiet_removals_def with_describe_def about_def cursor_fields_def or_insert_def refused_for_def validate_options_def MIN_INTERVAL_def
  MAX_SNAPSHOT_BYTES_def default_entry_def

lemma engine_tests:
  "creates_changes_and_deletes_are_reported_once_each"
  "describe_adds_details_to_what_changed_and_only_to_that"
  "with_quiet_removals_an_object_that_leaves_is_forgotten_without_an_event"
  "a_change_in_flight_is_not_reported_twice"
  "a_change_the_host_passed_over_is_reported_again_with_its_id"
  "an_overdue_change_is_reported_again"
  "the_window_bounds_the_changes_in_flight"
  "existing_objects_are_reported_on_a_fresh_start_when_asked"
  "a_restart_from_a_snapshot_reports_exactly_what_changed_while_stopped"
  "a_change_still_in_flight_is_outside_the_snapshot"
  "a_position_from_elsewhere_is_refused_and_options_are_checked"
  by (simp_all add: engine_defs creates_changes_and_deletes_are_reported_once_each_def describe_adds_details_to_what_changed_and_only_to_that_def
      with_quiet_removals_an_object_that_leaves_is_forgotten_without_an_event_def a_change_in_flight_is_not_reported_twice_def
      a_change_the_host_passed_over_is_reported_again_with_its_id_def an_overdue_change_is_reported_again_def
      the_window_bounds_the_changes_in_flight_def existing_objects_are_reported_on_a_fresh_start_when_asked_def
      a_restart_from_a_snapshot_reports_exactly_what_changed_while_stopped_def a_change_still_in_flight_is_outside_the_snapshot_def
      a_position_from_elsewhere_is_refused_and_options_are_checked_def)

lemma watch_thread_tests:
  "the_watch_thread_lists_emits_and_hears_acknowledgements" "a_resource_watch_gets_one_bare_change_per_poll_that_changed"
  by (simp_all add: engine_defs the_watch_thread_lists_emits_and_hears_acknowledgements_def
      a_resource_watch_gets_one_bare_change_per_poll_that_changed_def spawn_inventory_watch_with_waker_def
      spawn_described_inventory_watch_def spawn_inventory_watch_hooked_def lists_def turn_def list_turn_def receive_def
      acknowledge_inventory_watch_def send_wake_def change_text_def event_uri_def)

lemma walk_tests:
  "a_walk_keys_files_by_their_path_and_goes_down_only_when_recursive"
  "a_walk_pattern_star_stays_in_a_directory_and_double_star_crosses"
  "a_cut_walk_keeps_the_same_objects_whatever_the_listing_order"
  "a_walk_that_cannot_list_a_directory_fails_rather_than_report_deletions"
  by code_simp+

end
