(* ===== verification/Conformance_Host.thy ===== *)
theory Conformance_Host
  imports Cluster_Client Mock_Gateway Plugin_Log
begin

text \<open>
  The unit tests of the plugin's side of the host, run on their models: the \<^verbatim>\<open>mod tests\<close> of \<^verbatim>\<open>cluster.rs\<close>,
  \<^verbatim>\<open>host_handle.rs\<close> and \<^verbatim>\<open>plugin_log.rs\<close> under \<^verbatim>\<open>src/src/\<close>. Each test is a \<open>bool\<close> under the test's own name with the
  conjuncts of its \<^verbatim>\<open>assert\<close> lines. Two of them check \<^verbatim>\<open>Send\<close> and \<^verbatim>\<open>Sync\<close> at compile time and have no model.
  The decoders of serde and of \<^verbatim>\<open>mcpg_cluster_api\<close> are parameters, with what the tests rely on as hypotheses.
\<close>

section \<open>The cluster client\<close>

datatype 'x cluster_error = Timeout | Internal string | Other 'x

definition acquired_reply :: lease_handle where
  "acquired_reply = \<lparr>lh_handle = 0xdeadbeef, lh_fencing_token = 42, lh_expires_at = ''2026-04-26T20:00:00Z'', lh_error_json = []\<rparr>"

definition refused_reply :: "string \<Rightarrow> lease_handle" where
  "refused_reply error_json = \<lparr>lh_handle = 0, lh_fencing_token = 0, lh_expires_at = [], lh_error_json = error_json\<rparr>"

definition try_acquire_decoder_acquired :: "('x cluster_error, 'n, 'p, 'ev) codec \<Rightarrow> bool" where
  "try_acquire_decoder_acquired cc =
     (case decode_try_acquire cc acquired_reply of
        Inr (Acquired lease_handle fencing_token expires_at) \<Rightarrow>
          lease_handle = 0xdeadbeef \<and> fencing_token = 42 \<and> expires_at = ''2026-04-26T20:00:00Z''
      | _ \<Rightarrow> False)"

definition try_acquire_decoder_declined :: "('x cluster_error, 'n, 'p, 'ev) codec \<Rightarrow> bool" where
  "try_acquire_decoder_declined cc = (decode_try_acquire cc (refused_reply []) = Inr Declined)"

definition try_acquire_decoder_error_passes_through :: "('x cluster_error, 'n, 'p, 'ev) codec \<Rightarrow> string \<Rightarrow> bool" where
  "try_acquire_decoder_error_passes_through cc err_payload = (decode_try_acquire cc (refused_reply err_payload) = Inl Timeout)"

definition try_acquire_decoder_garbled_error_falls_back_to_internal :: "('x cluster_error, 'n, 'p, 'ev) codec \<Rightarrow> bool" where
  "try_acquire_decoder_garbled_error_falls_back_to_internal cc =
     (case decode_try_acquire cc (refused_reply ''not-json{'') of Inl (Internal reason) \<Rightarrow> sublist ''undecodable'' reason | _ \<Rightarrow> False)"

text \<open>A box with a callback at address 7, as \<^verbatim>\<open>Box::into_raw\<close> gives it; the events delivered show the callback run.\<close>

definition one_box :: "'ev cluster_world" where
  "one_box = \<lparr>cw_calls = [], cw_boxes = [7], cw_next_ptr = 8, cw_streams = [], cw_subs = [], cw_delivered = [], cw_ub = False\<rparr>"

text \<open>
  The payload decodes to the event whose fields the callback asserts; \<open>fires\<close> is that assertion. The
  test of the peer events has the same shape.
\<close>

definition published_trampoline_dispatches_to_callback ::
    "('e, 'n, 'p, 'ev) codec \<Rightarrow> string \<Rightarrow> ('ev \<Rightarrow> string) \<Rightarrow> ('ev \<Rightarrow> string) \<Rightarrow> bool" where
  "published_trampoline_dispatches_to_callback cc payload topic body =
     (let w = trampoline cc 7 payload one_box
      in list_all (\<lambda>d. topic (snd d) = ''t1'' \<and> body (snd d) = ''hello'') (cw_delivered w) \<and> length (cw_delivered w) = 1 \<and>
         cw_boxes (box_free 7 w) = [] \<and> \<not> cw_ub (box_free 7 w))"

definition peer_trampoline_dispatches_to_callback :: "('e, 'n, 'p, 'ev) codec \<Rightarrow> string \<Rightarrow> ('ev \<Rightarrow> string option) \<Rightarrow> bool" where
  "peer_trampoline_dispatches_to_callback cc payload joined =
     (let w = trampoline cc 7 payload one_box
      in length (filter (\<lambda>d. joined (snd d) = Some ''n2'') (cw_delivered w)) = 1 \<and>
         cw_boxes (box_free 7 w) = [] \<and> \<not> cw_ub (box_free 7 w))"

definition trampoline_ignores_zero_ctx_and_empty_payload :: "('e, 'n, 'p, 'ev) codec \<Rightarrow> bool" where
  "trampoline_ignores_zero_ctx_and_empty_payload cc =
     (let w = trampoline cc 7 [] (trampoline cc 0 [] one_box) in cw_delivered w = [] \<and> \<not> cw_ub (box_free 7 w))"

lemma cluster_decoder_tests:
  assumes "cc_error_of_str cc err_payload = Some Timeout" "err_payload \<noteq> []"
    and "cc_error_of_str cc ''not-json{'' = None" "cc_internal cc = Internal"
  shows "try_acquire_decoder_acquired cc" "try_acquire_decoder_declined cc"
    "try_acquire_decoder_error_passes_through cc err_payload" "try_acquire_decoder_garbled_error_falls_back_to_internal cc"
proof -
  have "sublist ''undecodable'' ''undecodable try_acquire error from coordinator''" by code_simp
  then show "try_acquire_decoder_garbled_error_falls_back_to_internal cc" using assms
    by (simp add: try_acquire_decoder_garbled_error_falls_back_to_internal_def decode_try_acquire_def refused_reply_def decode_error_def)
qed (use assms in \<open>simp_all add: try_acquire_decoder_acquired_def try_acquire_decoder_declined_def
  try_acquire_decoder_error_passes_through_def decode_try_acquire_def acquired_reply_def refused_reply_def decode_error_def\<close>)

lemma cluster_trampoline_tests:
  assumes "payload \<noteq> []" "cc_event cc payload = Some ev"
  shows "topic ev = ''t1'' \<Longrightarrow> body ev = ''hello'' \<Longrightarrow> published_trampoline_dispatches_to_callback cc payload topic body"
    "joined ev = Some ''n2'' \<Longrightarrow> peer_trampoline_dispatches_to_callback cc payload joined"
    "trampoline_ignores_zero_ctx_and_empty_payload cc"
  using assms by (simp_all add: published_trampoline_dispatches_to_callback_def peer_trampoline_dispatches_to_callback_def
      trampoline_ignores_zero_ctx_and_empty_payload_def trampoline_def one_box_def box_free_def)

section \<open>The host handle\<close>

definition from_ffi :: "host_vtable \<Rightarrow> backend" where
  "from_ffi handle_ref = Ffi handle_ref"

text \<open>The captured runtime is there when the caller is on a runtime's thread.\<close>

definition from_services :: "bool \<Rightarrow> host_services \<Rightarrow> string \<Rightarrow> nat option \<Rightarrow> backend" where
  "from_services on_runtime services alias_name cluster = Services alias_name services cluster on_runtime"

definition ffi_alias_returns_empty_from_stub :: bool where
  "ffi_alias_returns_empty_from_stub = (host_alias (from_ffi stub_host_ref) = [])"

definition ffi_cluster_is_none_from_stub :: bool where
  "ffi_cluster_is_none_from_stub = (cluster_of (from_ffi stub_host_ref) = None)"

definition ffi_span_guard_drops_cleanly :: "wire \<Rightarrow> bool" where
  "ffi_span_guard_drops_cleanly wr =
     (let guard = span wr (from_ffi stub_host_ref) ''test.span'' (jobj [(''k'', JStr ''v'')])
      in sg_span_id guard = 0 \<and>
         guard_event wr guard ''midway'' (jobj []) @ drop_span_guard guard =
           [FfiSpanEvent 0 ''midway'' (wr_value_text wr (jobj [])), FfiSpanEnd 0])"

definition ffi_emit_metric_doesnt_panic :: "wire \<Rightarrow> 64 word \<Rightarrow> 64 word \<Rightarrow> bool" where
  "ffi_emit_metric_doesnt_panic wr depth latency =
     (let handle = from_ffi stub_host_ref
      in length (counter wr handle ''requests_total'' 1 [(''route'', ''/v1/foo'')] @ gauge wr handle ''queue_depth'' depth [] @
           histogram wr handle ''latency_seconds'' latency [] @ emit_metric wr handle (Counter ''raw'' 7 [(''dim'', ''x'')])) = 4)"

definition ffi_resolve_secret_returns_decoder_error_on_empty_envelope :: "wire \<Rightarrow> bool" where
  "ffi_resolve_secret_returns_decoder_error_on_empty_envelope wr =
     (case resolve_secret wr (from_ffi stub_host_ref) ''vault://kv/x'' of Inl (SecretBackend _) \<Rightarrow> True | _ \<Rightarrow> False)"

text \<open>The text of the wire form is not parsed here: the JSON value is.\<close>

definition metric_point_serde_round_trip :: "(jnumber \<Rightarrow> 64 word) \<Rightarrow> 64 word \<Rightarrow> bool" where
  "metric_point_serde_round_trip to_f64 half =
     (let j = metric_json (Histogram ''latency'' half [(''route'', ''/foo'')])
      in json_get j ''kind'' = Some (JStr ''histogram'') \<and>
         metric_of_json to_f64 j = Some (Histogram ''latency'' half [(''route'', ''/foo'')]))"

lemma host_handle_tests:
  assumes "\<exists>e. wr_value wr [] = Inl e" "finite_f64 half"
  shows "ffi_alias_returns_empty_from_stub" "ffi_cluster_is_none_from_stub" "ffi_span_guard_drops_cleanly wr"
    "ffi_emit_metric_doesnt_panic wr depth latency" "ffi_resolve_secret_returns_decoder_error_on_empty_envelope wr"
    "metric_point_serde_round_trip to_f64 half"
proof -
  note stub = from_ffi_def stub_host_ref_def
  show "ffi_alias_returns_empty_from_stub" by (simp add: ffi_alias_returns_empty_from_stub_def stub host_alias_def)
  show "ffi_cluster_is_none_from_stub" by (simp add: ffi_cluster_is_none_from_stub_def stub cluster_of_def)
  show "ffi_span_guard_drops_cleanly wr"
    by (simp add: ffi_span_guard_drops_cleanly_def stub span_def guard_event_def span_event_def drop_span_guard_def span_end_raw_def)
  show "ffi_emit_metric_doesnt_panic wr depth latency"
    by (simp add: ffi_emit_metric_doesnt_panic_def stub counter_def gauge_def histogram_def emit_metric_def)
  show "ffi_resolve_secret_returns_decoder_error_on_empty_envelope wr" using assms(1)
    by (auto simp: ffi_resolve_secret_returns_decoder_error_on_empty_envelope_def stub resolve_secret_def decode_secret_envelope_def
        open_envelope_def)
  show "metric_point_serde_round_trip to_f64 half" using assms(2)
    by (simp add: metric_point_serde_round_trip_def metric_of_json_def json_get_jobj labels_json_def labels_of_json_def json_f64_def f64_of_json_def)
qed

text \<open>
  The recording services: an answer carries the line that the recorder logs for the call, so the log of a
  run is read off its answers; the calls without an answer are effects of the handle, with their lines. The
  line of \<^verbatim>\<open>span_start\<close>, whose answer is a number, is not observed.
\<close>

definition logged :: "string \<Rightarrow> json \<Rightarrow> json" where
  "logged line v = jobj [(''line'', JStr line), (''value'', v)]"

definition line_of :: "json host_result \<Rightarrow> string option" where
  "line_of r = (case r of Inr v \<Rightarrow> Option.bind (json_get v ''line'') as_str | Inl _ \<Rightarrow> None)"

definition value_of :: "json host_result \<Rightarrow> json option" where
  "value_of r = (case r of Inr v \<Rightarrow> json_get v ''value'' | Inl _ \<Rightarrow> None)"

definition Recorder :: host_services where
  "Recorder = \<lparr>
     s_resolve_secret = (\<lambda>a uri. Inr (logged (''resolve_secret(alias='' @ a @ '', uri='' @ uri @ '')'') (JStr ''value-bytes''))),
     s_resolve_credentials = (\<lambda>_ v _. (Inl NotImplemented, v)), s_cache_get = (\<lambda>_ _ _. Inl NotImplemented),
     s_cache_put = (\<lambda>_ _ _ _ _. Inl NotImplemented), s_fetch_content = (\<lambda>_ _. Inl NotImplemented),
     s_store_content = (\<lambda>_ _ _ _. Inl NotImplemented), s_invoke_tool = (\<lambda>_ _ _. Inl NotImplemented),
     s_issue_credential = (\<lambda>a uri _. Inr (logged (''issue_credential(alias='' @ a @ '', uri='' @ uri @ '')'') (JStr ''tok-abc''))),
     s_config_snapshot = (\<lambda>a uri. Inr (logged (''config_snapshot(alias='' @ a @ '', uri='' @ uri @ '')'')
       (jobj [(''version'', JStr ''v1''), (''values'', jobj [(''x'', JNum (PosInt 1))]), (''fetched_at'', JStr ''2026-05-11T00:00:00Z''),
         (''source'', JStr uri)]))),
     s_audit_event = (\<lambda>a ev. Inr (logged (''audit_event(alias='' @ a @ '', action='' @
         (case Option.bind (json_get ev ''action'') as_str of Some act \<Rightarrow> act | None \<Rightarrow> []) @ '')'')
       (jobj [(''sink_id'', JStr ''test.sink''),
         (''persisted_at'', case json_get ev ''occurred_at'' of Some at \<Rightarrow> at | None \<Rightarrow> JNull), (''durable_hash'', JStr [])]))),
     s_span_start = (\<lambda>_ _ _. 42)\<rparr>"

fun effect_line :: "host_effect \<Rightarrow> string option" where
  "effect_line (ServiceMetric a _) = Some (''metric_emit(alias='' @ a @ '')'')"
| "effect_line (ServiceSpanEvent span_id n _) = Some (''span_event(span_id='' @ dec_nat span_id @ '', name='' @ n @ '')'')"
| "effect_line (ServiceSpanEnd span_id) = Some (''span_end(span_id='' @ dec_nat span_id @ '')'')"
| "effect_line _ = None"

definition ident :: json where
  "ident = jobj [(''kind'', JStr ''test''), (''trust_level'', JStr ''untrusted''), (''subject_id'', JStr ''alice''), (''auth_provider'', JNull),
     (''issuer'', JNull), (''roles'', JArr []), (''groups'', JArr []), (''scopes'', JArr []), (''attributes'', jobj [])]"

definition test_audit_event :: json where
  "test_audit_event = jobj [(''event_id'', JStr ''evt-1''), (''occurred_at'', JStr ''2026-05-11T00:00:00Z''), (''actor'', ident),
     (''action'', JStr ''test.action''), (''resource'', JNull), (''outcome'', JStr ''Success''), (''request_id'', JNull),
     (''upstream_request_id'', JNull), (''node_id'', JNull), (''details'', jobj []), (''prev_event_hash'', JNull)]"

definition services_path_round_trips_alias_and_calls :: "wire \<Rightarrow> bool" where
  "services_path_round_trips_alias_and_calls wr =
     (let h = from_services True Recorder ''test-alias'' None;
          secret = resolve_secret wr h ''vault://kv/x'';
          credential = issue_credential wr h ''cred://issuer/target'' ident;
          snap = config_snapshot wr h ''file:///foo'';
          receipt = audit_event wr h test_audit_event;
          g = span wr h ''s'' (jobj []);
          effects = counter wr h ''c'' 1 [] @ guard_event wr g ''e'' (jobj []) @ drop_span_guard g
      in host_alias h = ''test-alias'' \<and> cluster_of h = None \<and> value_of secret = Some (JStr ''value-bytes'') \<and> sg_span_id g = 42 \<and>
         line_of secret = Some ''resolve_secret(alias=test-alias, uri=vault://kv/x)'' \<and>
         map_option (take 33) (line_of credential) = Some ''issue_credential(alias=test-alias'' \<and>
         map_option (take 32) (line_of snap) = Some ''config_snapshot(alias=test-alias'' \<and>
         line_of receipt = Some ''audit_event(alias=test-alias, action=test.action)'' \<and>
         List.map_filter effect_line effects =
           [''metric_emit(alias=test-alias)'', ''span_event(span_id=42, name=e)'', ''span_end(span_id=42)''])"

lemma services_tests: "services_path_round_trips_alias_and_calls wr"
proof -
  have "dec_nat 42 = ''42''" by code_simp
  moreover have "json_get test_audit_event ''action'' = Some (JStr ''test.action'')" by code_simp
  ultimately show ?thesis
    by (simp add: services_path_round_trips_alias_and_calls_def Let_def from_services_def Recorder_def host_alias_def cluster_of_def
        resolve_secret_def issue_credential_def config_snapshot_def audit_event_def block_on_or_err_def value_of_def line_of_def
        logged_def json_get_jobj span_def counter_def emit_metric_def guard_event_def span_event_def drop_span_guard_def span_end_raw_def
        map_filter_simps)
qed

section \<open>The plugin's log\<close>

text \<open>\<^verbatim>\<open>tracing::warn!\<close> and the others, as events: their fields in the order the macro visits them.\<close>

definition log_event_of :: "trace_level \<Rightarrow> string \<Rightarrow> (string \<times> field_value) list \<Rightarrow> log_event" where
  "log_event_of level target_name values = \<lparr>le_metadata = \<lparr>md_is_event = True, md_level = level, md_target = target_name\<rparr>, le_values = values\<rparr>"

definition Collect_events :: "(json \<Rightarrow> string) \<Rightarrow> nat option \<Rightarrow> log_event list \<Rightarrow> log_record list" where
  "Collect_events to_text clock evs = map (record_of to_text clock) (filter (\<lambda>ev. enabled (le_metadata ev)) evs)"

definition an_event_becomes_a_record_with_its_level_target_message_and_fields :: "(json \<Rightarrow> string) \<Rightarrow> nat option \<Rightarrow> bool" where
  "an_event_becomes_a_record_with_its_level_target_message_and_fields to_text clock =
     (let records = Collect_events to_text clock
            [log_event_of WARN ''mcpg_plugin_example::kv'' [(''message'', FDebug ''sweep failed after 3 tries''), (''bucket'', FStr ''leases''),
               (''attempts'', FU64 3), (''ok'', FBool False), (''error'', FDebug ''deadline has elapsed'')],
             log_event_of INFO ''mcpg_plugin_sdk'' [(''message'', FDebug ''connected'')],
             log_event_of DEBUG ''mcpg_plugin_sdk'' [(''message'', FDebug ''a debug line stays in the plugin'')]];
          warn = records ! 0
      in length records = 2 \<and> lr_level warn = LWarn \<and> lr_target warn = ''mcpg_plugin_example::kv'' \<and>
         lr_message warn = ''sweep failed after 3 tries'' \<and> bt_get (lr_fields warn) ''bucket'' = Some (JStr ''leases'') \<and>
         bt_get (lr_fields warn) ''attempts'' = Some (JNum (PosInt 3)) \<and> bt_get (lr_fields warn) ''ok'' = Some (JBool False) \<and>
         bt_get (lr_fields warn) ''error'' = Some (JStr ''deadline has elapsed'') \<and> bt_get (lr_fields warn) ''message'' = None \<and>
         lr_level (records ! 1) = LInfo \<and> lr_message (records ! 1) = ''connected'')"

definition spans_are_not_enabled :: bool where
  "spans_are_not_enabled = (\<not> enabled \<lparr>md_is_event = False, md_level = INFO, md_target = ''mcpg_plugin_sdk''\<rparr>)"

definition one_bridge :: instance_world where
  "one_bridge = \<lparr>iw_zero_sized = False, iw_boxes = [], iw_bridges = [1], iw_live = [], iw_made = [], iw_freed = [], iw_detached = [],
     iw_readers = [], iw_delivered = [], iw_ub = False\<rparr>"

text \<open>What \<^verbatim>\<open>deliver\<close> passes to the host's \<^verbatim>\<open>span_event\<close> slot besides its bridge; the event's name is the protocol's.\<close>

definition deliver_arguments :: "string \<Rightarrow> string \<Rightarrow> nat \<times> string \<times> string" where
  "deliver_arguments PLUGIN_LOG_EVENT attrs = (0, PLUGIN_LOG_EVENT, attrs)"

definition a_record_reaches_the_host_as_a_log_span_event :: "string \<Rightarrow> string \<Rightarrow> bool" where
  "a_record_reaches_the_host_as_a_log_span_event PLUGIN_LOG_EVENT attrs =
     (let w = deliver (1, attrs) one_bridge
      in map (\<lambda>d. deliver_arguments PLUGIN_LOG_EVENT (snd d)) (iw_delivered w) = [(0, PLUGIN_LOG_EVENT, attrs)] \<and> \<not> iw_ub w)"

definition is_attached :: "nat \<Rightarrow> instance_world \<Rightarrow> bool" where
  "is_attached plugin w = list_ex (\<lambda>e. fst e = plugin) (iw_live w)"

definition an_instance_is_attached_from_make_until_drop :: bool where
  "an_instance_is_attached_from_make_until_drop =
     (let both = attach 0x20 1 (attach 0x10 1 one_bridge); one = detach 0x10 both; none = detach 0x20 one
      in is_attached 0x10 both \<and> is_attached 0x20 both \<and> \<not> is_attached 0x10 one \<and> is_attached 0x20 one \<and> \<not> is_attached 0x20 none)"

lemma plugin_log_tests:
  "an_event_becomes_a_record_with_its_level_target_message_and_fields to_text clock" "spans_are_not_enabled"
  "a_record_reaches_the_host_as_a_log_span_event event_name attrs" "an_instance_is_attached_from_make_until_drop"
  by (simp_all add: an_event_becomes_a_record_with_its_level_target_message_and_fields_def spans_are_not_enabled_def
      a_record_reaches_the_host_as_a_log_span_event_def deliver_arguments_def an_instance_is_attached_from_make_until_drop_def Collect_events_def
      log_event_of_def enabled_def MAX_LEVEL_def record_of_def visit_def put_def bt_get_def Let_def deliver_def call_bridge_def
      one_bridge_def attach_def detach_def is_attached_def)

end
