(* ===== verification/Conformance_Slots.thy ===== *)
theory Conformance_Slots
  imports Stream_Forward Gate_Slots Plugin_Process
begin

text \<open>
  The unit tests of the boundary between plugin and host, run on their models: the three \<^verbatim>\<open>mod tests\<close> of
  \<^verbatim>\<open>src/src/ffi.rs\<close> (the drain of an HTTP stream, the forwarder of a cluster stream, boxes and the binary sink)
  and the one of \<^verbatim>\<open>src/src/adapters.rs\<close>. Each test is a \<open>bool\<close> under the test's own name with the conjuncts
  of its \<^verbatim>\<open>assert\<close> lines.
\<close>

section \<open>Boxes\<close>

text \<open>
  \<^verbatim>\<open>boxed_make\<close> runs the factory on the configuration and leaks the box at the address \<open>p\<close>; unlike
  \<^verbatim>\<open>boxed_make_with_host\<close> it attaches no host to the log. \<^verbatim>\<open>boxed_drop\<close> takes the box back.
\<close>

definition boxed_make :: "string \<Rightarrow> (string \<Rightarrow> 's) \<Rightarrow> nat \<Rightarrow> 's process \<Rightarrow> nat \<times> 's process" where
  "boxed_make config_json factory p w =
     (p, w\<lparr>px_world := (px_world w)\<lparr>iw_boxes := p # iw_boxes (px_world w)\<rparr>, px_heap := (px_heap w)(p \<mapsto> factory config_json)\<rparr>)"

definition no_process :: "'s process" where
  "no_process = \<lparr>px_world = \<lparr>iw_zero_sized = False, iw_boxes = [], iw_bridges = [], iw_live = [], iw_made = [], iw_freed = [],
     iw_detached = [], iw_readers = [], iw_delivered = [], iw_ub = False\<rparr>, px_heap = Map.empty\<rparr>"

text \<open>A box that is borrowed and dropped once leaves no box and no undefined behaviour.\<close>

definition borrowed_then_dropped :: "'s \<Rightarrow> nat \<times> 's process \<Rightarrow> bool" where
  "borrowed_then_dropped expected made =
     (case made of (h, w) \<Rightarrow>
        (let (got, w1) = on_instance (\<lambda>s. (s, s)) h w; w2 = free_box (h, 0) w1
         in got = Some expected \<and> \<not> iw_ub (px_world w2) \<and> iw_boxes (px_world w2) = [] \<and> px_heap w2 h = None))"

definition boxed_make_drop_round_trips :: "nat \<Rightarrow> bool" where
  "boxed_make_drop_round_trips p = borrowed_then_dropped (42 :: nat) (boxed_make ''{}'' (\<lambda>_. 42) p no_process)"

definition kv_config :: string where
  "kv_config = ''{'' @ [CHR 34] @ ''k'' @ [CHR 34] @ '':'' @ [CHR 34] @ ''v'' @ [CHR 34] @ ''}''"

definition boxed_make_passes_config_json :: "nat \<Rightarrow> bool" where
  "boxed_make_passes_config_json p = borrowed_then_dropped kv_config (boxed_make kv_config (\<lambda>cfg. cfg) p no_process)"

definition bytes_sink_handle_emit_and_end_invoke_callback :: bool where
  "bytes_sink_handle_emit_and_end_invoke_callback =
     (let hello = map of_char ''hello''; got = bytes_emit hello @ bytes_emit [] @ bytes_end
      in length got = 2 \<and> got ! 0 = hello \<and> got ! 1 = [])"

lemma box_tests: "boxed_make_drop_round_trips p" "boxed_make_passes_config_json p" "bytes_sink_handle_emit_and_end_invoke_callback"
  by (simp_all add: boxed_make_drop_round_trips_def boxed_make_passes_config_json_def borrowed_then_dropped_def boxed_make_def no_process_def
      on_instance_def typed_handle_def free_box_def drop_box_def bytes_sink_handle_emit_and_end_invoke_callback_def bytes_emit_def bytes_end_def)

section \<open>Streams\<close>

text \<open>A task on a stream that is ready at once: polled, it yields its items one after the other and ends.\<close>

definition ready_item :: "('c \<Rightarrow> string option) \<Rightarrow> 'c \<Rightarrow> 'c forwarder \<Rightarrow> 'c forwarder" where
  "ready_item enc c w =
     (let w' = take_item enc c w in case fw_task w' of Calling t \<Rightarrow> callback_returns t w' | _ \<Rightarrow> w')"

definition ready_end :: "string option \<Rightarrow> 'c forwarder \<Rightarrow> 'c forwarder" where
  "ready_end last_chunk w =
     (let w' = stream_ends last_chunk w in case fw_task w' of CallingEnd t \<Rightarrow> end_returns t w' | _ \<Rightarrow> w')"

definition drained :: "('c \<Rightarrow> string option) \<Rightarrow> string option \<Rightarrow> 'c list \<Rightarrow> 'c forwarder" where
  "drained enc last_chunk items = ready_end last_chunk (foldl (\<lambda>w c. ready_item enc c w) (poll_task new_forwarder) items)"

text \<open>A cancel after the end finds the signal sent and returns without its time-out.\<close>

definition cancel_returns :: "nat \<Rightarrow> 'c forwarder \<Rightarrow> bool" where
  "cancel_returns h w =
     (let w' = cancel_http_stream h w in fw_cancel w' = AwaitingDone \<and> fw_done_sent w' \<and> \<not> fw_ub (host_frees_bridge (cancel_receives w')))"

definition drain_then_cancel_reclaims_without_hanging :: "json serde \<Rightarrow> response_wire serde \<Rightarrow> stream_head serde \<Rightarrow> 'cw serde \<Rightarrow> (string \<Rightarrow> 'cw) \<Rightarrow> 'cw \<Rightarrow> nat \<Rightarrow> bool" where
  "drain_then_cancel_reclaims_without_hanging v rw sh cw chunk_into end_chunk ptr =
     (let resp = \<lparr>hr_status = 200, hr_headers = [], hr_body = Stream ()\<rparr>;
          (result, task) = spawn_http_stream_drain True True v rw sh ptr resp;
          w = drained (drain_enc cw chunk_into) (drain_end cw end_chunk) [''a'', ''b'']
      in hh_handle result \<noteq> 0 \<and> task = Some (new_forwarder :: string forwarder) \<and> length (fw_emitted w) = 3 \<and> cancel_returns ptr w)"

definition cancel_null_handle_is_a_noop :: "'c forwarder \<Rightarrow> bool" where
  "cancel_null_handle_is_a_noop w = (cancel_http_stream 0 w = w)"

definition forwards_each_item_as_json_then_cancels_cleanly :: "nat serde \<Rightarrow> nat \<Rightarrow> bool" where
  "forwards_each_item_as_json_then_cancels_cleanly nums ptr =
     (let (handle, task) = forward_cluster_stream ptr; w = drained (forward_enc nums) None [1, 2, 3]
      in task = (new_forwarder :: nat forwarder) \<and> fw_emitted w = [''1'', ''2'', ''3''] \<and> cancel_returns handle w)"

definition cancel_on_null_handle_is_a_noop :: "'c forwarder \<Rightarrow> bool" where
  "cancel_on_null_handle_is_a_noop w = (cancel_cluster_stream 0 w = w)"

text \<open>Such a run is one of the task's step relation.\<close>

lemma ready_item_reach:
  assumes "reach init (forward_step enc last_chunk) w" "fw_task w = Polling"
  shows "reach init (forward_step enc last_chunk) (ready_item enc c w) \<and> fw_task (ready_item enc c w) = Polling"
proof (cases "enc c")
  case None
  then show ?thesis using assms reach_step [OF assms(1) f_item [OF assms(2), of enc last_chunk c]]
    by (simp add: ready_item_def take_item_def)
next
  case (Some t)
  let ?w = "take_item enc c w"
  have taken: "reach init (forward_step enc last_chunk) ?w" by (rule reach_step [OF assms(1)]) (rule f_item [OF assms(2)])
  have task: "fw_task ?w = Calling t" using Some by (simp add: take_item_def)
  have "reach init (forward_step enc last_chunk) (callback_returns t ?w)" by (rule reach_step [OF taken]) (rule f_return [OF task])
  then show ?thesis using task by (simp add: ready_item_def callback_returns_def Let_def)
qed

lemma ready_items_reach:
  "reach init (forward_step enc last_chunk) w \<Longrightarrow> fw_task w = Polling \<Longrightarrow>
     reach init (forward_step enc last_chunk) (foldl (\<lambda>w c. ready_item enc c w) w items) \<and>
     fw_task (foldl (\<lambda>w c. ready_item enc c w) w items) = Polling"
  by (induction items arbitrary: w) (simp_all add: ready_item_reach)

lemma drained_reach: "reach (\<lambda>w. w = new_forwarder) (forward_step enc last_chunk) (drained enc last_chunk items)"
proof -
  let ?step = "forward_step enc last_chunk"
  have "reach (\<lambda>w. w = new_forwarder) ?step (poll_task new_forwarder)"
    by (rule reach_step, rule reach_init, rule refl, rule f_poll, simp add: new_forwarder_def)
  moreover have "fw_task (poll_task new_forwarder :: 'a forwarder) = Polling" by (simp add: poll_task_def new_forwarder_def)
  ultimately obtain w where w: "w = foldl (\<lambda>w c. ready_item enc c w) (poll_task new_forwarder) items" "fw_task w = Polling"
    "reach (\<lambda>w. w = new_forwarder) ?step w"
    using ready_items_reach by blast
  have ended: "reach (\<lambda>w. w = new_forwarder) ?step (stream_ends last_chunk w)" by (rule reach_step [OF w(3)]) (rule f_end [OF w(2)])
  show ?thesis
  proof (cases last_chunk)
    case None
    with ended show ?thesis by (simp add: drained_def ready_end_def w(1) [symmetric] stream_ends_def drop_future_def)
  next
    case (Some t)
    then have task: "fw_task (stream_ends last_chunk w) = CallingEnd t" by (simp add: stream_ends_def)
    have "reach (\<lambda>w. w = new_forwarder) ?step (end_returns t (stream_ends last_chunk w))"
      by (rule reach_step [OF ended]) (rule f_end_return [OF task])
    with task show ?thesis by (simp add: drained_def ready_end_def w(1) [symmetric])
  qed
qed

lemmas stream_run_defs = drained_def ready_item_def ready_end_def forward_ops new_forwarder_def cancel_returns_def Let_def

lemma stream_tests:
  assumes "ptr \<noteq> 0" "sd_to nums 1 = Some ''1''" "sd_to nums 2 = Some ''2''" "sd_to nums 3 = Some ''3''"
  shows "drain_then_cancel_reclaims_without_hanging v rw sh cw chunk_into end_chunk ptr" "cancel_null_handle_is_a_noop w"
    "forwards_each_item_as_json_then_cancels_cleanly nums ptr" "cancel_on_null_handle_is_a_noop w"
  using assms by (simp_all add: drain_then_cancel_reclaims_without_hanging_def spawn_http_stream_drain_def drain_enc_def drain_end_def
      forwards_each_item_as_json_then_cancels_cleanly_def forward_cluster_stream_def forward_enc_def cancel_null_handle_is_a_noop_def
      cancel_on_null_handle_is_a_noop_def cancel_cluster_stream_def stream_run_defs)

section \<open>The adapter of a gate\<close>

record plugin_manifest =
  mf_id :: string
  mf_version :: string
  mf_name :: string
  mf_plugin_class :: string
  mf_protocol_version :: string
  mf_module_path_prefix :: string

definition AlwaysAllow_manifest :: "string \<Rightarrow> plugin_manifest" where
  "AlwaysAllow_manifest protocol_version = \<lparr>mf_id = ''dev.mcpg.test.always-allow'', mf_version = ''0.1.0'', mf_name = ''AlwaysAllow'',
     mf_plugin_class = ''ToolGate'', mf_protocol_version = protocol_version, mf_module_path_prefix = ''adapters_test''\<rparr>"

text \<open>\<^verbatim>\<open>GateDecision::allow()\<close> of the protocol is the argument \<open>allow\<close>.\<close>

definition AlwaysAllow :: "string \<Rightarrow> 'd \<Rightarrow> (unit, plugin_manifest, 'ctx, 'd) sync_tool_gate" where
  "AlwaysAllow protocol_version allow = \<lparr>tg_manifest = (\<lambda>s. (Some (AlwaysAllow_manifest protocol_version), s)),
     tg_evaluate_pre = (\<lambda>_ _ _ _ s. (Some allow, s)), tg_evaluate_post = (\<lambda>_ _ _ _ _ s. (Some allow, s)),
     tg_shutdown = (\<lambda>s. (Some (), s))\<rparr>"

definition adapter_delegates_pre_dispatch_to_sync :: "string \<Rightarrow> 'd \<Rightarrow> ('d \<Rightarrow> bool) \<Rightarrow> 'ctx \<Rightarrow> bool" where
  "adapter_delegates_pre_dispatch_to_sync pv allow is_allow anon_ctx =
     (case tp_pre_dispatch (SyncToolGateAdapter (AlwaysAllow pv allow)) anon_ctx (jobj []) None (jobj []) () of
        (Some decision, _) \<Rightarrow> is_allow decision | _ \<Rightarrow> False)"

definition adapter_delegates_post_dispatch_to_sync :: "string \<Rightarrow> 'd \<Rightarrow> ('d \<Rightarrow> bool) \<Rightarrow> 'ctx \<Rightarrow> bool" where
  "adapter_delegates_post_dispatch_to_sync pv allow is_allow anon_ctx =
     (case tp_post_dispatch (SyncToolGateAdapter (AlwaysAllow pv allow)) anon_ctx (jobj []) (jobj []) 0 (jobj []) () of
        (Some decision, _) \<Rightarrow> is_allow decision | _ \<Rightarrow> False)"

definition adapter_manifest_matches_inner :: "string \<Rightarrow> 'd \<Rightarrow> bool" where
  "adapter_manifest_matches_inner pv allow =
     (case tp_manifest (SyncToolGateAdapter (AlwaysAllow pv allow) :: (unit, plugin_manifest, unit, 'd) tool_gate_plugin) () of
        (Some m, _) \<Rightarrow> mf_id m = ''dev.mcpg.test.always-allow'' | _ \<Rightarrow> False)"

lemma adapter_tests:
  "is_allow allow \<Longrightarrow> adapter_delegates_pre_dispatch_to_sync pv allow is_allow anon_ctx"
  "is_allow allow \<Longrightarrow> adapter_delegates_post_dispatch_to_sync pv allow is_allow anon_ctx"
  "adapter_manifest_matches_inner pv allow"
  by (simp_all add: adapter_delegates_pre_dispatch_to_sync_def adapter_delegates_post_dispatch_to_sync_def adapter_manifest_matches_inner_def
      SyncToolGateAdapter_def AlwaysAllow_def AlwaysAllow_manifest_def)

end
