(* ===== verification/Spec2Isabelle.thy ===== *)
theory Spec2Isabelle
  imports Inventory_Properties Inventory_Walk Inventory_Watch Queue_Watch Polling_Watch Config_Guard
    Sql_Guard Cluster_Client Plugin_Log Mock_Gateway
    Slot_Shims Gate_Slots Data_Slots Backend_Slots Cluster_Slots Stream_Forward
    Plugin_Process Entity_Tables Plugin_Sessions Backend_Sessions Plugin_Registration Plugin_Template
    Queue_Broker Conformance_Gateway Conformance_Guards Conformance_Inventory Conformance_Host Conformance_Slots
begin

text \<open>
  Verification of \<^verbatim>\<open>mcpg-plugin-sdk\<close>, the Rust SDK that plugins of the MCPG gateway are written with.

  The program. A plugin is a dynamic library or is linked into the gateway. Towards the host it is a box
  whose address the host holds; towards its author it offers a handle to the host's services
  (\<^verbatim>\<open>host_handle.rs\<close>, \<^verbatim>\<open>cluster.rs\<close>), engines that turn a store, a queue or a poll into watch events
  (\<^verbatim>\<open>inventory.rs\<close>, \<^verbatim>\<open>queue.rs\<close>, \<^verbatim>\<open>watch.rs\<close>), guards (\<^verbatim>\<open>sql_guard.rs\<close>, \<^verbatim>\<open>config.rs\<close>), forwarding of its
  log (\<^verbatim>\<open>plugin_log.rs\<close>, with the make and drop helpers of \<^verbatim>\<open>ffi.rs\<close>) and a mock gateway for tests
  (\<^verbatim>\<open>testing.rs\<close>). A plugin's author implements one of the synchronous traits of \<^verbatim>\<open>ffi.rs\<close> and declares it
  with \<^verbatim>\<open>declare_plugin!\<close> (\<^verbatim>\<open>declare_plugin.rs\<close>), which has two expansions: slots that cross the boundary of a
  dynamic library as text (\<^verbatim>\<open>macros.rs\<close>) and, for a static build, an adapter that calls the same methods
  in process (\<^verbatim>\<open>adapters.rs\<close>). \<^verbatim>\<open>template.rs\<close> writes new projects. All of them are under \<^verbatim>\<open>src/src/\<close>. The watch
  engines emit events with a position; the host acknowledges positions, hands one back at a restart, and
  cancels the watch.

  The theories, each with the model of one part and its theorems:

  \<^item> \<open>Sdk_Prelude\<close>: the result type, ordered maps as sorted association lists (\<^verbatim>\<open>BTreeMap\<close>), reachability
    and three interfaces as locales: \<open>ordered_map\<close> (lookup laws), \<open>step_invariant\<close> (an invariant of a
    step relation) and \<open>first_answer\<close> (a loop that returns at the first answer).
  \<^item> \<open>Rust_Text\<close>, \<open>Json_Value\<close>: ASCII text, trimming, decimal and big-endian bytes; serde's values, time
    in nanoseconds, watch events.
  \<^item> \<open>Sql_Guard\<close> (\<^verbatim>\<open>sql_guard.rs\<close>): \<open>sql_skeleton\<close> with its index loops, and \<open>enforce_read_only\<close>. The
    loops are proved equal to a structural definition; the verdict is characterised; quoted bodies and
    letter case do not matter.
  \<^item> \<open>Inventory_Engine\<close>, \<open>Inventory_Properties\<close> (\<^verbatim>\<open>inventory.rs\<close>, \<^verbatim>\<open>Inventory\<close>): the diff engine as a record,
    \<open>poll\<close> and \<open>acknowledged\<close> as functions. Shown: the invariant, what a poll reports, that nothing is
    lost or repeated, convergence, exact restarts.
  \<^item> \<open>Inventory_Walk\<close> (\<^verbatim>\<open>walk\<close>): soundness, completeness, bounds and independence of the listing order.
  \<^item> \<open>Inventory_Watch\<close> (\<^verbatim>\<open>spawn_inventory_watch_hooked\<close>): the thread and its channel as a step relation.
  \<^item> \<open>Queue_Watch\<close> (\<^verbatim>\<open>queue.rs\<close>): the receiving and the settling thread, the window they share, the host's
    acknowledgements and the cancel, as a step relation over all interleavings.
  \<^item> \<open>Queue_Broker\<close> (\<^verbatim>\<open>queue.rs\<close>, \<^verbatim>\<open>queue_tests.rs\<close>): the trait \<^verbatim>\<open>QueueSource\<close> as the locale \<open>queue_source\<close>, the watch and
    a broker as one system that loses no message, the broker in memory of the tests as its interpretation,
    and the queue tests as scheduled runs of that system, each a run of the step relation.
  \<^item> \<open>Polling_Watch\<close> (\<^verbatim>\<open>watch.rs\<close>): the polling thread and its cancel as a step relation over the loop \<open>tick\<close>:
    what it emits, and that the cancel returns. \<open>Config_Guard\<close> (\<^verbatim>\<open>config.rs\<close>).
  \<^item> \<open>Cluster_Client\<close> (\<^verbatim>\<open>cluster.rs\<close>): calls, leases and subscriptions, with the callback boxes.
  \<^item> \<open>Host_Handle\<close> (\<^verbatim>\<open>host_handle.rs\<close>): both backends, metrics and spans, subscriptions. The two backends
    agree over a host that keeps the protocol.
  \<^item> \<open>Plugin_Log\<close> (\<^verbatim>\<open>plugin_log.rs\<close>, \<^verbatim>\<open>ffi.rs\<close>): instances, the registry of host handles and its lock.
  \<^item> \<open>Mock_Gateway\<close> (\<^verbatim>\<open>testing.rs\<close>): registration, tool calls, identities, routes, assertions, the stub host.
  \<^item> \<open>Slot_Shims\<close>: what every slot of \<^verbatim>\<open>macros.rs\<close> is made of. A plugin's method is a \<open>body\<close> over the state
    behind its handle, which may panic; the contracts of slots are the locales \<open>wire_slot\<close>, \<open>report_slot\<close>,
    \<open>drop_slot\<close> and \<open>stream_slot\<close>, and \<open>serves\<close>, \<open>reports\<close> and \<open>serves_via\<close> say that a slot refines a method of
    the static build's adapter.
  \<^item> \<open>Gate_Slots\<close>, \<open>Data_Slots\<close>, \<open>Backend_Slots\<close>, \<open>Cluster_Slots\<close>: for each kind of plugin its trait with the
    defaults, its slots, each an interpretation of its contract, and its adapter. Shown: both builds give
    the same answers and leave the plugin in the same state; malformed requests fail closed; watches,
    streams, cancel tokens and leases cross the boundary; the listing built from pages ends and is
    complete; where the client of \<open>Cluster_Client\<close> does not understand the slot.
  \<^item> \<open>Stream_Forward\<close>: HTTP routes and transports; the task that drains a stream, with its cancel, as a step
    relation: order, quiescence, and what the bounded wait leaves open.
  \<^item> \<open>Plugin_Process\<close>: a process with the instances of an entity, \<open>instance_world\<close> of \<open>Plugin_Log\<close> with what is in
    the boxes: \<^verbatim>\<open>make\<close>, \<^verbatim>\<open>drop_instance\<close> and a slot at a handle. The contract between a table and the object
    of the static build is the locale \<open>entity_session\<close>; under it every session of a host, as a step
    relation, gives each instance the answers and the state of that object.
  \<^item> \<open>Entity_Tables\<close>: the life-cycle slots, \<^verbatim>\<open>make_vtable\<close> and \<^verbatim>\<open>build_static\<close> of every kind.
  \<^item> \<open>Plugin_Sessions\<close>, \<open>Backend_Sessions\<close>: the interpretations of \<open>entity_session\<close> on the tables of tool gates,
    stores and backends: talking to a plugin through its table is talking to the object of the static build.
  \<^item> \<open>Plugin_Registration\<close> (\<^verbatim>\<open>declare_plugin.rs\<close> and the dispatch macros): both expansions register the same
    entities; aliases do not collide.
  \<^item> \<open>Plugin_Template\<close> (\<^verbatim>\<open>template.rs\<close>): the generated files and when the struct name is an identifier.
  \<^item> \<open>Conformance_Gateway\<close>, \<open>Conformance_Guards\<close>, \<open>Conformance_Inventory\<close>, \<open>Conformance_Host\<close>, \<open>Conformance_Slots\<close>: the
    repository's own unit tests. Each is a \<open>bool\<close> under its name in the source, with the plugins it registers
    and the conjuncts of its assertions, and is proved by evaluating the models: the definitions give the
    answers the authors of the code wrote down. Where a test waits for a thread, the model runs the steps
    that the test waits for.

  Conventions. Panics and errors are left values of a sum, or constructors of an error type. Threads are
  step relations whose steps are the critical sections and blocking calls of the source; invariants are
  proved by rule induction through the interpretations of \<open>step_invariant\<close>. Undefined behaviour is a
  flag that a step raises when it uses or frees an address that is not allocated, so memory safety is
  that the flag stays down. Code of other crates is a parameter: serde and base64 (codecs), BLAKE3 and
  RFC 3339 formatting in the inventory engine, the glob matcher, the broker, the coordinator, the host's
  services and registry, the panic guards and the result envelope of the protocol crate. What the code
  relies on of them is a named hypothesis (\<open>guard_law\<close>, \<open>exact\<close>, \<open>legible\<close>, \<open>responder_law\<close>,
  \<open>honest_pager\<close>, \<open>registry_law\<close>), and each theorem with one has a witness with a concrete instance. Sequence numbers and counters are natural numbers: none can reach 2 to the 64 in a run. The
  loops are structural recursions or have a measure (\<open>skeleton_loop\<close>, \<open>walk_loop\<close>, \<open>sleep_loop\<close>); the page
  loop \<open>collect_loop\<close>, which may run for ever, is a \<open>partial_function\<close> into \<open>option\<close>. No fuel is used.

  Not modelled. Formatting for debugging, thread names and log lines, the re-exports of \<^verbatim>\<open>lib.rs\<close>, the defaults of
  a watch spec's fields, which a plugin's own serde derives call, and the global subscriber that \<^verbatim>\<open>plugin_log.rs\<close>
  installs. The calls on one instance come one after the other; a plugin that is called from several threads
  synchronises its state itself. Names in \<open>Plugin_Template\<close> are ASCII. Of the unit tests, those that check
  \<^verbatim>\<open>Send\<close> and \<^verbatim>\<open>Sync\<close> do so at compile time, and the test of a listing past the snapshot budget
  (\<^verbatim>\<open>a_listing_past_the_budget_restarts_with_a_gap\<close>) depends on the exact length of serialised text; what it is
  about, the gap at a restart without a snapshot, is part of \<open>new_inventory\<close> and \<open>poll\<close>. The manifests of the
  plugins in the tests of \<^verbatim>\<open>testing.rs\<close>, which no assertion reads, are left out.
\<close>

end
